(* ===== verification/GoStrings.thy ===== *)
theory GoStrings
  imports Prelude
begin

text \<open>
  What the program uses of Go's \<open>strings\<close>, \<open>strconv\<close>, \<open>unicode/utf8\<close> and \<open>fmt\<close> packages.
  A Go string is a sequence of bytes, so it is modelled by Isabelle's \<open>string\<close> (a \<open>char\<close> is an
  8-bit byte): \<open>length\<close> is \<open>len\<close>, \<open>s ! i\<close> is \<open>s[i]\<close>, \<open>drop i s\<close> is \<open>s[i:]\<close>.
  Separators are single bytes everywhere in the program, so \<open>Split\<close> takes a \<open>char\<close>.
\<close>

section \<open>Slices, prefixes and suffixes\<close>

definition slice :: "string \<Rightarrow> nat \<Rightarrow> nat \<Rightarrow> string" where
  "slice s i j = take (j - i) (drop i s)"

definition HasPrefix :: "string \<Rightarrow> string \<Rightarrow> bool" where
  "HasPrefix s p = (take (length p) s = p)"

definition HasSuffix :: "string \<Rightarrow> string \<Rightarrow> bool" where
  "HasSuffix s p = (length p \<le> length s \<and> drop (length s - length p) s = p)"

definition TrimPrefix :: "string \<Rightarrow> string \<Rightarrow> string" where
  "TrimPrefix s p = (if HasPrefix s p then drop (length p) s else s)"

definition TrimSuffix :: "string \<Rightarrow> string \<Rightarrow> string" where
  "TrimSuffix s p = (if HasSuffix s p then take (length s - length p) s else s)"

fun Contains :: "string \<Rightarrow> string \<Rightarrow> bool" where
  "Contains [] sub = (sub = [])"
| "Contains (c # cs) sub = (HasPrefix (c # cs) sub \<or> Contains cs sub)"

lemma HasPrefix_iff: "HasPrefix s p \<longleftrightarrow> (\<exists>r. s = p @ r)"
  by (metis HasPrefix_def append_eq_conv_conj append_take_drop_id)

lemma HasPrefix_append [simp]: "HasPrefix (p @ r) p"
  by (simp add: HasPrefix_def)

lemma HasPrefix_length: "HasPrefix s p \<Longrightarrow> length p \<le> length s"
  by (auto simp: HasPrefix_iff)

lemma HasSuffix_iff: "HasSuffix s p \<longleftrightarrow> (\<exists>r. s = r @ p)"
  by (auto simp: HasSuffix_def) (metis append_take_drop_id)

lemma TrimSuffix_append [simp]: "TrimSuffix (r @ p) p = r"
  by (simp add: TrimSuffix_def HasSuffix_def)

lemma TrimPrefix_append [simp]: "TrimPrefix (p @ r) p = r"
  by (simp add: TrimPrefix_def)

lemma TrimPrefix_length: "length (TrimPrefix s p) \<le> length s"
  by (simp add: TrimPrefix_def)

section \<open>Splitting and joining\<close>

fun Split :: "string \<Rightarrow> char \<Rightarrow> string list" where
  "Split [] c = [[]]"
| "Split (x # xs) c =
     (if x = c then [] # Split xs c
      else (case Split xs c of [] \<Rightarrow> [[x]] | y # ys \<Rightarrow> (x # y) # ys))"

fun Join :: "string list \<Rightarrow> string \<Rightarrow> string" where
  "Join [] sep = []"
| "Join [x] sep = x"
| "Join (x # y # ys) sep = x @ sep @ Join (y # ys) sep"

text \<open>\<open>strings.Cut\<close>: the text before and after the first separator, and whether it was found.\<close>

definition Cut :: "string \<Rightarrow> char \<Rightarrow> string \<times> string \<times> bool" where
  "Cut s c = (let pre = takeWhile (\<lambda>x. x \<noteq> c) s
              in if length pre < length s then (pre, drop (Suc (length pre)) s, True)
                 else (s, [], False))"

lemma Split_nonempty [simp]: "Split s c \<noteq> []"
  by (cases s) (auto split: list.splits)

lemma Join_Cons: "Join (x # xs) sep = (if xs = [] then x else x @ sep @ Join xs sep)"
  by (cases xs) auto

lemma Join_Split: "Join (Split s c) [c] = s"
proof (induction s)
  case (Cons x xs)
  then show ?case
    by (auto simp: Join_Cons split: list.splits if_splits)
qed simp

lemma Split_no_sep: "seg \<in> set (Split s c) \<Longrightarrow> c \<notin> set seg"
  by (induction s arbitrary: seg) (auto split: list.splits if_splits)

lemma Split_single: "c \<notin> set s \<Longrightarrow> Split s c = [s]"
  by (induction s) auto

lemma Split_append_sep: "c \<notin> set x \<Longrightarrow> Split (x @ c # r) c = x # Split r c"
  by (induction x) auto

lemma Split_Join:
  "xs \<noteq> [] \<Longrightarrow> \<forall>x \<in> set xs. c \<notin> set x \<Longrightarrow> Split (Join xs [c]) c = xs"
proof (induction xs)
  case (Cons x xs)
  then show ?case
    by (cases xs) (auto simp: Split_single Split_append_sep)
qed simp

lemma length_Split: "length (Split s c) = Suc (count_list s c)"
  by (induction s) (auto split: list.splits)

section \<open>Decimal numbers\<close>

definition digit_char :: "nat \<Rightarrow> char" where
  "digit_char d = char_of (48 + d)"

fun itoa_nat :: "nat \<Rightarrow> string" where
  "itoa_nat n = (if n < 10 then [digit_char n] else itoa_nat (n div 10) @ [digit_char (n mod 10)])"

declare itoa_nat.simps [simp del]

definition Itoa :: "int \<Rightarrow> string" where
  "Itoa i = (if i < 0 then CHR ''-'' # itoa_nat (nat (- i)) else itoa_nat (nat i))"

definition isASCIIDigit :: "char \<Rightarrow> bool" where
  "isASCIIDigit c = (48 \<le> (of_char c :: nat) \<and> (of_char c :: nat) \<le> 57)"

definition digit_value :: "char \<Rightarrow> nat" where
  "digit_value c = of_char c - 48"

definition digits_value :: "string \<Rightarrow> nat" where
  "digits_value s = foldl (\<lambda>a c. 10 * a + digit_value c) 0 s"

text \<open>\<open>strconv.ParseInt(s, 10, bits)\<close>: an optional sign, at least one digit, nothing else, in range.\<close>

definition ParseInt :: "string \<Rightarrow> nat \<Rightarrow> int option" where
  "ParseInt s bits =
     (let neg = (s \<noteq> [] \<and> hd s = CHR ''-'');
          ds = (if s \<noteq> [] \<and> (hd s = CHR ''-'' \<or> hd s = CHR ''+'') then tl s else s);
          v = int (digits_value ds)
      in if ds = [] \<or> \<not> list_all isASCIIDigit ds then None
         else if neg then (if v \<le> 2 ^ (bits - 1) then Some (- v) else None)
         else (if v < 2 ^ (bits - 1) then Some v else None))"

definition Atoi :: "string \<Rightarrow> int option" where
  "Atoi s = ParseInt s 64"

lemma digit_char_is_digit: "d < 10 \<Longrightarrow> isASCIIDigit (digit_char d)"
  by (simp add: digit_char_def isASCIIDigit_def)

lemma digit_value_digit_char: "d < 10 \<Longrightarrow> digit_value (digit_char d) = d"
  by (simp add: digit_char_def digit_value_def)

lemma itoa_nat_digits: "list_all isASCIIDigit (itoa_nat n)"
proof (induction n rule: itoa_nat.induct)
  case (1 n)
  then show ?case
    by (subst itoa_nat.simps) (auto simp: digit_char_is_digit)
qed

lemma itoa_nat_nonempty [simp]: "itoa_nat n \<noteq> []"
  by (subst itoa_nat.simps) simp

lemma digits_value_snoc: "digits_value (s @ [c]) = 10 * digits_value s + digit_value c"
  by (simp add: digits_value_def)

lemma digits_value_itoa_nat: "digits_value (itoa_nat n) = n"
proof (induction n rule: itoa_nat.induct)
  case (1 n)
  show ?case
  proof (cases "n < 10")
    case True
    then show ?thesis
      by (subst itoa_nat.simps) (simp add: digits_value_def digit_value_digit_char)
  next
    case False
    with 1 show ?thesis
      by (subst itoa_nat.simps) (simp add: digits_value_snoc digit_value_digit_char)
  qed
qed

lemma itoa_nat_inj: "itoa_nat m = itoa_nat n \<Longrightarrow> m = n"
  by (metis digits_value_itoa_nat)

lemma itoa_nat_hd: "isASCIIDigit (hd (itoa_nat n))"
  using itoa_nat_digits [of n] by (cases "itoa_nat n") auto

lemma not_digit_sign [simp]: "\<not> isASCIIDigit CHR ''-''" "\<not> isASCIIDigit CHR ''+''"
  by (simp_all add: isASCIIDigit_def)

lemma itoa_nat_not_sign: "hd (itoa_nat n) \<noteq> CHR ''-''" "hd (itoa_nat n) \<noteq> CHR ''+''"
  using itoa_nat_hd [of n] by (auto simp: isASCIIDigit_def)

lemma ParseInt_Itoa:
  assumes "- (2 ^ (bits - 1)) \<le> i" and "i < 2 ^ (bits - 1)"
  shows "ParseInt (Itoa i) bits = Some i"
proof (cases "i < 0")
  case True
  with assms show ?thesis
    by (simp add: ParseInt_def Itoa_def Let_def itoa_nat_digits digits_value_itoa_nat)
next
  case False
  with assms show ?thesis
    by (simp add: ParseInt_def Itoa_def Let_def itoa_nat_digits digits_value_itoa_nat
        itoa_nat_not_sign)
qed

lemma Atoi_itoa: "n < 2 ^ 63 \<Longrightarrow> Atoi (itoa_nat n) = Some (int n)"
  using ParseInt_Itoa [of 64 "int n"] by (simp add: Atoi_def Itoa_def)

lemma ParseInt_range:
  assumes "ParseInt s bits = Some i"
  shows "- (2 ^ (bits - 1)) \<le> i \<and> i < 2 ^ (bits - 1)"
proof -
  have pos: "(0::int) < 2 ^ (bits - 1)" by simp
  have "\<exists>ds. i = int (digits_value ds) \<and> i < 2 ^ (bits - 1)
      \<or> i = - int (digits_value ds) \<and> int (digits_value ds) \<le> 2 ^ (bits - 1)"
    using assms by (force simp: ParseInt_def Let_def split: if_splits)
  then obtain ds where "i = int (digits_value ds) \<and> i < 2 ^ (bits - 1)
      \<or> i = - int (digits_value ds) \<and> int (digits_value ds) \<le> 2 ^ (bits - 1)"
    by blast
  with pos show ?thesis by linarith
qed

section \<open>Bytes, runes and letters\<close>

definition byte :: "char \<Rightarrow> nat" where
  "byte c = of_char c"

definition isASCIILetter :: "char \<Rightarrow> bool" where
  "isASCIILetter c = (97 \<le> byte c \<and> byte c \<le> 122 \<or> 65 \<le> byte c \<and> byte c \<le> 90)"

definition RuneError :: nat where
  "RuneError = 65533"

definition is_cont :: "nat \<Rightarrow> nat \<Rightarrow> char \<Rightarrow> bool" where
  "is_cont lo hi c = (lo \<le> byte c \<and> byte c \<le> hi)"

text \<open>
  \<open>utf8.DecodeRuneInString\<close>: the first rune of a string and its width. An ill-formed sequence
  (a stray continuation byte, an overlong form, a surrogate, a code point past U+10FFFF, a
  truncated sequence) is \<open>(RuneError, 1)\<close>; the empty string is \<open>(RuneError, 0)\<close>.
\<close>

definition second_lo :: "nat \<Rightarrow> nat" where
  "second_lo b = (if b = 0xE0 then 0xA0 else if b = 0xF0 then 0x90 else 0x80)"

definition second_hi :: "nat \<Rightarrow> nat" where
  "second_hi b = (if b = 0xED then 0x9F else if b = 0xF4 then 0x8F else 0xBF)"

definition rune_width :: "nat \<Rightarrow> nat" where
  "rune_width b = (if b < 0x80 then 1 else if 0xC2 \<le> b \<and> b \<le> 0xDF then 2
     else if 0xE0 \<le> b \<and> b \<le> 0xEF then 3 else if 0xF0 \<le> b \<and> b \<le> 0xF4 then 4 else 0)"

definition DecodeRune :: "string \<Rightarrow> nat \<times> nat" where
  "DecodeRune s = (case s of [] \<Rightarrow> (RuneError, 0) | c0 # t \<Rightarrow>
     (let b = byte c0; w = rune_width b; c = map byte t in
      if w = 1 then (b, 1)
      else if w = 0 \<or> length t < w - 1
        \<or> \<not> (second_lo b \<le> c ! 0 \<and> c ! 0 \<le> second_hi b)
        \<or> \<not> list_all (is_cont 0x80 0xBF) (take (w - 2) (tl t)) then (RuneError, 1)
      else if w = 2 then ((b mod 32) * 64 + c ! 0 mod 64, 2)
      else if w = 3 then ((b mod 16) * 4096 + (c ! 0 mod 64) * 64 + c ! 1 mod 64, 3)
      else ((b mod 8) * 262144 + (c ! 0 mod 64) * 4096 + (c ! 1 mod 64) * 64 + c ! 2 mod 64, 4)))"

lemma DecodeRune_ascii: "byte c < 128 \<Longrightarrow> DecodeRune (c # t) = (byte c, 1)"
  by (simp add: DecodeRune_def Let_def rune_width_def)

lemma rune_width_cases: "rune_width b \<in> {0, 1, 2, 3, 4}"
  by (simp add: rune_width_def)

lemma DecodeRune_width:
  assumes "s \<noteq> []"
  shows "1 \<le> snd (DecodeRune s)" and "snd (DecodeRune s) \<le> length s"
proof -
  obtain c t where s: "s = c # t" using assms by (cases s) auto
  have "rune_width (byte c) \<in> {0, 1, 2, 3, 4}" by (rule rune_width_cases)
  then have "1 \<le> snd (DecodeRune s) \<and> snd (DecodeRune s) \<le> length s"
    unfolding s DecodeRune_def Let_def list.case by (elim insertE emptyE) (simp_all add: Suc_le_eq)
  then show "1 \<le> snd (DecodeRune s)" and "snd (DecodeRune s) \<le> length s" by auto
qed

section \<open>Trimming and case\<close>

text \<open>
  The UTF-8 encodings of the runes of \<open>unicode.IsSpace\<close>: tab, newline, vertical tab, form feed,
  carriage return, space, U+0085, U+00A0, U+1680, U+2000 to U+200A, U+2028, U+2029, U+202F, U+205F
  and U+3000. A rune at either end of a string is one of these exactly when the string starts or
  ends with its encoding, because UTF-8 is a prefix code and its lead bytes are never
  continuation bytes.
\<close>

definition space_encodings :: "string list" where
  "space_encodings = map (\<lambda>n. [char_of n]) [9::nat, 10, 11, 12, 13, 32]
     @ [[CHR 0xC2, CHR 0x85], [CHR 0xC2, CHR 0xA0], [CHR 0xE1, CHR 0x9A, CHR 0x80]]
     @ map (\<lambda>n. [CHR 0xE2, CHR 0x80, char_of (128 + n)]) [0::nat, 1, 2, 3, 4, 5, 6, 7, 8, 9, 10, 40, 41, 47]
     @ [[CHR 0xE2, CHR 0x81, CHR 0x9F], [CHR 0xE3, CHR 0x80, CHR 0x80]]"

definition space_prefix :: "string \<Rightarrow> nat" where
  "space_prefix s = (case find (HasPrefix s) space_encodings of None \<Rightarrow> 0 | Some e \<Rightarrow> length e)"

definition space_suffix :: "string \<Rightarrow> nat" where
  "space_suffix s = (case find (HasSuffix s) space_encodings of None \<Rightarrow> 0 | Some e \<Rightarrow> length e)"

function TrimLeftSpace :: "string \<Rightarrow> string" where
  "TrimLeftSpace s =
     (if s = [] \<or> space_prefix s = 0 then s else TrimLeftSpace (drop (space_prefix s) s))"
  by pat_completeness auto
termination by (relation "measure length") auto

function TrimRightSpace :: "string \<Rightarrow> string" where
  "TrimRightSpace s =
     (if s = [] \<or> space_suffix s = 0 then s
      else TrimRightSpace (take (length s - space_suffix s) s))"
  by pat_completeness auto
termination by (relation "measure length") auto

declare TrimLeftSpace.simps [simp del] TrimRightSpace.simps [simp del]

definition TrimSpace :: "string \<Rightarrow> string" where
  "TrimSpace s = TrimRightSpace (TrimLeftSpace s)"

text \<open>\<open>strings.Trim\<close> with a cut set of ASCII bytes.\<close>

definition Trim :: "string \<Rightarrow> char list \<Rightarrow> string" where
  "Trim s cutset = rev (dropWhile (\<lambda>c. c \<in> set cutset) (rev (dropWhile (\<lambda>c. c \<in> set cutset) s)))"

definition lower_char :: "char \<Rightarrow> char" where
  "lower_char c = (if 65 \<le> byte c \<and> byte c \<le> 90 then char_of (byte c + 32) else c)"

text \<open>
  \<open>strings.ToLower\<close>, as far as the program can see it: every result is compared with a lower-case
  ASCII keyword. The ASCII letters are mapped; so are the two other runes whose lower case is an
  ASCII letter, U+0130 (to i) and U+212A (to k). Every other non-ASCII rune maps to a non-ASCII
  rune and is left as it is.
\<close>

fun ToLower :: "string \<Rightarrow> string" where
  "ToLower [] = []"
| "ToLower (c # cs) =
     (if byte c = 0xC4 \<and> cs \<noteq> [] \<and> byte (hd cs) = 0xB0 then CHR ''i'' # ToLower (tl cs)
      else if byte c = 0xE2 \<and> length cs \<ge> 2 \<and> byte (cs ! 0) = 0x84 \<and> byte (cs ! 1) = 0xAA
        then CHR ''k'' # ToLower (drop 2 cs)
      else lower_char c # ToLower cs)"

lemma TrimSpace_length: "length (TrimSpace s) \<le> length s"
proof -
  have l: "length (TrimLeftSpace s) \<le> length s" for s
  proof (induction s rule: TrimLeftSpace.induct)
    case (1 s)
    then show ?case by (subst TrimLeftSpace.simps) (auto intro: le_trans)
  qed
  have "length (TrimRightSpace s) \<le> length s" for s
  proof (induction s rule: TrimRightSpace.induct)
    case (1 s)
    then show ?case by (subst TrimRightSpace.simps) (auto intro: le_trans)
  qed
  with l show ?thesis
    by (auto simp: TrimSpace_def intro: le_trans)
qed

lemma ToLower_lower: "\<forall>c \<in> set s. byte c < 128 \<and> \<not> (65 \<le> byte c \<and> byte c \<le> 90) \<Longrightarrow> ToLower s = s"
  by (induction s) (auto simp: lower_char_def)

section \<open>Replacing\<close>

text \<open>\<open>strings.ReplaceAll\<close> of a single byte by a string.\<close>

definition ReplaceByte :: "string \<Rightarrow> char \<Rightarrow> string \<Rightarrow> string" where
  "ReplaceByte s c r = concat (map (\<lambda>x. if x = c then r else [x]) s)"

lemma ReplaceByte_none: "c \<notin> set s \<Longrightarrow> ReplaceByte s c r = s"
  by (induction s) (auto simp: ReplaceByte_def)

section \<open>Scanning an integer\<close>

text \<open>
  \<open>fmt.Sscanf(s, "%d", &n)\<close> on a 64-bit \<open>int\<close>: spaces are skipped (a newline is an error), then
  an optional sign and digits are read; what follows the digits is ignored.
\<close>

function skip_scan_space :: "string \<Rightarrow> string option" where
  "skip_scan_space s =
     (if s = [] \<or> space_prefix s = 0 then Some s
      else if hd s = CHR 0x0A then None
      else skip_scan_space (drop (space_prefix s) s))"
  by pat_completeness auto
termination by (relation "measure length") auto

declare skip_scan_space.simps [simp del]

definition Sscanf_d :: "string \<Rightarrow> int option" where
  "Sscanf_d s = (case skip_scan_space s of None \<Rightarrow> None | Some t \<Rightarrow>
     (let sign = (if t \<noteq> [] \<and> (hd t = CHR ''-'' \<or> hd t = CHR ''+'') then [hd t] else []);
          ds = takeWhile isASCIIDigit (drop (length sign) t)
      in ParseInt (sign @ ds) 64))"

lemma Sscanf_d_range: "Sscanf_d s = Some i \<Longrightarrow> - (2 ^ 63) \<le> i \<and> i < 2 ^ 63"
  by (auto simp: Sscanf_d_def Let_def split: option.splits dest!: ParseInt_range)

text \<open>\<open>strconv.ParseBool\<close>.\<close>

definition ParseBool :: "string \<Rightarrow> bool option" where
  "ParseBool s = (if s \<in> {''1'', ''t'', ''T'', ''TRUE'', ''true'', ''True''} then Some True
     else if s \<in> {''0'', ''f'', ''F'', ''FALSE'', ''false'', ''False''} then Some False else None)"

text \<open>Two's-complement wrap-around of 64-bit integers, and Go's division, which truncates towards zero.\<close>

definition wrap64 :: "int \<Rightarrow> int" where
  "wrap64 i = (i + 2 ^ 63) mod 2 ^ 64 - 2 ^ 63"

lemma wrap64_range: "- (2 ^ 63) \<le> wrap64 i \<and> wrap64 i < 2 ^ 63"
  by (simp add: wrap64_def)

lemma wrap64_id: "- (2 ^ 63) \<le> i \<Longrightarrow> i < 2 ^ 63 \<Longrightarrow> wrap64 i = i"
  by (simp add: wrap64_def)

definition go_div :: "int \<Rightarrow> int \<Rightarrow> int" where
  "go_div a b = (if (0 \<le> a) = (0 \<le> b) then \<bar>a\<bar> div \<bar>b\<bar> else - (\<bar>a\<bar> div \<bar>b\<bar>))"

end
