(* ===== verification/GoValue.thy ===== *)
theory GoValue
  imports Complex_Main GoStrings "HOL-Library.AList" "HOL-Library.Multiset"
begin

text \<open>
  Go's dynamic values and the library code the program calls.

  A value of type \<open>any\<close> is what \<open>encoding/json\<close> decodes into, what a database driver returns
  and what the program binds as a query argument. A \<open>map[string]any\<close> is an association list:
  its keys are distinct (\<open>wf_any\<close>), and the order of the list is the order in which a \<open>range\<close>
  loop happens to visit the map, which Go leaves open; a theorem about every such list is a
  theorem about every iteration order. A \<open>float64\<close> is its exact rational value (JSON has no NaN
  and no infinity).
\<close>

datatype any =
    VNil
  | VBool bool
  | VInt int
  | VFloat rat
  | VStr string
  | VSlice "any list"
  | VMap "(string \<times> any) list"

type_synonym gomap = "(string \<times> any) list"

fun wf_any :: "any \<Rightarrow> bool" where
  "wf_any (VSlice xs) = list_all wf_any xs"
| "wf_any (VMap m) = (distinct (map fst m) \<and> list_all (\<lambda>(k, v). wf_any v) m)"
| "wf_any _ = True"

text \<open>\<open>m[k] = v\<close> on a map, and the keys in sorted order (\<open>slices.Sorted(maps.Keys(m))\<close>).\<close>

definition map_put :: "string \<Rightarrow> 'v \<Rightarrow> (string \<times> 'v) list \<Rightarrow> (string \<times> 'v) list" where
  "map_put k v m = AList.update k v m"

definition sorted_keys :: "(string \<times> 'v) list \<Rightarrow> string list" where
  "sorted_keys m = sort (map fst m)"

text \<open>
  Code outside the repository that the program relies on, as parameters of the model:
  \<^item> \<open>lib_sanitize\<close>: \<open>pgx.Identifier{...}.Sanitize()\<close> of \<open>github.com/jackc/pgx/v5\<close>;
  \<^item> \<open>lib_marshal\<close>: \<open>encoding/json.Marshal\<close> on a decoded value, \<open>None\<close> when it fails;
  \<^item> \<open>lib_letter\<close>: the Unicode letter table of \<open>unicode.IsLetter\<close> above ASCII.
\<close>

record golib =
  lib_sanitize :: "string list \<Rightarrow> string"
  lib_marshal :: "any \<Rightarrow> string option"
  lib_letter :: "nat \<Rightarrow> bool"

text \<open>
  A concrete library for the evaluated examples: identifiers are quoted and their quotes doubled,
  as the documentation of \<open>Sanitize\<close> says, and there are no letters outside ASCII.
\<close>

definition example_lib :: golib where
  "example_lib = \<lparr>
     lib_sanitize = (\<lambda>parts. Join (map (\<lambda>p. [CHR 0x22] @ ReplaceByte p (CHR 0x22) [CHR 0x22, CHR 0x22] @ [CHR 0x22]) parts) ''.''),
     lib_marshal = (\<lambda>v. case v of VStr s \<Rightarrow> Some ([CHR 0x22] @ s @ [CHR 0x22]) | VNil \<Rightarrow> Some ''null'' | _ \<Rightarrow> Some ''{}''),
     lib_letter = (\<lambda>r. False) \<rparr>"

lemma map_of_map_put [simp]: "map_of (map_put k v m) = (map_of m)(k \<mapsto> v)"
  by (simp add: map_put_def update_conv')

lemma distinct_map_put: "distinct (map fst m) \<Longrightarrow> distinct (map fst (map_put k v m))"
  by (simp add: map_put_def distinct_update)

lemma keys_map_put: "fst ` set (map_put k v m) = insert k (fst ` set m)"
proof -
  have "dom (map_of (map_put k v m)) = insert k (dom (map_of m))" by simp
  then show ?thesis by (simp only: dom_map_of_conv_image_fst)
qed

lemma set_sorted_keys [simp]: "set (sorted_keys m) = fst ` set m"
  by (simp add: sorted_keys_def)

lemma length_sorted_keys [simp]: "length (sorted_keys m) = length m"
  by (simp add: sorted_keys_def)

lemma sorted_keys_perm:
  assumes "distinct (map fst m)" and "distinct (map fst m')" and "map_of m = map_of m'"
  shows "sorted_keys m = sorted_keys m'"
proof -
  have "fst ` set m = fst ` set m'"
    using assms(3) by (metis dom_map_of_conv_image_fst)
  then have "set (map fst m) = set (map fst m')"
    by simp
  then have "mset (map fst m) = mset (map fst m')"
    using assms(1,2) set_eq_iff_mset_eq_distinct by blast
  then show ?thesis
    unfolding sorted_keys_def by (metis mset_sort properties_for_sort sorted_sort)
qed

end
