(* ===== verification/Schema.thy ===== *)
theory Schema
  imports GoValue
begin

text \<open>
  The schema cache's data (\<open>pkg/pgx/schema/schema.go\<close>): tables, columns and foreign keys as the
  cache keeps them, and the helpers of \<open>pkg/rest\<close> that look a column up and quote it.
\<close>

record Column =
  col_Name :: string
  col_DataType :: string
  col_UDTSchema :: string
  col_UDTName :: string
  col_TypeKind :: string
  col_ElemKind :: string
  col_IsNullable :: bool
  col_IsPrimaryKey :: bool

record ForeignKey =
  fk_Column :: string
  fk_ReferencedTable :: string
  fk_ReferencedColumn :: string

record Table =
  tbl_Schema :: string
  tbl_Name :: string
  tbl_Type :: string
  tbl_Columns :: "Column list"
  tbl_PrimaryKeys :: "string list"
  tbl_ForeignKeys :: "ForeignKey list"
  tbl_ViewQuery :: string

definition KindComposite :: string where
  "KindComposite = ''c''"

definition IsComposite :: "Column \<Rightarrow> bool" where
  "IsComposite c = (col_TypeKind c = KindComposite \<or> col_ElemKind c = KindComposite)"

definition fullName :: "Table \<Rightarrow> string" where
  "fullName t = tbl_Schema t @ ''.'' @ tbl_Name t"

definition isSystem :: "string \<Rightarrow> bool" where
  "isSystem schema = (schema \<in> {''information_schema'', ''pg_catalog'', ''pg_toast'', ''pg_temp_1'', ''pg_toast_temp_1''})"

text \<open>\<open>findColumn\<close>: the first column with the name.\<close>

definition findColumn :: "Table \<Rightarrow> string \<Rightarrow> Column option" where
  "findColumn t name = find (\<lambda>c. col_Name c = name) (tbl_Columns t)"

definition quoteIdent :: "golib \<Rightarrow> string \<Rightarrow> string" where
  "quoteIdent L name = lib_sanitize L [name]"

lemma findColumn_Some: "findColumn t name = Some c \<Longrightarrow> c \<in> set (tbl_Columns t) \<and> col_Name c = name"
  by (auto simp: findColumn_def find_Some_iff)

lemma findColumn_None: "findColumn t name = None \<longleftrightarrow> name \<notin> col_Name ` set (tbl_Columns t)"
  by (auto simp: findColumn_def find_None_iff)

lemma findColumn_distinct:
  assumes "c \<in> set (tbl_Columns t)" and "distinct (map col_Name (tbl_Columns t))"
  shows "findColumn t (col_Name c) = Some c"
proof -
  obtain d where d: "findColumn t (col_Name c) = Some d"
    using assms(1) findColumn_None [of t "col_Name c"] by (cases "findColumn t (col_Name c)") auto
  then have "d \<in> set (tbl_Columns t)" "col_Name d = col_Name c"
    by (auto dest: findColumn_Some)
  with assms have "d = c"
    by (metis distinct_map inj_on_eq_iff)
  with d show ?thesis by simp
qed

section \<open>Bind parameters\<close>

text \<open>
  \<open>argList\<close> of \<open>pkg/rest/filter.go\<close>: \<open>add\<close> appends a value and returns its placeholder
  \<open>$1\<close>, \<open>$2\<close>, and so on.
\<close>

type_synonym argList = "any list"

definition add :: "any \<Rightarrow> argList \<Rightarrow> string \<times> argList" where
  "add v args = (''$'' @ itoa_nat (Suc (length args)), args @ [v])"

lemma add_length [simp]: "length (snd (add v args)) = Suc (length args)"
  by (simp add: add_def)

lemma add_nth: "snd (add v args) ! length args = v"
  by (simp add: add_def)

lemma add_fresh: "fst (add v args) = fst (add w args') \<Longrightarrow> length args = length args'"
  by (auto simp: add_def dest: itoa_nat_inj)

end
