(* ===== verification/FilterParser.thy ===== *)
theory FilterParser
  imports Schema
begin

text \<open>
  The recursive-descent parser of PostgREST filters (\<open>pkg/rest/filter.go\<close>). The parser's state is
  the record \<open>filterParser\<close>, with the fields of the Go struct; every method becomes a function
  from a state to its result and the state it leaves. A method that returns an error ends the
  parse, so an error carries no state.
\<close>

section \<open>Data\<close>

record RawFilter =
  rf_Key :: string
  rf_Value :: string

record jsonPathStep =
  js_arrow :: string
  js_key :: string
  js_index :: int
  js_isIndex :: bool

record filterField =
  ff_column :: string
  ff_path :: "jsonPathStep list"

text \<open>A node is a group (\<open>fn_logic\<close> is AND or OR) or a condition (\<open>fn_logic\<close> is empty).\<close>

datatype filterNode =
  FilterNode (fn_negate: bool) (fn_logic: string) (fn_children: "filterNode list")
    (fn_field: filterField) (fn_operator: string) (fn_quant: string) (fn_lang: string)
    (fn_value: string) (fn_list: "string list")

definition zero_field :: filterField where
  "zero_field = \<lparr>ff_column = [], ff_path = []\<rparr>"

fun set_field :: "filterField \<Rightarrow> filterNode \<Rightarrow> filterNode" where
  "set_field f (FilterNode ng lg ch _ opr qu la va li) = FilterNode ng lg ch f opr qu la va li"

text \<open>
  The errors of \<open>filter.go\<close>, one constructor per format string, with the data the message shows.
  \<open>SyntaxEOF\<close> and \<open>SyntaxAt\<close> are the two forms of \<open>errorf\<close>; the last argument of \<open>SyntaxAt\<close> is
  the 1-based position. \<open>OutOfFuel\<close> is no error of the program: \<open>parseFilter_terminates\<close> shows that
  it never arises.
\<close>

datatype filterError =
    SyntaxEOF string
  | SyntaxAt string nat nat
  | NestedTooDeep nat
  | UnknownOperator string
  | NoQuantifier string
  | InvalidIs string
  | EmbeddedFilter string
  | ParseLogicTree string filterError
  | ParseFilter string filterError
  | ParseFilterKey string filterError
  | NoSuchColumn string string
  | InvalidOrdering string
  | NoValidColumns string
  | MarshalFailed string
  | OutOfFuel

section \<open>Tables\<close>

definition sqlOperators :: "(string \<times> string) list" where
  "sqlOperators =
    [(''eq'', ''=''), (''neq'', ''<>''), (''gt'', ''>''), (''gte'', ''>=''), (''lt'', ''<''),
     (''lte'', ''<=''), (''like'', ''LIKE''), (''ilike'', ''ILIKE''), (''match'', ''~''),
     (''imatch'', ''~*''), (''cs'', ''@>''), (''cd'', ''<@''), (''ov'', ''&&''), (''sl'', ''<<''),
     (''sr'', ''>>''), (''nxr'', ''&<''), (''nxl'', ''&>''), (''adj'', ''-|-'')]"

definition quantifiable :: "string list" where
  "quantifiable = [''eq'', ''gt'', ''gte'', ''lt'', ''lte'', ''like'', ''ilike'', ''match'', ''imatch'']"

definition ftsFunctions :: "(string \<times> string) list" where
  "ftsFunctions = [(''fts'', ''to_tsquery''), (''plfts'', ''plainto_tsquery''),
     (''phfts'', ''phraseto_tsquery''), (''wfts'', ''websearch_to_tsquery'')]"

definition isValues :: "(string \<times> string) list" where
  "isValues = [(''null'', ''NULL''), (''not_null'', ''NOT NULL''), (''true'', ''TRUE''),
     (''false'', ''FALSE''), (''unknown'', ''UNKNOWN'')]"

definition maxFilterDepth :: nat where
  "maxFilterDepth = 32"

section \<open>The parser's primitives\<close>

record filterParser =
  fp_src :: string
  fp_pos :: nat

definition rest :: "filterParser \<Rightarrow> string" where
  "rest p = drop (fp_pos p) (fp_src p)"

definition advance :: "nat \<Rightarrow> filterParser \<Rightarrow> filterParser" where
  "advance n p = p\<lparr>fp_pos := fp_pos p + n\<rparr>"

definition eof :: "filterParser \<Rightarrow> bool" where
  "eof p = (fp_pos p \<ge> length (fp_src p))"

definition peek :: "filterParser \<Rightarrow> char" where
  "peek p = (if eof p then CHR 0x00 else fp_src p ! fp_pos p)"

definition errorf :: "string \<Rightarrow> filterParser \<Rightarrow> filterError" where
  "errorf msg p = (if eof p then SyntaxEOF msg
     else SyntaxAt msg (fst (DecodeRune (rest p))) (fp_pos p + 1))"

definition consume :: "string \<Rightarrow> filterParser \<Rightarrow> bool \<times> filterParser" where
  "consume s p = (if HasPrefix (rest p) s then (True, advance (length s) p) else (False, p))"

definition expect :: "string \<Rightarrow> filterParser \<Rightarrow> (filterError, filterParser) result" where
  "expect s p = (case consume s p of (True, p') \<Rightarrow> Inr p'
     | (False, p') \<Rightarrow> Inl (errorf (''expected '' @ [CHR 0x22] @ s @ [CHR 0x22]) p'))"

definition expectEOF :: "filterParser \<Rightarrow> (filterError, unit) result" where
  "expectEOF p = (if \<not> eof p then Inl (errorf ''unexpected input'' p) else Inr ())"

text \<open>The loops \<open>for !p.eof() && P(p.src[p.pos]) { p.pos++ }\<close>.\<close>

function skip_while :: "(char \<Rightarrow> bool) \<Rightarrow> filterParser \<Rightarrow> filterParser" where
  "skip_while P p = (if \<not> eof p \<and> P (fp_src p ! fp_pos p) then skip_while P (advance 1 p) else p)"
  by pat_completeness auto
termination
  by (relation "measure (\<lambda>(P, p). length (fp_src p) - fp_pos p)") (auto simp: eof_def advance_def)

declare skip_while.simps [simp del]

definition skipSpaces :: "filterParser \<Rightarrow> filterParser" where
  "skipSpaces p = skip_while (\<lambda>c. c \<in> {CHR '' '', CHR 0x09, CHR 0x0D, CHR 0x0A}) p"

definition span_while :: "(char \<Rightarrow> bool) \<Rightarrow> filterParser \<Rightarrow> string \<times> filterParser" where
  "span_while P p = (let p' = skip_while P p in (slice (fp_src p) (fp_pos p) (fp_pos p'), p'))"

definition until :: "char list \<Rightarrow> filterParser \<Rightarrow> string \<times> filterParser" where
  "until stops p = span_while (\<lambda>c. c \<notin> set stops) p"

section \<open>Names and JSON paths\<close>

definition isNameRune :: "golib \<Rightarrow> nat \<Rightarrow> bool" where
  "isNameRune L r = ((if r < 128 then 97 \<le> r \<and> r \<le> 122 \<or> 65 \<le> r \<and> r \<le> 90 else lib_letter L r)
     \<or> 48 \<le> r \<and> r \<le> 57 \<or> r = 95 \<or> r = 36 \<or> r = 32)"

definition nameRuneAt :: "golib \<Rightarrow> filterParser \<Rightarrow> nat \<Rightarrow> bool" where
  "nameRuneAt L p i = (if i \<ge> length (fp_src p) then False
     else isNameRune L (fst (DecodeRune (drop i (fp_src p)))))"

text \<open>\<open>quoted\<close>: the loop reads from just after the opening quote; \<open>acc\<close> is the string builder.\<close>

fun quoted_loop :: "string \<Rightarrow> string \<Rightarrow> nat \<Rightarrow> (string \<times> nat) option" where
  "quoted_loop [] acc i = None"
| "quoted_loop (c # cs) acc i =
     (if c = CHR 0x5C then (case cs of [] \<Rightarrow> None | d # ds \<Rightarrow> quoted_loop ds (acc @ [d]) (i + 2))
      else if c = CHR 0x22 then Some (acc, i + 1)
      else quoted_loop cs (acc @ [c]) (i + 1))"

definition quoted :: "filterParser \<Rightarrow> string option \<times> filterParser" where
  "quoted p = (if peek p \<noteq> CHR 0x22 then (None, p)
     else (case quoted_loop (drop (fp_pos p + 1) (fp_src p)) [] (fp_pos p + 1) of
             None \<Rightarrow> (None, p)
           | Some (s, i) \<Rightarrow> (Some s, p\<lparr>fp_pos := i\<rparr>)))"

definition quotedElement :: "filterParser \<Rightarrow> string option \<times> filterParser" where
  "quotedElement p = (case quoted p of
       (Some s, p') \<Rightarrow> (if eof p' \<or> peek p' = CHR '','' \<or> peek p' = CHR '')'' then (Some s, p') else (None, p))
     | (None, _) \<Rightarrow> (None, p))"

text \<open>The loop of \<open>name\<close>; \<open>start\<close> is where the name began.\<close>

function name_loop :: "golib \<Rightarrow> nat \<Rightarrow> filterParser \<Rightarrow> filterParser" where
  "name_loop L start p =
     (if eof p then p
      else let r = fst (DecodeRune (rest p)); size = snd (DecodeRune (rest p)) in
        if isNameRune L r \<or> (r = 45 \<and> fp_pos p > start \<and> nameRuneAt L p (fp_pos p + 1))
        then name_loop L start (advance size p) else p)"
  by pat_completeness auto

lemma DecodeRune_rest:
  "\<not> eof p \<Longrightarrow> 1 \<le> snd (DecodeRune (rest p)) \<and> fp_pos p + snd (DecodeRune (rest p)) \<le> length (fp_src p)"
  using DecodeRune_width [of "rest p"] by (auto simp: rest_def eof_def)

termination name_loop
  by (relation "measure (\<lambda>(L, s, p). length (fp_src p) - fp_pos p)")
    (auto simp: advance_def dest!: DecodeRune_rest)

declare name_loop.simps [simp del]

definition name :: "golib \<Rightarrow> filterParser \<Rightarrow> (filterError, string \<times> filterParser) result" where
  "name L p = (if peek p = CHR 0x22 then
       (case quoted p of (Some s, p') \<Rightarrow> Inr (s, p')
          | (None, p') \<Rightarrow> Inl (errorf ''unterminated quoted name'' p'))
     else (let p' = name_loop L (fp_pos p) p in
       if fp_pos p' = fp_pos p then Inl (errorf ''expected a column name'' p')
       else Inr (slice (fp_src p) (fp_pos p) (fp_pos p'), p')))"

definition arrayIndex :: "golib \<Rightarrow> filterParser \<Rightarrow> int option \<times> filterParser" where
  "arrayIndex L p =
     (let s = fp_src p;
          i0 = fp_pos p;
          i1 = (if i0 < length s \<and> s ! i0 = CHR ''-'' then i0 + 1 else i0);
          i2 = i1 + length (takeWhile isASCIIDigit (drop i1 s))
      in if i2 = i1 \<or> nameRuneAt L p i2
            \<or> (i2 < length s \<and> s ! i2 = CHR ''-'' \<and> nameRuneAt L p (i2 + 1)) then (None, p)
         else (case ParseInt (slice s i0 i2) 32 of None \<Rightarrow> (None, p)
            | Some n \<Rightarrow> (Some n, p\<lparr>fp_pos := i2\<rparr>)))"

text \<open>Each step of a JSON path consumes at least its arrow, so the loop stops.\<close>

definition path_step :: "golib \<Rightarrow> string \<Rightarrow> filterParser \<Rightarrow> (filterError, jsonPathStep \<times> filterParser) result" where
  "path_step L arr p = (case arrayIndex L p of
       (Some idx, p') \<Rightarrow> Inr (\<lparr>js_arrow = arr, js_key = [], js_index = idx, js_isIndex = True\<rparr>, p')
     | (None, p') \<Rightarrow> (case name L p' of Inl e \<Rightarrow> Inl e
         | Inr (k, p'') \<Rightarrow> Inr (\<lparr>js_arrow = arr, js_key = k, js_index = 0, js_isIndex = False\<rparr>, p'')))"

definition path_arrow :: "filterParser \<Rightarrow> (string \<times> filterParser) option" where
  "path_arrow p = (case consume ''->>'' p of (True, p') \<Rightarrow> Some (''->>'', p')
     | (False, _) \<Rightarrow> (case consume ''->'' p of (True, p') \<Rightarrow> Some (''->'', p') | (False, _) \<Rightarrow> None))"

subsection \<open>What the primitives keep\<close>

text \<open>
  \<open>moves p p'\<close>: \<open>p'\<close> reads the same input as \<open>p\<close>, at the same place or further on, and not past its
  end. Every parser function moves its state: then every slice \<open>p.src[start:p.pos]\<close> and every
  suffix \<open>p.src[p.pos:]\<close> of the code is in range.
\<close>

definition wf_parser :: "filterParser \<Rightarrow> bool" where
  "wf_parser p = (fp_pos p \<le> length (fp_src p))"

definition moves :: "filterParser \<Rightarrow> filterParser \<Rightarrow> bool" where
  "moves p p' = (fp_src p' = fp_src p \<and> fp_pos p \<le> fp_pos p' \<and> (wf_parser p \<longrightarrow> wf_parser p'))"

definition left :: "filterParser \<Rightarrow> nat" where
  "left p = length (fp_src p) - fp_pos p"

lemma moves_refl [simp, intro]: "moves p p"
  by (simp add: moves_def)

lemma moves_trans [trans]: "moves p q \<Longrightarrow> moves q r \<Longrightarrow> moves p r"
  by (auto simp: moves_def)

lemma moves_left: "moves p p' \<Longrightarrow> left p' \<le> left p"
  by (auto simp: moves_def left_def)

lemma consume_moves: "consume s p = (b, p') \<Longrightarrow> moves p p'"
  using HasPrefix_length [of "rest p" s]
  by (auto simp: consume_def moves_def advance_def wf_parser_def rest_def split: if_splits)

lemma consume_True:
  "consume s p = (True, p') \<Longrightarrow> s \<noteq> [] \<Longrightarrow>
     fp_pos p' = fp_pos p + length s \<and> fp_pos p' \<le> length (fp_src p) \<and> fp_src p' = fp_src p"
  using HasPrefix_length [of "rest p" s]
  by (cases s) (auto simp: consume_def advance_def rest_def split: if_splits)

lemma consume_left: "consume s p = (True, p') \<Longrightarrow> s \<noteq> [] \<Longrightarrow> left p' + length s = left p"
  by (auto simp: left_def dest!: consume_True)

lemma consume_False: "consume s p = (False, p') \<Longrightarrow> p' = p"
  by (auto simp: consume_def split: if_splits)

lemma expect_moves: "expect s p = Inr p' \<Longrightarrow> moves p p'"
  by (auto simp: expect_def split: prod.splits bool.splits dest: consume_moves)

lemma expect_left: "expect s p = Inr p' \<Longrightarrow> s \<noteq> [] \<Longrightarrow> left p' + length s = left p"
  by (auto simp: expect_def split: prod.splits bool.splits dest: consume_left)

lemma skip_while_moves: "moves p (skip_while P p)"
proof (induction P p rule: skip_while.induct)
  case (1 P p)
  show ?case
  proof (cases "\<not> eof p \<and> P (fp_src p ! fp_pos p)")
    case True
    then have "moves p (advance 1 p)"
      by (auto simp: moves_def advance_def wf_parser_def eof_def)
    also from True have "moves (advance 1 p) (skip_while P (advance 1 p))"
      by (rule "1.IH")
    finally show ?thesis
      using True by (simp add: skip_while.simps [of P p])
  next
    case False
    then show ?thesis
      by (auto simp: skip_while.simps [of P p])
  qed
qed

lemma skip_while_eq: "skip_while P p = advance (length (takeWhile P (rest p))) p"
proof (induction P p rule: skip_while.induct)
  case (1 P p)
  show ?case
  proof (cases "\<not> eof p \<and> P (fp_src p ! fp_pos p)")
    case True
    then have "rest p = fp_src p ! fp_pos p # rest (advance 1 p)"
      by (simp add: rest_def advance_def eof_def drop_nonempty_nth)
    with True 1 show ?thesis
      by (simp add: skip_while.simps [of P p]) (simp add: advance_def)
  next
    case False
    then have "takeWhile P (rest p) = []"
      by (cases "eof p") (auto simp: rest_def eof_def not_le takeWhile_eq_Nil_iff hd_drop_nth)
    with False show ?thesis
      by (auto simp: skip_while.simps [of P p] advance_def)
  qed
qed

lemma span_while_eq:
  "span_while P p = (takeWhile P (rest p), advance (length (takeWhile P (rest p))) p)"
  by (simp add: span_while_def skip_while_eq Let_def slice_def advance_def rest_def take_takeWhile)

lemma span_while_moves: "span_while P p = (s, p') \<Longrightarrow> moves p p'"
  by (auto simp: span_while_def Let_def skip_while_moves)

lemma until_moves: "until stops p = (s, p') \<Longrightarrow> moves p p'"
  by (auto simp: until_def dest: span_while_moves)

lemma skipSpaces_moves: "moves p (skipSpaces p)"
  by (simp add: skipSpaces_def skip_while_moves)

lemma quoted_loop_range:
  "quoted_loop cs acc i = Some (s, j) \<Longrightarrow> i < j \<and> j \<le> i + length cs"
  by (induction cs acc i rule: quoted_loop.induct) (auto split: list.splits if_splits)

lemma quoted_moves: "quoted p = (r, p') \<Longrightarrow> moves p p'"
  by (auto simp: quoted_def moves_def wf_parser_def peek_def eof_def
      split: if_splits option.splits dest!: quoted_loop_range)

lemma quoted_Some_less: "quoted p = (Some s, p') \<Longrightarrow> fp_pos p < fp_pos p'"
  by (auto simp: quoted_def split: if_splits option.splits dest!: quoted_loop_range)

lemma quotedElement_moves: "quotedElement p = (r, p') \<Longrightarrow> moves p p'"
  by (auto simp: quotedElement_def split: prod.splits option.splits if_splits dest: quoted_moves)

lemma name_loop_moves: "moves p (name_loop L start p)"
proof (induction L start p rule: name_loop.induct)
  case (1 L start p)
  let ?r = "fst (DecodeRune (rest p))" and ?n = "snd (DecodeRune (rest p))"
  show ?case
  proof (cases "\<not> eof p \<and> (isNameRune L ?r \<or> (?r = 45 \<and> fp_pos p > start \<and> nameRuneAt L p (fp_pos p + 1)))")
    case True
    then have "moves p (advance ?n p)"
      using DecodeRune_rest [of p] by (auto simp: moves_def advance_def wf_parser_def)
    also have "moves (advance ?n p) (name_loop L start (advance ?n p))"
      using "1.IH" True by blast
    finally show ?thesis
      using True by (auto simp: name_loop.simps [of L start p])
  next
    case False
    then show ?thesis
      by (auto simp: name_loop.simps [of L start p])
  qed
qed

lemma name_moves:
  assumes "name L p = Inr (s, p')"
  shows "moves p p'" and "fp_pos p < fp_pos p'"
proof -
  have "moves p p' \<and> fp_pos p < fp_pos p'"
    using assms name_loop_moves [of p L "fp_pos p"]
    by (auto simp: name_def Let_def moves_def split: if_splits prod.splits option.splits
        dest: quoted_moves quoted_Some_less)
  then show "moves p p'" and "fp_pos p < fp_pos p'" by auto
qed

lemma takeWhile_drop_bound: "i \<le> length s \<Longrightarrow> i + length (takeWhile P (drop i s)) \<le> length s"
  using takeWhile_length_le [of P "drop i s"] by simp

lemma arrayIndex_moves: "arrayIndex L p = (r, p') \<Longrightarrow> moves p p'"
  using takeWhile_drop_bound [of "fp_pos p" "fp_src p" isASCIIDigit]
    takeWhile_drop_bound [of "Suc (fp_pos p)" "fp_src p" isASCIIDigit]
  by (auto simp: arrayIndex_def Let_def moves_def wf_parser_def split: if_splits option.splits)

lemma path_arrow_left:
  "path_arrow p = Some (a, p') \<Longrightarrow> fp_src p' = fp_src p \<and> fp_pos p + 2 \<le> fp_pos p' \<and> fp_pos p' \<le> length (fp_src p)"
  by (auto simp: path_arrow_def split: prod.splits bool.splits dest!: consume_True)

lemma path_step_moves: "path_step L a p = Inr (st, p') \<Longrightarrow> moves p p'"
  by (auto simp: path_step_def split: prod.splits option.splits sum.splits
      dest!: arrayIndex_moves name_moves(1) intro: moves_trans)

function jsonPath_loop :: "golib \<Rightarrow> filterParser \<Rightarrow> jsonPathStep list \<Rightarrow>
    (filterError, jsonPathStep list \<times> filterParser) result" where
  "jsonPath_loop L p path =
     (case path_arrow p of None \<Rightarrow> Inr (path, p)
      | Some (arr, p1) \<Rightarrow> (case path_step L arr p1 of Inl e \<Rightarrow> Inl e
          | Inr (step, p2) \<Rightarrow> jsonPath_loop L p2 (path @ [step])))"
  by pat_completeness auto
termination
  by (relation "measure (\<lambda>(L, p, path). left p)")
    (auto simp: left_def moves_def dest!: path_arrow_left path_step_moves)

declare jsonPath_loop.simps [simp del]

definition jsonPath :: "golib \<Rightarrow> filterParser \<Rightarrow> (filterError, jsonPathStep list \<times> filterParser) result" where
  "jsonPath L p = jsonPath_loop L p []"

section \<open>Operands and operations\<close>

text \<open>
  \<open>operand\<close>: in a logic tree a value is a quoted element, a brace literal without inner braces, or
  the text up to a comma or a closing parenthesis; in a column filter it is the rest of the input.
\<close>

definition brace_literal :: "filterParser \<Rightarrow> nat option" where
  "brace_literal p =
     (let t = drop (fp_pos p + 1) (fp_src p);
          end = length (takeWhile (\<lambda>c. c \<noteq> CHR ''{'' \<and> c \<noteq> CHR ''}'') t)
      in if peek p = CHR ''{'' \<and> end < length t \<and> t ! end = CHR ''}'' then Some (end + 2) else None)"

definition operand :: "bool \<Rightarrow> filterParser \<Rightarrow> string \<times> filterParser" where
  "operand inTree p =
     (if \<not> inTree then (rest p, p\<lparr>fp_pos := length (fp_src p)\<rparr>)
      else (case quotedElement p of (Some v, p') \<Rightarrow> (v, p')
        | (None, p') \<Rightarrow> (case brace_literal p of
            Some n \<Rightarrow> (slice (fp_src p) (fp_pos p) (fp_pos p + n), advance n p)
          | None \<Rightarrow> until '',)'' p)))"

lemma brace_literal_bound: "brace_literal p = Some n \<Longrightarrow> fp_pos p + n \<le> length (fp_src p)"
  by (auto simp: brace_literal_def Let_def split: if_splits)

lemma operand_moves: "wf_parser p \<Longrightarrow> operand inTree p = (s, p') \<Longrightarrow> moves p p'"
  by (auto simp: operand_def moves_def wf_parser_def advance_def split: if_splits option.splits prod.splits
      dest!: quotedElement_moves until_moves brace_literal_bound)

text \<open>\<open>list\<close>: the loop over the elements of \<open>in.(a,b,"c,d")\<close>.\<close>

definition list_item :: "string list \<Rightarrow> filterParser \<Rightarrow> (string \<times> filterParser) option" where
  "list_item items p = (case quotedElement p of (Some v, p') \<Rightarrow> Some (v, p')
     | (None, p') \<Rightarrow> (case until '',)'' p' of (item, p'') \<Rightarrow>
         if item = [] \<and> items = [] \<and> peek p'' = CHR '')'' then None else Some (item, p'')))"

lemma list_item_moves: "list_item items p = Some (v, p') \<Longrightarrow> moves p p'"
  by (auto simp: list_item_def split: prod.splits option.splits if_splits
      dest!: quotedElement_moves until_moves intro: moves_trans)

text \<open>The loop leaves the state where it breaks: at \<open>()\<close>, or after an element with no comma behind it.\<close>

function list_loop :: "string list \<Rightarrow> filterParser \<Rightarrow> string list \<times> filterParser" where
  "list_loop items p = (case list_item items p of None \<Rightarrow> (items, p)
     | Some (v, p1) \<Rightarrow> (case consume '','' p1 of
         (True, p2) \<Rightarrow> list_loop (items @ [v]) p2
       | (False, p2) \<Rightarrow> (items @ [v], p2)))"
  by pat_completeness auto
termination
  by (relation "measure (\<lambda>(items, p). left p)")
    (auto dest!: list_item_moves moves_left consume_left [OF sym])

declare list_loop.simps [simp del]

definition list :: "bool \<Rightarrow> filterParser \<Rightarrow> (filterError, string list \<times> filterParser) result" where
  "list inTree p = (case consume ''('' p of
       (False, _) \<Rightarrow> (if inTree \<or> eof p then Inl (errorf (''expected '' @ [CHR 0x22] @ ''('' @ [CHR 0x22]) p)
          else Inr (Split (rest p) (CHR '',''), p\<lparr>fp_pos := length (fp_src p)\<rparr>))
     | (True, p1) \<Rightarrow> (case list_loop [] (skipSpaces p1) of (items, p2) \<Rightarrow>
          (case expect '')'' p2 of Inl e \<Rightarrow> Inl e | Inr p3 \<Rightarrow> Inr (items, skipSpaces p3))))"

text \<open>A condition's node before its field is set.\<close>

definition op_node :: "bool \<Rightarrow> string \<Rightarrow> string \<Rightarrow> string \<Rightarrow> string \<Rightarrow> string list \<Rightarrow> filterNode" where
  "op_node ng opr qu la va li = FilterNode ng [] [] zero_field opr qu la va li"

definition isASCIILetterU :: "char \<Rightarrow> bool" where
  "isASCIILetterU c = (isASCIILetter c \<or> c = CHR ''_'')"

definition isLangChar :: "char \<Rightarrow> bool" where
  "isLangChar c = (isASCIILetter c \<or> isASCIIDigit c \<or> c = CHR ''_'')"

definition op_modifier :: "string \<Rightarrow> filterParser \<Rightarrow> (filterError, string \<times> string \<times> filterParser) result" where
  "op_modifier opr p =
     (if opr = ''isdistinct'' then Inr ([], [], p)
      else if map_of ftsFunctions opr \<noteq> None then
        (case consume ''('' p of (False, _) \<Rightarrow> Inr ([], [], p)
         | (True, p1) \<Rightarrow> (case span_while isLangChar p1 of (la, p2) \<Rightarrow>
             if la = [] then Inl (errorf ''expected a text search configuration, e.g. fts(english)'' p2)
             else (case expect '')'' p2 of Inl e \<Rightarrow> Inl e | Inr p3 \<Rightarrow> Inr ([], la, p3))))
      else if map_of sqlOperators opr \<noteq> None then
        (case consume ''('' p of (False, _) \<Rightarrow> Inr ([], [], p)
         | (True, p1) \<Rightarrow>
             if opr \<notin> set quantifiable then Inl (NoQuantifier opr)
             else (case consume ''any)'' p1 of (True, p2) \<Rightarrow> Inr (''ANY'', [], p2)
               | (False, _) \<Rightarrow> (case consume ''all)'' p1 of (True, p2) \<Rightarrow> Inr (''ALL'', [], p2)
                   | (False, _) \<Rightarrow> Inl (errorf (''expected '' @ [CHR 0x22] @ ''any)'' @ [CHR 0x22] @ '' or '' @ [CHR 0x22] @ ''all)'' @ [CHR 0x22]) p1))))
      else Inl (UnknownOperator opr))"

definition operation :: "bool \<Rightarrow> filterParser \<Rightarrow> (filterError, filterNode \<times> filterParser) result" where
  "operation inTree p0 =
     (case consume ''not.'' p0 of (ng, p) \<Rightarrow>
      (case span_while isASCIILetter p of (opr, p1) \<Rightarrow>
        if opr = [] then Inl (errorf ''expected an operator (eq, gt, in, is, ...)'' p1)
        else if opr = ''in'' then
          (case expect ''.'' p1 of Inl e \<Rightarrow> Inl e
           | Inr p2 \<Rightarrow> (case list inTree p2 of Inl e \<Rightarrow> Inl e
               | Inr (items, p3) \<Rightarrow> Inr (op_node ng opr [] [] [] items, p3)))
        else if opr = ''is'' then
          (case expect ''.'' p1 of Inl e \<Rightarrow> Inl e
           | Inr p2 \<Rightarrow> (case span_while isASCIILetterU p2 of (w, p3) \<Rightarrow>
               if map_of isValues (ToLower w) = None then Inl (InvalidIs w)
               else Inr (op_node ng opr [] [] (ToLower w) [], p3)))
        else (case op_modifier opr p1 of Inl e \<Rightarrow> Inl e
           | Inr (qu, la, p2) \<Rightarrow> (case expect ''.'' p2 of Inl e \<Rightarrow> Inl e
               | Inr p3 \<Rightarrow> (case operand inTree p3 of (v, p4) \<Rightarrow>
                   Inr (op_node ng opr qu la v [], p4))))))"

section \<open>Logic trees\<close>

text \<open>
  \<open>group\<close> and \<open>condition\<close> call each other; the loop of \<open>group\<close> is \<open>group_loop\<close>. The first argument
  is fuel: one unit per call. \<open>parseFilter\<close> starts with \<open>fuel_for\<close> of its input, and
  \<open>group_fuel_enough\<close> shows that this never runs out.
\<close>

definition group_prefixes :: "(string \<times> string \<times> bool) list" where
  "group_prefixes = [(''and('', ''AND'', False), (''or('', ''OR'', False),
     (''not.and('', ''AND'', True), (''not.or('', ''OR'', True)]"

definition group_prefix :: "filterParser \<Rightarrow> (string \<times> string \<times> bool) option" where
  "group_prefix p = find (\<lambda>(pre, _, _). HasPrefix (rest p) pre) group_prefixes"

definition simple_condition :: "golib \<Rightarrow> filterParser \<Rightarrow> (filterError, filterNode \<times> filterParser) result" where
  "simple_condition L p =
     (case name L p of Inl e \<Rightarrow> Inl e
      | Inr (col, p1) \<Rightarrow> (case jsonPath L p1 of Inl e \<Rightarrow> Inl e
          | Inr (path, p2) \<Rightarrow> (case expect ''.'' p2 of Inl e \<Rightarrow> Inl e
              | Inr p3 \<Rightarrow> (case operation True p3 of Inl e \<Rightarrow> Inl e
                  | Inr (node, p4) \<Rightarrow> Inr (set_field \<lparr>ff_column = col, ff_path = path\<rparr> node, p4)))))"

fun group :: "nat \<Rightarrow> golib \<Rightarrow> string \<Rightarrow> bool \<Rightarrow> nat \<Rightarrow> filterParser \<Rightarrow> (filterError, filterNode \<times> filterParser) result"
and group_loop :: "nat \<Rightarrow> golib \<Rightarrow> nat \<Rightarrow> filterParser \<Rightarrow> filterNode list \<Rightarrow> (filterError, filterNode list \<times> filterParser) result"
and condition :: "nat \<Rightarrow> golib \<Rightarrow> nat \<Rightarrow> filterParser \<Rightarrow> (filterError, filterNode \<times> filterParser) result" where
  "group 0 L logic negate depth p = Inl OutOfFuel"
| "group (Suc n) L logic negate depth p =
     (if depth > maxFilterDepth then Inl (NestedTooDeep maxFilterDepth)
      else (case expect ''('' p of Inl e \<Rightarrow> Inl e
        | Inr p1 \<Rightarrow> (case group_loop n L depth (skipSpaces p1) [] of Inl e \<Rightarrow> Inl e
            | Inr (cs, p2) \<Rightarrow> (case consume '')'' p2 of
                (False, _) \<Rightarrow> Inl (errorf (''expected '' @ [CHR 0x22] @ '','' @ [CHR 0x22] @ '' or '' @ [CHR 0x22] @ '')'' @ [CHR 0x22]) p2)
              | (True, p3) \<Rightarrow> Inr (FilterNode negate logic cs zero_field [] [] [] [] [], skipSpaces p3)))))"
| "group_loop 0 L depth p cs = Inl OutOfFuel"
| "group_loop (Suc n) L depth p cs =
     (case condition n L depth p of Inl e \<Rightarrow> Inl e
      | Inr (c, p1) \<Rightarrow> (case consume '','' p1 of
          (True, p2) \<Rightarrow> group_loop n L depth (skipSpaces p2) (cs @ [c])
        | (False, p2) \<Rightarrow> Inr (cs @ [c], p2)))"
| "condition 0 L depth p = Inl OutOfFuel"
| "condition (Suc n) L depth p =
     (case group_prefix p of
        Some (pre, logic, negate) \<Rightarrow> group n L logic negate (depth + 1) (advance (length pre - 1) p)
      | None \<Rightarrow> simple_condition L p)"

definition fuel_for :: "string \<Rightarrow> nat" where
  "fuel_for s = length s + 3"

section \<open>Filters\<close>

definition parseFilterKey :: "golib \<Rightarrow> string \<Rightarrow> (filterError, filterField) result" where
  "parseFilterKey L key =
     (let p = \<lparr>fp_src = key, fp_pos = 0\<rparr> in
      case name L p of Inl e \<Rightarrow> Inl (ParseFilterKey key e)
      | Inr (col, p1) \<Rightarrow> (if peek p1 = CHR ''.'' then Inl (EmbeddedFilter key)
          else (case jsonPath L p1 of Inl e \<Rightarrow> Inl (ParseFilterKey key e)
            | Inr (path, p2) \<Rightarrow> (case expectEOF p2 of Inl e \<Rightarrow> Inl (ParseFilterKey key e)
                | Inr _ \<Rightarrow> Inr \<lparr>ff_column = col, ff_path = path\<rparr>))))"

definition parse_tree :: "golib \<Rightarrow> string \<Rightarrow> bool \<Rightarrow> string \<Rightarrow> (filterError, filterNode) result" where
  "parse_tree L logic negate value =
     (case group (fuel_for value) L logic negate 1 \<lparr>fp_src = value, fp_pos = 0\<rparr> of
        Inl e \<Rightarrow> Inl (ParseLogicTree value e)
      | Inr (node, p) \<Rightarrow> (case expectEOF p of Inl e \<Rightarrow> Inl (ParseLogicTree value e) | Inr _ \<Rightarrow> Inr node))"

definition parse_column_filter :: "golib \<Rightarrow> filterField \<Rightarrow> string \<Rightarrow> (filterError, filterNode) result" where
  "parse_column_filter L field value =
     (case operation False \<lparr>fp_src = value, fp_pos = 0\<rparr> of
        Inl e \<Rightarrow> Inl (ParseFilter value e)
      | Inr (node, p) \<Rightarrow> (case expectEOF p of Inl e \<Rightarrow> Inl (ParseFilter value e)
          | Inr _ \<Rightarrow> Inr (set_field field node)))"

definition parseFilter :: "golib \<Rightarrow> string \<Rightarrow> string \<Rightarrow> (filterError, filterNode) result" where
  "parseFilter L key value =
     (let segments = Split key (CHR ''.''); lst = List.last segments in
      if lst = ''and'' \<or> lst = ''or'' then
        (let prefix = butlast segments;
             negate = (prefix \<noteq> [] \<and> List.last prefix = ''not'');
             prefix' = (if negate then butlast prefix else prefix)
         in if prefix' \<noteq> [] then Inl (EmbeddedFilter key)
            else parse_tree L (if lst = ''and'' then ''AND'' else ''OR'') negate value)
      else (case parseFilterKey L key of Inl e \<Rightarrow> Inl e
        | Inr field \<Rightarrow> parse_column_filter L field value))"

end
