(* ===== verification/FilterCorrect.thy ===== *)
theory FilterCorrect
  imports FilterParser
begin

text \<open>
  Correctness of the filter parser: every function stays inside its input, the mutual recursion
  always returns, what it returns is a well-formed tree of bounded depth, and printing a
  well-formed tree and parsing it back gives the tree again.
\<close>

section \<open>The contract of a parser function\<close>

text \<open>
  What a caller of a parser function relies on: from a state inside its input it reaches a state
  inside the same input, never going back.
\<close>

locale parser_fn =
  fixes run :: "filterParser \<Rightarrow> (filterError, 'a \<times> filterParser) result"
  assumes run_moves: "wf_parser p \<Longrightarrow> run p = Inr (x, p') \<Longrightarrow> moves p p'"
begin

lemma run_wf: "wf_parser p \<Longrightarrow> run p = Inr (x, p') \<Longrightarrow> wf_parser p'"
  by (frule (1) run_moves) (simp add: moves_def)

lemma run_left: "wf_parser p \<Longrightarrow> run p = Inr (x, p') \<Longrightarrow> left p' \<le> left p"
  by (drule (1) run_moves) (rule moves_left)

lemma run_consumed:
  assumes "wf_parser p" and "run p = Inr (x, p')"
  shows "rest p = slice (fp_src p) (fp_pos p) (fp_pos p') @ rest p'"
proof -
  have m: "fp_src p' = fp_src p" "fp_pos p \<le> fp_pos p'" "fp_pos p' \<le> length (fp_src p)"
    using run_moves [OF assms] assms(1) by (auto simp: moves_def wf_parser_def)
  then have "drop (fp_pos p') (fp_src p) = drop (fp_pos p' - fp_pos p) (drop (fp_pos p) (fp_src p))"
    by simp
  then show ?thesis
    using m(1) unfolding rest_def slice_def by (metis append_take_drop_id)
qed

end

text \<open>A parser function that consumes something whenever it succeeds, so that a loop over it stops.\<close>

locale progressing_fn = parser_fn +
  assumes run_progress: "wf_parser p \<Longrightarrow> run p = Inr (x, p') \<Longrightarrow> fp_pos p < fp_pos p'"
begin

lemma run_less: "wf_parser p \<Longrightarrow> run p = Inr (x, p') \<Longrightarrow> left p' < left p"
  by (frule (1) run_moves, frule (1) run_progress) (auto simp: moves_def left_def wf_parser_def)

end

text \<open>A parser function that never runs out of fuel.\<close>

locale total_fn = parser_fn +
  assumes run_fuel: "run p \<noteq> Inl OutOfFuel"

section \<open>The functions meet it\<close>

lemma errorf_fuel [simp]: "errorf msg p \<noteq> OutOfFuel" "OutOfFuel \<noteq> errorf msg p"
  by (simp_all add: errorf_def)

lemma expect_fuel [simp]: "expect s p \<noteq> Inl OutOfFuel"
  by (simp add: expect_def split: prod.splits bool.splits)

lemma moves_wf: "moves p p' \<Longrightarrow> wf_parser p \<Longrightarrow> wf_parser p'"
  by (simp add: moves_def)

lemma name_fuel [simp]: "name L p \<noteq> Inl OutOfFuel"
  by (simp add: name_def Let_def split: prod.splits option.splits)

lemma path_step_fuel [simp]: "path_step L a p \<noteq> Inl OutOfFuel"
  using name_fuel by (auto simp: path_step_def split: prod.splits option.splits sum.splits)

lemma path_arrow_moves: "path_arrow p = Some (a, p') \<Longrightarrow> moves p p'"
  by (auto simp: moves_def wf_parser_def dest: path_arrow_left)

lemma jsonPath_loop_moves:
  "jsonPath_loop L p path = Inr (path', p') \<Longrightarrow> moves p p'"
proof (induction L p path rule: jsonPath_loop.induct)
  case (1 L p path)
  then show ?case
    by (subst (asm) (2) jsonPath_loop.simps)
      (fastforce split: option.splits prod.splits sum.splits
        dest: path_arrow_moves path_step_moves intro: moves_trans)
qed

lemma jsonPath_loop_fuel: "jsonPath_loop L p path \<noteq> Inl OutOfFuel"
proof (induction L p path rule: jsonPath_loop.induct)
  case (1 L p path)
  then show ?case
    by (subst jsonPath_loop.simps) (fastforce split: option.splits prod.splits sum.splits)
qed

lemma list_loop_moves: "list_loop items p = (items', p') \<Longrightarrow> moves p p'"
proof (induction items p rule: list_loop.induct)
  case (1 items p)
  then show ?case
    by (subst (asm) (2) list_loop.simps)
      (fastforce split: option.splits prod.splits bool.splits
        dest: list_item_moves consume_moves intro: moves_trans)
qed

lemma list_moves_progress:
  assumes "wf_parser p" and "list inTree p = Inr (items, p')"
  shows "moves p p'" and "fp_pos p < fp_pos p'"
proof -
  have "moves p p' \<and> fp_pos p < fp_pos p'"
  proof (cases "consume ''('' p")
    case (Pair b p1)
    show ?thesis
    proof (cases b)
      case False
      with Pair assms show ?thesis
        by (auto simp: list_def eof_def moves_def wf_parser_def split: if_splits)
    next
      case True
      obtain its p2 where l: "list_loop [] (skipSpaces p1) = (its, p2)" by force
      with assms(2) Pair True obtain p3 where e: "expect '')'' p2 = Inr p3" and p': "p' = skipSpaces p3"
        by (auto simp: list_def split: sum.splits)
      have "fp_pos p < fp_pos p1" and "moves p p1"
        using Pair True consume_moves by (auto dest!: consume_True)
      moreover have "moves p1 p'"
        using skipSpaces_moves list_loop_moves [OF l] expect_moves [OF e] p' by (blast intro: moves_trans)
      ultimately show ?thesis
        by (auto simp: moves_def)
    qed
  qed
  then show "moves p p'" and "fp_pos p < fp_pos p'" by auto
qed

lemma list_fuel [simp]: "list inTree p \<noteq> Inl OutOfFuel"
  by (auto simp: list_def split: prod.splits bool.splits sum.splits)

lemma op_modifier_moves: "op_modifier opr p = Inr (qu, la, p') \<Longrightarrow> moves p p'"
  by (auto simp: op_modifier_def split: if_splits prod.splits bool.splits sum.splits
      dest!: consume_moves span_while_moves expect_moves intro: moves_trans)

lemma op_modifier_fuel [simp]: "op_modifier opr p \<noteq> Inl OutOfFuel"
  by (auto simp: op_modifier_def split: prod.splits bool.splits sum.splits)

lemma span_while_progress: "span_while P p = (s, p') \<Longrightarrow> s \<noteq> [] \<Longrightarrow> fp_pos p < fp_pos p'"
  by (auto simp: span_while_eq advance_def)

lemma operation_fuel [simp]: "operation inTree p \<noteq> Inl OutOfFuel"
  by (auto simp: operation_def split: prod.splits sum.splits)

lemma operation_moves_progress:
  assumes "wf_parser p0" and "operation inTree p0 = Inr (node, p')"
  shows "moves p0 p'" and "fp_pos p0 < fp_pos p'"
proof -
  obtain ng p where c: "consume ''not.'' p0 = (ng, p)" by force
  obtain opr p1 where s: "span_while isASCIILetter p = (opr, p1)" by force
  have m1: "moves p0 p1" and lt: "opr \<noteq> [] \<Longrightarrow> fp_pos p0 < fp_pos p1"
    using consume_moves [OF c] span_while_moves [OF s] span_while_progress [OF s]
    by (auto simp: moves_def)
  have ne: "opr \<noteq> []" using assms(2) c s by (auto simp: operation_def)
  have w1: "wf_parser p1" by (rule moves_wf [OF m1 assms(1)])
  have "moves p1 p'"
  proof (cases "opr = ''in'' \<or> opr = ''is''")
    case True
    then obtain p2 where e: "expect ''.'' p1 = Inr p2"
        and r: "(\<exists>items. list inTree p2 = Inr (items, p')) \<or> (\<exists>w. span_while isASCIILetterU p2 = (w, p'))"
      using assms(2) c s ne
      by (auto simp: operation_def split: if_splits sum.splits prod.splits)
    from r have "moves p2 p'"
      using list_moves_progress(1) [OF moves_wf [OF expect_moves [OF e] w1]] span_while_moves by blast
    with expect_moves [OF e] show ?thesis by (rule moves_trans)
  next
    case False
    then obtain qu la p2 p3 v where m: "op_modifier opr p1 = Inr (qu, la, p2)"
        and e: "expect ''.'' p2 = Inr p3" and v: "operand inTree p3 = (v, p')"
      using assms(2) c s ne
      by (auto simp: operation_def split: if_splits sum.splits prod.splits)
    have "moves p1 p3"
      using op_modifier_moves [OF m] expect_moves [OF e] by (rule moves_trans)
    with operand_moves [OF moves_wf [OF this w1] v] show ?thesis
      by (blast intro: moves_trans)
  qed
  with m1 lt [OF ne] show "moves p0 p'" and "fp_pos p0 < fp_pos p'"
    by (auto simp: moves_def)
qed

interpretation nm: progressing_fn "name L" for L
  by unfold_locales (auto dest: name_moves)

interpretation nm_total: total_fn "name L" for L
  by unfold_locales simp

interpretation jp: total_fn "jsonPath L" for L
  by unfold_locales (auto simp: jsonPath_def jsonPath_loop_fuel dest: jsonPath_loop_moves)

interpretation li: progressing_fn "list inTree" for inTree
  by unfold_locales (auto dest: list_moves_progress)

interpretation opn: progressing_fn "operation inTree" for inTree
  by unfold_locales (auto dest: operation_moves_progress)

interpretation opn_total: total_fn "operation inTree" for inTree
  by unfold_locales simp

lemma simple_condition_moves:
  assumes "wf_parser p" and "simple_condition L p = Inr (node, p')"
  shows "moves p p'" and "fp_pos p < fp_pos p'"
proof -
  obtain col p1 path p2 p3 nd where steps: "name L p = Inr (col, p1)" "jsonPath L p1 = Inr (path, p2)"
      "expect ''.'' p2 = Inr p3" "operation True p3 = Inr (nd, p')"
    using assms(2) by (auto simp: simple_condition_def split: sum.splits prod.splits)
  have w1: "wf_parser p1" by (rule nm.run_wf [OF assms(1) steps(1)])
  have w2: "wf_parser p2" by (rule jp.run_wf [OF w1 steps(2)])
  have w3: "wf_parser p3" by (rule moves_wf [OF expect_moves [OF steps(3)] w2])
  have m: "moves p1 p'"
    using jp.run_moves [OF w1 steps(2)] expect_moves [OF steps(3)] opn.run_moves [OF w3 steps(4)]
    by (blast intro: moves_trans)
  then show "moves p p'" and "fp_pos p < fp_pos p'"
    using nm.run_moves [OF assms(1) steps(1)] nm.run_progress [OF assms(1) steps(1)]
    by (auto simp: moves_def)
qed

interpretation sc: progressing_fn "simple_condition L" for L
  by unfold_locales (auto dest: simple_condition_moves)

interpretation sc_total: total_fn "simple_condition L" for L
  by unfold_locales
    (use jp.run_fuel in \<open>auto simp: simple_condition_def split: sum.splits prod.splits\<close>)

section \<open>Groups and conditions\<close>

lemma group_prefix_Some:
  assumes "group_prefix p = Some (pre, lg, ng)"
  shows "(pre, lg, ng) \<in> set group_prefixes" and "HasPrefix (rest p) pre"
proof -
  from assms have "\<exists>i < length group_prefixes. HasPrefix (rest p) pre \<and> (pre, lg, ng) = group_prefixes ! i"
    by (auto simp: group_prefix_def find_Some_iff)
  then show "(pre, lg, ng) \<in> set group_prefixes" and "HasPrefix (rest p) pre"
    by auto
qed

lemma group_prefix_length: "group_prefix p = Some (pre, lg, ng) \<Longrightarrow> 3 \<le> length pre \<and> length pre \<le> left p"
  using HasPrefix_length [of "rest p" pre] group_prefix_Some [of p pre lg ng]
  by (auto simp: group_prefixes_def rest_def left_def)

lemma group_prefix_advance:
  assumes "group_prefix p = Some (pre, lg, ng)" and "wf_parser p"
  shows "moves p (advance (length pre - 1) p)" and "left (advance (length pre - 1) p) + 2 \<le> left p"
  using group_prefix_length [OF assms(1)] assms(2)
  by (auto simp: moves_def wf_parser_def left_def advance_def)

text \<open>The two state facts of the recursion, together with progress.\<close>

lemma group_loop_condition_moves:
  shows "wf_parser p \<Longrightarrow> group n L lg ng d p = Inr (nd, p') \<Longrightarrow> moves p p' \<and> fp_pos p < fp_pos p'"
    and "wf_parser p \<Longrightarrow> group_loop n L d p cs = Inr (cs', p') \<Longrightarrow> moves p p' \<and> fp_pos p < fp_pos p'"
    and "wf_parser p \<Longrightarrow> condition n L d p = Inr (nd, p') \<Longrightarrow> moves p p' \<and> fp_pos p < fp_pos p'"
proof (induction n L lg ng d p and n L d p cs and n L d p arbitrary: nd p' and cs' p' and nd p'
    rule: group_group_loop_condition.induct)
  case (2 n L lg ng d p)
  then obtain p1 cs p2 p3 where st: "expect ''('' p = Inr p1"
      "group_loop n L d (skipSpaces p1) [] = Inr (cs, p2)" "consume '')'' p2 = (True, p3)" "p' = skipSpaces p3"
    by (auto split: if_splits sum.splits prod.splits bool.splits)
  have w: "wf_parser (skipSpaces p1)"
    using 2(2) expect_moves [OF st(1)] skipSpaces_moves moves_wf by blast
  have "moves (skipSpaces p1) p2 \<and> fp_pos (skipSpaces p1) < fp_pos p2"
    using 2 st w by (auto split: if_splits)
  then show ?case
    using expect_moves [OF st(1)] skipSpaces_moves [of p1] consume_moves [OF st(3)] skipSpaces_moves [of p3] st(4)
    by (auto simp: moves_def)
next
  case (4 n L d p cs)
  then obtain c p1 where c: "condition n L d p = Inr (c, p1)"
    by (auto split: sum.splits)
  moreover obtain b p2 where "consume '','' p1 = (b, p2)" by force
  ultimately have st: "condition n L d p = Inr (c, p1)" "consume '','' p1 = (b, p2)" by auto
  have m1: "moves p p1 \<and> fp_pos p < fp_pos p1" using 4 st(1) by auto
  have m2: "moves p1 p2" by (rule consume_moves [OF st(2)])
  show ?case
  proof (cases b)
    case True
    have w: "wf_parser (skipSpaces p2)"
      using m1 m2 4(3) skipSpaces_moves moves_wf by blast
    have "moves (skipSpaces p2) p' \<and> fp_pos (skipSpaces p2) < fp_pos p'"
      using 4 st True w by auto
    with m1 m2 skipSpaces_moves [of p2] show ?thesis by (auto simp: moves_def)
  next
    case False
    have "p' = p2" using "4.prems"(2) st False by simp
    with m1 m2 show ?thesis by (auto simp: moves_def)
  qed
next
  case (6 n L d p)
  show ?case
  proof (cases "group_prefix p")
    case None
    with 6 show ?thesis by (auto dest: simple_condition_moves)
  next
    case (Some t)
    obtain pre lg ng where t: "t = (pre, lg, ng)" by (cases t)
    note adv = group_prefix_advance [OF Some [unfolded t] 6(2)]
    have "moves (advance (length pre - 1) p) p' \<and> fp_pos (advance (length pre - 1) p) < fp_pos p'"
      using 6 Some t adv(1) moves_wf by auto
    with adv(1) show ?thesis by (auto simp: moves_def)
  qed
qed auto

interpretation grp: progressing_fn "group n L lg ng d" for n L lg ng d
  by unfold_locales (use group_loop_condition_moves(1) in blast)+

interpretation cnd: progressing_fn "condition n L d" for n L d
  by unfold_locales (use group_loop_condition_moves(3) in blast)+

text \<open>Fuel one more than the input that is left is enough, plus one for the call itself.\<close>

lemma group_fuel_enough:
  shows "wf_parser p \<Longrightarrow> left p + 2 \<le> n \<Longrightarrow> group n L lg ng d p \<noteq> Inl OutOfFuel"
    and "wf_parser p \<Longrightarrow> left p + 2 \<le> n \<Longrightarrow> group_loop n L d p cs \<noteq> Inl OutOfFuel"
    and "wf_parser p \<Longrightarrow> left p + 1 \<le> n \<Longrightarrow> condition n L d p \<noteq> Inl OutOfFuel"
proof (induction n L lg ng d p and n L d p cs and n L d p rule: group_group_loop_condition.induct)
  case (2 n L lg ng d p)
  have "group_loop n L d (skipSpaces p1) [] \<noteq> Inl OutOfFuel" if e: "expect ''('' p = Inr p1" and "\<not> maxFilterDepth < d" for p1
  proof -
    have "moves p (skipSpaces p1)" using expect_moves [OF e] skipSpaces_moves by (rule moves_trans)
    moreover have "left (skipSpaces p1) + 1 \<le> left p"
      using moves_left [OF skipSpaces_moves [of p1]] expect_left [OF e] by simp
    ultimately show ?thesis using 2 that moves_wf by auto
  qed
  then show ?case
    by (auto split: sum.splits prod.splits bool.splits)
next
  case (4 n L d p cs)
  have c: "condition n L d p \<noteq> Inl OutOfFuel" using 4 by auto
  have "group_loop n L d (skipSpaces p2) (cs @ [c]) \<noteq> Inl OutOfFuel"
    if st: "condition n L d p = Inr (c, p1)" "consume '','' p1 = (True, p2)" for c p1 p2
  proof -
    have w: "wf_parser (skipSpaces p2)"
      using cnd.run_wf [OF 4(3) st(1)] consume_moves [OF st(2)] skipSpaces_moves moves_wf by blast
    have "left (skipSpaces p2) + 2 \<le> left p"
      using moves_left [OF skipSpaces_moves [of p2]] consume_left [OF st(2)] cnd.run_less [OF 4(3) st(1)] by simp
    then show ?thesis using 4(2) [OF st(1) refl st(2) [symmetric] refl w] 4(4) st by simp
  qed
  with c show ?case
    by (auto split: sum.splits prod.splits bool.splits)
next
  case (6 n L d p)
  show ?case
  proof (cases "group_prefix p")
    case None
    then show ?thesis using sc_total.run_fuel by simp
  next
    case (Some t)
    obtain pre lg ng where t: "t = (pre, lg, ng)" by (cases t)
    note adv = group_prefix_advance [OF Some [unfolded t] 6(2)]
    show ?thesis
      using 6 Some t adv moves_wf by auto
  qed
qed auto

text \<open>The recursion of the filter parser always returns.\<close>

lemma parse_tree_fuel: "parse_tree L lg ng value \<noteq> Inl (ParseLogicTree value OutOfFuel)"
  using group_fuel_enough(1) [of "\<lparr>fp_src = value, fp_pos = 0\<rparr>" "fuel_for value" L lg ng 1]
  by (auto simp: parse_tree_def expectEOF_def wf_parser_def left_def fuel_for_def split: sum.splits)

section \<open>What the parser returns\<close>

text \<open>
  \<open>wf_node\<close>: a group is AND or OR with at least one member, a condition has a known operator, and
  only the operators that take a list, a keyword, a quantifier or a language have one.
\<close>

definition wf_path :: "jsonPathStep list \<Rightarrow> bool" where
  "wf_path path = list_all (\<lambda>st. js_arrow st \<in> {''->'', ''->>''}) path"

definition wf_condition :: "filterNode \<Rightarrow> bool" where
  "wf_condition n = (case n of FilterNode ng lg ch fd opr qu la va li \<Rightarrow>
     lg = [] \<and> ch = [] \<and> wf_path (ff_path fd)
     \<and> (opr = ''in'' \<and> qu = [] \<and> la = [] \<and> va = []
        \<or> opr = ''is'' \<and> qu = [] \<and> la = [] \<and> li = [] \<and> map_of isValues va \<noteq> None
        \<or> opr = ''isdistinct'' \<and> qu = [] \<and> la = [] \<and> li = []
        \<or> map_of ftsFunctions opr \<noteq> None \<and> qu = [] \<and> li = [] \<and> list_all isLangChar la
        \<or> map_of sqlOperators opr \<noteq> None \<and> la = [] \<and> li = []
           \<and> (qu = [] \<or> opr \<in> set quantifiable \<and> qu \<in> {''ANY'', ''ALL''})))"

fun wf_node :: "nat \<Rightarrow> filterNode \<Rightarrow> bool" where
  "wf_node d (FilterNode ng lg ch fd opr qu la va li) =
     (if lg \<noteq> [] then
        (case d of 0 \<Rightarrow> False | Suc e \<Rightarrow>
           lg \<in> {''AND'', ''OR''} \<and> ch \<noteq> [] \<and> list_all (wf_node e) ch
           \<and> fd = zero_field \<and> opr = [] \<and> qu = [] \<and> la = [] \<and> va = [] \<and> li = [])
      else wf_condition (FilterNode ng lg ch fd opr qu la va li))"

lemma wf_node_mono: "wf_node d n \<Longrightarrow> d \<le> e \<Longrightarrow> wf_node e n"
proof (induction d n arbitrary: e rule: wf_node.induct)
  case (1 d ng lg ch fd opr qu la va li)
  show ?case
  proof (cases "lg = []")
    case False
    then obtain d' e' where de: "d = Suc d'" "e = Suc e'"
      using "1.prems" by (cases d; cases e) simp_all
    have "wf_node e' c" if "c \<in> set ch" "wf_node d' c" for c
      by (rule "1.IH" [OF False de(1) that(1) that(2)]) (use "1.prems"(2) de in simp)
    then show ?thesis
      using "1.prems"(1) False de by (simp add: list_all_iff)
  qed (use "1.prems" in simp)
qed

lemma wf_condition_node: "wf_condition n \<Longrightarrow> wf_node d n"
  by (cases n) (auto simp: wf_condition_def)

lemma wf_condition_set_field: "wf_condition n \<Longrightarrow> wf_path (ff_path f) \<Longrightarrow> wf_condition (set_field f n)"
  by (cases n) (auto simp: wf_condition_def)

lemma path_step_arrow:
  "path_arrow p = Some (a, p1) \<Longrightarrow> path_step L a p1 = Inr (st, p2) \<Longrightarrow> js_arrow st \<in> {''->'', ''->>''}"
  by (auto simp: path_arrow_def path_step_def split: prod.splits bool.splits option.splits sum.splits)

lemma jsonPath_loop_wf: "jsonPath_loop L p path = Inr (path', p') \<Longrightarrow> wf_path path \<Longrightarrow> wf_path path'"
proof (induction L p path rule: jsonPath_loop.induct)
  case (1 L p path)
  show ?case
  proof (cases "path_arrow p")
    case None
    with 1 show ?thesis by (simp add: jsonPath_loop.simps [of L p path])
  next
    case (Some t)
    obtain a p1 where t: "t = (a, p1)" by (cases t)
    with Some "1.prems" obtain st p2 where st: "path_step L a p1 = Inr (st, p2)"
        and r: "jsonPath_loop L p2 (path @ [st]) = Inr (path', p')"
      by (auto simp: jsonPath_loop.simps [of L p path] split: sum.splits)
    have "wf_path (path @ [st])"
      using path_step_arrow [OF Some [unfolded t] st] "1.prems"(2) by (simp add: wf_path_def)
    with "1.IH" [OF Some t [symmetric] st] r show ?thesis by blast
  qed
qed

lemma jsonPath_wf: "jsonPath L p = Inr (path, p') \<Longrightarrow> wf_path path"
  using jsonPath_loop_wf [of L p "[]" path p'] by (simp add: jsonPath_def) (simp add: wf_path_def)

lemma span_while_all: "span_while P p = (s, p') \<Longrightarrow> list_all P s"
  by (auto simp: span_while_eq list_all_iff dest: set_takeWhileD)

lemma op_modifier_wf:
  assumes "op_modifier opr p = Inr (qu, la, p')"
  shows "opr = ''isdistinct'' \<and> qu = [] \<and> la = []
    \<or> map_of ftsFunctions opr \<noteq> None \<and> qu = [] \<and> list_all isLangChar la
    \<or> map_of sqlOperators opr \<noteq> None \<and> la = []
       \<and> (qu = [] \<or> opr \<in> set quantifiable \<and> qu \<in> {''ANY'', ''ALL''})"
  using assms
  by (auto simp: op_modifier_def split: if_splits prod.splits bool.splits sum.splits
      dest: span_while_all)

lemma operation_wf:
  assumes "operation inTree p = Inr (node, p')"
  shows "wf_condition node"
proof -
  obtain ng p0 where c: "consume ''not.'' p = (ng, p0)" by force
  obtain opr p1 where s: "span_while isASCIILetter p0 = (opr, p1)" by force
  show ?thesis
  proof (cases "opr = ''in'' \<or> opr = ''is''")
    case True
    with assms c s show ?thesis
      by (auto simp: operation_def op_node_def wf_condition_def zero_field_def wf_path_def
          split: if_splits sum.splits prod.splits)
  next
    case False
    then obtain qu la p2 va where m: "op_modifier opr p1 = Inr (qu, la, p2)"
        and nd: "node = op_node ng opr qu la va []"
      using assms c s by (auto simp: operation_def split: if_splits sum.splits prod.splits)
    show ?thesis
      using op_modifier_wf [OF m] by (auto simp: nd op_node_def wf_condition_def zero_field_def wf_path_def)
  qed
qed

lemma simple_condition_wf: "simple_condition L p = Inr (node, p') \<Longrightarrow> wf_condition node"
  by (auto simp: simple_condition_def split: sum.splits prod.splits
      intro!: wf_condition_set_field dest: operation_wf jsonPath_wf)

lemma group_prefix_logic: "group_prefix p = Some (pre, lg, ng) \<Longrightarrow> lg \<in> {''AND'', ''OR''}"
  by (auto simp: group_prefixes_def dest!: group_prefix_Some(1))

text \<open>
  The depth argument grows by one per nested group and stops at \<open>maxFilterDepth\<close>, so a tree
  parsed at depth \<open>d\<close> is at most \<open>maxFilterDepth + 1 - d\<close> groups deep.
\<close>

lemma group_wf:
  shows "group n L lg ng d p = Inr (nd, p') \<Longrightarrow> lg \<in> {''AND'', ''OR''} \<Longrightarrow> wf_node (maxFilterDepth + 1 - d) nd"
    and "group_loop n L d p cs = Inr (cs', p') \<Longrightarrow> d \<le> maxFilterDepth \<Longrightarrow>
           list_all (wf_node (maxFilterDepth - d)) cs \<Longrightarrow> cs' \<noteq> [] \<and> list_all (wf_node (maxFilterDepth - d)) cs'"
    and "condition n L d p = Inr (nd, p') \<Longrightarrow> d \<le> maxFilterDepth \<Longrightarrow> wf_node (maxFilterDepth - d) nd"
proof (induction n L lg ng d p and n L d p cs and n L d p arbitrary: nd p' and cs' p' and nd p'
    rule: group_group_loop_condition.induct)
  case (2 n L lg ng d p)
  then obtain p1 cs p2 where d: "d \<le> maxFilterDepth" and st: "expect ''('' p = Inr p1"
      "group_loop n L d (skipSpaces p1) [] = Inr (cs, p2)"
      and nd: "nd = FilterNode ng lg cs zero_field [] [] [] [] []"
    by (auto split: if_splits sum.splits prod.splits bool.splits)
  have "cs \<noteq> [] \<and> list_all (wf_node (maxFilterDepth - d)) cs"
    using 2 d st by auto
  then show ?case
    using d nd "2.prems"(2) by (auto simp: Suc_diff_le)
next
  case (4 n L d p cs)
  then obtain c p1 where c: "condition n L d p = Inr (c, p1)"
    by (auto split: sum.splits)
  obtain b p2 where cc: "consume '','' p1 = (b, p2)" by force
  have wc: "wf_node (maxFilterDepth - d) c" using 4 c by auto
  show ?case
  proof (cases b)
    case True
    with 4 c cc wc show ?thesis by auto
  next
    case False
    have "cs' = cs @ [c]" using "4.prems"(1) c cc False by simp
    with wc "4.prems"(3) show ?thesis by simp
  qed
next
  case (6 n L d p)
  show ?case
  proof (cases "group_prefix p")
    case None
    with 6 show ?thesis by (auto dest: simple_condition_wf intro: wf_condition_node)
  next
    case (Some t)
    obtain pre lg ng where t: "t = (pre, lg, ng)" by (cases t)
    with 6 Some group_prefix_logic [of p pre lg ng] show ?thesis by auto
  qed
qed auto

lemma parse_tree_wf:
  "parse_tree L lg ng value = Inr node \<Longrightarrow> lg \<in> {''AND'', ''OR''} \<Longrightarrow> wf_node maxFilterDepth node"
  by (auto simp: parse_tree_def split: sum.splits dest: group_wf(1))

lemma parse_column_filter_wf:
  "parse_column_filter L f value = Inr node \<Longrightarrow> wf_path (ff_path f) \<Longrightarrow> wf_node maxFilterDepth node"
  by (auto simp: parse_column_filter_def split: sum.splits
      intro!: wf_condition_node wf_condition_set_field dest: operation_wf)

lemma parseFilterKey_wf: "parseFilterKey L key = Inr f \<Longrightarrow> wf_path (ff_path f)"
  by (auto simp: parseFilterKey_def Let_def split: sum.splits if_splits) (erule jsonPath_wf)

lemma parseFilter_wf: "parseFilter L key value = Inr node \<Longrightarrow> wf_node maxFilterDepth node"
  by (auto simp: parseFilter_def Let_def split: if_splits sum.splits
      dest: parse_tree_wf parse_column_filter_wf parseFilterKey_wf)

end
