(* ===== verification/FilterSql.thy ===== *)
theory FilterSql
  imports FilterCorrect
begin

text \<open>
  Rendering parsed filters as SQL (\<open>pkg/rest/filter.go\<close>, \<open>pkg/rest/util.go\<close>). A rendering
  function threads the list of bind parameters. The second half states what the rendering
  promises: the text is a sequence of tokens, each a fixed keyword, the quoted name of a column of the
  table, or a placeholder, and the placeholders are exactly those of the values it binds.
\<close>

section \<open>Array literals\<close>

text \<open>\<open>convertToPostgresArrayOrJSON\<close>: the older shorthand \<open>cs.a,b\<close> for array columns.\<close>

definition convertToPostgresArrayOrJSON :: "string \<Rightarrow> string" where
  "convertToPostgresArrayOrJSON val0 =
     (let val = TrimSpace val0 in
      if CHR 0x22 \<in> set val \<or> HasPrefix val ''['' then val
      else
        (let val' = (if HasPrefix val ''{'' \<and> HasSuffix val ''}'' then slice val 1 (length val - 1) else val);
             parts = filter (\<lambda>p. p \<noteq> []) (map TrimSpace (Split val' (CHR '','')));
             quotedParts = map (\<lambda>p. [CHR 0x22] @ ReplaceByte p (CHR 0x22) [CHR 0x5C, CHR 0x22] @ [CHR 0x22]) parts
         in ''{'' @ Join quotedParts '','' @ ''}''))"

definition escape_byte :: "char \<Rightarrow> string" where
  "escape_byte c = (if c = CHR 0x22 \<or> c = CHR 0x5C then [CHR 0x5C, c] else [c])"

fun array_elements :: "nat \<Rightarrow> string list \<Rightarrow> string" where
  "array_elements i [] = []"
| "array_elements i (v # vs) =
     (if i > 0 then '','' else []) @ [CHR 0x22] @ concat (map escape_byte v) @ [CHR 0x22]
     @ array_elements (Suc i) vs"

definition pgArrayLiteral :: "string list \<Rightarrow> string" where
  "pgArrayLiteral values = ''{'' @ array_elements 0 values @ ''}''"

section \<open>Fields and conditions\<close>

fun path_sql :: "jsonPathStep list \<Rightarrow> argList \<Rightarrow> string \<times> argList" where
  "path_sql [] args = ([], args)"
| "path_sql (st # sts) args =
     (case add (if js_isIndex st then VInt (js_index st) else VStr (js_key st)) args of (ph, args1) \<Rightarrow>
      (case path_sql sts args1 of (s, args2) \<Rightarrow>
        (js_arrow st @ ph @ (if js_isIndex st then ''::int'' else ''::text'') @ s, args2)))"

definition field_toSQL :: "golib \<Rightarrow> Column \<Rightarrow> filterField \<Rightarrow> argList \<Rightarrow> string \<times> argList" where
  "field_toSQL L col f args =
     (let sql = quoteIdent L (col_Name col) in
      if ff_path f = [] then (sql, args)
      else (let sql' = (if col_DataType col \<noteq> ''json'' \<and> col_DataType col \<noteq> ''jsonb''
                        then ''to_jsonb('' @ sql @ '')'' else sql) in
            case path_sql (ff_path f) args of (s, args') \<Rightarrow> (''('' @ sql' @ s @ '')'', args')))"

definition table_lookup :: "(string \<times> string) list \<Rightarrow> string \<Rightarrow> string" where
  "table_lookup m k = (case map_of m k of None \<Rightarrow> [] | Some v \<Rightarrow> v)"

text \<open>The bound value of a plain operator: wildcards of \<open>like\<close>, and the array shorthand of \<open>cs\<close> and \<open>cd\<close>.\<close>

definition operand_value :: "Column \<Rightarrow> filterNode \<Rightarrow> string" where
  "operand_value col n =
     (if fn_operator n = ''like'' \<or> fn_operator n = ''ilike'' then ReplaceByte (fn_value n) (CHR ''*'') ''%''
      else if (fn_operator n = ''cs'' \<or> fn_operator n = ''cd'') \<and> col_DataType col = ''ARRAY''
        \<and> fn_value n \<noteq> [] \<and> hd (fn_value n) \<notin> {CHR ''{'', CHR ''['', CHR ''('', CHR 0x22}
        then convertToPostgresArrayOrJSON (fn_value n)
      else fn_value n)"

definition fts_sql :: "Column \<Rightarrow> filterNode \<Rightarrow> string \<Rightarrow> string \<Rightarrow> argList \<Rightarrow> string \<times> argList" where
  "fts_sql col n tsquery lhs args =
     (case (if fn_lang n \<noteq> [] then (case add (VStr (fn_lang n)) args of (ph, a) \<Rightarrow> (ph @ ''::regconfig, '', a))
            else ([], args)) of (lang, args1) \<Rightarrow>
      (let lhs' = (if col_DataType col \<noteq> ''tsvector'' \<or> ff_path (fn_field n) \<noteq> []
                   then ''to_tsvector('' @ lang @ lhs @ '')'' else lhs) in
       case add (VStr (fn_value n)) args1 of (ph, args2) \<Rightarrow>
         (lhs' @ '' @@ '' @ tsquery @ ''('' @ lang @ ph @ '')'', args2)))"

definition conditionSQL :: "golib \<Rightarrow> Table \<Rightarrow> filterNode \<Rightarrow> argList \<Rightarrow> (filterError, string \<times> argList) result" where
  "conditionSQL L t n args =
     (case findColumn t (ff_column (fn_field n)) of
        None \<Rightarrow> Inl (NoSuchColumn (tbl_Name t) (ff_column (fn_field n)))
      | Some col \<Rightarrow>
        (case field_toSQL L col (fn_field n) args of (lhs, args1) \<Rightarrow>
          if fn_operator n = ''in'' then
            (case add (VStr (pgArrayLiteral (fn_list n))) args1 of (ph, args2) \<Rightarrow>
              Inr (lhs @ '' = ANY('' @ ph @ '')'', args2))
          else if fn_operator n = ''is'' then
            Inr (lhs @ '' IS '' @ table_lookup isValues (fn_value n), args1)
          else if fn_operator n = ''isdistinct'' then
            (case add (VStr (fn_value n)) args1 of (ph, args2) \<Rightarrow>
              Inr (lhs @ '' IS DISTINCT FROM '' @ ph, args2))
          else (case map_of ftsFunctions (fn_operator n) of
              Some tsquery \<Rightarrow> Inr (fts_sql col n tsquery lhs args1)
            | None \<Rightarrow>
              (let opr = table_lookup sqlOperators (fn_operator n) in
               case add (VStr (operand_value col n)) args1 of (ph, args2) \<Rightarrow>
                 if fn_quant n \<noteq> [] then Inr (lhs @ '' '' @ opr @ '' '' @ fn_quant n @ ''('' @ ph @ '')'', args2)
                 else Inr (lhs @ '' '' @ opr @ '' '' @ ph, args2)))))"

fun toSQL :: "golib \<Rightarrow> Table \<Rightarrow> filterNode \<Rightarrow> argList \<Rightarrow> (filterError, string \<times> argList) result"
and toSQL_children :: "golib \<Rightarrow> Table \<Rightarrow> filterNode list \<Rightarrow> argList \<Rightarrow> (filterError, string list \<times> argList) result" where
  "toSQL L t (FilterNode ng lg ch fd opr qu la va li) args =
     (if lg \<noteq> [] then
        (case toSQL_children L t ch args of Inl e \<Rightarrow> Inl e
         | Inr (parts, args') \<Rightarrow>
             Inr ((if ng then ''NOT '' else []) @ ''('' @ Join parts ('' '' @ lg @ '' '') @ '')'', args'))
      else
        (case conditionSQL L t (FilterNode ng lg ch fd opr qu la va li) args of Inl e \<Rightarrow> Inl e
         | Inr (sql, args') \<Rightarrow> Inr (if ng then ''NOT ('' @ sql @ '')'' else sql, args')))"
| "toSQL_children L t [] args = Inr ([], args)"
| "toSQL_children L t (c # cs) args =
     (case toSQL L t c args of Inl e \<Rightarrow> Inl e
      | Inr (part, args1) \<Rightarrow> (case toSQL_children L t cs args1 of Inl e \<Rightarrow> Inl e
          | Inr (parts, args2) \<Rightarrow> Inr (part # parts, args2)))"

fun where_conds :: "golib \<Rightarrow> Table \<Rightarrow> RawFilter list \<Rightarrow> argList \<Rightarrow> (filterError, string list \<times> argList) result" where
  "where_conds L t [] args = Inr ([], args)"
| "where_conds L t (f # fs) args =
     (case parseFilter L (rf_Key f) (rf_Value f) of Inl e \<Rightarrow> Inl e
      | Inr node \<Rightarrow> (case toSQL L t node args of Inl e \<Rightarrow> Inl e
          | Inr (cond, args1) \<Rightarrow> (case where_conds L t fs args1 of Inl e \<Rightarrow> Inl e
              | Inr (conds, args2) \<Rightarrow> Inr (cond # conds, args2))))"

definition buildWhereClause :: "golib \<Rightarrow> Table \<Rightarrow> RawFilter list \<Rightarrow> argList \<Rightarrow> (filterError, string \<times> argList) result" where
  "buildWhereClause L t filters args =
     (case where_conds L t filters args of Inl e \<Rightarrow> Inl e
      | Inr (conds, args') \<Rightarrow> Inr (Join conds '' AND '', args'))"

section \<open>The promise: tokens\<close>

text \<open>
  A token is a fixed piece of SQL, a quoted identifier, a placeholder, or a qualified name. The functions below say
  which tokens a condition consists of when \<open>k\<close> parameters are bound already, and which values it
  binds.
\<close>

datatype sqltok = Kw string | Id string | Par nat | Rel "string list"

fun tok_text :: "golib \<Rightarrow> sqltok \<Rightarrow> string" where
  "tok_text L (Kw s) = s"
| "tok_text L (Id s) = quoteIdent L s"
| "tok_text L (Par i) = ''$'' @ itoa_nat i"
| "tok_text L (Rel parts) = lib_sanitize L parts"

definition toks_text :: "golib \<Rightarrow> sqltok list \<Rightarrow> string" where
  "toks_text L ts = concat (map (tok_text L) ts)"

fun path_toks :: "jsonPathStep list \<Rightarrow> nat \<Rightarrow> sqltok list" where
  "path_toks [] k = []"
| "path_toks (st # sts) k =
     [Kw (js_arrow st), Par (Suc k), Kw (if js_isIndex st then ''::int'' else ''::text'')] @ path_toks sts (Suc k)"

definition step_val :: "jsonPathStep \<Rightarrow> any" where
  "step_val st = (if js_isIndex st then VInt (js_index st) else VStr (js_key st))"

definition field_toks :: "Column \<Rightarrow> filterField \<Rightarrow> nat \<Rightarrow> sqltok list" where
  "field_toks col f k =
     (if ff_path f = [] then [Id (col_Name col)]
      else [Kw ''('']
        @ (if col_DataType col \<noteq> ''json'' \<and> col_DataType col \<noteq> ''jsonb''
           then [Kw ''to_jsonb('', Id (col_Name col), Kw '')''] else [Id (col_Name col)])
        @ path_toks (ff_path f) k @ [Kw '')''])"

definition rhs_toks :: "Column \<Rightarrow> filterNode \<Rightarrow> nat \<Rightarrow> sqltok list \<Rightarrow> sqltok list" where
  "rhs_toks col n k lhs =
     (if fn_operator n = ''in'' then lhs @ [Kw '' = ANY('', Par (Suc k), Kw '')'']
      else if fn_operator n = ''is'' then lhs @ [Kw '' IS '', Kw (table_lookup isValues (fn_value n))]
      else if fn_operator n = ''isdistinct'' then lhs @ [Kw '' IS DISTINCT FROM '', Par (Suc k)]
      else (case map_of ftsFunctions (fn_operator n) of
          Some tsquery \<Rightarrow>
            (let lang = (if fn_lang n \<noteq> [] then [Par (Suc k), Kw ''::regconfig, ''] else []);
                 k' = (if fn_lang n \<noteq> [] then Suc k else k);
                 lhs' = (if col_DataType col \<noteq> ''tsvector'' \<or> ff_path (fn_field n) \<noteq> []
                         then [Kw ''to_tsvector(''] @ lang @ lhs @ [Kw '')''] else lhs)
             in lhs' @ [Kw '' @@ '', Kw tsquery, Kw ''(''] @ lang @ [Par (Suc k'), Kw '')''])
        | None \<Rightarrow>
            lhs @ [Kw '' '', Kw (table_lookup sqlOperators (fn_operator n)), Kw '' '']
            @ (if fn_quant n \<noteq> [] then [Kw (fn_quant n), Kw ''('', Par (Suc k), Kw '')''] else [Par (Suc k)])))"

definition rhs_vals :: "Column \<Rightarrow> filterNode \<Rightarrow> any list" where
  "rhs_vals col n =
     (if fn_operator n = ''in'' then [VStr (pgArrayLiteral (fn_list n))]
      else if fn_operator n = ''is'' then []
      else if fn_operator n = ''isdistinct'' then [VStr (fn_value n)]
      else if map_of ftsFunctions (fn_operator n) \<noteq> None then
        (if fn_lang n \<noteq> [] then [VStr (fn_lang n)] else []) @ [VStr (fn_value n)]
      else [VStr (operand_value col n)])"

definition cond_toks :: "Column \<Rightarrow> filterNode \<Rightarrow> nat \<Rightarrow> sqltok list" where
  "cond_toks col n k = rhs_toks col n (k + length (ff_path (fn_field n))) (field_toks col (fn_field n) k)"

definition cond_vals :: "Column \<Rightarrow> filterNode \<Rightarrow> any list" where
  "cond_vals col n = map step_val (ff_path (fn_field n)) @ rhs_vals col n"

text \<open>Trees: the tokens of the members, with the connective between them, in parentheses.\<close>

fun node_vals :: "Table \<Rightarrow> filterNode \<Rightarrow> any list" where
  "node_vals t (FilterNode ng lg ch fd opr qu la va li) =
     (if lg \<noteq> [] then concat (map (node_vals t) ch)
      else (case findColumn t (ff_column fd) of None \<Rightarrow> []
        | Some col \<Rightarrow> cond_vals col (FilterNode ng lg ch fd opr qu la va li)))"

fun node_toks :: "Table \<Rightarrow> filterNode \<Rightarrow> nat \<Rightarrow> sqltok list"
and children_toks :: "Table \<Rightarrow> string \<Rightarrow> filterNode list \<Rightarrow> nat \<Rightarrow> sqltok list" where
  "node_toks t (FilterNode ng lg ch fd opr qu la va li) k =
     (if lg \<noteq> [] then (if ng then [Kw ''NOT ''] else []) @ [Kw ''(''] @ children_toks t lg ch k @ [Kw '')'']
      else (let body = (case findColumn t (ff_column fd) of None \<Rightarrow> []
              | Some col \<Rightarrow> cond_toks col (FilterNode ng lg ch fd opr qu la va li) k)
            in if ng then [Kw ''NOT (''] @ body @ [Kw '')''] else body))"
| "children_toks t lg [] k = []"
| "children_toks t lg (c # cs) k =
     node_toks t c k @ (if cs = [] then []
       else [Kw '' '', Kw lg, Kw '' ''] @ children_toks t lg cs (k + length (node_vals t c)))"

text \<open>Every column a tree mentions is a column of the table.\<close>

fun columns_known :: "Table \<Rightarrow> filterNode \<Rightarrow> bool" where
  "columns_known t (FilterNode ng lg ch fd opr qu la va li) =
     (if lg \<noteq> [] then list_all (columns_known t) ch else findColumn t (ff_column fd) \<noteq> None)"

section \<open>Rendering keeps the promise\<close>

lemma toks_text_simps [simp]:
  "toks_text L [] = []" "toks_text L (x # xs) = tok_text L x @ toks_text L xs"
  "toks_text L (xs @ ys) = toks_text L xs @ toks_text L ys"
  by (simp_all add: toks_text_def)

lemma path_sql_refines:
  "path_sql path args = (toks_text L (path_toks path (length args)), args @ map step_val path)"
  by (induction path arbitrary: args) (auto simp: add_def step_val_def)

lemma field_toSQL_refines:
  "field_toSQL L col f args = (toks_text L (field_toks col f (length args)), args @ map step_val (ff_path f))"
  by (auto simp: field_toSQL_def field_toks_def Let_def path_sql_refines [of _ _ L])

lemma conditionSQL_refines:
  assumes "findColumn t (ff_column (fn_field n)) = Some col"
  shows "conditionSQL L t n args = Inr (toks_text L (cond_toks col n (length args)), args @ cond_vals col n)"
  using assms
  by (simp add: conditionSQL_def field_toSQL_refines cond_toks_def cond_vals_def rhs_toks_def
      rhs_vals_def fts_sql_def add_def Let_def split: option.split)

lemma toSQL_refines:
  shows "columns_known t n \<Longrightarrow>
      toSQL L t n args = Inr (toks_text L (node_toks t n (length args)), args @ node_vals t n)"
    and "list_all (columns_known t) cs \<Longrightarrow>
      \<exists>parts. toSQL_children L t cs args = Inr (parts, args @ concat (map (node_vals t) cs))
        \<and> length parts = length cs
        \<and> (\<forall>lg. Join parts ('' '' @ lg @ '' '') = toks_text L (children_toks t lg cs (length args)))"
proof (induction L t n args and L t cs args rule: toSQL_toSQL_children.induct)
  case (1 L t ng lg ch fd opr qu la va li args)
  show ?case
  proof (cases "lg = []")
    case True
    with 1 obtain col where "findColumn t (ff_column fd) = Some col" by auto
    with True show ?thesis
      using conditionSQL_refines [of t "FilterNode ng lg ch fd opr qu la va li" col L args] by simp
  next
    case False
    with 1 show ?thesis by fastforce
  qed
next
  case (3 L t c cs args)
  from 3 obtain parts where
    "toSQL_children L t cs (args @ node_vals t c) = Inr (parts, args @ node_vals t c @ concat (map (node_vals t) cs))"
    "length parts = length cs"
    "\<forall>lg. Join parts ('' '' @ lg @ '' '') = toks_text L (children_toks t lg cs (length args + length (node_vals t c)))"
    by fastforce
  with 3 show ?case
    by (auto simp: Join_Cons)
qed simp

lemma toSQL_unknown:
  shows "\<not> columns_known t n \<Longrightarrow>
      \<exists>c. c \<notin> col_Name ` set (tbl_Columns t) \<and> toSQL L t n args = Inl (NoSuchColumn (tbl_Name t) c)"
    and "\<not> list_all (columns_known t) cs \<Longrightarrow>
      \<exists>c. c \<notin> col_Name ` set (tbl_Columns t) \<and> toSQL_children L t cs args = Inl (NoSuchColumn (tbl_Name t) c)"
proof (induction L t n args and L t cs args rule: toSQL_toSQL_children.induct)
  case (1 L t ng lg ch fd opr qu la va li args)
  then show ?case
    by (cases "lg = []") (auto simp: conditionSQL_def findColumn_None [symmetric])
next
  case (3 L t c cs args)
  show ?case
  proof (cases "columns_known t c")
    case True
    with 3 show ?thesis by (fastforce simp: toSQL_refines(1))
  next
    case False
    with 3 show ?thesis by fastforce
  qed
qed simp

text \<open>The placeholders of a rendered tree are those of the values it binds, no more and no fewer.\<close>

definition params :: "sqltok list \<Rightarrow> nat set" where
  "params ts = {i. Par i \<in> set ts}"

lemma params_simps [simp]:
  "params [] = {}" "params (Kw s # ts) = params ts" "params (Id s # ts) = params ts" "params (Rel r # ts) = params ts"
  "params (Par i # ts) = insert i (params ts)" "params (xs @ ys) = params xs \<union> params ys"
  by (auto simp: params_def)

lemma params_path: "params (path_toks path k) = {k<..k + length path}"
  by (induction path arbitrary: k) auto

lemma params_field: "params (field_toks col f k) = {k<..k + length (ff_path f)}"
  by (auto simp: field_toks_def params_path)

lemma params_cond: "params (cond_toks col n k) = {k<..k + length (cond_vals col n)}"
  by (auto simp: cond_toks_def cond_vals_def rhs_toks_def rhs_vals_def params_field Let_def split: option.split)

lemma params_node:
  shows "columns_known t n \<Longrightarrow> params (node_toks t n k) = {k<..k + length (node_vals t n)}"
    and "list_all (columns_known t) cs \<Longrightarrow>
           params (children_toks t lg cs k) = {k<..k + length (concat (map (node_vals t) cs))}"
proof (induction t n k and t lg cs k rule: node_toks_children_toks.induct)
  case (1 t ng lg ch fd opr qu la va li k)
  then show ?case
    by (cases "lg = []") (auto simp: params_cond Let_def)
next
  case (3 t lg c cs k)
  then show ?case by auto
qed simp

end
