(* ===== verification/FilterSafe.thy ===== *)
theory FilterSafe
  imports FilterSql
begin

text \<open>
  What a client can and cannot reach through a filter: the text of a WHERE clause is made of fixed
  fragments, quoted column names and placeholders; it does not depend on the values sent; no
  filter is dropped; and a list operand reaches PostgreSQL as the list that was sent.
\<close>

section \<open>The text holds nothing of the client's\<close>

definition sql_fragments :: "string list" where
  "sql_fragments =
    [''('', '')'', ''to_jsonb('', ''to_tsvector('', ''->'', ''->>'', ''::int'', ''::text'',
     ''::regconfig, '', '' = ANY('', '' IS '', '' IS DISTINCT FROM '', '' @@ '', '' '', ''NOT '', ''NOT ('',
     ''AND'', ''OR'', '' AND '', ''ANY'', ''ALL'']
    @ map snd sqlOperators @ map snd ftsFunctions @ map snd isValues"

fun safe_tok :: "Table \<Rightarrow> sqltok \<Rightarrow> bool" where
  "safe_tok t (Kw s) = (s \<in> set sql_fragments)"
| "safe_tok t (Id s) = (s \<in> col_Name ` set (tbl_Columns t))"
| "safe_tok t (Par i) = True"
| "safe_tok t (Rel parts) = False"

lemma fragment_mems [simp]:
  "''('' \<in> set sql_fragments"
  "'')'' \<in> set sql_fragments"
  "''to_jsonb('' \<in> set sql_fragments"
  "''to_tsvector('' \<in> set sql_fragments"
  "''->'' \<in> set sql_fragments"
  "''->>'' \<in> set sql_fragments"
  "''::int'' \<in> set sql_fragments"
  "''::text'' \<in> set sql_fragments"
  "''::regconfig, '' \<in> set sql_fragments"
  "'' = ANY('' \<in> set sql_fragments"
  "'' IS '' \<in> set sql_fragments"
  "'' IS DISTINCT FROM '' \<in> set sql_fragments"
  "'' @@ '' \<in> set sql_fragments"
  "'' '' \<in> set sql_fragments"
  "''NOT '' \<in> set sql_fragments"
  "''NOT ('' \<in> set sql_fragments"
  "''AND'' \<in> set sql_fragments"
  "''OR'' \<in> set sql_fragments"
  "'' AND '' \<in> set sql_fragments"
  "''ANY'' \<in> set sql_fragments"
  "''ALL'' \<in> set sql_fragments"
  unfolding sql_fragments_def by simp_all

lemma fragments_table:
  "map_of m k = Some v \<Longrightarrow> m \<in> {sqlOperators, ftsFunctions, isValues} \<Longrightarrow> v \<in> set sql_fragments"
  by (drule map_of_SomeD) (force simp: sql_fragments_def)

lemma table_lookup_fragment:
  "map_of m k \<noteq> None \<Longrightarrow> m \<in> {sqlOperators, ftsFunctions, isValues} \<Longrightarrow> table_lookup m k \<in> set sql_fragments"
  by (auto simp: table_lookup_def dest: fragments_table)

lemma path_toks_safe: "wf_path path \<Longrightarrow> tok \<in> set (path_toks path k) \<Longrightarrow> safe_tok t tok"
  by (induction path arbitrary: k) (auto simp: wf_path_def)

lemma field_toks_safe:
  assumes "wf_path (ff_path f)" and "col \<in> set (tbl_Columns t)" and "tok \<in> set (field_toks col f k)"
  shows "safe_tok t tok"
  using assms path_toks_safe [of "ff_path f" tok k t]
  by (auto simp: field_toks_def split: if_splits)

lemma ops_disjoint:
  "map_of ftsFunctions opr = Some f \<Longrightarrow>
     opr \<noteq> ''in'' \<and> opr \<noteq> ''is'' \<and> opr \<noteq> ''isdistinct'' \<and> map_of sqlOperators opr = None"
  by (auto simp: ftsFunctions_def sqlOperators_def split: if_splits)

lemma ops_disjoint_sql:
  "map_of sqlOperators opr = Some f \<Longrightarrow> opr \<noteq> ''in'' \<and> opr \<noteq> ''is'' \<and> opr \<noteq> ''isdistinct''"
  by (auto simp: sqlOperators_def split: if_splits)

lemma rhs_toks_safe:
  assumes wf: "wf_condition n" and lhs: "\<forall>tok \<in> set lhs. safe_tok t tok"
    and tok: "tok \<in> set (rhs_toks col n k lhs)"
  shows "safe_tok t tok"
proof -
  obtain ng lg ch fd opr qu la va li where n: "n = FilterNode ng lg ch fd opr qu la va li" by (cases n)
  consider (lst) "opr = ''in''" | (kw) "opr = ''is''" "map_of isValues va \<noteq> None" | (dist) "opr = ''isdistinct''"
    | (fts) f where "map_of ftsFunctions opr = Some f"
    | (op) "map_of sqlOperators opr \<noteq> None" "map_of ftsFunctions opr = None"
        "opr \<notin> {''in'', ''is'', ''isdistinct''}" "qu = [] \<or> qu \<in> {''ANY'', ''ALL''}"
    using wf by (cases "map_of ftsFunctions opr") (auto simp: wf_condition_def n dest: ops_disjoint_sql)
  then show ?thesis
  proof cases
    case kw
    then show ?thesis
      using tok lhs table_lookup_fragment [of isValues va]
      by (auto simp: rhs_toks_def n)
  next
    case (fts f)
    then show ?thesis
      using tok lhs ops_disjoint [OF fts] fragments_table [OF fts]
      by (auto simp: rhs_toks_def n Let_def split: if_splits)
  next
    case op
    then show ?thesis
      using tok lhs table_lookup_fragment [of sqlOperators opr]
      by (auto simp: rhs_toks_def n split: if_splits)
  qed (use tok lhs in \<open>auto simp: rhs_toks_def n\<close>)
qed

lemma node_toks_safe:
  shows "columns_known t n \<Longrightarrow> wf_node d n \<Longrightarrow> tok \<in> set (node_toks t n k) \<Longrightarrow> safe_tok t tok"
    and "list_all (columns_known t) cs \<Longrightarrow> list_all (wf_node d) cs \<Longrightarrow> lg \<in> {''AND'', ''OR''} \<Longrightarrow>
           tok \<in> set (children_toks t lg cs k) \<Longrightarrow> safe_tok t tok"
proof (induction t n k and t lg cs k arbitrary: d and d rule: node_toks_children_toks.induct)
  case (1 t ng lg ch fd opr qu la va li k)
  show ?case
  proof (cases "lg = []")
    case True
    obtain col where col: "findColumn t (ff_column fd) = Some col"
      using "1.prems"(1) True by auto
    let ?n = "FilterNode ng lg ch fd opr qu la va li"
    have wf: "wf_condition ?n" "wf_path (ff_path fd)"
      using "1.prems"(2) True by (auto simp: wf_condition_def)
    have "safe_tok t tk" if "tk \<in> set (cond_toks col ?n k)" for tk
      using that rhs_toks_safe [OF wf(1)] field_toks_safe [OF wf(2)] findColumn_Some [OF col]
      unfolding cond_toks_def by fastforce
    with "1.prems"(3) True col show ?thesis
      by (auto simp: Let_def split: if_splits)
  next
    case False
    then obtain e where "d = Suc e" "lg \<in> {''AND'', ''OR''}" "list_all (wf_node e) ch"
      using "1.prems"(2) by (cases d) simp_all
    with 1 False show ?thesis
      by (auto split: if_splits)
  qed
next
  case (3 t lg c cs k)
  then show ?case
    by (auto split: if_splits)
qed simp

section \<open>The text does not depend on the values\<close>

text \<open>
  \<open>erase\<close> blanks what a client chooses freely: operands, list items, JSON keys and indices, the
  language of a text search (but not whether there is one). The keyword of \<open>is\<close> stays: it is one of
  five.
\<close>

definition erase_step :: "jsonPathStep \<Rightarrow> jsonPathStep" where
  "erase_step st = st\<lparr>js_key := [], js_index := 0\<rparr>"

fun erase :: "filterNode \<Rightarrow> filterNode" where
  "erase (FilterNode ng lg ch fd opr qu la va li) =
     FilterNode ng lg (map erase ch) (fd\<lparr>ff_path := map erase_step (ff_path fd)\<rparr>) opr qu
       (if la = [] then [] else ''x'') (if opr = ''is'' then va else []) []"

lemma path_toks_erase: "path_toks (map erase_step path) k = path_toks path k"
  by (induction path arbitrary: k) (auto simp: erase_step_def)

lemma cond_toks_erase: "cond_toks col (erase n) k = cond_toks col n k"
  by (cases n) (auto simp: cond_toks_def rhs_toks_def field_toks_def path_toks_erase Let_def split: option.split)

lemma length_cond_vals_erase: "length (cond_vals col (erase n)) = length (cond_vals col n)"
  by (cases n) (auto simp: cond_vals_def rhs_vals_def)

lemma length_node_vals_erase: "length (node_vals t (erase n)) = length (node_vals t n)"
proof (induction n)
  case (FilterNode ng lg ch fd opr qu la va li)
  have "(\<Sum>x\<leftarrow>ch. length (node_vals t (erase x))) = (\<Sum>x\<leftarrow>ch. length (node_vals t x))"
    using FilterNode by (intro arg_cong [where f = sum_list] map_cong) auto
  then show ?case
    using length_cond_vals_erase [of _ "FilterNode ng lg ch fd opr qu la va li"]
    by (auto simp: length_concat comp_def split: option.split)
qed

lemma node_toks_erase:
  shows "node_toks t (erase n) k = node_toks t n k"
    and "children_toks t lg (map erase cs) k = children_toks t lg cs k"
proof (induction t n k and t lg cs k rule: node_toks_children_toks.induct)
  case (1 t ng lg ch fd opr qu la va li k)
  then show ?case
    using cond_toks_erase [of _ "FilterNode ng lg ch fd opr qu la va li" k]
    by (auto simp: Let_def split: option.split)
next
  case (3 t lg c cs k)
  then show ?case by (auto simp: length_node_vals_erase)
qed simp

lemma columns_known_erase: "columns_known t (erase n) = columns_known t n"
  by (induction n) (auto simp: list_all_iff)

section \<open>A WHERE clause\<close>

definition parse_raw :: "golib \<Rightarrow> RawFilter \<Rightarrow> (filterError, filterNode) result" where
  "parse_raw L f = parseFilter L (rf_Key f) (rf_Value f)"

fun conds_toks :: "Table \<Rightarrow> filterNode list \<Rightarrow> nat \<Rightarrow> sqltok list" where
  "conds_toks t [] k = []"
| "conds_toks t (c # cs) k =
     node_toks t c k @ (if cs = [] then [] else [Kw '' AND ''] @ conds_toks t cs (k + length (node_vals t c)))"

lemma where_conds_refines:
  assumes "map_res (parse_raw L) fs = Inr nodes" and "list_all (columns_known t) nodes"
  shows "\<exists>conds. where_conds L t fs args = Inr (conds, args @ concat (map (node_vals t) nodes))
    \<and> length conds = length fs \<and> Join conds '' AND '' = toks_text L (conds_toks t nodes (length args))"
  using assms
proof (induction fs arbitrary: nodes args)
  case (Cons f fs)
  then obtain n ns where ns: "parse_raw L f = Inr n" "map_res (parse_raw L) fs = Inr ns" "nodes = n # ns"
    by (auto split: sum.splits)
  with Cons.prems have k: "columns_known t n" "list_all (columns_known t) ns" by auto
  from Cons.IH [OF ns(2) k(2), of "args @ node_vals t n"] obtain conds where
    c: "where_conds L t fs (args @ node_vals t n) = Inr (conds, args @ node_vals t n @ concat (map (node_vals t) ns))"
      "length conds = length fs"
      "Join conds '' AND '' = toks_text L (conds_toks t ns (length args + length (node_vals t n)))"
    by auto
  moreover have "fs = [] \<longleftrightarrow> ns = []"
    using map_res_length [OF ns(2)] by auto
  ultimately show ?case
    using ns(1) by (auto simp: parse_raw_def ns(3) toSQL_refines(1) [OF k(1)] Join_Cons)
qed simp

lemma where_conds_Inr:
  assumes "where_conds L t fs args = Inr r"
  shows "\<exists>nodes. map_res (parse_raw L) fs = Inr nodes \<and> list_all (columns_known t) nodes"
  using assms
proof (induction fs arbitrary: args r)
  case (Cons f fs)
  then obtain n cond args1 r1 where n: "parseFilter L (rf_Key f) (rf_Value f) = Inr n"
      "toSQL L t n args = Inr (cond, args1)" "where_conds L t fs args1 = Inr r1"
    by (auto split: sum.splits)
  from n(2) have "columns_known t n"
    using toSQL_unknown(1) [of t n L args] by auto
  with Cons.IH [OF n(3)] n(1) show ?case
    by (auto simp: parse_raw_def)
qed simp

lemma params_conds:
  "list_all (columns_known t) ns \<Longrightarrow>
     params (conds_toks t ns k) = {k<..k + length (concat (map (node_vals t) ns))}"
proof (induction ns arbitrary: k)
  case (Cons n ns)
  then show ?case by (auto simp: params_node(1))
qed simp

lemma conds_toks_safe:
  "list_all (columns_known t) ns \<Longrightarrow> list_all (wf_node d) ns \<Longrightarrow> tok \<in> set (conds_toks t ns k) \<Longrightarrow> safe_tok t tok"
proof (induction ns arbitrary: k)
  case (Cons n ns)
  then show ?case
    using node_toks_safe(1) [of t n d tok k] by (auto split: if_splits)
qed simp

lemma conds_toks_erase: "conds_toks t (map erase ns) k = conds_toks t ns k"
  by (induction ns arbitrary: k) (auto simp: node_toks_erase length_node_vals_erase)

lemma parse_raw_wf: "map_res (parse_raw L) fs = Inr nodes \<Longrightarrow> list_all (wf_node maxFilterDepth) nodes"
  by (auto simp: map_res_Inr_iff list_all_iff list_all2_conv_all_nth in_set_conv_nth parse_raw_def)
    (metis parseFilter_wf)

text \<open>One WHERE clause, completely: its text, its values, and that it is the conjunction of all filters.\<close>

lemma buildWhereClause_Inr:
  "buildWhereClause L t fs args = Inr (sql, args') \<longleftrightarrow>
     (\<exists>nodes. map_res (parse_raw L) fs = Inr nodes \<and> list_all (columns_known t) nodes
        \<and> sql = toks_text L (conds_toks t nodes (length args))
        \<and> args' = args @ concat (map (node_vals t) nodes))"
proof
  assume r: "buildWhereClause L t fs args = Inr (sql, args')"
  then obtain conds where c: "where_conds L t fs args = Inr (conds, args')" "sql = Join conds '' AND ''"
    by (auto simp: buildWhereClause_def split: sum.splits)
  from where_conds_Inr [OF c(1)] obtain nodes where
    n: "map_res (parse_raw L) fs = Inr nodes" "list_all (columns_known t) nodes" by blast
  with where_conds_refines [OF n, of args] c
  show "\<exists>nodes. map_res (parse_raw L) fs = Inr nodes \<and> list_all (columns_known t) nodes
        \<and> sql = toks_text L (conds_toks t nodes (length args))
        \<and> args' = args @ concat (map (node_vals t) nodes)"
    by auto
next
  assume "\<exists>nodes. map_res (parse_raw L) fs = Inr nodes \<and> list_all (columns_known t) nodes
        \<and> sql = toks_text L (conds_toks t nodes (length args))
        \<and> args' = args @ concat (map (node_vals t) nodes)"
  then show "buildWhereClause L t fs args = Inr (sql, args')"
    using where_conds_refines [of L fs _ t args] by (auto simp: buildWhereClause_def)
qed

lemma toks_text_nonempty: "tok_text L x \<noteq> [] \<Longrightarrow> x \<in> set ts \<Longrightarrow> toks_text L ts \<noteq> []"
  by (auto simp: toks_text_def)

section \<open>Array literals are read back as they were written\<close>

text \<open>
  The reader of a one-dimensional PostgreSQL array literal whose elements are all quoted, as
  \<^emph>\<open>Array Value Input\<close> of the PostgreSQL documentation describes it: in a quoted element a backslash
  escapes the next byte, elements are separated by commas.
\<close>

fun pg_element :: "string \<Rightarrow> string \<Rightarrow> (string \<times> string) option" where
  "pg_element acc [] = None"
| "pg_element acc (c # cs) =
     (if c = CHR 0x5C then (case cs of [] \<Rightarrow> None | d # ds \<Rightarrow> pg_element (acc @ [d]) ds)
      else if c = CHR 0x22 then Some (acc, cs) else pg_element (acc @ [c]) cs)"

fun pg_elements :: "nat \<Rightarrow> string \<Rightarrow> string list option" where
  "pg_elements 0 s = None"
| "pg_elements (Suc n) s =
     (case s of [] \<Rightarrow> None | c # cs \<Rightarrow>
        if c \<noteq> CHR 0x22 then None
        else (case pg_element [] cs of None \<Rightarrow> None
          | Some (v, r) \<Rightarrow> (if r = ''}'' then Some [v]
              else if r \<noteq> [] \<and> hd r = CHR '','' then map_option (Cons v) (pg_elements n (tl r))
              else None)))"

definition pg_array :: "string \<Rightarrow> string list option" where
  "pg_array s = (if s = ''{}'' then Some []
     else if s \<noteq> [] \<and> hd s = CHR ''{'' then pg_elements (length s) (tl s) else None)"

lemma pg_element_escape:
  "pg_element acc (concat (map escape_byte v) @ CHR 0x22 # r) = Some (acc @ v, r)"
  by (induction v arbitrary: acc) (auto simp: escape_byte_def)

lemma array_elements_later:
  "0 < i \<Longrightarrow> array_elements i ws = (if ws = [] then [] else CHR '','' # array_elements 0 ws)"
proof (induction ws arbitrary: i)
  case (Cons w ws)
  have "array_elements (Suc i) ws = array_elements (Suc 0) ws"
    by (simp only: Cons.IH [of "Suc i"] Cons.IH [of "Suc 0"] zero_less_Suc)
  with Cons.prems show ?case by simp
qed simp

lemma pg_elements_array:
  assumes "vs \<noteq> []" and "length vs \<le> n"
  shows "pg_elements n (array_elements 0 vs @ ''}'') = Some vs"
  using assms
proof (induction n arbitrary: vs)
  case (Suc n)
  then obtain w ws where vs: "vs = w # ws" by (cases vs) auto
  show ?case
  proof (cases "ws = []")
    case True
    then show ?thesis by (simp add: vs pg_element_escape)
  next
    case False
    then have "pg_elements n (array_elements 0 ws @ ''}'') = Some ws"
      using Suc vs by auto
    then show ?thesis
      using False by (simp add: vs pg_element_escape array_elements_later)
  qed
qed simp

lemma length_array_elements: "length vs \<le> length (array_elements i vs)"
proof (induction vs arbitrary: i)
  case (Cons v vs)
  have "length vs \<le> length (array_elements (Suc i) vs)" by (rule Cons)
  then show ?case by simp
qed simp

lemma pg_array_literal: "pg_array (pgArrayLiteral vs) = Some vs"
proof (cases vs)
  case Nil
  then show ?thesis by (simp add: pg_array_def pgArrayLiteral_def)
next
  case (Cons v ws)
  have "length vs \<le> length (pgArrayLiteral vs)"
    using length_array_elements [of vs 0] by (simp add: pgArrayLiteral_def)
  then have "pg_elements (length (pgArrayLiteral vs)) (array_elements 0 vs @ ''}'') = Some vs"
    using Cons by (intro pg_elements_array) auto
  then show ?thesis
    using Cons by (auto simp: pg_array_def pgArrayLiteral_def)
qed

end
