(* ===== verification/Url.thy ===== *)
theory Url
  imports GoValue
begin

text \<open>
  The part of Go's \<open>net/url\<close> that the REST server reads requests with: unescaping a query
  component and \<open>URL.Query()\<close>, which parses a raw query and silently discards malformed pairs.
\<close>

section \<open>Unescaping\<close>

definition hex_value :: "char \<Rightarrow> nat option" where
  "hex_value c = (if 48 \<le> byte c \<and> byte c \<le> 57 then Some (byte c - 48)
     else if 97 \<le> byte c \<and> byte c \<le> 102 then Some (byte c - 87)
     else if 65 \<le> byte c \<and> byte c \<le> 70 then Some (byte c - 55) else None)"

text \<open>\<open>url.QueryUnescape\<close>: \<open>+\<close> is a space, \<open>%\<close> starts two hexadecimal digits; anything else after \<open>%\<close> is an error.\<close>

fun QueryUnescape :: "string \<Rightarrow> string option" where
  "QueryUnescape [] = Some []"
| "QueryUnescape (c # cs) =
     (if c = CHR ''%'' then
        (case cs of a # b # r \<Rightarrow>
           (case (hex_value a, hex_value b) of
              (Some x, Some y) \<Rightarrow> map_option (Cons (char_of (16 * x + y))) (QueryUnescape r)
            | _ \<Rightarrow> None)
         | _ \<Rightarrow> None)
      else map_option (Cons (if c = CHR ''+'' then CHR '' '' else c)) (QueryUnescape cs))"

section \<open>Queries\<close>

text \<open>A decoded query is a map from keys to the list of their values, in the order of the query.\<close>

type_synonym Values = "(string \<times> string list) list"

definition values_of :: "Values \<Rightarrow> string \<Rightarrow> string list" where
  "values_of q k = (case map_of q k of None \<Rightarrow> [] | Some vs \<Rightarrow> vs)"

text \<open>\<open>Values.Get\<close>: the first value of a key, or the empty string.\<close>

definition Get :: "Values \<Rightarrow> string \<Rightarrow> string" where
  "Get q k = (case values_of q k of [] \<Rightarrow> [] | v # _ \<Rightarrow> v)"

text \<open>One \<open>&\<close>-separated segment of a query: a pair, or nothing when it is empty or malformed.\<close>

definition query_pair :: "string \<Rightarrow> (string \<times> string) option" where
  "query_pair seg =
     (if CHR '';'' \<in> set seg \<or> seg = [] then None
      else (case Cut seg (CHR ''='') of (k, v, _) \<Rightarrow>
        (case QueryUnescape k of None \<Rightarrow> None
         | Some k' \<Rightarrow> (case QueryUnescape v of None \<Rightarrow> None | Some v' \<Rightarrow> Some (k', v')))))"

text \<open>\<open>m[key] = append(m[key], value)\<close>.\<close>

definition add_value :: "string \<times> string \<Rightarrow> Values \<Rightarrow> Values" where
  "add_value kv q = map_put (fst kv) (values_of q (fst kv) @ [snd kv]) q"

definition query_pairs :: "string \<Rightarrow> (string \<times> string) list" where
  "query_pairs raw = List.map_filter query_pair (Split raw (CHR ''&''))"

definition ParseQuery :: "string \<Rightarrow> Values" where
  "ParseQuery raw = fold add_value (query_pairs raw) []"

section \<open>What a decoded query holds\<close>

lemma values_of_add: "values_of (add_value kv q) k = (if k = fst kv then values_of q k @ [snd kv] else values_of q k)"
  by (simp add: values_of_def add_value_def)

lemma add_value_distinct: "distinct (map fst q) \<Longrightarrow> distinct (map fst (add_value kv q))"
  by (simp add: add_value_def distinct_map_put)

lemma ParseQuery_distinct: "distinct (map fst (ParseQuery raw))"
proof -
  have "distinct (map fst (fold add_value ps q))" if "distinct (map fst q)" for ps q
    using that by (induction ps arbitrary: q) (auto simp: add_value_distinct)
  then show ?thesis by (simp add: ParseQuery_def)
qed

text \<open>The values of a key are those of its pairs, in their order.\<close>

lemma values_of_ParseQuery:
  "values_of (ParseQuery raw) k = map snd (filter (\<lambda>p. fst p = k) (query_pairs raw))"
proof -
  have "values_of (fold add_value ps q) k = values_of q k @ map snd (filter (\<lambda>p. fst p = k) ps)" for ps q
    by (induction ps arbitrary: q) (auto simp: values_of_add)
  then show ?thesis by (simp add: ParseQuery_def) (simp add: values_of_def)
qed

lemma keys_ParseQuery: "fst ` set (ParseQuery raw) = fst ` set (query_pairs raw)"
proof -
  have "fst ` set (fold add_value ps q) = fst ` set q \<union> fst ` set ps" for ps q
  proof (induction ps arbitrary: q)
    case (Cons p ps)
    then show ?case by (auto simp: add_value_def keys_map_put)
  qed simp
  then show ?thesis by (simp add: ParseQuery_def)
qed

end
