(* ===== verification/OrderBy.thy ===== *)
theory OrderBy
  imports Url
begin

text \<open>
  The \<open>order\<close> parameter (\<open>pkg/rest/order_by.go\<close>): splitting it at the commas outside parentheses,
  the regular expression of \<open>similarity(column, text)\<close>, and the directions.
\<close>

record OrderParam =
  op_Column :: string
  op_Direction :: string
  op_NullsPosition :: string
  op_Similarity :: string

section \<open>Splitting\<close>

text \<open>
  \<open>range\<close> over a string yields runes, and \<open>WriteRune\<close> writes a rune's encoding: a well-formed
  sequence is copied, an ill-formed byte becomes the encoding of U+FFFD.
\<close>

definition rune_text :: "string \<Rightarrow> string" where
  "rune_text s = (if DecodeRune s = (RuneError, 1) then [CHR 0xEF, CHR 0xBF, CHR 0xBD]
     else take (snd (DecodeRune s)) s)"

lemma DecodeRune_drop: "s \<noteq> [] \<Longrightarrow> length s - snd (DecodeRune s) < length s"
  using DecodeRune_width(1) [of s] by (cases s) auto

function split_order :: "string \<Rightarrow> string list \<Rightarrow> string \<Rightarrow> int \<Rightarrow> string list" where
  "split_order s parts current parenDepth =
     (if s = [] then (if current \<noteq> [] then parts @ [current] else parts)
      else (let c = hd s; rst = drop (snd (DecodeRune s)) s in
        if c = CHR ''('' then split_order rst parts (current @ rune_text s) (parenDepth + 1)
        else if c = CHR '')'' then split_order rst parts (current @ rune_text s) (parenDepth - 1)
        else if c = CHR '','' \<and> parenDepth = 0 then split_order rst (parts @ [current]) [] parenDepth
        else split_order rst parts (current @ rune_text s) parenDepth))"
  by pat_completeness auto
termination
  by (relation "measure (\<lambda>(s, parts, current, parenDepth). length s)")
    (auto intro: DecodeRune_drop)

declare split_order.simps [simp del]

definition splitOrderParamString :: "string \<Rightarrow> string list" where
  "splitOrderParamString order = split_order order [] [] 0"

section \<open>The regular expression\<close>

text \<open>\<open>\s\<close> of Go's regular expressions.\<close>

definition regex_space :: "char \<Rightarrow> bool" where
  "regex_space c = (c \<in> {CHR 0x09, CHR 0x0A, CHR 0x0C, CHR 0x0D, CHR '' ''})"

text \<open>
  A match of \<open>similarity\(([^,]+),\s*([^)]+)\)\<close> at the start of a string, with its two groups. The
  first group runs to the first comma; the white space behind it is skipped greedily, except
  that the last byte of it is given back when nothing else is left before the closing
  parenthesis.
\<close>

definition similarity_at :: "string \<Rightarrow> (string \<times> string) option" where
  "similarity_at s =
     (if \<not> HasPrefix s ''similarity('' then None
      else (let t = drop 11 s;
                g1 = takeWhile (\<lambda>c. c \<noteq> CHR '','') t;
                u = drop (length g1) t;
                ws = takeWhile regex_space (drop 1 u);
                v = drop (1 + length ws) u;
                g2 = takeWhile (\<lambda>c. c \<noteq> CHR '')'') v
            in if g1 = [] \<or> u = [] \<or> length g2 = length v then None
               else if g2 \<noteq> [] then Some (g1, g2)
               else if ws \<noteq> [] then Some (g1, [List.last ws])
               else None))"

fun similarityRegex :: "string \<Rightarrow> (string \<times> string) option" where
  "similarityRegex [] = None"
| "similarityRegex (c # cs) = (case similarity_at (c # cs) of Some m \<Rightarrow> Some m | None \<Rightarrow> similarityRegex cs)"

section \<open>Parsing\<close>

definition direction_of :: "string \<Rightarrow> string \<Rightarrow> string" where
  "direction_of part dflt = (if HasSuffix part ''.desc'' then ''desc'' else if HasSuffix part ''.asc'' then ''asc'' else dflt)"

definition strip_direction :: "string \<Rightarrow> string" where
  "strip_direction part = (if HasSuffix part ''.desc'' then TrimSuffix part ''.desc''
     else if HasSuffix part ''.asc'' then TrimSuffix part ''.asc'' else part)"

definition nulls_of :: "string \<Rightarrow> string \<times> string" where
  "nulls_of column = (if HasSuffix column ''.nullsfirst'' then (TrimSuffix column ''.nullsfirst'', ''first'')
     else if HasSuffix column ''.nullslast'' then (TrimSuffix column ''.nullslast'', ''last'')
     else (column, ''last''))"

definition order_part :: "string \<Rightarrow> OrderParam" where
  "order_part part =
     (case similarityRegex part of
        Some (m1, m2) \<Rightarrow>
          (case nulls_of (TrimSpace m1) of (col, nulls) \<Rightarrow>
            \<lparr>op_Column = col, op_Direction = direction_of part ''desc'', op_NullsPosition = nulls,
             op_Similarity = Trim (TrimSpace m2) [CHR 0x27, CHR 0x22]\<rparr>)
      | None \<Rightarrow>
          (case nulls_of (strip_direction part) of (col, nulls) \<Rightarrow>
            \<lparr>op_Column = col, op_Direction = direction_of part ''asc'', op_NullsPosition = nulls,
             op_Similarity = []\<rparr>))"

definition parseOrderParam :: "string \<Rightarrow> OrderParam list" where
  "parseOrderParam order =
     map order_part (filter (\<lambda>p. p \<noteq> []) (map TrimSpace (splitOrderParamString order)))"

lemma order_part_directions:
  "op_Direction (order_part p) \<in> {''asc'', ''desc''} \<and> op_NullsPosition (order_part p) \<in> {''first'', ''last''}"
  by (auto simp: order_part_def direction_of_def nulls_of_def split: option.split prod.split)

section \<open>Printed orders are read back\<close>

text \<open>The words the round trip prints: letters, digits and underscores.\<close>

definition order_char :: "char \<Rightarrow> bool" where
  "order_char c = (isASCIILetter c \<or> isASCIIDigit c \<or> c = CHR ''_'')"

definition plain_order :: "OrderParam \<Rightarrow> bool" where
  "plain_order p = (op_Column p \<noteq> [] \<and> list_all order_char (op_Column p) \<and> list_all order_char (op_Similarity p)
     \<and> op_Direction p \<in> {''asc'', ''desc''} \<and> op_NullsPosition p \<in> {''first'', ''last''})"

definition print_order :: "OrderParam \<Rightarrow> string" where
  "print_order p = (let col = op_Column p @ ''.nulls'' @ op_NullsPosition p in
     (if op_Similarity p = [] then col else ''similarity('' @ col @ '','' @ op_Similarity p @ '')'')
     @ ''.'' @ op_Direction p)"

definition flat_char :: "char \<Rightarrow> bool" where
  "flat_char c = (byte c < 128 \<and> c \<notin> {CHR ''('', CHR '')'', CHR '',''})"

lemma order_char_flat: "order_char c \<Longrightarrow> flat_char c \<and> 32 < byte c \<and> c \<noteq> CHR 0x27 \<and> c \<noteq> CHR 0x22 \<and> \<not> regex_space c"
  by (auto simp: order_char_def flat_char_def isASCIILetter_def isASCIIDigit_def byte_def regex_space_def)

lemma split_order_char:
  "byte c < 128 \<Longrightarrow> split_order (c # r) parts cur d =
     (if c = CHR ''('' then split_order r parts (cur @ [c]) (d + 1)
      else if c = CHR '')'' then split_order r parts (cur @ [c]) (d - 1)
      else if c = CHR '','' \<and> d = 0 then split_order r (parts @ [cur]) [] d
      else split_order r parts (cur @ [c]) d)"
proof -
  assume "byte c < 128"
  then have r: "rune_text (c # r) = [c]" "drop (snd (DecodeRune (c # r))) (c # r) = r"
    by (simp_all add: DecodeRune_ascii rune_text_def RuneError_def)
  show ?thesis
    by (subst split_order.simps) (simp only: Let_def r list.distinct list.sel if_False)
qed

lemma split_order_flat:
  "list_all flat_char w \<Longrightarrow> split_order (w @ r) parts cur d = split_order r parts (cur @ w) d"
  by (induction w arbitrary: cur) (auto simp: split_order_char flat_char_def)

lemma split_order_Nil: "split_order [] parts cur d = (if cur \<noteq> [] then parts @ [cur] else parts)"
  by (simp add: split_order.simps [of "[]"])

lemma flat_lits [simp]: "list_all flat_char ''.nulls''" "list_all flat_char ''similarity''" "list_all flat_char ''.asc''"
    "list_all flat_char ''.desc''" "list_all flat_char ''first''" "list_all flat_char ''last''"
  by (simp_all add: flat_char_def byte_def)

lemma order_chars_flat: "list_all order_char w \<Longrightarrow> list_all flat_char w"
  by (auto simp: list_all_iff dest: order_char_flat)

lemma split_order_parens:
  assumes "list_all flat_char a" "list_all flat_char x" "list_all flat_char y" "list_all flat_char d"
  shows "split_order (a @ CHR ''('' # x @ CHR '','' # y @ CHR '')'' # d @ r) parts cur 0
    = split_order r parts (cur @ a @ CHR ''('' # x @ CHR '','' # y @ CHR '')'' # d) 0"
proof -
  have par: "split_order (CHR ''('' # u) parts c 0 = split_order u parts (c @ ''('') 1"
      "split_order (CHR '','' # u) parts c 1 = split_order u parts (c @ '','') 1"
      "split_order (CHR '')'' # u) parts c 1 = split_order u parts (c @ '')'') 0" for u c
    by (simp_all add: split_order_char byte_def)
  show ?thesis using assms by (simp add: split_order_flat par)
qed

lemma split_order_print:
  assumes "plain_order p"
  shows "split_order (print_order p @ r) parts cur 0 = split_order r parts (cur @ print_order p) 0"
proof -
  let ?col = "op_Column p @ ''.nulls'' @ op_NullsPosition p" and ?d = "''.'' @ op_Direction p"
  have flat: "list_all flat_char ?col" "list_all flat_char ?d" "list_all flat_char (op_Similarity p)"
    using assms order_chars_flat by (auto simp: plain_order_def flat_char_def byte_def)
  show ?thesis
  proof (cases "op_Similarity p = []")
    case True
    then have "print_order p = ?col @ ?d" by (simp add: print_order_def Let_def)
    then show ?thesis
      using split_order_flat [of "?col @ ?d"] flat by simp
  next
    case False
    then have pr: "print_order p = ''similarity'' @ CHR ''('' # ?col @ CHR '','' # op_Similarity p @ CHR '')'' # ?d"
      by (simp add: print_order_def Let_def)
    show ?thesis
      using split_order_parens [OF flat_lits(2) flat(1,3,2), of r parts cur] unfolding pr by simp
  qed
qed

lemma split_orders:
  "list_all plain_order ps \<Longrightarrow> ps \<noteq> [] \<Longrightarrow>
     split_order (Join (map print_order ps) '','') parts [] 0 = parts @ map print_order ps"
proof (induction ps arbitrary: parts)
  case (Cons p ps)
  have ne: "print_order p \<noteq> []" by (simp add: print_order_def Let_def)
  show ?case
  proof (cases "ps = []")
    case True
    with Cons.prems ne split_order_print [of p "[]" parts "[]"] show ?thesis
      by (simp add: split_order_Nil)
  next
    case False
    have "split_order (print_order p @ CHR '','' # Join (map print_order ps) '','') parts [] 0
        = split_order (Join (map print_order ps) '','') (parts @ [print_order p]) [] 0"
      using Cons.prems by (simp add: split_order_print split_order_char byte_def)
    with False Cons show ?thesis by (simp add: Join_Cons)
  qed
qed simp

subsection \<open>One printed part\<close>

lemma HasSuffix_rev: "HasSuffix s p \<longleftrightarrow> take (length p) (rev s) = rev p"
proof -
  have "HasSuffix s p \<longleftrightarrow> (\<exists>r. rev s = rev p @ rev r)"
    unfolding HasSuffix_iff by (metis rev_append rev_rev_ident)
  also have "\<dots> \<longleftrightarrow> take (length p) (rev s) = rev p"
    by (metis append_eq_conv_conj append_take_drop_id length_rev rev_rev_ident)
  finally show ?thesis .
qed

lemma direction_of_print: "d \<in> {''asc'', ''desc''} \<Longrightarrow> direction_of (x @ ''.'' @ d) dflt = d"
  by (auto simp: direction_of_def HasSuffix_rev)

lemma strip_direction_print: "d \<in> {''asc'', ''desc''} \<Longrightarrow> strip_direction (x @ ''.'' @ d) = x"
  using TrimSuffix_append [of x "''.asc''"] TrimSuffix_append [of x "''.desc''"]
  by (auto simp: strip_direction_def HasSuffix_rev)

lemma nulls_of_print: "n \<in> {''first'', ''last''} \<Longrightarrow> nulls_of (x @ ''.nulls'' @ n) = (x, n)"
  using TrimSuffix_append [of x "''.nullsfirst''"] TrimSuffix_append [of x "''.nullslast''"]
  by (auto simp: nulls_of_def HasSuffix_rev)

lemma space_encoding_ends:
  "e \<in> set space_encodings \<Longrightarrow> e \<noteq> [] \<and> (byte (hd e) \<le> 32 \<or> 128 \<le> byte (hd e)) \<and> (byte (List.last e) \<le> 32 \<or> 128 \<le> byte (List.last e))"
  by (auto simp: space_encodings_def byte_def)

lemma TrimSpace_noop:
  assumes "s \<noteq> []" and "32 < byte (hd s)" "byte (hd s) < 128" and "32 < byte (List.last s)" "byte (List.last s) < 128"
  shows "TrimSpace s = s"
proof -
  have "\<not> HasPrefix s e" "\<not> HasSuffix s e" if "e \<in> set space_encodings" for e
    using space_encoding_ends [OF that] assms by (auto simp: HasPrefix_iff HasSuffix_iff)
  then have "find (HasPrefix s) space_encodings = None" "find (HasSuffix s) space_encodings = None"
    by (auto simp: find_None_iff)
  then show ?thesis
    by (simp add: TrimSpace_def TrimLeftSpace.simps [of s] TrimRightSpace.simps [of s] space_prefix_def space_suffix_def)
qed

lemma similarityRegex_none: "CHR ''('' \<notin> set s \<Longrightarrow> similarityRegex s = None"
  by (induction s rule: similarityRegex.induct) (auto simp: similarity_at_def HasPrefix_iff)

lemma similarity_at_print:
  assumes "CHR '','' \<notin> set x" and "x \<noteq> []" and "list_all order_char y" and "y \<noteq> []"
  shows "similarity_at (''similarity('' @ x @ '','' @ y @ '')'' @ r) = Some (x, y)"
proof -
  have "takeWhile (\<lambda>c. c \<noteq> CHR '','') (x @ CHR '','' # u) = x" for u
    by (rule takeWhile_append_stop) (use assms(1) in auto)
  moreover have "takeWhile regex_space (y @ CHR '')'' # r) = []"
    using assms(3,4) order_char_flat by (cases y) auto
  moreover have "takeWhile (\<lambda>c. c \<noteq> CHR '')'') (y @ CHR '')'' # r) = y"
  proof (rule takeWhile_append_stop)
    have "\<not> order_char CHR '')''" by (simp add: order_char_def isASCIILetter_def isASCIIDigit_def byte_def)
    with assms(3) show "\<forall>c \<in> set y. c \<noteq> CHR '')''" by (auto simp: list_all_iff)
  qed simp
  ultimately show ?thesis
    using assms(2,4) by (simp add: similarity_at_def Let_def HasPrefix_def)
qed

lemma Trim_noop: "list_all (\<lambda>c. c \<notin> set cs) s \<Longrightarrow> Trim s cs = s"
proof -
  assume "list_all (\<lambda>c. c \<notin> set cs) s"
  then have "dropWhile (\<lambda>c. c \<in> set cs) s = s" "dropWhile (\<lambda>c. c \<in> set cs) (rev s) = rev s"
    by (auto simp: dropWhile_eq_self_iff list_all_iff hd_rev)
  then show ?thesis by (simp add: Trim_def)
qed

lemma TrimSpace_ends: "s \<noteq> [] \<Longrightarrow> order_char (hd s) \<Longrightarrow> order_char (List.last s) \<Longrightarrow> TrimSpace s = s"
  using order_char_flat [of "hd s"] order_char_flat [of "List.last s"]
  by (intro TrimSpace_noop) (auto simp: flat_char_def)

lemma order_char_lits: "order_char CHR ''c''" "order_char CHR ''t''" "order_char CHR ''s''"
  by (simp_all add: order_char_def isASCIILetter_def byte_def)

lemma order_char_hd: "list_all order_char w \<Longrightarrow> w \<noteq> [] \<Longrightarrow> order_char (hd w) \<and> order_char (List.last w)"
  by (auto simp: list_all_iff)

lemma TrimSpace_print: "plain_order p \<Longrightarrow> TrimSpace (print_order p) = print_order p"
  using order_char_hd [of "op_Column p"]
  by (intro TrimSpace_ends) (auto simp: print_order_def Let_def plain_order_def order_char_lits hd_append)

lemma order_part_print:
  assumes "plain_order p"
  shows "order_part (print_order p) = p"
proof -
  let ?col = "op_Column p @ ''.nulls'' @ op_NullsPosition p"
  have d: "op_Direction p \<in> {''asc'', ''desc''}" and n: "op_NullsPosition p \<in> {''first'', ''last''}"
    using assms by (auto simp: plain_order_def)
  have chars: "CHR ''('' \<notin> set ?col" "CHR '','' \<notin> set ?col" and lst: "List.last ?col = CHR ''t''"
    using assms order_char_flat by (auto simp: plain_order_def list_all_iff flat_char_def)
  have dir: "direction_of (print_order p) dflt = op_Direction p" for dflt
    unfolding print_order_def Let_def by (rule direction_of_print [OF d])
  show ?thesis
  proof (cases "op_Similarity p = []")
    case True
    then have pr: "print_order p = ?col @ ''.'' @ op_Direction p" by (simp add: print_order_def Let_def)
    have "similarityRegex (print_order p) = None"
      unfolding pr by (rule similarityRegex_none) (use chars d in auto)
    then show ?thesis
      using dir True nulls_of_print [OF n] strip_direction_print [OF d, of ?col] by (simp add: order_part_def pr)
  next
    case False
    then have pr: "print_order p = ''similarity('' @ ?col @ '','' @ op_Similarity p @ '')'' @ ''.'' @ op_Direction p"
      by (simp add: print_order_def Let_def)
    have sim: "list_all order_char (op_Similarity p)" using assms by (simp add: plain_order_def)
    have "similarity_at (print_order p) = Some (?col, op_Similarity p)"
      unfolding pr using similarity_at_print [OF chars(2) _ sim False] by simp
    then have "similarityRegex (print_order p) = Some (?col, op_Similarity p)"
      unfolding pr by simp
    moreover have "TrimSpace ?col = ?col"
      by (rule TrimSpace_ends)
        (use assms lst order_char_hd [of "op_Column p"] in \<open>auto simp: plain_order_def order_char_lits\<close>)
    moreover have "Trim (op_Similarity p) [CHR 0x27, CHR 0x22] = op_Similarity p"
      using sim by (intro Trim_noop) (auto simp: list_all_iff dest: order_char_flat)
    ultimately show ?thesis
      using dir nulls_of_print [OF n] TrimSpace_ends [OF False] order_char_hd [OF sim False] by (simp add: order_part_def)
  qed
qed

end
