(* ===== verification/Query.thy ===== *)
theory Query
  imports FilterSafe OrderBy
begin

text \<open>
  Query parameters, the Prefer header and the four SQL statements of the REST server
  (\<open>pkg/rest/query.go\<close>, \<open>pkg/rest/http_headers.go\<close>), with what they promise.
\<close>

section \<open>Headers\<close>

record Prefer =
  pf_Return :: string
  pf_Count :: string

record Headers =
  hd_Prefer :: "Prefer option"

definition parseKeyValPairs :: "string \<Rightarrow> (string \<times> string) list" where
  "parseKeyValPairs header =
     List.map_filter (\<lambda>pref0. case Cut (TrimSpace pref0) (CHR ''='') of (key, val, found) \<Rightarrow>
        if found then Some (TrimSpace (ToLower key), Trim (TrimSpace val) [CHR 0x22]) else None)
       (Split header (CHR '',''))"

definition isValidReturn :: "string \<Rightarrow> bool" where
  "isValidReturn s = (ToLower s \<in> {''minimal'', ''representation'', ''headers-only''})"

definition isValidCount :: "string \<Rightarrow> bool" where
  "isValidCount s = (ToLower s \<in> {''exact'', ''planned'', ''estimated''})"

text \<open>The callback \<open>parsePrefer\<close> passes to \<open>parseKeyValPairs\<close>.\<close>

definition set_preference :: "string \<times> string \<Rightarrow> Prefer \<Rightarrow> Prefer" where
  "set_preference kv p = (case kv of (key, val) \<Rightarrow>
     if key = ''return'' then (if isValidReturn val then p\<lparr>pf_Return := val\<rparr> else p)
     else if key = ''count'' then (if isValidCount val then p\<lparr>pf_Count := val\<rparr> else p)
     else p)"

definition parsePrefer :: "Values \<Rightarrow> Prefer option" where
  "parsePrefer hdrs = (let header = Get hdrs ''Prefer'' in
     if header = [] then None
     else Some (fold set_preference (parseKeyValPairs header) \<lparr>pf_Return = ''minimal'', pf_Count = []\<rparr>))"

definition parseHeaders :: "Values \<Rightarrow> Headers" where
  "parseHeaders hdrs = \<lparr>hd_Prefer = parsePrefer hdrs\<rparr>"

definition WantsRepresentation :: "Prefer option \<Rightarrow> bool" where
  "WantsRepresentation p = (case p of None \<Rightarrow> False | Some q \<Rightarrow> pf_Return q = ''representation'')"

definition WantsHeadersOnly :: "Prefer option \<Rightarrow> bool" where
  "WantsHeadersOnly p = (case p of None \<Rightarrow> False | Some q \<Rightarrow> pf_Return q = ''headers-only'')"

definition WantsCountExact :: "Prefer option \<Rightarrow> bool" where
  "WantsCountExact p = (case p of None \<Rightarrow> False | Some q \<Rightarrow> ToLower (pf_Count q) = ''exact'')"

definition WantsCountEstimated :: "Prefer option \<Rightarrow> bool" where
  "WantsCountEstimated p = (case p of None \<Rightarrow> False | Some q \<Rightarrow> ToLower (pf_Count q) = ''estimated'')"

definition WantsCountPlanned :: "Prefer option \<Rightarrow> bool" where
  "WantsCountPlanned p = (case p of None \<Rightarrow> False | Some q \<Rightarrow> ToLower (pf_Count q) = ''planned'')"

section \<open>Query parameters\<close>

record JoinParam =
  jp_Table :: string
  jp_JoinType :: string
  jp_On :: string

record QueryParams =
  qp_Select :: "string list"
  qp_Order :: "OrderParam list"
  qp_Limit :: int
  qp_Offset :: int
  qp_Filters :: "RawFilter list"
  qp_EmbedJoins :: "JoinParam list"

definition parseSelectParam :: "string \<Rightarrow> string list" where
  "parseSelectParam s = Split s (CHR '','')"

definition parseIntParam :: "string \<Rightarrow> int \<Rightarrow> int" where
  "parseIntParam val dflt = (case Sscanf_d val of None \<Rightarrow> dflt | Some i \<Rightarrow> i)"

definition isReservedParam :: "string \<Rightarrow> bool" where
  "isReservedParam param = (param \<in> {''select'', ''order'', ''limit'', ''offset'', ''columns'', ''on_conflict''})"

text \<open>The loop over the sorted keys: every value of every key that is not reserved is a filter.\<close>

definition query_filters :: "Values \<Rightarrow> RawFilter list" where
  "query_filters q = concat (map (\<lambda>key. if isReservedParam key then []
     else map (\<lambda>v. \<lparr>rf_Key = key, rf_Value = v\<rparr>) (values_of q key)) (sorted_keys q))"

definition parseQueryParams :: "string \<Rightarrow> QueryParams" where
  "parseQueryParams rawQuery =
     (let q = ParseQuery rawQuery in
      \<lparr>qp_Select = (if Get q ''select'' \<noteq> [] then parseSelectParam (Get q ''select'') else []),
       qp_Order = (if Get q ''order'' \<noteq> [] then parseOrderParam (Get q ''order'') else []),
       qp_Limit = (if Get q ''limit'' \<noteq> [] then parseIntParam (Get q ''limit'') 100 else 100),
       qp_Offset = (if Get q ''offset'' \<noteq> [] then parseIntParam (Get q ''offset'') 0 else 0),
       qp_Filters = query_filters q,
       qp_EmbedJoins = []\<rparr>)"

section \<open>Columns in SQL\<close>

definition columnCastExpression :: "golib \<Rightarrow> Column \<Rightarrow> string" where
  "columnCastExpression L col =
     (let ident = quoteIdent L (col_Name col) in
      if IsComposite col then ''to_jsonb('' @ ident @ '') AS '' @ ident
      else if col_DataType col \<in> {''uuid'', ''date'', ''time without time zone''} then ident @ ''::TEXT AS '' @ ident
      else ident)"

definition selectList :: "golib \<Rightarrow> Table \<Rightarrow> string list \<Rightarrow> string" where
  "selectList L t selected =
     (if selected = [] \<and> tbl_Columns t = [] then ''*''
      else (let sel = (if selected = [] then [''*''] else selected) in
        Join (concat (map (\<lambda>nm. if nm = ''*'' then map (columnCastExpression L) (tbl_Columns t)
            else (case findColumn t nm of None \<Rightarrow> [] | Some col \<Rightarrow> [columnCastExpression L col])) sel)) '', ''))"

definition returningList :: "golib \<Rightarrow> Table \<Rightarrow> string" where
  "returningList L t = Join (map (columnCastExpression L) (tbl_Columns t)) '', ''"

definition columnValueExpression :: "golib \<Rightarrow> Column \<Rightarrow> any \<Rightarrow> argList \<Rightarrow> (filterError, string \<times> argList) result" where
  "columnValueExpression L col v args =
     (if v = VNil \<or> col_TypeKind col \<noteq> KindComposite then Inr (add v args)
      else (case v of VStr s \<Rightarrow> Inr (add v args)
        | _ \<Rightarrow> (case lib_marshal L v of None \<Rightarrow> Inl (MarshalFailed (col_Name col))
            | Some encoded \<Rightarrow> (case add (VStr encoded) args of (ph, args') \<Rightarrow>
                Inr (''jsonb_populate_record(NULL::'' @ lib_sanitize L [col_UDTSchema col, col_UDTName col]
                  @ '', '' @ ph @ ''::jsonb)'', args')))))"

section \<open>Statements\<close>

definition orderDirections :: "(string \<times> string) list" where
  "orderDirections = [(''asc'', ''ASC''), (''desc'', ''DESC'')]"

definition nullsPositions :: "(string \<times> string) list" where
  "nullsPositions = [(''first'', ''NULLS FIRST''), (''last'', ''NULLS LAST'')]"

fun order_clauses :: "golib \<Rightarrow> Table \<Rightarrow> OrderParam list \<Rightarrow> argList \<Rightarrow> (filterError, string list \<times> argList) result" where
  "order_clauses L t [] args = Inr ([], args)"
| "order_clauses L t (p # ps) args =
     (case findColumn t (op_Column p) of None \<Rightarrow> Inl (NoSuchColumn (tbl_Name t) (op_Column p))
      | Some col \<Rightarrow>
        (case (map_of orderDirections (ToLower (op_Direction p)), map_of nullsPositions (ToLower (op_NullsPosition p))) of
           (Some direction, Some nulls) \<Rightarrow>
             (case (if op_Similarity p \<noteq> [] then
                      (case add (VStr (op_Similarity p)) args of (ph, a) \<Rightarrow>
                        (''similarity('' @ quoteIdent L (col_Name col) @ '', '' @ ph @ '')'', a))
                    else (quoteIdent L (col_Name col), args)) of (expr, args1) \<Rightarrow>
               (case order_clauses L t ps args1 of Inl e \<Rightarrow> Inl e
                | Inr (cs, args2) \<Rightarrow> Inr ((expr @ '' '' @ direction @ '' '' @ nulls) # cs, args2)))
         | _ \<Rightarrow> Inl (InvalidOrdering (op_Column p))))"

definition buildOrderByClause :: "golib \<Rightarrow> Table \<Rightarrow> OrderParam list \<Rightarrow> argList \<Rightarrow> (filterError, string \<times> argList) result" where
  "buildOrderByClause L t order args =
     (case order_clauses L t order args of Inl e \<Rightarrow> Inl e | Inr (cs, args') \<Rightarrow> Inr (Join cs '', '', args'))"

text \<open>\<open>if n > 0 { query.WriteString(kw); query.WriteString(args.add(n)) }\<close>.\<close>

definition bound_clause :: "string \<Rightarrow> int \<Rightarrow> argList \<Rightarrow> string \<times> argList" where
  "bound_clause kw n args = (if n > 0 then (case add (VInt n) args of (ph, a) \<Rightarrow> (kw @ ph, a)) else ([], args))"

definition clause :: "string \<Rightarrow> string \<Rightarrow> string" where
  "clause kw body = (if body \<noteq> [] then kw @ body else [])"

definition buildSelectQuery :: "golib \<Rightarrow> Table \<Rightarrow> QueryParams \<Rightarrow> (filterError, string \<times> argList) result" where
  "buildSelectQuery L t qp =
     (case buildWhereClause L t (qp_Filters qp) [] of Inl e \<Rightarrow> Inl e
      | Inr (where, args1) \<Rightarrow> (case buildOrderByClause L t (qp_Order qp) args1 of Inl e \<Rightarrow> Inl e
        | Inr (orderBy, args2) \<Rightarrow>
            (case bound_clause '' LIMIT '' (qp_Limit qp) args2 of (limit, args3) \<Rightarrow>
             (case bound_clause '' OFFSET '' (qp_Offset qp) args3 of (offset, args4) \<Rightarrow>
               Inr (''SELECT '' @ selectList L t (qp_Select qp) @ '' FROM ''
                      @ lib_sanitize L [tbl_Schema t, tbl_Name t]
                      @ clause '' WHERE '' where @ clause '' ORDER BY '' orderBy @ limit @ offset, args4)))))"

text \<open>The loop of INSERT and UPDATE over the sorted keys: pairs of a quoted column and its value.\<close>

fun data_columns :: "golib \<Rightarrow> Table \<Rightarrow> gomap \<Rightarrow> string list \<Rightarrow> argList \<Rightarrow>
    (filterError, (string \<times> string) list \<times> argList) result" where
  "data_columns L t data [] args = Inr ([], args)"
| "data_columns L t data (key # keys) args =
     (case findColumn t key of None \<Rightarrow> Inl (NoSuchColumn (tbl_Name t) key)
      | Some col \<Rightarrow> (case columnValueExpression L col (case map_of data key of None \<Rightarrow> VNil | Some v \<Rightarrow> v) args of
            Inl e \<Rightarrow> Inl e
          | Inr (v, args1) \<Rightarrow> (case data_columns L t data keys args1 of Inl e \<Rightarrow> Inl e
              | Inr (cvs, args2) \<Rightarrow> Inr ((quoteIdent L (col_Name col), v) # cvs, args2))))"

definition returning :: "golib \<Rightarrow> Table \<Rightarrow> Headers \<Rightarrow> string" where
  "returning L t headers = (if WantsRepresentation (hd_Prefer headers) then '' RETURNING '' @ returningList L t else [])"

definition buildInsertQuery :: "golib \<Rightarrow> Table \<Rightarrow> gomap \<Rightarrow> Headers \<Rightarrow> (filterError, string \<times> argList) result" where
  "buildInsertQuery L t data headers =
     (case data_columns L t data (sorted_keys data) [] of Inl e \<Rightarrow> Inl e
      | Inr (cvs, args) \<Rightarrow>
          if cvs = [] then Inl (NoValidColumns ''insert'')
          else Inr (''INSERT INTO '' @ lib_sanitize L [tbl_Schema t, tbl_Name t] @ '' ('' @ Join (map fst cvs) '', ''
                 @ '') VALUES ('' @ Join (map snd cvs) '', '' @ '')'' @ returning L t headers, args))"

definition buildUpdateQuery :: "golib \<Rightarrow> Table \<Rightarrow> gomap \<Rightarrow> QueryParams \<Rightarrow> Headers \<Rightarrow> (filterError, string \<times> argList) result" where
  "buildUpdateQuery L t data qp headers =
     (case data_columns L t data (sorted_keys data) [] of Inl e \<Rightarrow> Inl e
      | Inr (cvs, args) \<Rightarrow>
          if cvs = [] then Inl (NoValidColumns ''update'')
          else (case buildWhereClause L t (qp_Filters qp) args of Inl e \<Rightarrow> Inl e
            | Inr (where, args') \<Rightarrow>
                Inr (''UPDATE '' @ lib_sanitize L [tbl_Schema t, tbl_Name t] @ '' SET ''
                  @ Join (map (\<lambda>(c, v). c @ '' = '' @ v) cvs) '', '' @ clause '' WHERE '' where
                  @ returning L t headers, args')))"

definition buildDeleteQuery :: "golib \<Rightarrow> Table \<Rightarrow> QueryParams \<Rightarrow> Headers \<Rightarrow> (filterError, string \<times> argList) result" where
  "buildDeleteQuery L t qp headers =
     (case buildWhereClause L t (qp_Filters qp) [] of Inl e \<Rightarrow> Inl e
      | Inr (where, args) \<Rightarrow>
          Inr (''DELETE FROM '' @ lib_sanitize L [tbl_Schema t, tbl_Name t] @ clause '' WHERE '' where
            @ returning L t headers, args))"

section \<open>Rows\<close>

text \<open>
  A result set as the program sees it through \<open>pgx.Rows\<close>: the column names, the values of each row
  (or the error reading them), and the error at the end of the iteration.
\<close>

record Rows =
  rows_fields :: "string list"
  rows_values :: "(string, any list) result list"
  rows_err :: "string option"

definition row_map :: "string list \<Rightarrow> any list \<Rightarrow> gomap" where
  "row_map names vals = fold (\<lambda>(n, v) m. if v \<noteq> VNil then map_put n v m else m) (zip names vals) []"

definition collectRowsOmitNull :: "Rows \<Rightarrow> (string, gomap list) result" where
  "collectRowsOmitNull rows =
     (case map_res (\<lambda>r. case r of Inl e \<Rightarrow> Inl e | Inr vals \<Rightarrow> Inr (row_map (rows_fields rows) vals)) (rows_values rows) of
        Inl e \<Rightarrow> Inl e
      | Inr results \<Rightarrow> (case rows_err rows of Some e \<Rightarrow> Inl e | None \<Rightarrow> Inr results))"

section \<open>What a statement consists of\<close>

definition statement_fragments :: "string list" where
  "statement_fragments =
    [''SELECT '', '' FROM '', ''*'', '', '', '' WHERE '', '' ORDER BY '', '' LIMIT '', '' OFFSET '', '') AS '', ''::TEXT AS '',
     ''similarity('', ''ASC'', ''DESC'', ''NULLS FIRST'', ''NULLS LAST'', ''INSERT INTO '', '' ('', '') VALUES ('',
     ''UPDATE '', '' SET '', '' = '', ''DELETE FROM '', '' RETURNING '', ''jsonb_populate_record(NULL::'', ''::jsonb)'']"

fun stmt_tok :: "Table \<Rightarrow> sqltok \<Rightarrow> bool" where
  "stmt_tok t (Kw s) = (s \<in> set sql_fragments \<or> s \<in> set statement_fragments)"
| "stmt_tok t (Id s) = (s \<in> col_Name ` set (tbl_Columns t))"
| "stmt_tok t (Par i) = True"
| "stmt_tok t (Rel parts) = (parts = [tbl_Schema t, tbl_Name t]
     \<or> parts \<in> (\<lambda>c. [col_UDTSchema c, col_UDTName c]) ` set (tbl_Columns t))"

text \<open>
  \<open>renders L t k k' sql\<close>: \<open>sql\<close> consists of fixed fragments, names from the schema of \<open>t\<close> and the
  placeholders \<open>k + 1\<close> to \<open>k'\<close>. The rules below follow the way the builders put texts together.
\<close>

definition renders :: "golib \<Rightarrow> Table \<Rightarrow> nat \<Rightarrow> nat \<Rightarrow> string \<Rightarrow> bool" where
  "renders L t k k' sql = (k \<le> k' \<and> (\<exists>toks. sql = toks_text L toks \<and> list_all (stmt_tok t) toks \<and> params toks = {k<..k'}))"

lemma safe_stmt_tok: "safe_tok t tok \<Longrightarrow> stmt_tok t tok"
  by (cases tok) auto

lemma renders_empty: "renders L t k k []"
  unfolding renders_def by (intro conjI exI [of _ "[]"]) auto

lemma renders_append: "renders L t k k1 a \<Longrightarrow> renders L t k1 k2 b \<Longrightarrow> renders L t k k2 (a @ b)"
proof -
  assume "renders L t k k1 a" "renders L t k1 k2 b"
  then obtain ta tb where "k \<le> k1" "k1 \<le> k2" "a = toks_text L ta" "b = toks_text L tb"
      "list_all (stmt_tok t) ta" "list_all (stmt_tok t) tb" "params ta = {k<..k1}" "params tb = {k1<..k2}"
    by (auto simp: renders_def)
  then show ?thesis
    unfolding renders_def by (intro conjI exI [of _ "ta @ tb"]) auto
qed

lemma renders_tok: "stmt_tok t tok \<Longrightarrow> (\<And>i. tok \<noteq> Par i) \<Longrightarrow> renders L t k k (tok_text L tok)"
  unfolding renders_def by (intro conjI exI [of _ "[tok]"]) (cases tok; auto)+

lemma renders_kw: "s \<in> set sql_fragments \<or> s \<in> set statement_fragments \<Longrightarrow> renders L t k k s"
  using renders_tok [of t "Kw s" L k] by simp

lemma renders_ident: "c \<in> set (tbl_Columns t) \<Longrightarrow> renders L t k k (quoteIdent L (col_Name c))"
  using renders_tok [of t "Id (col_Name c)" L k] by simp

lemma renders_table: "renders L t k k (lib_sanitize L [tbl_Schema t, tbl_Name t])"
  using renders_tok [of t "Rel [tbl_Schema t, tbl_Name t]" L k] by simp

lemma renders_udt: "c \<in> set (tbl_Columns t) \<Longrightarrow> renders L t k k (lib_sanitize L [col_UDTSchema c, col_UDTName c])"
  using renders_tok [of t "Rel [col_UDTSchema c, col_UDTName c]" L k] by auto

lemma renders_param: "renders L t k (Suc k) (''$'' @ itoa_nat (Suc k))"
  unfolding renders_def by (intro conjI exI [of _ "[Par (Suc k)]"]) auto

lemma renders_Join_same:
  "\<forall>x \<in> set xs. renders L t k k x \<Longrightarrow> renders L t k k sep \<Longrightarrow> renders L t k k (Join xs sep)"
  by (induction xs) (auto simp: Join_Cons renders_empty intro: renders_append)

lemma fragment_stmts [simp]:
  "''SELECT '' \<in> set statement_fragments" "'' FROM '' \<in> set statement_fragments" "''*'' \<in> set statement_fragments"
  "'', '' \<in> set statement_fragments" "'' WHERE '' \<in> set statement_fragments" "'' ORDER BY '' \<in> set statement_fragments"
  "'' LIMIT '' \<in> set statement_fragments" "'' OFFSET '' \<in> set statement_fragments" "'') AS '' \<in> set statement_fragments"
  "''::TEXT AS '' \<in> set statement_fragments" "''similarity('' \<in> set statement_fragments"
  "''INSERT INTO '' \<in> set statement_fragments" "'' ('' \<in> set statement_fragments" "'') VALUES ('' \<in> set statement_fragments"
  "''UPDATE '' \<in> set statement_fragments" "'' SET '' \<in> set statement_fragments" "'' = '' \<in> set statement_fragments"
  "''DELETE FROM '' \<in> set statement_fragments" "'' RETURNING '' \<in> set statement_fragments"
  "''jsonb_populate_record(NULL::'' \<in> set statement_fragments" "''::jsonb)'' \<in> set statement_fragments"
  by (simp_all add: statement_fragments_def)

lemma buildWhereClause_renders:
  assumes "buildWhereClause L t fs args = Inr (sql, args')"
  shows "renders L t (length args) (length args') sql"
proof -
  obtain nodes where n: "map_res (parse_raw L) fs = Inr nodes" "list_all (columns_known t) nodes"
      "sql = toks_text L (conds_toks t nodes (length args))" "args' = args @ concat (map (node_vals t) nodes)"
    using assms unfolding buildWhereClause_Inr by blast
  have "list_all (stmt_tok t) (conds_toks t nodes (length args))"
    unfolding list_all_iff using conds_toks_safe [OF n(2) parse_raw_wf [OF n(1)]] safe_stmt_tok by blast
  then show ?thesis
    using n(3,4) params_conds [OF n(2)] unfolding renders_def by auto
qed

lemma renders_lit: "s \<in> set statement_fragments \<Longrightarrow> renders L t k k' b \<Longrightarrow> renders L t k k' (s @ b)"
  by (rule renders_append [OF renders_kw]) auto

lemma renders_sql: "s \<in> set sql_fragments \<Longrightarrow> renders L t k k' b \<Longrightarrow> renders L t k k' (s @ b)"
  by (rule renders_append [OF renders_kw]) auto

lemma renders_stmt_kw: "s \<in> set statement_fragments \<Longrightarrow> renders L t k k s"
  and renders_sql_kw: "s \<in> set sql_fragments \<Longrightarrow> renders L t k k s"
  by (simp_all add: renders_kw)

lemmas renders_intros = renders_lit renders_sql renders_ident renders_table renders_udt renders_stmt_kw renders_sql_kw

lemma clause_renders:
  "renders L t k k' body \<Longrightarrow> kw \<in> set statement_fragments \<Longrightarrow> renders L t k k' (clause kw body)"
  unfolding clause_def by (cases "body = []") (simp_all add: renders_lit)

lemma cast_renders:
  assumes "c \<in> set (tbl_Columns t)"
  shows "renders L t k k (columnCastExpression L c)"
proof -
  note id = renders_ident [OF assms]
  have "renders L t k k (''to_jsonb('' @ quoteIdent L (col_Name c) @ '') AS '' @ quoteIdent L (col_Name c))"
    by (intro renders_sql renders_append [OF id] renders_lit id fragment_mems fragment_stmts)
  moreover have "renders L t k k (quoteIdent L (col_Name c) @ ''::TEXT AS '' @ quoteIdent L (col_Name c))"
    by (intro renders_append [OF id] renders_lit id fragment_stmts)
  ultimately show ?thesis
    unfolding columnCastExpression_def Let_def using id by presburger
qed

lemma columns_renders: "renders L t k k (Join (map (columnCastExpression L) (tbl_Columns t)) '', '')"
  by (rule renders_Join_same) (auto intro: cast_renders renders_stmt_kw)

lemma selectList_renders: "renders L t k k (selectList L t sel)"
proof (cases "sel = [] \<and> tbl_Columns t = []")
  case True
  then show ?thesis
    unfolding selectList_def using renders_stmt_kw [OF fragment_stmts(3)] by presburger
next
  case False
  then show ?thesis
    unfolding selectList_def Let_def if_not_P [OF False]
    by (intro renders_Join_same)
      (auto intro: cast_renders renders_stmt_kw split: if_splits option.splits dest: findColumn_Some findColumn_Some [OF sym])
qed

lemma returning_renders: "renders L t k k (returning L t h)"
  unfolding returning_def returningList_def
  using renders_lit [OF fragment_stmts(19) columns_renders] renders_empty by presburger

lemma bound_clause_renders:
  assumes "bound_clause kw n args = (s, args')" and "kw \<in> set statement_fragments"
  shows "renders L t (length args) (length args') s"
proof (cases "n > 0")
  case True
  then have s: "s = kw @ ''$'' @ itoa_nat (Suc (length args))" and a: "args' = args @ [VInt n]"
    using assms(1) by (auto simp: bound_clause_def add_def)
  show ?thesis
    unfolding s using renders_lit [OF assms(2) renders_param] a by auto
next
  case False
  then show ?thesis using assms(1) by (auto simp: bound_clause_def renders_empty)
qed

lemma renders_Join_Cons:
  assumes "renders L t k k1 x" and "renders L t k1 k2 (Join xs '', '')" and "xs = [] \<Longrightarrow> k1 = k2"
  shows "renders L t k k2 (Join (x # xs) '', '')"
proof (cases "xs = []")
  case False
  then show ?thesis
    unfolding Join_Cons if_not_P [OF False]
    by (intro renders_append [OF assms(1)] renders_lit [OF fragment_stmts(4) assms(2)])
qed (use assms in auto)

lemma order_table_fragments:
  "map_of orderDirections d = Some s \<Longrightarrow> s \<in> set statement_fragments"
  "map_of nullsPositions d = Some s \<Longrightarrow> s \<in> set statement_fragments"
  by (auto simp: orderDirections_def nullsPositions_def statement_fragments_def split: if_splits)

lemma order_expr_renders:
  assumes "c \<in> set (tbl_Columns t)"
    and "(if sim \<noteq> [] then (case add (VStr sim) args of (ph, a) \<Rightarrow>
            (''similarity('' @ quoteIdent L (col_Name c) @ '', '' @ ph @ '')'', a))
          else (quoteIdent L (col_Name c), args)) = (expr, args1)"
  shows "renders L t (length args) (length args1) expr"
proof (cases "sim = []")
  case False
  note id = renders_ident [OF assms(1)]
  have e: "expr = ''similarity('' @ quoteIdent L (col_Name c) @ '', '' @ (''$'' @ itoa_nat (Suc (length args))) @ '')''"
      "length args1 = Suc (length args)"
    using assms(2) False by (auto simp: add_def)
  show ?thesis
    unfolding e by (intro renders_lit renders_append [OF id] renders_append [OF renders_param] renders_sql_kw
        fragment_mems fragment_stmts)
qed (use assms(2) renders_ident [OF assms(1)] in auto)

lemma order_clauses_renders:
  "order_clauses L t ps args = Inr (cs, args') \<Longrightarrow>
     renders L t (length args) (length args') (Join cs '', '') \<and> length cs = length ps
     \<and> (ps = [] \<longrightarrow> args' = args)"
proof (induction ps arbitrary: args cs args')
  case Nil
  then show ?case by (auto simp: renders_empty)
next
  case (Cons p ps)
  obtain col where col: "findColumn t (op_Column p) = Some col"
    using Cons.prems by (cases "findColumn t (op_Column p)") auto
  obtain dir nulls where dn: "map_of orderDirections (ToLower (op_Direction p)) = Some dir"
      "map_of nullsPositions (ToLower (op_NullsPosition p)) = Some nulls"
    using Cons.prems col by (auto split: option.splits)
  obtain expr args1 where e: "(if op_Similarity p \<noteq> [] then (case add (VStr (op_Similarity p)) args of (ph, a) \<Rightarrow>
            (''similarity('' @ quoteIdent L (col_Name col) @ '', '' @ ph @ '')'', a))
          else (quoteIdent L (col_Name col), args)) = (expr, args1)" by force
  obtain cs1 where r: "order_clauses L t ps args1 = Inr (cs1, args')"
      and cs: "cs = (expr @ '' '' @ dir @ '' '' @ nulls) # cs1"
    using Cons.prems unfolding order_clauses.simps col option.case dn prod.case e by (auto split: sum.splits)
  have one: "renders L t (length args) (length args1) (expr @ '' '' @ dir @ '' '' @ nulls)"
    by (intro renders_append [OF order_expr_renders [OF _ e]] renders_sql renders_lit renders_stmt_kw
        order_table_fragments(1) [OF dn(1)] order_table_fragments(2) [OF dn(2)] fragment_mems)
      (use findColumn_Some [OF col] in blast)
  have ih: "renders L t (length args1) (length args') (Join cs1 '', '')" "length cs1 = length ps"
      "cs1 = [] \<Longrightarrow> length args1 = length args'"
    using Cons.IH [OF r] by auto
  show ?case
    using renders_Join_Cons [OF one ih(1,3)] ih(2) unfolding cs by auto
qed

lemma order_by_renders:
  "buildOrderByClause L t ps args = Inr (sql, args') \<Longrightarrow> renders L t (length args) (length args') sql"
  by (auto simp: buildOrderByClause_def split: sum.splits dest: order_clauses_renders)

lemma buildSelectQuery_renders:
  assumes "buildSelectQuery L t qp = Inr (sql, args)"
  shows "renders L t 0 (length args) sql"
proof -
  obtain w a1 where w: "buildWhereClause L t (qp_Filters qp) [] = Inr (w, a1)"
    using assms by (auto simp: buildSelectQuery_def split: sum.splits)
  obtain ob a2 where ob: "buildOrderByClause L t (qp_Order qp) a1 = Inr (ob, a2)"
    using assms w by (auto simp: buildSelectQuery_def split: sum.splits)
  obtain li a3 where li: "bound_clause '' LIMIT '' (qp_Limit qp) a2 = (li, a3)" by force
  obtain off a4 where off: "bound_clause '' OFFSET '' (qp_Offset qp) a3 = (off, a4)" by force
  have s: "sql = ''SELECT '' @ selectList L t (qp_Select qp) @ '' FROM '' @ lib_sanitize L [tbl_Schema t, tbl_Name t]
      @ clause '' WHERE '' w @ clause '' ORDER BY '' ob @ li @ off" and a: "args = a4"
    using assms unfolding buildSelectQuery_def w ob li off sum.case prod.case by (simp_all only: sum.inject prod.inject)
  note w' = clause_renders [OF buildWhereClause_renders [OF w, simplified] fragment_stmts(5)]
  note ob' = clause_renders [OF order_by_renders [OF ob] fragment_stmts(6)]
  show ?thesis
    unfolding s a
    by (intro renders_lit renders_append [OF selectList_renders] renders_append [OF renders_table]
        renders_append [OF w'] renders_append [OF ob'] renders_append [OF bound_clause_renders [OF li]]
        bound_clause_renders [OF off] fragment_stmts)
qed

lemma value_renders:
  assumes "columnValueExpression L c v args = Inr (e, args')" and "c \<in> set (tbl_Columns t)"
  shows "renders L t (length args) (length args') e"
proof -
  consider "(e, args') = add v args"
    | enc where "lib_marshal L v = Some enc" "args' = args @ [VStr enc]"
        "e = ''jsonb_populate_record(NULL::'' @ lib_sanitize L [col_UDTSchema c, col_UDTName c] @ '', ''
           @ (''$'' @ itoa_nat (Suc (length args))) @ ''::jsonb)''"
    using assms(1) by (auto simp: columnValueExpression_def add_def split: if_splits any.splits option.splits)
  then show ?thesis
  proof cases
    case 1
    then show ?thesis using renders_param [of L t "length args"] by (simp add: add_def)
  next
    case 2
    have "length args' = Suc (length args)" using 2(2) by simp
    then show ?thesis
      unfolding 2(3)
      using renders_lit [OF fragment_stmts(20) renders_append [OF renders_udt [OF assms(2)]
            renders_lit [OF fragment_stmts(4) renders_append [OF renders_param renders_stmt_kw [OF fragment_stmts(21)]]]]]
      by metis
  qed
qed

lemma data_columns_renders:
  "data_columns L t data keys args = Inr (cvs, args') \<Longrightarrow>
     (\<forall>k. \<forall>cv \<in> set cvs. renders L t k k (fst cv))
     \<and> renders L t (length args) (length args') (Join (map snd cvs) '', '')
     \<and> renders L t (length args) (length args') (Join (map (\<lambda>(c, v). c @ '' = '' @ v) cvs) '', '')
     \<and> (cvs = [] \<longrightarrow> args' = args)"
proof (induction keys arbitrary: args cvs args')
  case Nil
  then show ?case by (auto simp: renders_empty)
next
  case (Cons key keys)
  obtain col where col: "findColumn t key = Some col"
    using Cons.prems by (cases "findColumn t key") auto
  obtain v args1 where v: "columnValueExpression L col (case map_of data key of None \<Rightarrow> VNil | Some v \<Rightarrow> v) args = Inr (v, args1)"
    using Cons.prems col by (auto split: sum.splits)
  obtain cvs1 where r: "data_columns L t data keys args1 = Inr (cvs1, args')"
      and cvs: "cvs = (quoteIdent L (col_Name col), v) # cvs1"
    using Cons.prems col v by (auto split: sum.splits)
  have c: "col \<in> set (tbl_Columns t)" using findColumn_Some [OF col] by blast
  note one = value_renders [OF v c]
  have two: "renders L t (length args) (length args1) (quoteIdent L (col_Name col) @ '' = '' @ v)"
    by (intro renders_append [OF renders_ident [OF c]] renders_lit [OF fragment_stmts(17) one])
  have ih: "renders L t (length args1) (length args') (Join (map snd cvs1) '', '')"
      "renders L t (length args1) (length args') (Join (map (\<lambda>(c, v). c @ '' = '' @ v) cvs1) '', '')"
      "\<forall>k. \<forall>cv \<in> set cvs1. renders L t k k (fst cv)" "cvs1 = [] \<Longrightarrow> length args1 = length args'"
    using Cons.IH [OF r] by auto
  have "renders L t (length args) (length args') (Join (v # map snd cvs1) '', '')"
    by (rule renders_Join_Cons [OF one ih(1)]) (use ih(4) in simp)
  moreover have "renders L t (length args) (length args')
      (Join ((quoteIdent L (col_Name col) @ '' = '' @ v) # map (\<lambda>(c, v). c @ '' = '' @ v) cvs1) '', '')"
    by (rule renders_Join_Cons [OF two ih(2)]) (use ih(4) in simp)
  ultimately show ?case
    using ih(3) renders_ident [OF c] unfolding cvs by simp
qed

lemma buildInsertQuery_renders:
  assumes "buildInsertQuery L t data h = Inr (sql, args)"
  shows "renders L t 0 (length args) sql"
proof -
  obtain cvs where d: "data_columns L t data (sorted_keys data) [] = Inr (cvs, args)"
      and s: "sql = ''INSERT INTO '' @ lib_sanitize L [tbl_Schema t, tbl_Name t] @ '' ('' @ Join (map fst cvs) '', ''
        @ '') VALUES ('' @ Join (map snd cvs) '', '' @ '')'' @ returning L t h"
    using assms by (auto simp: buildInsertQuery_def split: sum.splits if_splits)
  have cols: "renders L t 0 0 (Join (map fst cvs) '', '')"
    using data_columns_renders [OF d] by (intro renders_Join_same renders_stmt_kw fragment_stmts) auto
  have vals: "renders L t 0 (length args) (Join (map snd cvs) '', '')"
    using data_columns_renders [OF d] by auto
  show ?thesis
    unfolding s by (intro renders_lit renders_append [OF renders_table] renders_append [OF cols] renders_append [OF vals]
        renders_sql returning_renders fragment_stmts fragment_mems)
qed

lemma buildUpdateQuery_renders:
  assumes "buildUpdateQuery L t data qp h = Inr (sql, args)"
  shows "renders L t 0 (length args) sql"
proof -
  obtain cvs a1 w where d: "data_columns L t data (sorted_keys data) [] = Inr (cvs, a1)"
      and w: "buildWhereClause L t (qp_Filters qp) a1 = Inr (w, args)"
      and s: "sql = ''UPDATE '' @ lib_sanitize L [tbl_Schema t, tbl_Name t] @ '' SET ''
        @ Join (map (\<lambda>(c, v). c @ '' = '' @ v) cvs) '', '' @ clause '' WHERE '' w @ returning L t h"
    using assms by (auto simp: buildUpdateQuery_def split: sum.splits if_splits)
  have sets: "renders L t 0 (length a1) (Join (map (\<lambda>(c, v). c @ '' = '' @ v) cvs) '', '')"
    using data_columns_renders [OF d] by auto
  show ?thesis
    unfolding s by (intro renders_lit renders_append [OF renders_table] renders_append [OF sets]
        renders_append [OF clause_renders [OF buildWhereClause_renders [OF w] fragment_stmts(5)]]
        returning_renders fragment_stmts)
qed

lemma buildDeleteQuery_renders:
  assumes "buildDeleteQuery L t qp h = Inr (sql, args)"
  shows "renders L t 0 (length args) sql"
proof -
  obtain w where w: "buildWhereClause L t (qp_Filters qp) [] = Inr (w, args)"
      and s: "sql = ''DELETE FROM '' @ lib_sanitize L [tbl_Schema t, tbl_Name t] @ clause '' WHERE '' w @ returning L t h"
    using assms by (auto simp: buildDeleteQuery_def split: sum.splits)
  show ?thesis
    unfolding s using buildWhereClause_renders [OF w, unfolded list.size]
    by (rule renders_lit [OF fragment_stmts(18) renders_append [OF renders_table
            renders_append [OF clause_renders [OF _ fragment_stmts(5)] returning_renders]]])
qed

end
