(* ===== verification/Jq.thy ===== *)
theory Jq
  imports GoValue
begin

text \<open>
  Paths into decoded JSON (\<open>pkg/util/jq.go\<close>), and the theorem that \<open>Jq\<close> evaluates a printed path
  the way its segments say.
\<close>

datatype jqError =
    InvalidInput
  | NoWildcard
  | ExpectedMap string
  | KeyNotFound string
  | MalformedArray string
  | ExpectedArray string
  | InvalidIndex string string

text \<open>The scan of \<open>Jq\<close> over the path: the non-empty pieces between dots.\<close>

definition jq_keys :: "string \<Rightarrow> string list" where
  "jq_keys path = filter (\<lambda>k. k \<noteq> []) (Split path (CHR ''.''))"

text \<open>\<open>splitKeyAndIndex\<close>: the first \<open>[\<close> and the first \<open>]\<close> of the key.\<close>

definition IndexByte :: "string \<Rightarrow> char \<Rightarrow> nat option" where
  "IndexByte s c = (if c \<in> set s then Some (length (takeWhile (\<lambda>x. x \<noteq> c) s)) else None)"

definition splitKeyAndIndex :: "string \<Rightarrow> (jqError, string \<times> string) result" where
  "splitKeyAndIndex key =
     (case (IndexByte key (CHR ''[''), IndexByte key (CHR '']'')) of
        (Some start, Some end) \<Rightarrow> (if end < start then Inl (MalformedArray key)
            else Inr (take start key, slice key (start + 1) end))
      | _ \<Rightarrow> Inl (MalformedArray key))"

text \<open>
  The results of \<open>handleWildcard\<close>, given how an element is evaluated: elements that are not maps and
  elements on which the path fails are skipped, slices are flattened.
\<close>

definition wildcard_item :: "(any \<Rightarrow> (jqError, any) result) \<Rightarrow> any \<Rightarrow> any list" where
  "wildcard_item f item = (case item of
       VMap m \<Rightarrow> (case f item of Inl e \<Rightarrow> [] | Inr (VSlice vs) \<Rightarrow> vs | Inr v \<Rightarrow> [v])
     | _ \<Rightarrow> [])"

definition handleWildcard :: "(any \<Rightarrow> (jqError, any) result) \<Rightarrow> any list \<Rightarrow> (jqError, any) result" where
  "handleWildcard f array =
     (let results = concat (map (wildcard_item f) array) in
      if results = [] then Inl NoWildcard else Inr (VSlice results))"

text \<open>
  The loop over the keys. \<open>handleWildcard\<close> joins the remaining keys and calls \<open>Jq\<close> on the result,
  which splits them again; \<open>jq_keys_Join\<close> shows that this gives back the same keys, so the loop goes
  on with them directly.
\<close>

fun jq_loop :: "any \<Rightarrow> string list \<Rightarrow> (jqError, any) result" where
  "jq_loop current [] = Inr current"
| "jq_loop current (key # keys) =
     (case current of VMap m \<Rightarrow>
        (if CHR ''['' \<notin> set key then
           (case map_of m key of None \<Rightarrow> Inl (KeyNotFound key) | Some v \<Rightarrow> jq_loop v keys)
         else (case splitKeyAndIndex key of Inl e \<Rightarrow> Inl e
           | Inr (arrayKey, indexStr) \<Rightarrow>
             (case map_of m arrayKey of
                Some (VSlice array) \<Rightarrow>
                  (if indexStr = ''*'' \<or> indexStr = [] then
                     (if keys = [] then Inr (VSlice array) else handleWildcard (\<lambda>item. jq_loop item keys) array)
                   else (case Atoi indexStr of
                       Some i \<Rightarrow> (if 0 \<le> i \<and> i < int (length array) then jq_loop (array ! nat i) keys
                                  else Inl (InvalidIndex indexStr arrayKey))
                     | None \<Rightarrow> Inl (InvalidIndex indexStr arrayKey)))
              | _ \<Rightarrow> Inl (ExpectedArray arrayKey))))
      | _ \<Rightarrow> Inl (ExpectedMap key))"

definition Jq :: "gomap option \<Rightarrow> string \<Rightarrow> (jqError, any) result" where
  "Jq input path = (case input of None \<Rightarrow> Inl InvalidInput
     | Some m \<Rightarrow> (if path = [] then Inl InvalidInput
         else jq_loop (VMap m) (jq_keys (if hd path = CHR ''.'' then tl path else path))))"

section \<open>Rejoining the keys changes nothing\<close>

lemma jq_keys_Join:
  assumes "keys \<noteq> []" and "\<forall>k \<in> set keys. k \<noteq> [] \<and> CHR ''.'' \<notin> set k"
  shows "jq_keys (Join keys ''.'') = keys"
proof -
  have "Split (Join keys ''.'') (CHR ''.'') = keys"
    using Split_Join [of keys "CHR ''.''"] assms by auto
  moreover have "filter (\<lambda>k. k \<noteq> []) keys = keys"
    using assms(2) by (simp add: filter_True)
  ultimately show ?thesis by (simp add: jq_keys_def)
qed

lemma jq_keys_good: "k \<in> set (jq_keys path) \<Longrightarrow> k \<noteq> [] \<and> CHR ''.'' \<notin> set k"
  by (auto simp: jq_keys_def dest: Split_no_sep)

lemma Join_hd: "keys \<noteq> [] \<Longrightarrow> \<forall>k \<in> set keys. k \<noteq> [] \<and> CHR ''.'' \<notin> set k \<Longrightarrow>
    Join keys ''.'' \<noteq> [] \<and> hd (Join keys ''.'') \<noteq> CHR ''.''"
  by (cases keys) (auto simp: Join_Cons neq_Nil_conv)

text \<open>What \<open>handleWildcard\<close> computes for one element of the array is the loop on the remaining keys.\<close>

lemma Jq_Join:
  "keys \<noteq> [] \<Longrightarrow> \<forall>k \<in> set keys. k \<noteq> [] \<and> CHR ''.'' \<notin> set k \<Longrightarrow> Jq (Some m) (Join keys ''.'') = jq_loop (VMap m) keys"
  using Join_hd [of keys] by (simp add: Jq_def jq_keys_Join)

section \<open>What a path means\<close>

text \<open>A segment is a field, an element of an array in a field, or every element of it.\<close>

datatype seg = Field string | Elem string nat | Each string

fun seg_eval :: "seg list \<Rightarrow> any \<Rightarrow> any option" where
  "seg_eval [] v = Some v"
| "seg_eval (Field k # ss) v = (case v of VMap m \<Rightarrow> Option.bind (map_of m k) (seg_eval ss) | _ \<Rightarrow> None)"
| "seg_eval (Elem k i # ss) v = (case v of VMap m \<Rightarrow>
       (case map_of m k of Some (VSlice xs) \<Rightarrow> (if i < length xs then seg_eval ss (xs ! i) else None) | _ \<Rightarrow> None)
     | _ \<Rightarrow> None)"
| "seg_eval (Each k # ss) v = (case v of VMap m \<Rightarrow>
       (case map_of m k of Some (VSlice xs) \<Rightarrow>
          (if ss = [] then Some (VSlice xs)
           else (let rs = concat (map (\<lambda>x. case x of VMap _ \<Rightarrow>
                      (case seg_eval ss x of None \<Rightarrow> [] | Some (VSlice vs) \<Rightarrow> vs | Some w \<Rightarrow> [w]) | _ \<Rightarrow> []) xs)
                 in if rs = [] then None else Some (VSlice rs)))
        | _ \<Rightarrow> None)
     | _ \<Rightarrow> None)"

fun seg_print :: "seg \<Rightarrow> string" where
  "seg_print (Field k) = k"
| "seg_print (Elem k i) = k @ ''['' @ itoa_nat i @ '']''"
| "seg_print (Each k) = k @ ''[*]''"

fun seg_name :: "seg \<Rightarrow> string" where
  "seg_name (Field k) = k" | "seg_name (Elem k i) = k" | "seg_name (Each k) = k"

text \<open>Names without dots and brackets; an index fits an \<open>int\<close>.\<close>

definition seg_ok :: "seg \<Rightarrow> bool" where
  "seg_ok s = (seg_name s \<noteq> [] \<and> set (seg_name s) \<inter> {CHR ''.'', CHR ''['', CHR '']''} = {}
     \<and> (case s of Elem k i \<Rightarrow> i < 2 ^ 63 | _ \<Rightarrow> True))"

definition to_option :: "('e, 'a) result \<Rightarrow> 'a option" where
  "to_option r = (case r of Inl e \<Rightarrow> None | Inr x \<Rightarrow> Some x)"

lemma to_option_simps [simp]: "to_option (Inl e) = None" "to_option (Inr x) = Some x"
  by (simp_all add: to_option_def)

lemma digits_no_bracket: "CHR '']'' \<notin> set (itoa_nat i)" "CHR ''['' \<notin> set (itoa_nat i)" "CHR ''.'' \<notin> set (itoa_nat i)"
  using itoa_nat_digits [of i] by (auto simp: list_all_iff isASCIIDigit_def)

lemma splitKeyAndIndex_print:
  assumes "CHR ''['' \<notin> set k" "CHR '']'' \<notin> set k" "CHR '']'' \<notin> set x" "CHR ''['' \<notin> set x"
  shows "splitKeyAndIndex (k @ ''['' @ x @ '']'') = Inr (k, x)"
proof -
  have "takeWhile (\<lambda>c. c \<noteq> CHR ''['') (k @ CHR ''['' # x @ '']'') = k"
    by (rule takeWhile_append_stop) (use assms in auto)
  moreover have "takeWhile (\<lambda>c. c \<noteq> CHR '']'') ((k @ CHR ''['' # x) @ '']'') = k @ CHR ''['' # x"
    by (rule takeWhile_append_stop) (use assms in auto)
  ultimately show ?thesis
    by (simp add: splitKeyAndIndex_def IndexByte_def slice_def)
qed

lemma jq_loop_eval:
  "list_all seg_ok ss \<Longrightarrow> to_option (jq_loop v (map seg_print ss)) = seg_eval ss v"
proof (induction ss arbitrary: v)
  case (Cons s ss)
  note IH = Cons.IH
  have oks: "list_all seg_ok ss" "seg_ok s" using Cons.prems by auto
  then have ok: "list_all seg_ok ss" "CHR ''['' \<notin> set (seg_name s)" "CHR '']'' \<notin> set (seg_name s)"
    by (auto simp: seg_ok_def [of s])
  show ?case
  proof (cases s)
    case (Field k)
    with ok IH show ?thesis by (auto split: any.split option.split)
  next
    case (Elem k i)
    then have sp: "splitKeyAndIndex (k @ ''['' @ itoa_nat i @ '']'') = Inr (k, itoa_nat i)"
      using ok digits_no_bracket by (intro splitKeyAndIndex_print) auto
    have i: "Atoi (itoa_nat i) = Some (int i)" using Cons.prems Elem by (intro Atoi_itoa) (simp add: seg_ok_def)
    have ns: "itoa_nat i \<noteq> ''*''" using itoa_nat_digits [of i] by (auto simp: isASCIIDigit_def)
    show ?thesis
      using sp i ns IH ok Elem by (auto split: any.split option.split)
  next
    case (Each k)
    have sp: "splitKeyAndIndex (k @ ''['' @ ''*'' @ '']'') = Inr (k, ''*'')"
      using ok Each by (intro splitKeyAndIndex_print) auto
    have it: "wildcard_item (\<lambda>item. jq_loop item (map seg_print ss))
        = (\<lambda>x. case x of VMap _ \<Rightarrow> (case seg_eval ss x of None \<Rightarrow> [] | Some (VSlice vs) \<Rightarrow> vs | Some w \<Rightarrow> [w]) | _ \<Rightarrow> [])"
      unfolding IH [OF ok(1), symmetric]
      by (rule ext) (auto simp: wildcard_item_def to_option_def split: any.split sum.split)
    show ?thesis
      using sp Each by (auto simp: handleWildcard_def it Let_def split: any.split option.split)
  qed
qed simp

lemma seg_print_key: "seg_ok s \<Longrightarrow> seg_print s \<noteq> [] \<and> CHR ''.'' \<notin> set (seg_print s)"
  using digits_no_bracket by (cases s) (auto simp: seg_ok_def)

text \<open>
  C21. \<open>Jq\<close> evaluates a path the way its segments say: a field is looked up, \<open>name[i]\<close> is the i-th
  element when there is one, \<open>name[*]\<close> collects the results of the rest of the path over the elements
  that are maps, flattening slices; it fails exactly when the evaluation has no value.
\<close>

theorem Jq_evaluates:
  assumes "segs \<noteq> []" and "list_all seg_ok segs"
  shows "to_option (Jq (Some m) (Join (map seg_print segs) ''.'')) = seg_eval segs (VMap m)"
proof -
  have "\<forall>k \<in> set (map seg_print segs). k \<noteq> [] \<and> CHR ''.'' \<notin> set k"
    using assms(2) seg_print_key by (auto simp: list_all_iff)
  with assms(1) have "Jq (Some m) (Join (map seg_print segs) ''.'') = jq_loop (VMap m) (map seg_print segs)"
    by (intro Jq_Join) auto
  then show ?thesis using jq_loop_eval [OF assms(2)] by simp
qed

theorem Jq_evaluates_witness:
  "to_option (Jq (Some [(''a'', VSlice [VMap [(''b'', VInt 1)], VNil, VMap [(''b'', VSlice [VInt 2])]])]) ''a[*].b'')
     = Some (VSlice [VInt 1, VInt 2])"
  using Jq_evaluates [of "[Each ''a'', Field ''b'']" "[(''a'', VSlice [VMap [(''b'', VInt 1)], VNil, VMap [(''b'', VSlice [VInt 2])]])]"]
  by (simp add: seg_ok_def)

end
