(* ===== verification/Http.thy ===== *)
theory Http
  imports Query Jq
begin

text \<open>
  Requests, responses and the database connection of a request (\<open>pkg/httputil/context.go\<close>,
  \<open>pkg/httputil/postgres.go\<close>). A handler is a function from a request and a world to a world: the
  world holds the response written so far and the trace of what was done to database connections.
  What the database, the JSON decoder and the environment answer are parameters.
\<close>

section \<open>Requests and contexts\<close>

text \<open>
  The values the middlewares store in the request context, one field per context key; \<open>None\<close> is an
  absent value or one of another type. A connection is named by its number in the order of acquisition;
  of the logger in the context only its presence matters.
\<close>

record Context =
  cx_RequestID :: "string option"
  cx_OIDCUser :: "gomap option"
  cx_BasicAuth :: "string option"
  cx_PgConn :: "nat option"
  cx_OIDCRole :: "string option"
  cx_LogEntry :: bool

record Request =
  rq_Method :: string
  rq_Path :: string
  rq_RawQuery :: string
  rq_Header :: Values
  rq_Body :: string
  rq_ContentLength :: int
  rq_Ctx :: Context

definition OIDCUser :: "Request \<Rightarrow> gomap option" where
  "OIDCUser r = cx_OIDCUser (rq_Ctx r)"

definition BasicAuthUser :: "Request \<Rightarrow> string \<times> bool" where
  "BasicAuthUser r = (case cx_BasicAuth (rq_Ctx r) of None \<Rightarrow> ([], False) | Some u \<Rightarrow> (u, True))"

section \<open>Responses and the world\<close>

record Response =
  rs_Header :: Values
  rs_Status :: "nat option"
  rs_Body :: string

datatype effect =
    Acquire nat
  | Exec nat string
  | QueryRow nat string argList
  | QueryRows nat string argList
  | Release nat

text \<open>
  Besides the response and the trace, the world has the status codes that were passed to \<open>WriteHeader\<close> (which a
  response recorder sees even when the response keeps an earlier one) and the records that were logged.
\<close>

record World =
  w_resp :: Response
  w_trace :: "effect list"
  w_codes :: "nat list"
  w_log :: "(int \<times> (string \<times> string) list) list"

type_synonym handler = "Request \<Rightarrow> World \<Rightarrow> World"

definition fresh_world :: World where
  "fresh_world = \<lparr>w_resp = \<lparr>rs_Header = [], rs_Status = None, rs_Body = []\<rparr>, w_trace = [], w_codes = [], w_log = []\<rparr>"

definition emit :: "effect \<Rightarrow> World \<Rightarrow> World" where
  "emit e w = w\<lparr>w_trace := w_trace w @ [e]\<rparr>"

text \<open>\<open>w.Header().Set\<close> and \<open>Add\<close>; \<open>WriteHeader\<close> counts once, and \<open>Write\<close> implies status 200.\<close>

definition header_set :: "string \<Rightarrow> string \<Rightarrow> World \<Rightarrow> World" where
  "header_set k v w = w\<lparr>w_resp := (w_resp w)\<lparr>rs_Header := map_put k [v] (rs_Header (w_resp w))\<rparr>\<rparr>"

definition header_add :: "string \<Rightarrow> string \<Rightarrow> World \<Rightarrow> World" where
  "header_add k v w = w\<lparr>w_resp := (w_resp w)\<lparr>rs_Header := add_value (k, v) (rs_Header (w_resp w))\<rparr>\<rparr>"

definition set_status :: "nat \<Rightarrow> World \<Rightarrow> World" where
  "set_status code w = (case rs_Status (w_resp w) of None \<Rightarrow> w\<lparr>w_resp := (w_resp w)\<lparr>rs_Status := Some code\<rparr>\<rparr> | Some _ \<Rightarrow> w)"

definition write_header :: "nat \<Rightarrow> World \<Rightarrow> World" where
  "write_header code w = (set_status code w)\<lparr>w_codes := w_codes w @ [code]\<rparr>"

definition write_body :: "string \<Rightarrow> World \<Rightarrow> World" where
  "write_body b w = (let w' = set_status 200 w in w'\<lparr>w_resp := (w_resp w')\<lparr>rs_Body := rs_Body (w_resp w') @ b\<rparr>\<rparr>)"

text \<open>\<open>http.Error\<close> of the standard library.\<close>

definition http_Error :: "string \<Rightarrow> nat \<Rightarrow> World \<Rightarrow> World" where
  "http_Error msg code w = write_body (msg @ [CHR 0x0A]) (write_header code
     (header_set ''X-Content-Type-Options'' ''nosniff'' (header_set ''Content-Type'' ''text/plain; charset=utf-8'' w)))"

definition ErrorResponse :: "nat \<Rightarrow> string \<Rightarrow> any" where
  "ErrorResponse code msg = VMap [(''code'', VInt (int code)), (''message'', VStr msg)]"

definition Error :: "golib \<Rightarrow> nat \<Rightarrow> string \<Rightarrow> World \<Rightarrow> World" where
  "Error L statusCode message w =
     (case lib_marshal L (ErrorResponse statusCode message) of
        None \<Rightarrow> http_Error message statusCode w
      | Some b \<Rightarrow> write_body b (write_header statusCode (header_set ''Content-Type'' ''application/json'' w)))"

definition JSON :: "golib \<Rightarrow> nat \<Rightarrow> any \<Rightarrow> World \<Rightarrow> World" where
  "JSON L statusCode v w =
     (case lib_marshal L v of
        None \<Rightarrow> Error L 500 ''failed to marshal response'' w
      | Some b \<Rightarrow> write_body b (write_header statusCode (header_set ''Content-Type'' ''application/json'' w)))"

definition writeBody :: "nat \<Rightarrow> string \<Rightarrow> string \<Rightarrow> World \<Rightarrow> World" where
  "writeBody statusCode contentType body w =
     write_body body (write_header statusCode (header_set ''Content-Type'' contentType w))"

definition Text :: "nat \<Rightarrow> string \<Rightarrow> World \<Rightarrow> World" where
  "Text statusCode t w = writeBody statusCode ''text/plain; charset=utf-8'' t w"

definition HTML :: "nat \<Rightarrow> string \<Rightarrow> World \<Rightarrow> World" where
  "HTML statusCode html w = writeBody statusCode ''text/html; charset=utf-8'' html w"

definition Blob :: "nat \<Rightarrow> string \<Rightarrow> string \<Rightarrow> World \<Rightarrow> World" where
  "Blob statusCode contentType data w = writeBody statusCode contentType data w"

section \<open>The outside\<close>

text \<open>
  \<open>ext_exec\<close>, \<open>ext_count\<close>, \<open>ext_query\<close>, \<open>ext_acquire\<close>: what the database answers, given everything that
  happened before; \<open>ext_collect\<close>: \<open>pgx.CollectRows(rows, pgx.RowToMap)\<close>; \<open>ext_decode\<close>: the JSON decoder on
  a body cut off after a number of bytes (\<open>Inl True\<close> when the limit was hit, \<open>Inl False\<close> on other
  errors); \<open>ext_pgerror\<close>: the \<open>Error\<close> method of \<open>pgconn.PgError\<close>; \<open>ext_quote\<close>, \<open>ext_quoteRune\<close>,
  \<open>ext_marshalError\<close>: texts that \<open>fmt\<close> and \<open>encoding/json\<close> produce in error messages; \<open>ext_AnonRole\<close> and
  \<open>ext_JwtClaims\<close>: the two environment variables.
\<close>

record PgError =
  pe_Code :: string
  pe_Message :: string

datatype execResult = ExecOk | ExecPgError PgError | ExecOther

record Ext =
  ext_acquire :: "effect list \<Rightarrow> bool"
  ext_exec :: "effect list \<Rightarrow> string \<Rightarrow> execResult"
  ext_count :: "effect list \<Rightarrow> string \<Rightarrow> argList \<Rightarrow> (string, int) result"
  ext_query :: "effect list \<Rightarrow> string \<Rightarrow> argList \<Rightarrow> (string, Rows) result"
  ext_collect :: "Rows \<Rightarrow> (string, gomap list) result"
  ext_decode :: "nat \<Rightarrow> string \<Rightarrow> (bool, gomap) result"
  ext_pgerror :: "PgError \<Rightarrow> string"
  ext_quote :: "string \<Rightarrow> string"
  ext_quoteRune :: "nat \<Rightarrow> string"
  ext_marshalError :: string
  ext_AnonRole :: string
  ext_JwtClaims :: "string option"

text \<open>\<open>Bind\<close>: a body that is too large and a body that is not JSON are different errors.\<close>

definition defaultMaxBodyBytes :: nat where
  "defaultMaxBodyBytes = 1048576"

definition Bind :: "Ext \<Rightarrow> nat option \<Rightarrow> Request \<Rightarrow> (string, gomap) result" where
  "Bind X maxBytes r =
     (let limit = (case maxBytes of None \<Rightarrow> defaultMaxBodyBytes | Some n \<Rightarrow> n) in
      case ext_decode X limit (rq_Body r) of
        Inl True \<Rightarrow> Inl (''request body exceeds '' @ itoa_nat limit @ '' bytes'')
      | Inl False \<Rightarrow> Inl ''decode JSON''
      | Inr m \<Rightarrow> Inr m)"

section \<open>The connection of a request\<close>

text \<open>The user of a request: the OIDC claims, or a minimal object for basic auth or for the anonymous role.\<close>

definition anon_user :: "Context \<Rightarrow> gomap option" where
  "anon_user cx = (case cx_OIDCRole cx of None \<Rightarrow> None
     | Some anonRole \<Rightarrow> if anonRole = [] then None else Some [(''sub'', VStr ''anon''), (''role'', VStr anonRole)])"

definition conn_user :: "Context \<Rightarrow> gomap option" where
  "conn_user cx = (case cx_OIDCUser cx of Some u \<Rightarrow> Some u
     | None \<Rightarrow> (case cx_BasicAuth cx of None \<Rightarrow> anon_user cx
         | Some basicUser \<Rightarrow> if basicUser \<noteq> [] then Some [(''sub'', VStr basicUser), (''username'', VStr basicUser)] else anon_user cx))"

definition Conn :: "Context \<Rightarrow> (PgError, gomap \<times> nat) result" where
  "Conn cx =
     (case conn_user cx of
        None \<Rightarrow> Inl \<lparr>pe_Code = ''28000'', pe_Message = ''User not found in context and anonymous role not configured''\<rparr>
      | Some user \<Rightarrow> (case cx_PgConn cx of
          None \<Rightarrow> Inl \<lparr>pe_Code = ''08003'', pe_Message = ''Failed to get connection from context''\<rparr>
        | Some c \<Rightarrow> Inr (user, c)))"

text \<open>The role a request runs as: the role claim, the basic-auth user, or the anonymous role.\<close>

definition fallback_role :: "Ext \<Rightarrow> Context \<Rightarrow> string option" where
  "fallback_role X cx =
     (let anon = (if ext_AnonRole X \<noteq> [] then Some (ext_AnonRole X) else None) in
      case cx_BasicAuth cx of None \<Rightarrow> anon | Some basicUser \<Rightarrow> if basicUser \<noteq> [] then Some basicUser else anon)"

definition request_role :: "Ext \<Rightarrow> Context \<Rightarrow> string option" where
  "request_role X cx = (case cx_OIDCRole cx of None \<Rightarrow> fallback_role X cx
     | Some roleVal \<Rightarrow> if roleVal \<noteq> [] then Some roleVal else fallback_role X cx)"

definition set_role_sql :: "Ext \<Rightarrow> string \<Rightarrow> string \<Rightarrow> string" where
  "set_role_sql X role claimsJSON =
     ''SET ROLE '' @ role @ '';''
     @ ''SET '' @ (case ext_JwtClaims X of None \<Rightarrow> ''request.jwt.claims'' | Some s \<Rightarrow> s)
     @ '' TO '' @ [CHR 0x27] @ ReplaceByte claimsJSON (CHR 0x27) [CHR 0x27, CHR 0x27] @ [CHR 0x27] @ '';''"

definition ConnWithRole :: "golib \<Rightarrow> Ext \<Rightarrow> Request \<Rightarrow> World \<Rightarrow> (PgError, gomap \<times> nat) result \<times> World" where
  "ConnWithRole L X r w =
     (case Conn (rq_Ctx r) of Inl e \<Rightarrow> (Inl e, w)
      | Inr (user, c) \<Rightarrow>
        (case request_role X (rq_Ctx r) of
           None \<Rightarrow> (Inl \<lparr>pe_Code = ''28000'', pe_Message = ''Role not found in context''\<rparr>, w)
         | Some role \<Rightarrow>
           (case lib_marshal L (VMap user) of
              None \<Rightarrow> (Inl \<lparr>pe_Code = ''28000'', pe_Message = ''Failed to marshal claims''\<rparr>, w)
            | Some claimsJSON \<Rightarrow>
              (let q = set_role_sql X role claimsJSON; w1 = emit (Exec c q) w in
               case ext_exec X (w_trace w) q of
                 ExecOk \<Rightarrow> (Inr (user, c), w1)
               | ExecPgError e \<Rightarrow> (Inl e, emit (Release c) w1)
               | ExecOther \<Rightarrow> (Inl \<lparr>pe_Code = ''P0000'', pe_Message = ''Failed to set role and claims''\<rparr>, emit (Release c) w1)))))"

lemma Conn_conn: "Conn cx = Inr (u, c) \<Longrightarrow> cx_PgConn cx = Some c"
  by (simp add: Conn_def split: option.splits)

section \<open>What the response functions leave alone\<close>

lemma trace_frame [frame, simp]:
  "w_trace (header_set k v w) = w_trace w" "w_trace (header_add k v w) = w_trace w"
  "w_trace (write_header n w) = w_trace w" "w_trace (write_body b w) = w_trace w"
  "w_trace (http_Error m n w) = w_trace w" "w_trace (Error L n m w) = w_trace w"
  "w_trace (JSON L n x w) = w_trace w" "w_trace (HTML n h w) = w_trace w"
  "w_trace (Text n h w) = w_trace w" "w_trace (Blob n ct h w) = w_trace w"
  by (auto simp: header_set_def header_add_def set_status_def write_header_def write_body_def http_Error_def Error_def JSON_def
      HTML_def Text_def Blob_def writeBody_def Let_def split: option.split)

lemma resp_frame [frame, simp]: "w_resp (emit e w) = w_resp w" "w_trace (emit e w) = w_trace w @ [e]"
  by (simp_all add: emit_def)

lemma status_simps [simp]:
  "rs_Status (w_resp (header_set k v w)) = rs_Status (w_resp w)"
  "rs_Status (w_resp (header_add k v w)) = rs_Status (w_resp w)"
  "rs_Status (w_resp (write_header n w)) = (case rs_Status (w_resp w) of None \<Rightarrow> Some n | Some m \<Rightarrow> Some m)"
  "rs_Status (w_resp (write_body b w)) = (case rs_Status (w_resp w) of None \<Rightarrow> Some 200 | Some m \<Rightarrow> Some m)"
  by (auto simp: header_set_def header_add_def set_status_def write_header_def write_body_def Let_def split: option.split)

lemma status_Error [simp]:
  "rs_Status (w_resp (Error L n m w)) = (case rs_Status (w_resp w) of None \<Rightarrow> Some n | Some s \<Rightarrow> Some s)"
  "rs_Status (w_resp (http_Error m n w)) = (case rs_Status (w_resp w) of None \<Rightarrow> Some n | Some s \<Rightarrow> Some s)"
  by (auto simp: Error_def http_Error_def split: option.split)

end
