(* ===== verification/RestServer.thy ===== *)
theory RestServer
  imports Http
begin

text \<open>
  The table endpoints of the REST server (\<open>pkg/rest/server.go\<close>): routing a request to a table and
  a statement, running it on the request's connection, and the Content-Range header.
\<close>

section \<open>The server\<close>

record Server =
  sv_basePath :: string
  sv_omitempty :: bool
  sv_tables :: "(string \<times> Table) list"

text \<open>\<open>tableFromPath\<close>: \<open>sv_tables\<close> is the snapshot of the schema cache, keyed by schema and name.\<close>

definition table_key :: "string \<Rightarrow> string" where
  "table_key path =
     (let pathParts = Split (Trim path ''/'') (CHR ''/'');
          schemaName = (if length pathParts > 1 then pathParts ! 0 else ''public'');
          tableName = (if length pathParts > 1 then pathParts ! 1 else pathParts ! 0)
      in schemaName @ ''.'' @ tableName)"

definition tableFromPath :: "Server \<Rightarrow> string \<Rightarrow> (string, Table) result" where
  "tableFromPath s path =
     (case map_of (sv_tables s) (table_key path) of
        None \<Rightarrow> Inl (''table '' @ table_key path @ '' not found or unauthorized'')
      | Some t \<Rightarrow> Inr t)"

definition content_range :: "int \<Rightarrow> int \<Rightarrow> int \<Rightarrow> string" where
  "content_range limit offset rowCountExact =
     (if limit > 0 then
        (let start = offset;
             end0 = wrap64 (wrap64 (start + limit) - 1);
             end = (if end0 \<ge> rowCountExact then wrap64 (rowCountExact - 1) else end0)
         in if start \<ge> rowCountExact then ''*/'' @ Itoa rowCountExact
            else Itoa start @ ''-'' @ Itoa end @ ''/'' @ Itoa rowCountExact)
      else ''*/'' @ Itoa rowCountExact)"

text \<open>
  The messages of the errors of the query builder. \<open>ext_quote\<close> and \<open>ext_quoteRune\<close> are the verb
  \<open>%q\<close> on a string and on a rune, \<open>ext_marshalError\<close> the text of a failure of \<open>json.Marshal\<close>.
\<close>

fun filter_error_text :: "Ext \<Rightarrow> filterError \<Rightarrow> string" where
  "filter_error_text X (SyntaxEOF msg) = msg @ '', found end of input''"
| "filter_error_text X (SyntaxAt msg r pos) = msg @ '', found '' @ ext_quoteRune X r @ '' at position '' @ itoa_nat pos"
| "filter_error_text X (NestedTooDeep n) =
     ''logic trees can'' @ [CHR 0x27] @ ''t be nested more than '' @ itoa_nat n @ '' levels deep''"
| "filter_error_text X (UnknownOperator opr) = ''unknown operator '' @ ext_quote X opr"
| "filter_error_text X (NoQuantifier opr) = ''operator '' @ ext_quote X opr @ '' does not support the any/all modifiers''"
| "filter_error_text X (InvalidIs v) =
     ''invalid value '' @ ext_quote X v @ '' for is, expected null, not_null, true, false or unknown''"
| "filter_error_text X (EmbeddedFilter key) =
     ''failed to parse filter key ('' @ key @ ''): filters on embedded resources are not supported''"
| "filter_error_text X (ParseLogicTree v e) = ''failed to parse logic tree ('' @ v @ ''): '' @ filter_error_text X e"
| "filter_error_text X (ParseFilter v e) = ''failed to parse filter ('' @ v @ ''): '' @ filter_error_text X e"
| "filter_error_text X (ParseFilterKey key e) = ''failed to parse filter key ('' @ key @ ''): '' @ filter_error_text X e"
| "filter_error_text X (NoSuchColumn t c) = ''column '' @ t @ ''.'' @ c @ '' does not exist''"
| "filter_error_text X (InvalidOrdering c) = ''invalid ordering for column '' @ c"
| "filter_error_text X (NoValidColumns s) = ''no valid columns to '' @ s"
| "filter_error_text X (MarshalFailed c) = ''column '' @ c @ '': '' @ ext_marshalError X"
| "filter_error_text X OutOfFuel = []"

section \<open>Running a statement\<close>

definition count_sql :: "string \<Rightarrow> string" where
  "count_sql q = ''SELECT COUNT(*) FROM ('' @ q @ '') AS count_query''"

text \<open>The exact count: \<open>Inl\<close> when an error was answered.\<close>

definition exact_count :: "golib \<Rightarrow> Ext \<Rightarrow> Server \<Rightarrow> Request \<Rightarrow> QueryParams \<Rightarrow> nat \<Rightarrow> World \<Rightarrow> (World, World) result" where
  "exact_count L X s r qp c w =
     (case tableFromPath s (TrimPrefix (rq_Path r) (sv_basePath s)) of
        Inl e \<Rightarrow> Inl (Error L 404 e w)
      | Inr t \<Rightarrow>
        (case buildSelectQuery L t (qp\<lparr>qp_Limit := 0, qp_Offset := 0\<rparr>) of
           Inl e \<Rightarrow> Inl (Error L 500 (''count query build error: '' @ filter_error_text X e) w)
         | Inr (q, countArgs) \<Rightarrow>
           (let w1 = emit (QueryRow c (count_sql q) countArgs) w in
            case ext_count X (w_trace w) (count_sql q) countArgs of
              Inl e \<Rightarrow> Inl (Error L 500 (''count error: '' @ e) w1)
            | Inr n \<Rightarrow> Inr (header_set ''Content-Range'' (content_range (qp_Limit qp) (qp_Offset qp) n) w1))))"

definition collect :: "Ext \<Rightarrow> Server \<Rightarrow> Rows \<Rightarrow> (string, any) result" where
  "collect X s rows = (if sv_omitempty s
     then (case collectRowsOmitNull rows of Inl e \<Rightarrow> Inl e
        | Inr ms \<Rightarrow> Inr (if ms = [] then VNil else VSlice (map VMap ms)))
     else (case ext_collect X rows of Inl e \<Rightarrow> Inl e | Inr ms \<Rightarrow> Inr (VSlice (map VMap ms))))"

definition run_statement :: "golib \<Rightarrow> Ext \<Rightarrow> Server \<Rightarrow> Request \<Rightarrow> string \<Rightarrow> string \<Rightarrow> argList \<Rightarrow> nat \<Rightarrow> World \<Rightarrow> World" where
  "run_statement L X s r pgRole query args c w =
     (let w1 = emit (QueryRows c query args) w in
      case ext_query X (w_trace w) query args of
        Inl e \<Rightarrow> Error L 500 (e @ '' pgrole: '' @ pgRole) w1
      | Inr rows \<Rightarrow> (case collect X s rows of
            Inl e \<Rightarrow> Error L 500 (e @ '' pgrole: '' @ pgRole) w1
          | Inr results \<Rightarrow> JSON L (if rq_Method r = ''POST'' then 201 else 200) results w1))"

definition executeQuery :: "golib \<Rightarrow> Ext \<Rightarrow> Server \<Rightarrow> Request \<Rightarrow> QueryParams \<Rightarrow> string \<Rightarrow> argList \<Rightarrow> World \<Rightarrow> World" where
  "executeQuery L X s r qp query args w =
     (case ConnWithRole L X r w of
        (Inl e, w1) \<Rightarrow> Error L 500 (ext_pgerror X e) w1
      | (Inr (_, c), w1) \<Rightarrow>
        (case cx_OIDCRole (rq_Ctx r) of
           None \<Rightarrow> Error L 401 ''pgrole not found in OIDC claims'' w1
         | Some pgRole \<Rightarrow>
           if pgRole = [] then Error L 401 ''pgrole not found in OIDC claims'' w1
           else emit (Release c)
             (if WantsCountExact (hd_Prefer (parseHeaders (rq_Header r))) then
                (case exact_count L X s r qp c w1 of
                   Inl w2 \<Rightarrow> w2
                 | Inr w2 \<Rightarrow> run_statement L X s r pgRole query args c w2)
              else run_statement L X s r pgRole query args c w1)))"

section \<open>Handlers\<close>

definition handleGet :: "golib \<Rightarrow> Ext \<Rightarrow> Server \<Rightarrow> Table \<Rightarrow> handler" where
  "handleGet L X s t r w =
     (let qp = parseQueryParams (rq_RawQuery r) in
      case buildSelectQuery L t qp of
        Inl e \<Rightarrow> Error L 400 (filter_error_text X e) w
      | Inr (query, args) \<Rightarrow> executeQuery L X s r qp query args w)"

definition handlePost :: "golib \<Rightarrow> Ext \<Rightarrow> Server \<Rightarrow> Table \<Rightarrow> handler" where
  "handlePost L X s t r w =
     (case Bind X None r of Inl e \<Rightarrow> Error L 400 ''Invalid JSON body'' w
      | Inr data \<Rightarrow> (case buildInsertQuery L t data (parseHeaders (rq_Header r)) of
            Inl e \<Rightarrow> Error L 400 (filter_error_text X e) w
          | Inr (query, args) \<Rightarrow> executeQuery L X s r (parseQueryParams (rq_RawQuery r)) query args w))"

definition handlePatch :: "golib \<Rightarrow> Ext \<Rightarrow> Server \<Rightarrow> Table \<Rightarrow> handler" where
  "handlePatch L X s t r w =
     (let qp = parseQueryParams (rq_RawQuery r) in
      case Bind X None r of Inl e \<Rightarrow> Error L 400 ''Invalid JSON body'' w
      | Inr data \<Rightarrow> (case buildUpdateQuery L t data qp (parseHeaders (rq_Header r)) of
            Inl e \<Rightarrow> Error L 400 (filter_error_text X e) w
          | Inr (query, args) \<Rightarrow> executeQuery L X s r qp query args w))"

definition handleDelete :: "golib \<Rightarrow> Ext \<Rightarrow> Server \<Rightarrow> Table \<Rightarrow> handler" where
  "handleDelete L X s t r w =
     (let qp = parseQueryParams (rq_RawQuery r) in
      case buildDeleteQuery L t qp (parseHeaders (rq_Header r)) of
        Inl e \<Rightarrow> Error L 400 (filter_error_text X e) w
      | Inr (query, args) \<Rightarrow> executeQuery L X s r qp query args w)"

definition docs_page :: "string \<Rightarrow> string" where
  "docs_page basePath =
     (let q = [CHR 0x22]; nl = [CHR 0x0A] in
      ''<!doctype html>'' @ nl @ ''<html><head><title>API Docs</title></head><body>'' @ nl
      @ ''<script id='' @ q @ ''api-reference'' @ q @ '' data-url='' @ q @ basePath @ ''/openapi.json'' @ q @ ''></script>'' @ nl
      @ ''<script src='' @ q @ ''https://cdn.jsdelivr.net/npm/@scalar/api-reference'' @ q @ ''></script>'' @ nl
      @ ''</body></html>'')"

definition route :: "golib \<Rightarrow> Ext \<Rightarrow> Server \<Rightarrow> handler" where
  "route L X s r w =
     (let path = TrimPrefix (rq_Path r) (sv_basePath s) in
      if path = [] \<or> path = ''/'' then HTML 200 (docs_page (sv_basePath s)) w
      else (case tableFromPath s path of Inl e \<Rightarrow> Error L 404 e w
        | Inr t \<Rightarrow>
            if rq_Method r = ''GET'' then handleGet L X s t r w
            else if rq_Method r = ''POST'' then handlePost L X s t r w
            else if rq_Method r = ''PATCH'' then handlePatch L X s t r w
            else if rq_Method r = ''DELETE'' then handleDelete L X s t r w
            else Error L 405 ''Method not allowed'' w))"

definition handleRequest :: "golib \<Rightarrow> Ext \<Rightarrow> Server \<Rightarrow> handler" where
  "handleRequest L X s r w =
     (case ConnWithRole L X r w of
        (Inl e, w1) \<Rightarrow> Error L 500 (ext_pgerror X e) w1
      | (Inr (_, c), w1) \<Rightarrow> emit (Release c) (route L X s r w1))"

section \<open>The protocol on a connection\<close>

text \<open>
  What a handler may do to a request's connection: set the role of the request, send statements that a
  predicate \<open>P\<close> allows once the role is set, and release it; after the release nothing but another
  release, which \<open>pgxpool\<close> ignores. The table endpoints send \<open>safe_statement\<close>s: made of safe tokens for
  a table of the schema.
\<close>

datatype conn_state = Idle | AsRole | Released

definition safe_statement :: "golib \<Rightarrow> Server \<Rightarrow> string \<Rightarrow> argList \<Rightarrow> bool" where
  "safe_statement L s q args = (\<exists>t \<in> snd ` set (sv_tables s). renders L t 0 (length args) q
     \<or> (\<exists>q'. q = count_sql q' \<and> renders L t 0 (length args) q'))"

inductive conn_step :: "(string \<Rightarrow> argList \<Rightarrow> bool) \<Rightarrow> Ext \<Rightarrow> string \<Rightarrow> nat \<Rightarrow> conn_state \<Rightarrow> effect \<Rightarrow> conn_state \<Rightarrow> bool"
  for P X role c where
    set_role: "st \<noteq> Released \<Longrightarrow> conn_step P X role c st (Exec c (set_role_sql X role claims)) AsRole"
  | query_row: "P q args \<Longrightarrow> conn_step P X role c AsRole (QueryRow c q args) AsRole"
  | query_rows: "P q args \<Longrightarrow> conn_step P X role c AsRole (QueryRows c q args) AsRole"
  | release: "conn_step P X role c st (Release c) Released"

inductive conn_run :: "(string \<Rightarrow> argList \<Rightarrow> bool) \<Rightarrow> Ext \<Rightarrow> string \<Rightarrow> nat \<Rightarrow> conn_state \<Rightarrow> effect list \<Rightarrow> conn_state \<Rightarrow> bool"
  for P X role c where
    finish: "conn_run P X role c st [] st"
  | step: "conn_step P X role c st e st1 \<Longrightarrow> conn_run P X role c st1 es st2 \<Longrightarrow> conn_run P X role c st (e # es) st2"

inductive_cases conn_step_Released: "conn_step P X role c Released e st"
inductive_cases conn_step_QueryRows: "conn_step P X role c st (QueryRows d q args) st'"
inductive_cases conn_run_Cons: "conn_run P X role c st (e # es) st'"
inductive_cases conn_run_Nil: "conn_run P X role c st [] st'"

lemma conn_run_append:
  "conn_run P X role c st xs st1 \<Longrightarrow> conn_run P X role c st1 ys st2 \<Longrightarrow> conn_run P X role c st (xs @ ys) st2"
  by (induction rule: conn_run.induct) (auto intro: conn_run.intros)

lemma conn_run_one: "conn_step P X role c st e st' \<Longrightarrow> conn_run P X role c st [e] st'"
  by (auto intro: conn_run.intros)

lemma conn_run_released: "conn_run P X role c Released es st \<Longrightarrow> st = Released \<and> set es \<subseteq> {Release c}"
  by (induction es) (auto elim!: conn_run_Cons conn_run_Nil conn_step_Released)

text \<open>\<open>drives st w w' st'\<close>: the trace grew by a run of the protocol.\<close>

definition drives :: "(string \<Rightarrow> argList \<Rightarrow> bool) \<Rightarrow> Ext \<Rightarrow> string \<Rightarrow> nat \<Rightarrow> conn_state \<Rightarrow> World \<Rightarrow> World \<Rightarrow> conn_state \<Rightarrow> bool" where
  "drives P X role c st w w' st' = (\<exists>new. w_trace w' = w_trace w @ new \<and> conn_run P X role c st new st')"

lemma drives_same: "w_trace w' = w_trace w \<Longrightarrow> drives P X role c st w w' st"
  unfolding drives_def by (intro exI [of _ "[]"]) (auto intro: conn_run.intros)

lemma drives_trans:
  "drives P X role c st w w1 st1 \<Longrightarrow> drives P X role c st1 w1 w2 st2 \<Longrightarrow> drives P X role c st w w2 st2"
  unfolding drives_def using conn_run_append by fastforce

lemma drives_emit: "conn_step P X role c st e st' \<Longrightarrow> drives P X role c st w (emit e w) st'"
  unfolding drives_def by (intro exI [of _ "[e]"]) (auto intro: conn_run_one)

lemma drives_frame: "w_trace w2 = w_trace w1 \<Longrightarrow> drives P X role c st w w1 st' \<Longrightarrow> drives P X role c st w w2 st'"
  by (simp add: drives_def)

lemma drives_resp [simp]:
  "drives P X role c st w (Error L' n m w1) st' = drives P X role c st w w1 st'"
  "drives P X role c st w (HTML n m w1) st' = drives P X role c st w w1 st'"
  "drives P X role c st w w st"
  by (auto simp: drives_def intro: conn_run.finish)

lemma tableFromPath_table: "tableFromPath s path = Inr t \<Longrightarrow> t \<in> snd ` set (sv_tables s)"
  by (force simp: tableFromPath_def split: option.splits dest: map_of_SomeD)

lemma ConnWithRole_drives:
  assumes "request_role X (rq_Ctx r) = Some role" and "cx_PgConn (rq_Ctx r) = Some c" and "st \<noteq> Released"
  shows "case ConnWithRole L X r w of
      (Inl e, w1) \<Rightarrow> w1 = w \<or> drives P X role c st w w1 Released
    | (Inr (u, d), w1) \<Rightarrow> d = c \<and> drives P X role c st w w1 AsRole"
proof (cases "Conn (rq_Ctx r)")
  case (Inl e)
  then show ?thesis by (simp add: ConnWithRole_def)
next
  case (Inr uc)
  then have c: "snd uc = c"
    using assms(2) Conn_conn [of "rq_Ctx r" "fst uc" "snd uc"] by simp
  show ?thesis
  proof (cases "lib_marshal L (VMap (fst uc))")
    case None
    with Inr assms(1) show ?thesis by (cases uc) (simp add: ConnWithRole_def drives_same)
  next
    case (Some claims)
    let ?q = "set_role_sql X role claims"
    have one: "drives P X role c st w (emit (Exec c ?q) w) AsRole"
      by (rule drives_emit) (rule conn_step.set_role [OF assms(3)])
    have two: "drives P X role c st w (emit (Release c) (emit (Exec c ?q) w)) Released"
      by (rule drives_trans [OF one drives_emit]) (rule conn_step.release)
    have "ConnWithRole L X r w = (case ext_exec X (w_trace w) ?q of
          ExecOk \<Rightarrow> (Inr uc, emit (Exec c ?q) w)
        | ExecPgError e \<Rightarrow> (Inl e, emit (Release c) (emit (Exec c ?q) w))
        | ExecOther \<Rightarrow> (Inl \<lparr>pe_Code = ''P0000'', pe_Message = ''Failed to set role and claims''\<rparr>,
            emit (Release c) (emit (Exec c ?q) w)))"
      using Inr assms(1) Some c by (cases uc) (auto simp: ConnWithRole_def Let_def split: execResult.split)
    then show ?thesis
      using one two c by (cases uc) (simp split: execResult.split)
  qed
qed

lemma exact_count_drives:
  "case exact_count L X s r qp c w of Inl w1 \<Rightarrow> drives (safe_statement L s) X role c AsRole w w1 AsRole
     | Inr w1 \<Rightarrow> drives (safe_statement L s) X role c AsRole w w1 AsRole"
proof (cases "tableFromPath s (TrimPrefix (rq_Path r) (sv_basePath s))")
  case (Inr t)
  show ?thesis
  proof (cases "buildSelectQuery L t (qp\<lparr>qp_Limit := 0, qp_Offset := 0\<rparr>)")
    case (Inr qa)
    obtain q a where qa: "qa = (q, a)" by (cases qa)
    have "safe_statement L s (count_sql q) a"
      using buildSelectQuery_renders [of L t "qp\<lparr>qp_Limit := 0, qp_Offset := 0\<rparr>" q a] Inr qa
        tableFromPath_table [OF \<open>tableFromPath s _ = Inr t\<close>]
      unfolding safe_statement_def by blast
    then have "drives (safe_statement L s) X role c AsRole w (emit (QueryRow c (count_sql q) a) w) AsRole"
      by (intro drives_emit conn_step.query_row)
    then show ?thesis
      using Inr \<open>tableFromPath s _ = Inr t\<close> qa
      by (auto simp: exact_count_def Let_def split: sum.split elim!: drives_frame [rotated])
  qed (simp add: exact_count_def Inr drives_same)
qed (simp add: exact_count_def drives_same)

lemma run_statement_drives:
  "safe_statement L s q args \<Longrightarrow> drives (safe_statement L s) X role c AsRole w (run_statement L X s r pgRole q args c w) AsRole"
  by (rule drives_frame [OF _ drives_emit [OF conn_step.query_rows [of "safe_statement L s" q args]]])
    (auto simp: run_statement_def Let_def split: sum.split)

lemma executeQuery_drives:
  assumes "request_role X (rq_Ctx r) = Some role" and "cx_PgConn (rq_Ctx r) = Some c" and "safe_statement L s q args"
  shows "\<exists>st. drives (safe_statement L s) X role c AsRole w (executeQuery L X s r qp q args w) st"
proof (cases "ConnWithRole L X r w")
  case (Pair res w1)
  note cr = ConnWithRole_drives [OF assms(1,2), where st = AsRole and L = L and w = w and P = "safe_statement L s"]
  show ?thesis
  proof (cases res)
    case (Inl e)
    with Pair cr have "w1 = w \<or> drives (safe_statement L s) X role c AsRole w w1 Released" by simp
    moreover have "executeQuery L X s r qp q args w = Error L 500 (ext_pgerror X e) w1"
      using Pair Inl by (simp add: executeQuery_def)
    ultimately show ?thesis using drives_resp by metis
  next
    case (Inr ud)
    then have res: "res = Inr (fst ud, c)" and d1: "drives (safe_statement L s) X role c AsRole w w1 AsRole"
      using Pair cr by (auto split: prod.splits)
    have run: "drives (safe_statement L s) X role c AsRole w2 (run_statement L X s r pgRole q args c w2) AsRole" for pgRole w2
      by (rule run_statement_drives [OF assms(3)])
    have cnt: "drives (safe_statement L s) X role c AsRole w1 (case exact_count L X s r qp c w1 of Inl w2 \<Rightarrow> w2
        | Inr w2 \<Rightarrow> run_statement L X s r pgRole q args c w2) AsRole" for pgRole
      using exact_count_drives [where L = L and X = X and s = s and r = r and qp = qp and c = c and w = w1 and role = role] run
      by (cases "exact_count L X s r qp c w1") (auto intro: drives_trans)
    have body: "drives (safe_statement L s) X role c AsRole w1 (if b then (case exact_count L X s r qp c w1 of Inl w2 \<Rightarrow> w2
        | Inr w2 \<Rightarrow> run_statement L X s r pgRole q args c w2)
        else run_statement L X s r pgRole q args c w1) AsRole" for b pgRole
      using run cnt by (cases b) simp_all
    have rel: "drives (safe_statement L s) X role c AsRole w w2 AsRole \<Longrightarrow> drives (safe_statement L s) X role c AsRole w (emit (Release c) w2) Released" for w2
      by (erule drives_trans [OF _ drives_emit]) (rule conn_step.release)
    show ?thesis
    proof (cases "cx_OIDCRole (rq_Ctx r) = None \<or> cx_OIDCRole (rq_Ctx r) = Some []")
      case True
      with Pair res d1 show ?thesis by (auto simp: executeQuery_def)
    next
      case False
      then obtain pgRole where "cx_OIDCRole (rq_Ctx r) = Some pgRole" "pgRole \<noteq> []" by auto
      with Pair res have "executeQuery L X s r qp q args w = emit (Release c)
          (if WantsCountExact (hd_Prefer (parseHeaders (rq_Header r)))
           then (case exact_count L X s r qp c w1 of Inl w2 \<Rightarrow> w2 | Inr w2 \<Rightarrow> run_statement L X s r pgRole q args c w2)
           else run_statement L X s r pgRole q args c w1)"
        by (simp add: executeQuery_def)
      with rel [OF drives_trans [OF d1 body]] show ?thesis by metis
    qed
  qed
qed

lemma route_drives:
  assumes "request_role X (rq_Ctx r) = Some role" and "cx_PgConn (rq_Ctx r) = Some c"
  shows "\<exists>st. drives (safe_statement L s) X role c AsRole w (route L X s r w) st"
proof -
  have err: "\<exists>st. drives (safe_statement L s) X role c AsRole w (Error L n m w) st" for n m
    by (rule exI [of _ AsRole]) simp
  have html: "\<exists>st. drives (safe_statement L s) X role c AsRole w (HTML n m w) st" for n m
    by (rule exI [of _ AsRole]) simp
  show ?thesis
  proof (cases "tableFromPath s (TrimPrefix (rq_Path r) (sv_basePath s))")
    case (Inr t)
    have safe: "safe_statement L s q args" if "renders L t 0 (length args) q" for q args
      using that tableFromPath_table [OF Inr] unfolding safe_statement_def by blast
    note exe = executeQuery_drives [OF assms safe]
    have "\<exists>st. drives (safe_statement L s) X role c AsRole w (handleGet L X s t r w) st"
      using exe buildSelectQuery_renders err by (auto simp: handleGet_def Let_def split: sum.split)
    moreover have "\<exists>st. drives (safe_statement L s) X role c AsRole w (handlePost L X s t r w) st"
      using exe buildInsertQuery_renders err by (auto simp: handlePost_def split: sum.split)
    moreover have "\<exists>st. drives (safe_statement L s) X role c AsRole w (handlePatch L X s t r w) st"
      using exe buildUpdateQuery_renders err by (auto simp: handlePatch_def Let_def split: sum.split)
    moreover have "\<exists>st. drives (safe_statement L s) X role c AsRole w (handleDelete L X s t r w) st"
      using exe buildDeleteQuery_renders err by (auto simp: handleDelete_def Let_def split: sum.split)
    ultimately show ?thesis
      using err html Inr by (simp add: route_def Let_def del: drives_resp)
  next
    case (Inl e)
    then show ?thesis using err html by (simp add: route_def Let_def del: drives_resp)
  qed
qed

end
