(* ===== verification/Base64.thy ===== *)
theory Base64
  imports GoStrings
begin

text \<open>
  Standard base64 (\<open>base64.StdEncoding\<close> of Go), which basic authentication decodes: carriage
  returns and line feeds are ignored, padding is required, and the unused low bits of a padded group
  are not checked.
\<close>

definition b64_char :: "nat \<Rightarrow> char" where
  "b64_char i = char_of (if i < 26 then 65 + i else if i < 52 then 71 + i else if i < 62 then i - 4
     else if i = 62 then 43 else 47)"

definition b64_value :: "char \<Rightarrow> nat option" where
  "b64_value c = (let n = byte c in
     if 65 \<le> n \<and> n \<le> 90 then Some (n - 65) else if 97 \<le> n \<and> n \<le> 122 then Some (n - 71)
     else if 48 \<le> n \<and> n \<le> 57 then Some (n + 4) else if n = 43 then Some 62 else if n = 47 then Some 63 else None)"

fun b64_encode :: "string \<Rightarrow> string" where
  "b64_encode [] = []"
| "b64_encode [a] = [b64_char (byte a div 4), b64_char (byte a mod 4 * 16), CHR ''='', CHR ''='']"
| "b64_encode [a, b] = [b64_char (byte a div 4), b64_char (byte a mod 4 * 16 + byte b div 16),
     b64_char (byte b mod 16 * 4), CHR ''='']"
| "b64_encode (a # b # c # r) = [b64_char (byte a div 4), b64_char (byte a mod 4 * 16 + byte b div 16),
     b64_char (byte b mod 16 * 4 + byte c div 64), b64_char (byte c mod 64)] @ b64_encode r"

text \<open>Groups of four: the last one may end in one or two padding bytes.\<close>

definition b64_group :: "char \<Rightarrow> char \<Rightarrow> char \<Rightarrow> char \<Rightarrow> bool \<Rightarrow> string option" where
  "b64_group w x y z final =
     (case (b64_value w, b64_value x) of
        (Some i, Some j) \<Rightarrow>
          (case (b64_value y, b64_value z) of
             (Some k, Some l) \<Rightarrow> Some [char_of (i * 4 + j div 16), char_of (j mod 16 * 16 + k div 4), char_of (k mod 4 * 64 + l)]
           | (Some k, None) \<Rightarrow> (if z = CHR ''='' \<and> final
                then Some [char_of (i * 4 + j div 16), char_of (j mod 16 * 16 + k div 4)] else None)
           | (None, _) \<Rightarrow> (if y = CHR ''='' \<and> z = CHR ''='' \<and> final then Some [char_of (i * 4 + j div 16)] else None))
      | _ \<Rightarrow> None)"

fun b64_groups :: "string \<Rightarrow> string option" where
  "b64_groups [] = Some []"
| "b64_groups (w # x # y # z # r) =
     (case b64_group w x y z (r = []) of None \<Rightarrow> None
      | Some s \<Rightarrow> (case b64_groups r of None \<Rightarrow> None | Some t \<Rightarrow> Some (s @ t)))"
| "b64_groups _ = None"

definition b64_decode :: "string \<Rightarrow> string option" where
  "b64_decode s = b64_groups (filter (\<lambda>c. c \<noteq> CHR 0x0D \<and> c \<noteq> CHR 0x0A) s)"

section \<open>Decoding an encoded string gives it back\<close>

lemma byte_less [simp]: "byte c < 256"
  by (simp add: byte_def)

lemma char_of_byte [simp]: "char_of (byte c) = c"
  by (simp add: byte_def)

lemma b64_value_char: "i < 64 \<Longrightarrow> b64_value (b64_char i) = Some i"
  by (auto simp: b64_value_def b64_char_def byte_def Let_def)

lemma b64_char_plain: "i < 64 \<Longrightarrow> b64_char i \<noteq> CHR 0x0D \<and> b64_char i \<noteq> CHR 0x0A"
proof -
  assume "i < 64"
  then have "b64_value (b64_char i) \<noteq> None" by (simp add: b64_value_char)
  then show ?thesis by (auto simp: b64_value_def byte_def Let_def)
qed

lemma b64_value_pad [simp]: "b64_value CHR ''='' = None"
  by (simp add: b64_value_def byte_def)

lemma sextets:
  "a < 256 \<Longrightarrow> a div 4 < (64::nat)" "a mod 4 * 16 < (64::nat)" "b < 256 \<Longrightarrow> a mod 4 * 16 + b div 16 < (64::nat)"
  "b mod 16 * 4 < (64::nat)" "c < 256 \<Longrightarrow> b mod 16 * 4 + c div 64 < (64::nat)" "c mod 64 < (64::nat)"
proof -
  have m: "a mod 4 < 4" "b mod 16 < 16" by simp_all
  show "a < 256 \<Longrightarrow> a div 4 < 64" by (simp add: less_mult_imp_div_less)
  show "b < 256 \<Longrightarrow> a mod 4 * 16 + b div 16 < 64"
    using m(1) less_mult_imp_div_less [of b 16 16] by linarith
  show "c < 256 \<Longrightarrow> b mod 16 * 4 + c div 64 < 64"
    using m(2) less_mult_imp_div_less [of c 4 64] by linarith
  show "a mod 4 * 16 < 64" "b mod 16 * 4 < 64" "c mod 64 < 64" using m by linarith+
qed

lemma octets: "j < 16 \<Longrightarrow> a div 4 * 4 + (a mod 4 * 16 + j) div 16 = (a::nat)"
  by (simp add: div_mult_self3)

lemma octets2: "k < 4 \<Longrightarrow> b < 256 \<Longrightarrow> (a mod 4 * 16 + b div 16) mod 16 * 16 + (b mod 16 * 4 + k) div 4 = (b::nat)"
proof -
  assume k: "k < 4" "b < 256"
  then have "b div 16 < 16" by (simp add: less_mult_imp_div_less)
  then have "(a mod 4 * 16 + b div 16) mod 16 = b div 16" by simp
  with k(1) show ?thesis by (simp add: div_mult_self3)
qed

lemma octets3: "c < 256 \<Longrightarrow> (b mod 16 * 4 + c div 64) mod 4 * 64 + c mod 64 = (c::nat)"
proof -
  assume "c < 256"
  then have "c div 64 < 4" by (simp add: less_mult_imp_div_less)
  then have "(b mod 16 * 4 + c div 64) mod 4 = c div 64" by simp
  then show ?thesis by simp
qed

lemma b64_encode_plain: "filter (\<lambda>c. c \<noteq> CHR 0x0D \<and> c \<noteq> CHR 0x0A) (b64_encode s) = b64_encode s"
  by (induction s rule: b64_encode.induct) (auto simp: b64_char_plain sextets)

lemma b64_roundtrip: "b64_decode (b64_encode s) = Some s"
proof -
  have "b64_groups (b64_encode s) = Some s"
  proof (induction s rule: b64_encode.induct)
    case (2 a)
    show ?case
      using octets [of 0 "byte a"] by (simp add: b64_group_def b64_value_char sextets)
  next
    case (3 a b)
    show ?case
      using octets [of "byte b div 16" "byte a"] octets2 [of 0 "byte b" "byte a"]
        less_mult_imp_div_less [of "byte b" 16 16] by (simp add: b64_group_def b64_value_char sextets)
  next
    case (4 a b c r)
    have "byte b div 16 < 16" "byte c div 64 < 4"
      using byte_less [of b] byte_less [of c] by (simp_all add: less_mult_imp_div_less)
    with 4 show ?case
      by (simp add: b64_group_def b64_value_char sextets octets octets2 octets3)
  qed simp
  then show ?thesis by (simp add: b64_decode_def b64_encode_plain)
qed

end
