(* ===== verification/Middleware.thy ===== *)
theory Middleware
  imports RestServer Base64
begin

text \<open>
  The HTTP middlewares (\<open>pkg/httputil/router.go\<close>, \<open>pkg/httputil/middleware\<close>): a middleware is a function
  from a handler to a handler. The token verifier of the OIDC library and the request multiplexer of
  the standard library are parameters.
\<close>

section \<open>Chaining (\<open>middleware.go\<close>, \<open>router.go\<close>)\<close>

type_synonym Middleware = "handler \<Rightarrow> handler"

text \<open>The loop from the last index down to 0, as \<open>Add\<close> and \<open>applyMiddleware\<close> run it.\<close>

fun apply_from :: "nat \<Rightarrow> Middleware list \<Rightarrow> handler \<Rightarrow> handler" where
  "apply_from 0 mw h = h"
| "apply_from (Suc i) mw h = apply_from i mw ((mw ! i) h)"

definition applyMiddleware :: "handler \<Rightarrow> Middleware list \<Rightarrow> handler" where
  "applyMiddleware h mw = apply_from (length mw) mw h"

definition Add :: "handler \<Rightarrow> Middleware list \<Rightarrow> handler" where
  "Add h middlewares = apply_from (length middlewares) middlewares h"

text \<open>
  A router: the routes are shared by a router and its groups, the way they share one \<open>ServeMux\<close>. A
  pattern that panics is \<open>None\<close>.
\<close>

record Router =
  rt_prefix :: string
  rt_middleware :: "Middleware list"

type_synonym Mux = "(string \<times> handler) list"

definition NewRouter :: Router where
  "NewRouter = \<lparr>rt_prefix = [], rt_middleware = []\<rparr>"

definition Use :: "Middleware \<Rightarrow> Middleware list \<Rightarrow> Router \<Rightarrow> Router" where
  "Use mw additional rt = rt\<lparr>rt_middleware := rt_middleware rt @ mw # additional\<rparr>"

definition Group :: "string \<Rightarrow> Router \<Rightarrow> Router option" where
  "Group pre rt = (if HasSuffix pre ''/'' then None
     else Some \<lparr>rt_prefix = rt_prefix rt @ pre, rt_middleware = rt_middleware rt\<rparr>)"

definition splitMethodPattern :: "string \<Rightarrow> (string \<times> string) option" where
  "splitMethodPattern s = (case Cut s (CHR '' '') of (meth, pattern, ok) \<Rightarrow>
     if \<not> ok \<or> \<not> HasPrefix pattern ''/'' then None else Some (meth, pattern))"

definition Handle :: "string \<Rightarrow> handler \<Rightarrow> Router \<Rightarrow> Mux \<Rightarrow> Mux option" where
  "Handle methodPattern h rt mux =
     (case splitMethodPattern methodPattern of None \<Rightarrow> None
      | Some (meth, pattern) \<Rightarrow>
          Some (mux @ [(meth @ '' '' @ rt_prefix rt @ pattern, applyMiddleware h (rt_middleware rt))]))"

text \<open>\<open>ServeHTTP\<close>: the multiplexer (a parameter that picks a handler) wrapped in all middleware.\<close>

definition ServeHTTP :: "(Mux \<Rightarrow> handler) \<Rightarrow> Router \<Rightarrow> Mux \<Rightarrow> handler" where
  "ServeHTTP serveMux rt mux = applyMiddleware (serveMux mux) (rt_middleware rt)"

section \<open>Request IDs (\<open>request_id.go\<close>)\<close>

definition RequestIDHeader :: string where
  "RequestIDHeader = ''X-Request-Id''"

definition RequestID :: "string \<Rightarrow> Middleware" where
  "RequestID newID next r w =
     (let reqID = (case cx_RequestID (rq_Ctx r) of None \<Rightarrow> newID | Some i \<Rightarrow> if i = [] then newID else i)
      in next (r\<lparr>rq_Ctx := (rq_Ctx r)\<lparr>cx_RequestID := Some reqID\<rparr>\<rparr>) (header_set RequestIDHeader reqID w))"

section \<open>CORS (\<open>cors.go\<close>)\<close>

record CORSOptions =
  co_AllowedOrigins :: "string list"
  co_AllowedMethods :: "string list"
  co_AllowedHeaders :: "string list"
  co_ExposedHeaders :: "string list"
  co_AllowCredentials :: bool
  co_MaxAge :: int

definition defaultCORSOptions :: CORSOptions where
  "defaultCORSOptions = \<lparr>co_AllowedOrigins = [''*''],
     co_AllowedMethods = [''GET'', ''POST'', ''PUT'', ''DELETE'', ''OPTIONS''],
     co_AllowedHeaders = [''Content-Type'', ''Content-Length'', ''Accept-Encoding'', ''X-CSRF-Token'', ''Authorization'',
       ''Accept'', ''Origin'', ''Cache-Control'', ''X-Requested-With''],
     co_ExposedHeaders = [''Content-Range'', ''Prefer''], co_AllowCredentials = False, co_MaxAge = 86400\<rparr>"

definition wildcard :: "CORSOptions \<Rightarrow> bool" where
  "wildcard opts = (co_AllowedOrigins opts = [''*''])"

definition set_if :: "bool \<Rightarrow> string \<Rightarrow> string \<Rightarrow> World \<Rightarrow> World" where
  "set_if b k v w = (if b then header_set k v w else w)"

definition cors_handler :: "CORSOptions \<Rightarrow> Middleware" where
  "cors_handler opts next r w =
     (let origin = Get (rq_Header r) ''Origin'' in
      if origin = [] then next r w
      else (let w1 = (if \<not> wildcard opts \<and> origin \<in> set (co_AllowedOrigins opts) then header_add ''Vary'' ''Origin'' w else w);
                allowedOrigin = (if wildcard opts then ''*'' else if origin \<in> set (co_AllowedOrigins opts) then origin else [])
            in if allowedOrigin = [] then next r w1
               else (let w2 = set_if (co_ExposedHeaders opts \<noteq> []) ''Access-Control-Expose-Headers'' (Join (co_ExposedHeaders opts) '', '')
                           (set_if (co_AllowCredentials opts) ''Access-Control-Allow-Credentials'' ''true''
                             (header_set ''Access-Control-Allow-Origin'' allowedOrigin w1))
                     in if rq_Method r = ''OPTIONS'' then
                          write_header 204
                            (set_if (co_MaxAge opts > 0) ''Access-Control-Max-Age'' (Itoa (co_MaxAge opts))
                              (set_if (co_AllowedHeaders opts \<noteq> []) ''Access-Control-Allow-Headers'' (Join (co_AllowedHeaders opts) '', '')
                                (set_if (co_AllowedMethods opts \<noteq> []) ''Access-Control-Allow-Methods'' (Join (co_AllowedMethods opts) '', '') w2)))
                        else next r w2)))"

definition CORSWithOptions :: "CORSOptions option \<Rightarrow> Middleware option" where
  "CORSWithOptions options =
     (let opts = (case options of None \<Rightarrow> defaultCORSOptions | Some o' \<Rightarrow> o') in
      if wildcard opts \<and> co_AllowCredentials opts then None else Some (cors_handler opts))"

section \<open>Authentication (\<open>basic_auth.go\<close>, \<open>verify_oidc.go\<close>)\<close>

definition set_basic_user :: "string \<Rightarrow> Request \<Rightarrow> Request" where
  "set_basic_user u r = r\<lparr>rq_Ctx := (rq_Ctx r)\<lparr>cx_BasicAuth := Some u\<rparr>\<rparr>"

definition set_oidc_user :: "gomap \<Rightarrow> Request \<Rightarrow> Request" where
  "set_oidc_user u r = r\<lparr>rq_Ctx := (rq_Ctx r)\<lparr>cx_OIDCUser := Some u\<rparr>\<rparr>"

text \<open>The \<open>WWW-Authenticate\<close> challenge.\<close>

definition challenge :: "World \<Rightarrow> World" where
  "challenge w = header_set ''WWW-Authenticate'' (''Basic realm='' @ [CHR 0x22] @ ''Restricted'' @ [CHR 0x22]) w"

definition VerifyBasicAuth :: "(string \<times> string) list \<Rightarrow> bool \<Rightarrow> Middleware" where
  "VerifyBasicAuth creds send401 next r w =
     (let authHeader = Get (rq_Header r) ''Authorization'';
          reject = (\<lambda>msg. if send401 then http_Error msg 401 w else next r w);
          reject_challenge = (\<lambda>msg. if send401 then http_Error msg 401 (challenge w) else next r w)
      in if authHeader = [] then reject_challenge ''Authorization header missing''
         else if \<not> HasPrefix authHeader ''Basic '' then reject ''Invalid authorization format''
         else (case b64_decode (TrimPrefix authHeader ''Basic '') of
             None \<Rightarrow> reject ''Invalid base64 encoding''
           | Some credentials \<Rightarrow> (case Cut credentials (CHR '':'') of (username, password, found) \<Rightarrow>
               if \<not> found then reject ''Invalid credentials format''
               else if map_of creds username \<noteq> Some password then reject_challenge ''Invalid credentials''
               else next (set_basic_user username r) w)))"

text \<open>The verifier: \<open>Inl True\<close> when the token is rejected, \<open>Inl False\<close> when its claims can not be read.\<close>

definition VerifyOIDCToken :: "(string \<Rightarrow> (bool, gomap) result) \<Rightarrow> bool \<Rightarrow> Middleware" where
  "VerifyOIDCToken verify send401 next r w =
     (let authHeader = Get (rq_Header r) ''Authorization'' in
      if authHeader = [] then (if send401 then http_Error ''Authorization header is required'' 401 w else next r w)
      else if \<not> HasPrefix (ToLower authHeader) ''bearer '' then
        (if send401 then http_Error ''Authorization header must be Bearer token'' 401 w else next r w)
      else (case verify (TrimPrefix authHeader ''Bearer '') of
          Inl True \<Rightarrow> http_Error ''Invalid or expired token'' 401 w
        | Inl False \<Rightarrow> http_Error ''Failed to parse token claims'' 500 w
        | Inr claims \<Rightarrow> next (set_oidc_user claims r) w))"

section \<open>Authorization (\<open>authz.go\<close>, \<open>postgres.go\<close>)\<close>

record AuthzResponse =
  az_Role :: string
  az_Allowed :: bool

type_synonym AuthzFunc = "Context \<Rightarrow> (string, AuthzResponse) result"

definition denied :: AuthzResponse where
  "denied = \<lparr>az_Role = [], az_Allowed = False\<rparr>"

definition WithOIDCAuthz :: "string \<Rightarrow> AuthzFunc" where
  "WithOIDCAuthz roleClaimKey cx = Inr (case cx_OIDCUser cx of None \<Rightarrow> denied
     | Some user \<Rightarrow> (case Jq (Some user) roleClaimKey of
         Inr (VStr role) \<Rightarrow> \<lparr>az_Role = role, az_Allowed = True\<rparr>
       | _ \<Rightarrow> denied))"

definition WithBasicAuthz :: AuthzFunc where
  "WithBasicAuthz cx = Inr (case cx_BasicAuth cx of None \<Rightarrow> denied | Some user \<Rightarrow> \<lparr>az_Role = user, az_Allowed = True\<rparr>)"

definition WithAnonAuthz :: "string \<Rightarrow> AuthzFunc" where
  "WithAnonAuthz anonRole cx = Inr \<lparr>az_Role = anonRole, az_Allowed = True\<rparr>"

text \<open>The loop over the authorizers: the first that allows the request sets its role.\<close>

fun authorize :: "AuthzFunc list \<Rightarrow> Context \<Rightarrow> (string, Context) result" where
  "authorize [] cx = Inr cx"
| "authorize (f # fs) cx = (case f cx of Inl e \<Rightarrow> Inl e
     | Inr resp \<Rightarrow> if az_Allowed resp then Inr (cx\<lparr>cx_OIDCRole := Some (az_Role resp)\<rparr>) else authorize fs cx)"

definition next_conn :: "World \<Rightarrow> nat" where
  "next_conn w = length (filter (\<lambda>e. case e of Acquire _ \<Rightarrow> True | _ \<Rightarrow> False) (w_trace w))"

definition Postgres :: "Ext \<Rightarrow> AuthzFunc list \<Rightarrow> Middleware" where
  "Postgres X authorizers next r w =
     (case authorize authorizers (rq_Ctx r) of
        Inl e \<Rightarrow> http_Error ''Authorization error'' 500 w
      | Inr cx \<Rightarrow> (case cx_OIDCRole cx of
          None \<Rightarrow> http_Error ''Unauthorized'' 401 w
        | Some pgRole \<Rightarrow>
            if \<not> ext_acquire X (w_trace w) then http_Error ''Internal Server Error'' 500 w
            else (let c = next_conn w in
              next (r\<lparr>rq_Ctx := cx\<lparr>cx_PgConn := Some c, cx_OIDCRole := Some pgRole\<rparr>\<rparr>) (emit (Acquire c) w))))"

end
