(* ===== verification/FilterRoundtrip.thy ===== *)
theory FilterRoundtrip
  imports FilterSql
begin

text \<open>
  Printing a logic tree in the syntax the header of \<open>filter.go\<close> documents, and the theorem that the
  parser reads a printed tree back as it was. Names, keys and operands are printed as quoted
  strings, so any bytes may occur in them.
\<close>

section \<open>The printer\<close>

definition quote :: "string \<Rightarrow> string" where
  "quote s = [CHR 0x22] @ concat (map escape_byte s) @ [CHR 0x22]"

definition print_step :: "jsonPathStep \<Rightarrow> string" where
  "print_step st = js_arrow st @ (if js_isIndex st then Itoa (js_index st) else quote (js_key st))"

definition print_path :: "jsonPathStep list \<Rightarrow> string" where
  "print_path path = concat (map print_step path)"

definition print_modifier :: "filterNode \<Rightarrow> string" where
  "print_modifier n =
     (if fn_lang n \<noteq> [] then ''('' @ fn_lang n @ '')''
      else if fn_quant n = ''ANY'' then ''(any)'' else if fn_quant n = ''ALL'' then ''(all)'' else [])"

definition print_operation :: "filterNode \<Rightarrow> string" where
  "print_operation n = (if fn_negate n then ''not.'' else []) @ fn_operator n
     @ (if fn_operator n = ''in'' then ''.('' @ Join (map quote (fn_list n)) '','' @ '')''
        else if fn_operator n = ''is'' then ''.'' @ fn_value n
        else print_modifier n @ ''.'' @ quote (fn_value n))"

fun print_node :: "filterNode \<Rightarrow> string" where
  "print_node (FilterNode ng lg ch fd opr qu la va li) =
     (if lg \<noteq> [] then (if ng then ''not.'' else []) @ (if lg = ''AND'' then ''and'' else ''or'')
          @ ''('' @ Join (map print_node ch) '','' @ '')''
      else quote (ff_column fd) @ print_path (ff_path fd) @ ''.''
          @ print_operation (FilterNode ng lg ch fd opr qu la va li))"

text \<open>A step as the parser builds it: an index in the range of \<open>int32\<close>, or a key.\<close>

definition plain_step :: "jsonPathStep \<Rightarrow> bool" where
  "plain_step st = (js_arrow st \<in> {''->'', ''->>''}
     \<and> (if js_isIndex st then js_key st = [] \<and> - (2 ^ 31) \<le> js_index st \<and> js_index st < 2 ^ 31
        else js_index st = 0))"

fun plain_node :: "filterNode \<Rightarrow> bool" where
  "plain_node (FilterNode ng lg ch fd opr qu la va li) =
     (list_all plain_node ch \<and> list_all plain_step (ff_path fd))"

section \<open>Reading back: strings\<close>

lemma advance_advance [simp]: "advance m (advance n p) = advance (n + m) p"
  by (simp add: advance_def add.assoc)

lemma advance_0 [simp]: "advance 0 p = p"
  by (simp add: advance_def)

lemma rest_advance: "rest p = w @ r \<Longrightarrow> n = length w \<Longrightarrow> rest (advance n p) = r"
  by (simp add: rest_def advance_def) (metis add.commute append_eq_conv_conj drop_drop)

lemma consume_match: "rest p = w @ r \<Longrightarrow> consume w p = (True, advance (length w) p)"
  by (simp add: consume_def)

lemma consume_mismatch: "\<not> HasPrefix (rest p) w \<Longrightarrow> consume w p = (False, p)"
  by (simp add: consume_def)

lemma expect_match: "rest p = w @ r \<Longrightarrow> expect w p = Inr (advance (length w) p)"
  by (simp add: expect_def consume_match)

lemma eof_rest: "eof p \<longleftrightarrow> rest p = []"
  by (simp add: eof_def rest_def)

lemma peek_rest: "rest p = c # r \<Longrightarrow> peek p = c"
  by (metis drop_eq_Nil eof_def hd_drop_conv_nth linorder_not_less list.discI list.sel(1) peek_def rest_def)

lemma span_while_match:
  "rest p = w @ r \<Longrightarrow> list_all P w \<Longrightarrow> r = [] \<or> \<not> P (hd r) \<Longrightarrow>
     span_while P p = (w, advance (length w) p)"
  using takeWhile_append_stop [of w P r] by (simp add: span_while_eq list_all_iff)

lemma skipSpaces_noop:
  assumes "rest p = [] \<or> hd (rest p) \<notin> {CHR '' '', CHR 0x09, CHR 0x0D, CHR 0x0A}"
  shows "skipSpaces p = p"
proof -
  have "takeWhile (\<lambda>c. c \<in> {CHR '' '', CHR 0x09, CHR 0x0D, CHR 0x0A}) (rest p) = []"
    using assms by (auto simp: takeWhile_eq_Nil_iff)
  then show ?thesis
    unfolding skipSpaces_def skip_while_eq by simp
qed

lemma quoted_loop_escape:
  "quoted_loop (concat (map escape_byte s) @ CHR 0x22 # r) acc i
     = Some (acc @ s, i + length (concat (map escape_byte s)) + 1)"
  by (induction s arbitrary: acc i) (auto simp: escape_byte_def)

lemma quoted_quote:
  assumes "rest p = quote s @ r"
  shows "quoted p = (Some s, advance (length (quote s)) p)"
proof -
  have "drop (Suc (fp_pos p)) (fp_src p) = concat (map escape_byte s) @ CHR 0x22 # r"
    using assms unfolding rest_def quote_def by (metis append_Cons append_Nil append_assoc drop_Suc list.sel(3) tl_drop)
  moreover have "peek p = CHR 0x22"
    using assms by (intro peek_rest) (simp add: quote_def)
  ultimately show ?thesis
    by (simp add: quoted_def quoted_loop_escape advance_def quote_def)
qed

text \<open>\<open>stops r\<close>: what follows an operand in a tree is a comma or a closing parenthesis.\<close>

definition stops :: "string \<Rightarrow> bool" where
  "stops r = (r \<noteq> [] \<and> (hd r = CHR '','' \<or> hd r = CHR '')''))"

lemma quotedElement_quote:
  assumes "rest p = quote s @ r" and "stops r"
  shows "quotedElement p = (Some s, advance (length (quote s)) p)"
proof -
  have "rest (advance (length (quote s)) p) = r"
    using assms(1) by (simp add: rest_advance)
  with assms(2) have "peek (advance (length (quote s)) p) \<in> {CHR '','', CHR '')''}"
    by (cases r) (auto simp: stops_def peek_rest)
  then show ?thesis
    by (auto simp: quotedElement_def quoted_quote [OF assms(1)])
qed

lemma name_quote: "rest p = quote s @ r \<Longrightarrow> name L p = Inr (s, advance (length (quote s)) p)"
  using peek_rest [of p "CHR 0x22"] by (simp add: name_def quoted_quote) (simp add: quote_def)

section \<open>Reading back: paths\<close>

lemma quote_hd: "quote s = CHR 0x22 # concat (map escape_byte s) @ [CHR 0x22]"
  by (simp add: quote_def)

lemma src_at:
  assumes "rest p = c # r"
  shows "fp_pos p < length (fp_src p)" and "fp_src p ! fp_pos p = c"
proof -
  show "fp_pos p < length (fp_src p)"
    using assms by (metis drop_all leI list.discI rest_def)
  then show "fp_src p ! fp_pos p = c"
    using assms by (metis drop_nonempty_nth list.inject rest_def)
qed

lemma arrayIndex_quote: "rest p = quote s @ r \<Longrightarrow> arrayIndex L p = (None, p)"
  using src_at [of p "CHR 0x22"]
  by (simp add: arrayIndex_def Let_def quote_hd) (simp add: rest_def isASCIIDigit_def)

lemma Itoa_shape: "\<exists>ds. Itoa i = (if i < 0 then ''-'' else []) @ ds \<and> ds \<noteq> [] \<and> list_all isASCIIDigit ds"
  by (auto simp: Itoa_def itoa_nat_digits)

text \<open>After an index comes a dot or another arrow; neither continues a name.\<close>

definition path_stops :: "string \<Rightarrow> bool" where
  "path_stops r = (HasPrefix r ''.'' \<or> HasPrefix r ''->'')"

definition name_starts :: "golib \<Rightarrow> string \<Rightarrow> bool" where
  "name_starts L t = (t \<noteq> [] \<and> isNameRune L (fst (DecodeRune t)))"

lemma nameRuneAt_rest: "nameRuneAt L p (fp_pos p + n) = name_starts L (drop n (rest p))"
  by (simp add: nameRuneAt_def name_starts_def rest_def add.commute)

lemma arrayIndex_rest:
  assumes "rest p = (sg @ ds) @ r" and "sg = [] \<or> sg = ''-''" and "ds \<noteq> []" and "list_all isASCIIDigit ds"
    and "path_stops r" and "ParseInt (sg @ ds) 32 = Some k"
  shows "arrayIndex L p = (Some k, advance (length (sg @ ds)) p)"
proof -
  let ?s = "fp_src p" and ?i = "fp_pos p"
  obtain c t where r: "r = c # t" and c: "c = CHR ''.'' \<or> c = CHR ''-'' \<and> (\<exists>u. t = CHR ''>'' # u)"
    using assms(5) by (auto simp: path_stops_def HasPrefix_iff)
  have nd: "\<not> isASCIIDigit c" and nn: "\<not> name_starts L r" and nt: "c = CHR ''-'' \<Longrightarrow> \<not> name_starts L t"
    using c by (auto simp: isASCIIDigit_def name_starts_def r DecodeRune_ascii byte_def isNameRune_def)
  have tw: "takeWhile isASCIIDigit (ds @ r) = ds"
    using takeWhile_append_stop [of ds isASCIIDigit r] assms(4) nd r by (simp add: list_all_iff)
  have i1: "(if ?i < length ?s \<and> ?s ! ?i = CHR ''-'' then ?i + 1 else ?i) = ?i + length sg"
  proof (cases sg)
    case Nil
    then obtain d es where "ds = d # es" "isASCIIDigit d" using assms(3,4) by (cases ds) auto
    with Nil show ?thesis using src_at [of p d "es @ r"] assms(1) by (auto simp: isASCIIDigit_def)
  qed (use src_at [of p "CHR ''-''" "ds @ r"] assms(1,2) in auto)
  have i2: "drop (?i + length sg) ?s = ds @ r"
    using assms(1) unfolding rest_def by (metis add.commute append_assoc append_eq_conv_conj drop_drop)
  have i3: "drop (?i + length sg + length ds) ?s = r"
    using i2 by (metis add.commute append_eq_conv_conj drop_drop)
  have sl: "slice ?s ?i (?i + length sg + length ds) = sg @ ds"
    using assms(1) by (simp add: slice_def rest_def)
  have nr: "\<not> nameRuneAt L p (?i + length sg + length ds)"
    using nameRuneAt_rest [of L p "length sg + length ds"] nn assms(1) by (simp add: add.assoc)
  have cr: "fp_src p ! (?i + length sg + length ds) = c" "?i + length sg + length ds < length ?s"
    using i3 r by (metis hd_drop_nth leI drop_all list.discI list.sel(1))+
  have nr': "c = CHR ''-'' \<Longrightarrow> \<not> nameRuneAt L p (?i + length sg + length ds + 1)"
    using nameRuneAt_rest [of L p "length sg + length ds + 1"] nt assms(1) r by (simp add: add.assoc)
  show ?thesis
    unfolding arrayIndex_def Let_def i1 i2 tw sl assms(6)
    using assms(3) nr nr' cr by (auto simp: advance_def)
qed

lemma path_step_print:
  assumes "rest p = (if js_isIndex st then Itoa (js_index st) else quote (js_key st)) @ r"
    and "plain_step st" and "path_stops r"
  shows "path_step L (js_arrow st) p
    = Inr (st, advance (length (if js_isIndex st then Itoa (js_index st) else quote (js_key st))) p)"
proof (cases "js_isIndex st")
  case True
  obtain ds where ds: "Itoa (js_index st) = (if js_index st < 0 then ''-'' else []) @ ds"
      "ds \<noteq> []" "list_all isASCIIDigit ds"
    using Itoa_shape [of "js_index st"] by blast
  have "ParseInt (Itoa (js_index st)) 32 = Some (js_index st)"
    using assms(2) True by (intro ParseInt_Itoa) (auto simp: plain_step_def)
  then have "arrayIndex L p = (Some (js_index st), advance (length (Itoa (js_index st))) p)"
    unfolding ds(1) by (intro arrayIndex_rest) (use assms(1,3) True ds in auto)
  then show ?thesis
    using True assms(2) by (auto simp: path_step_def plain_step_def)
next
  case False
  then show ?thesis
    using assms by (auto simp: path_step_def plain_step_def arrayIndex_quote name_quote)
qed

lemma path_arrow_match:
  assumes "rest p = a @ c # r" and "a \<in> {''->'', ''->>''}" and "c \<noteq> CHR ''>''"
  shows "path_arrow p = Some (a, advance (length a) p)"
  using assms by (auto simp: path_arrow_def consume_def HasPrefix_def split: prod.splits)

lemma path_arrow_stop: "rest p = CHR ''.'' # r \<Longrightarrow> path_arrow p = None"
  by (simp add: path_arrow_def consume_def HasPrefix_def)

lemma print_path_stops: "list_all plain_step sts \<Longrightarrow> path_stops (print_path sts @ CHR ''.'' # r)"
  by (cases sts) (auto simp: path_stops_def print_path_def print_step_def plain_step_def HasPrefix_def)

lemma step_operand_hd:
  "\<exists>c r. (if js_isIndex st then Itoa (js_index st) else quote (js_key st)) = c # r \<and> c \<noteq> CHR ''>''"
proof (cases "js_isIndex st")
  case True
  obtain d ds where "itoa_nat (nat \<bar>js_index st\<bar>) = d # ds" "isASCIIDigit d"
    using itoa_nat_digits [of "nat \<bar>js_index st\<bar>"] by (cases "itoa_nat (nat \<bar>js_index st\<bar>)") auto
  with True show ?thesis
    by (auto simp: Itoa_def isASCIIDigit_def)
qed (simp add: quote_hd)

lemma jsonPath_loop_print:
  "rest p = print_path sts @ CHR ''.'' # r \<Longrightarrow> list_all plain_step sts \<Longrightarrow>
     jsonPath_loop L p path = Inr (path @ sts, advance (length (print_path sts)) p)"
proof (induction sts arbitrary: p path)
  case Nil
  then show ?case
    by (simp add: jsonPath_loop.simps [of L p path] print_path_def path_arrow_stop)
next
  case (Cons st sts)
  let ?o = "if js_isIndex st then Itoa (js_index st) else quote (js_key st)"
  let ?t = "print_path sts @ CHR ''.'' # r"
  have src: "rest p = js_arrow st @ ?o @ ?t"
    using Cons.prems(1) by (simp add: print_path_def print_step_def)
  obtain c u where o: "?o = c # u" "c \<noteq> CHR ''>''" using step_operand_hd by blast
  have a: "path_arrow p = Some (js_arrow st, advance (length (js_arrow st)) p)"
    using path_arrow_match [of p "js_arrow st" c "u @ ?t"] src o Cons.prems(2) by (auto simp: plain_step_def)
  have r1: "rest (advance (length (js_arrow st)) p) = ?o @ ?t"
    by (rule rest_advance [OF src refl])
  have s: "path_step L (js_arrow st) (advance (length (js_arrow st)) p)
      = Inr (st, advance (length ?o) (advance (length (js_arrow st)) p))"
    by (rule path_step_print [OF r1]) (use Cons.prems(2) print_path_stops in auto)
  have r2: "rest (advance (length ?o) (advance (length (js_arrow st)) p)) = ?t"
    by (rule rest_advance [OF r1 refl])
  show ?case
    using Cons.IH [OF r2] Cons.prems(2) a s
    by (simp add: jsonPath_loop.simps [of L p path]) (simp add: print_path_def print_step_def add.assoc)
qed

lemma jsonPath_print:
  "rest p = print_path sts @ CHR ''.'' # r \<Longrightarrow> list_all plain_step sts \<Longrightarrow>
     jsonPath L p = Inr (sts, advance (length (print_path sts)) p)"
  by (simp add: jsonPath_def jsonPath_loop_print)

section \<open>Reading back: operations\<close>

lemma skipSpaces_stops: "rest p = c # r \<Longrightarrow> c \<in> {CHR 0x22, CHR '','', CHR '')''} \<Longrightarrow> skipSpaces p = p"
  by (rule skipSpaces_noop) auto

lemma list_loop_print:
  "rest p = Join (map quote vs) '','' @ CHR '')'' # r \<Longrightarrow> vs \<noteq> [] \<Longrightarrow>
     list_loop items p = (items @ vs, advance (length (Join (map quote vs) '','')) p)"
proof (induction vs arbitrary: p items)
  case (Cons v vs)
  define t where "t = (if vs = [] then CHR '')'' # r else CHR '','' # Join (map quote vs) '','' @ CHR '')'' # r)"
  have src: "rest p = quote v @ t"
    using Cons.prems(1) by (simp add: Join_Cons t_def)
  have item: "list_item items p = Some (v, advance (length (quote v)) p)"
    using quotedElement_quote [OF src] by (auto simp: list_item_def stops_def t_def)
  have r1: "rest (advance (length (quote v)) p) = t" by (rule rest_advance [OF src refl])
  show ?case
  proof (cases "vs = []")
    case True
    with r1 have "consume '','' (advance (length (quote v)) p) = (False, advance (length (quote v)) p)"
      by (intro consume_mismatch) (simp add: t_def HasPrefix_def)
    with True item show ?thesis
      by (simp add: list_loop.simps [of items p])
  next
    case False
    have r2: "rest (advance (length (quote v)) p) = '','' @ Join (map quote vs) '','' @ CHR '')'' # r"
      using r1 False by (simp add: t_def)
    have r3: "rest (advance 1 (advance (length (quote v)) p)) = Join (map quote vs) '','' @ CHR '')'' # r"
      by (rule rest_advance [OF r2]) simp
    show ?thesis
      using Cons.IH [OF r3 False] item consume_match [OF r2] False
      by (simp add: list_loop.simps [of items p] Join_Cons)
  qed
qed simp

lemma list_print:
  assumes "rest p = ''('' @ Join (map quote vs) '','' @ '')'' @ r" and "stops r"
  shows "list inTree p = Inr (vs, advance (length (Join (map quote vs) '','') + 2) p)"
proof -
  let ?p1 = "advance 1 p"
  have r1: "rest ?p1 = Join (map quote vs) '','' @ CHR '')'' # r"
    using rest_advance [OF assms(1)] by simp
  have "skipSpaces ?p1 = ?p1"
    by (rule skipSpaces_noop) (use r1 in \<open>cases vs; auto simp: Join_Cons quote_hd\<close>)
  moreover have "list_loop [] ?p1 = (vs, advance (length (Join (map quote vs) '','')) ?p1)"
  proof (cases "vs = []")
    case True
    with r1 have "rest ?p1 = [] @ CHR '')'' # r" by simp
    from span_while_match [OF this, of "\<lambda>c. c \<notin> set '',)''"] peek_rest [of ?p1 "CHR '')''" r] True r1
    show ?thesis
      by (simp add: list_loop.simps [of "[]" "advance (Suc 0) p"] list_item_def quotedElement_def quoted_def until_def)
  next
    case False
    then show ?thesis using list_loop_print [OF r1 False] by simp
  qed
  moreover have r2: "rest (advance (length (Join (map quote vs) '','')) ?p1) = '')'' @ r"
    using rest_advance [OF r1 refl] by simp
  moreover have "skipSpaces (advance 1 (advance (length (Join (map quote vs) '','')) ?p1))
      = advance 1 (advance (length (Join (map quote vs) '','')) ?p1)"
    using rest_advance [OF r2, of 1] assms(2)
    by (intro skipSpaces_noop) (auto simp: stops_def)
  ultimately show ?thesis
    using consume_match [OF assms(1)] expect_match [OF r2] by (simp add: list_def)
qed

text \<open>The operators of the tables are words of letters, none of them \<open>not\<close>, and the tables are disjoint.\<close>

lemma fts_operator:
  "map_of ftsFunctions opr \<noteq> None \<Longrightarrow>
     list_all isASCIILetter opr \<and> opr \<notin> {[], ''not'', ''in'', ''is'', ''isdistinct''}"
  by (auto simp: ftsFunctions_def isASCIILetter_def byte_def split: if_splits)

lemma sql_operator:
  "map_of sqlOperators opr \<noteq> None \<Longrightarrow>
     list_all isASCIILetter opr \<and> opr \<notin> {[], ''not'', ''in'', ''is'', ''isdistinct''}
     \<and> map_of ftsFunctions opr = None"
  by (auto simp: sqlOperators_def ftsFunctions_def isASCIILetter_def byte_def split: if_splits)

lemma isValues_word: "map_of isValues w \<noteq> None \<Longrightarrow> list_all isASCIILetterU w \<and> ToLower w = w"
  by (auto simp: isValues_def isASCIILetterU_def isASCIILetter_def byte_def lower_char_def split: if_splits)

lemma op_modifier_print:
  assumes "rest p = print_modifier n @ CHR ''.'' # r" and "wf_condition n" and "fn_operator n \<notin> {''in'', ''is''}"
  shows "op_modifier (fn_operator n) p = Inr (fn_quant n, fn_lang n, advance (length (print_modifier n)) p)"
proof -
  have dot: "rest p = CHR ''.'' # r \<Longrightarrow> consume ''('' p = (False, p)"
    by (rule consume_mismatch) (simp add: HasPrefix_def)
  consider "fn_operator n = ''isdistinct''" "fn_quant n = []" "fn_lang n = []"
    | "map_of ftsFunctions (fn_operator n) \<noteq> None" "fn_quant n = []" "list_all isLangChar (fn_lang n)"
    | "map_of sqlOperators (fn_operator n) \<noteq> None" "fn_lang n = []"
      "fn_quant n = [] \<or> fn_operator n \<in> set quantifiable \<and> fn_quant n \<in> {''ANY'', ''ALL''}"
    using assms(2,3) by (cases n) (auto simp: wf_condition_def)
  then show ?thesis
  proof cases
    case 1
    then show ?thesis by (simp add: op_modifier_def print_modifier_def)
  next
    case 2
    note op = fts_operator [OF 2(1)]
    show ?thesis
    proof (cases "fn_lang n = []")
      case True
      with 2 op dot assms(1) show ?thesis by (simp add: op_modifier_def print_modifier_def)
    next
      case False
      let ?la = "fn_lang n"
      have r0: "rest p = ''('' @ ?la @ '')'' @ CHR ''.'' # r"
        using assms(1) False by (simp add: print_modifier_def)
      have r1: "rest (advance 1 p) = ?la @ '')'' @ CHR ''.'' # r" by (rule rest_advance [OF r0]) simp
      have sp: "span_while isLangChar (advance 1 p) = (?la, advance (length ?la) (advance 1 p))"
        by (rule span_while_match [OF r1 2(3)]) (simp add: isLangChar_def isASCIILetter_def isASCIIDigit_def byte_def)
      have "expect '')'' (advance (length ?la) (advance 1 p)) = Inr (advance 1 (advance (length ?la) (advance 1 p)))"
        using expect_match [OF rest_advance [OF r1 refl]] by simp
      with 2 op False sp consume_match [OF r0] show ?thesis
        by (auto simp: op_modifier_def print_modifier_def)
    qed
  next
    case 3
    note op = sql_operator [OF 3(1)]
    consider "fn_quant n = []" | "fn_quant n = ''ANY''" "fn_operator n \<in> set quantifiable"
      | "fn_quant n = ''ALL''" "fn_operator n \<in> set quantifiable" using 3(3) by blast
    then show ?thesis
    proof cases
      case 1
      with 3 op dot assms(1) show ?thesis by (simp add: op_modifier_def print_modifier_def)
    next
      case 2
      have r0: "rest p = ''('' @ ''any)'' @ CHR ''.'' # r"
        using assms(1) 2 3 by (simp add: print_modifier_def)
      have r1: "rest (advance 1 p) = ''any)'' @ CHR ''.'' # r" by (rule rest_advance [OF r0]) simp
      from 2 3 op consume_match [OF r0] consume_match [OF r1] show ?thesis
        by (auto simp: op_modifier_def print_modifier_def)
    next
      case q: 3
      have r0: "rest p = ''('' @ ''all)'' @ CHR ''.'' # r"
        using assms(1) 3 q by (simp add: print_modifier_def)
      have r1: "rest (advance 1 p) = ''all)'' @ CHR ''.'' # r" by (rule rest_advance [OF r0]) simp
      have "consume ''any)'' (advance 1 p) = (False, advance 1 p)"
        by (rule consume_mismatch) (use r1 in \<open>simp add: HasPrefix_def\<close>)
      with 3 q op consume_match [OF r0] consume_match [OF r1] show ?thesis
        by (auto simp: op_modifier_def print_modifier_def)
    qed
  qed
qed

lemma not_prefix:
  assumes "list_all isASCIILetter w" and "w \<noteq> ''not''" and "\<not> isASCIILetter c"
  shows "\<not> HasPrefix (w @ c # r) ''not.''"
proof
  assume "HasPrefix (w @ c # r) ''not.''"
  then obtain u where "w @ c # r = ''not'' @ CHR ''.'' # u" by (auto simp: HasPrefix_iff)
  then have "takeWhile isASCIILetter (w @ c # r) = takeWhile isASCIILetter (''not'' @ CHR ''.'' # u)" by simp
  moreover have "takeWhile isASCIILetter (w @ c # r) = w"
    using takeWhile_append_stop [of w isASCIILetter "c # r"] assms(1,3) by (simp add: list_all_iff)
  ultimately show False
    using assms(2) by (simp add: isASCIILetter_def byte_def)
qed

lemma operand_quote:
  "rest p = quote v @ r \<Longrightarrow> stops r \<Longrightarrow> operand True p = (v, advance (length (quote v)) p)"
  by (simp add: operand_def quotedElement_quote)

text \<open>What follows the operator in a printed operation, and what the parser makes of it.\<close>

definition print_arg :: "filterNode \<Rightarrow> string" where
  "print_arg n = (if fn_operator n = ''in'' then ''.('' @ Join (map quote (fn_list n)) '','' @ '')''
     else if fn_operator n = ''is'' then ''.'' @ fn_value n
     else print_modifier n @ ''.'' @ quote (fn_value n))"

lemma print_operation_arg:
  "print_operation n = (if fn_negate n then ''not.'' else []) @ fn_operator n @ print_arg n"
  by (simp add: print_operation_def print_arg_def)

lemma wf_operator:
  "wf_condition n \<Longrightarrow> list_all isASCIILetter (fn_operator n) \<and> fn_operator n \<noteq> [] \<and> fn_operator n \<noteq> ''not''"
proof -
  assume "wf_condition n"
  then have "fn_operator n \<in> {''in'', ''is'', ''isdistinct''} \<or> map_of ftsFunctions (fn_operator n) \<noteq> None
      \<or> map_of sqlOperators (fn_operator n) \<noteq> None"
    by (cases n) (auto simp: wf_condition_def)
  then show ?thesis
    using fts_operator sql_operator by (auto simp: isASCIILetter_def byte_def)
qed

lemma print_arg_hd: "\<exists>c u. print_arg n = c # u \<and> c \<in> {CHR ''.'', CHR ''(''}"
  by (auto simp: print_arg_def print_modifier_def)

lemma operation_head:
  assumes "rest p = print_operation n @ r" and "wf_condition n"
  obtains p1 p2 k where "consume ''not.'' p = (fn_negate n, p1)"
    and "span_while isASCIILetter p1 = (fn_operator n, p2)"
    and "p2 = advance k p" and "length (print_operation n) = k + length (print_arg n)" and "rest p2 = print_arg n @ r"
proof -
  note op = wf_operator [OF assms(2)]
  obtain c u where a: "print_arg n = c # u" "c \<in> {CHR ''.'', CHR ''(''}" using print_arg_hd by blast
  then have c: "\<not> isASCIILetter c" by (auto simp: isASCIILetter_def byte_def)
  define p1 where "p1 = (if fn_negate n then advance 4 p else p)"
  have r1: "rest p1 = fn_operator n @ print_arg n @ r"
    using assms(1) rest_advance [of p "''not.''" "fn_operator n @ print_arg n @ r" 4]
    by (simp add: p1_def print_operation_arg)
  have "consume ''not.'' p = (fn_negate n, p1)"
  proof (cases "fn_negate n")
    case True
    with assms(1) have "rest p = ''not.'' @ fn_operator n @ print_arg n @ r" by (simp add: print_operation_arg)
    from consume_match [OF this] True show ?thesis by (simp add: p1_def numeral_eq_Suc)
  next
    case False
    then have "\<not> HasPrefix (rest p) ''not.''"
      using not_prefix [of "fn_operator n" c "u @ r"] op c a(1) assms(1) by (simp add: print_operation_arg)
    with False show ?thesis by (simp add: consume_mismatch p1_def)
  qed
  moreover have "span_while isASCIILetter p1 = (fn_operator n, advance (length (fn_operator n)) p1)"
    by (rule span_while_match [OF r1]) (use op a c in auto)
  moreover have "advance (length (fn_operator n)) p1
      = advance ((if fn_negate n then 4 else 0) + length (fn_operator n)) p"
    by (simp add: p1_def)
  ultimately show ?thesis
    by (rule that) (use rest_advance [OF r1 refl] in \<open>auto simp: print_operation_arg\<close>)
qed

lemma operation_print:
  assumes "rest p = print_operation n @ r" and "wf_condition n" and "stops r"
  shows "operation True p = Inr (op_node (fn_negate n) (fn_operator n) (fn_quant n) (fn_lang n) (fn_value n) (fn_list n),
           advance (length (print_operation n)) p)"
proof -
  obtain p1 p2 k where c: "consume ''not.'' p = (fn_negate n, p1)" and s: "span_while isASCIILetter p1 = (fn_operator n, p2)"
      and p2: "p2 = advance k p" and len: "length (print_operation n) = k + length (print_arg n)" and r2: "rest p2 = print_arg n @ r"
    using operation_head [OF assms(1,2)] .
  note op = wf_operator [OF assms(2)]
  consider "fn_operator n = ''in''" | "fn_operator n = ''is''" | "fn_operator n \<notin> {''in'', ''is''}" by blast
  then show ?thesis
  proof cases
    case 1
    have z: "fn_quant n = []" "fn_lang n = []" "fn_value n = []"
      using assms(2) 1 by (cases n; auto simp: wf_condition_def ftsFunctions_def sqlOperators_def)+
    have r: "rest p2 = ''.'' @ (''('' @ Join (map quote (fn_list n)) '','' @ '')'' @ r)"
      using r2 1 by (simp add: print_arg_def)
    note r' = rest_advance [OF r refl]
    from c s 1 z list_print [OF r' assms(3), of True] expect_match [OF r] len show ?thesis
      by (simp add: operation_def p2 print_arg_def)
  next
    case 2
    have z: "fn_quant n = []" "fn_lang n = []" "fn_list n = []" "map_of isValues (fn_value n) \<noteq> None"
      using assms(2) 2 by (cases n; auto simp: wf_condition_def ftsFunctions_def sqlOperators_def)+
    have r: "rest p2 = ''.'' @ (fn_value n @ r)"
      using r2 2 by (simp add: print_arg_def)
    have "span_while isASCIILetterU (advance 1 p2) = (fn_value n, advance (length (fn_value n)) (advance 1 p2))"
      by (rule span_while_match [OF rest_advance [OF r]])
        (use isValues_word [OF z(4)] assms(3) in \<open>auto simp: stops_def isASCIILetterU_def isASCIILetter_def byte_def\<close>)
    with c s 2 z expect_match [OF r] len isValues_word [OF z(4)] show ?thesis
      by (auto simp: operation_def p2 print_arg_def)
  next
    case 3
    have z: "fn_list n = []"
      using assms(2) 3 by (cases n) (auto simp: wf_condition_def)
    have r: "rest p2 = print_modifier n @ CHR ''.'' # quote (fn_value n) @ r"
      using r2 3 by (simp add: print_arg_def)
    have rm: "rest (advance (length (print_modifier n)) p2) = ''.'' @ quote (fn_value n) @ r"
      using rest_advance [OF r refl] by simp
    have rv: "rest (advance 1 (advance (length (print_modifier n)) p2)) = quote (fn_value n) @ r"
      by (rule rest_advance [OF rm]) simp
    from c s 3 z op op_modifier_print [OF r assms(2) 3] expect_match [OF rm] operand_quote [OF rv assms(3)] len show ?thesis
      by (auto simp: operation_def p2 print_arg_def add.assoc)
  qed
qed

section \<open>Reading back: trees\<close>

lemma left_rest: "left p = length (rest p)"
  by (simp add: left_def rest_def)

lemma simple_condition_print:
  assumes "rest p = print_node nd @ r" and "stops r" and "wf_condition nd" and "plain_node nd"
  shows "simple_condition L p = Inr (nd, advance (length (print_node nd)) p)"
proof -
  obtain ng fd opr qu la va li where nd: "nd = FilterNode ng [] [] fd opr qu la va li"
    using assms(3) by (cases nd) (auto simp: wf_condition_def)
  have r0: "rest p = quote (ff_column fd) @ print_path (ff_path fd) @ CHR ''.'' # print_operation nd @ r"
    using assms(1) by (simp add: nd)
  let ?p1 = "advance (length (quote (ff_column fd))) p"
  have r1: "rest ?p1 = print_path (ff_path fd) @ CHR ''.'' # print_operation nd @ r"
    by (rule rest_advance [OF r0 refl])
  let ?p2 = "advance (length (print_path (ff_path fd))) ?p1"
  have r2: "rest ?p2 = ''.'' @ print_operation nd @ r" using rest_advance [OF r1 refl] by simp
  have r3: "rest (advance 1 ?p2) = print_operation nd @ r" by (rule rest_advance [OF r2]) simp
  have "jsonPath L ?p1 = Inr (ff_path fd, ?p2)"
    by (rule jsonPath_print [OF r1]) (use assms(4) nd in simp)
  then show ?thesis
    using name_quote [OF r0] expect_match [OF r2] operation_print [OF r3 assms(3,2)]
    by (simp add: simple_condition_def op_node_def nd add.assoc)
qed

text \<open>What the loop over the members needs of \<open>condition\<close>, for one member.\<close>

definition reads :: "golib \<Rightarrow> nat \<Rightarrow> filterNode \<Rightarrow> bool" where
  "reads L d nd = (\<forall>n p r. rest p = print_node nd @ r \<longrightarrow> stops r \<longrightarrow> left p + 1 \<le> n
     \<longrightarrow> condition n L d p = Inr (nd, advance (length (print_node nd)) p))"

lemma print_node_nospace: "hd (print_node nd) \<notin> {CHR '' '', CHR 0x09, CHR 0x0D, CHR 0x0A} \<and> print_node nd \<noteq> []"
  by (cases nd) (simp add: quote_hd)

lemma skipSpaces_node: "rest p = print_node nd @ r \<Longrightarrow> skipSpaces p = p"
  using print_node_nospace [of nd] by (intro skipSpaces_noop) (cases "print_node nd"; auto)

lemma Join_nodes_hd: "cs \<noteq> [] \<Longrightarrow> \<exists>nd u. Join (map print_node cs) '','' = print_node nd @ u"
  by (cases cs) (auto simp: Join_Cons)

lemma group_loop_print:
  "rest p = Join (map print_node cs) '','' @ CHR '')'' # r \<Longrightarrow> cs \<noteq> [] \<Longrightarrow> left p + 2 \<le> n \<Longrightarrow>
     \<forall>c \<in> set cs. reads L d c \<Longrightarrow>
     group_loop n L d p acc = Inr (acc @ cs, advance (length (Join (map print_node cs) '','')) p)"
proof (induction cs arbitrary: n p acc)
  case (Cons c cs)
  obtain m where n: "n = Suc m" using Cons.prems(3) by (cases n) auto
  define t where "t = (if cs = [] then CHR '')'' # r else CHR '','' # Join (map print_node cs) '','' @ CHR '')'' # r)"
  have src: "rest p = print_node c @ t"
    using Cons.prems(1) by (simp add: Join_Cons t_def)
  let ?p1 = "advance (length (print_node c)) p"
  have cnd: "condition m L d p = Inr (c, ?p1)"
    using Cons.prems(3,4) src n by (auto simp: reads_def stops_def t_def)
  have r1: "rest ?p1 = t" by (rule rest_advance [OF src refl])
  show ?case
  proof (cases "cs = []")
    case True
    with r1 have "consume '','' ?p1 = (False, ?p1)"
      by (intro consume_mismatch) (simp add: t_def HasPrefix_def)
    with True cnd n show ?thesis by simp
  next
    case False
    have r2: "rest ?p1 = '','' @ Join (map print_node cs) '','' @ CHR '')'' # r"
      using r1 False by (simp add: t_def)
    have r3: "rest (advance 1 ?p1) = Join (map print_node cs) '','' @ CHR '')'' # r"
      by (rule rest_advance [OF r2]) simp
    have "skipSpaces (advance 1 ?p1) = advance 1 ?p1"
      using Join_nodes_hd [OF False] r3 by (metis append_assoc skipSpaces_node)
    moreover have "left (advance 1 ?p1) + 2 \<le> m"
      using Cons.prems(3) n src r3 False by (simp add: left_rest t_def)
    ultimately show ?thesis
      using Cons.IH [OF r3 False, of m "acc @ [c]"] Cons.prems(4) consume_match [OF r2] cnd n False
      by (simp add: Join_Cons add.assoc)
  qed
qed simp

lemma group_print:
  assumes "rest p = ''('' @ Join (map print_node cs) '','' @ '')'' @ r" and "cs \<noteq> []" and "left p + 2 \<le> n"
    and "\<forall>c \<in> set cs. reads L d c" and "d \<le> maxFilterDepth" and "r = [] \<or> stops r"
  shows "group n L lg ng d p = Inr (FilterNode ng lg cs zero_field [] [] [] [] [],
           advance (length (Join (map print_node cs) '','') + 2) p)"
proof -
  let ?t = "Join (map print_node cs) '',''"
  obtain m where n: "n = Suc m" using assms(3) by (cases n) auto
  have r1: "rest (advance 1 p) = ?t @ CHR '')'' # r" using rest_advance [OF assms(1)] by simp
  have "skipSpaces (advance 1 p) = advance 1 p"
    using Join_nodes_hd [OF assms(2)] r1 by (metis append_assoc skipSpaces_node)
  moreover have "group_loop m L d (advance 1 p) [] = Inr (cs, advance (length ?t) (advance 1 p))"
    using group_loop_print [OF r1 assms(2), of m L d "[]"] assms(1,3,4) n r1 by (simp add: left_rest)
  moreover have r2: "rest (advance (length ?t) (advance 1 p)) = '')'' @ r"
    using rest_advance [OF r1 refl] by simp
  moreover have "skipSpaces (advance 1 (advance (length ?t) (advance 1 p))) = advance 1 (advance (length ?t) (advance 1 p))"
    using rest_advance [OF r2, of 1] assms(6) by (intro skipSpaces_noop) (auto simp: stops_def)
  ultimately show ?thesis
    using assms(5) expect_match [OF assms(1)] consume_match [OF r2] n by simp
qed

text \<open>The keyword of a group's own syntax.\<close>

definition group_word :: "bool \<Rightarrow> string \<Rightarrow> string" where
  "group_word ng lg = (if ng then ''not.'' else []) @ (if lg = ''AND'' then ''and'' else ''or'')"

lemma group_prefix_word:
  assumes "rest p = group_word ng lg @ CHR ''('' # r" and "lg \<in> {''AND'', ''OR''}"
  shows "group_prefix p = Some (group_word ng lg @ ''('', lg, ng)"
  using assms by (cases ng) (auto simp: group_prefix_def group_prefixes_def group_word_def HasPrefix_def)

lemma group_prefix_quote: "rest p = quote s @ r \<Longrightarrow> group_prefix p = None"
  by (simp add: group_prefix_def group_prefixes_def HasPrefix_def quote_hd)

lemma condition_print:
  "wf_node (maxFilterDepth - d) nd \<Longrightarrow> d \<le> maxFilterDepth \<Longrightarrow> plain_node nd \<Longrightarrow> reads L d nd"
proof (induction nd arbitrary: d)
  case (FilterNode ng lg ch fd opr qu la va li)
  let ?nd = "FilterNode ng lg ch fd opr qu la va li"
  show ?case
    unfolding reads_def
  proof (intro allI impI)
    fix n p r
    assume src: "rest p = print_node ?nd @ r" and st: "stops r" and fuel: "left p + 1 \<le> n"
    obtain m where n: "n = Suc m" using fuel by (cases n) auto
    show "condition n L d p = Inr (?nd, advance (length (print_node ?nd)) p)"
    proof (cases "lg = []")
      case True
      then have "group_prefix p = None"
        using src by (auto intro: group_prefix_quote)
      then show ?thesis
        using simple_condition_print [OF src st] FilterNode.prems True n by simp
    next
      case False
      then obtain e where e: "maxFilterDepth - d = Suc e"
        using FilterNode.prems(1) by (cases "maxFilterDepth - d") auto
      have wf: "lg \<in> {''AND'', ''OR''}" "ch \<noteq> []" "list_all (wf_node e) ch"
          "fd = zero_field" "opr = []" "qu = []" "la = []" "va = []" "li = []"
        using FilterNode.prems(1) False e by auto
      have de: "e = maxFilterDepth - (d + 1)" "d + 1 \<le> maxFilterDepth" using e by auto
      have ch: "\<forall>c \<in> set ch. reads L (d + 1) c"
        using FilterNode.IH [of _ "d + 1"] FilterNode.prems(3) wf(3) de by (auto simp: list_all_iff)
      let ?w = "group_word ng lg" and ?t = "Join (map print_node ch) '',''"
      have src': "rest p = ?w @ ''('' @ ?t @ '')'' @ r"
        using src False by (simp add: group_word_def)
      have "group_prefix p = Some (?w @ ''('', lg, ng)"
        by (rule group_prefix_word) (use src' wf(1) in auto)
      moreover have r1: "rest (advance (length ?w) p) = ''('' @ ?t @ '')'' @ r"
        by (rule rest_advance [OF src' refl])
      moreover have "left (advance (length ?w) p) + 2 \<le> m"
        using fuel n src' r1 by (simp add: left_rest group_word_def split: if_splits)
      ultimately show ?thesis
        using group_print [OF r1 wf(2), of m L "d + 1" lg ng] ch de(2) st n wf False
        by (simp add: group_word_def add.assoc)
    qed
  qed
qed

definition print_members :: "filterNode \<Rightarrow> string" where
  "print_members nd = ''('' @ Join (map print_node (fn_children nd)) '','' @ '')''"

lemma parse_tree_print:
  assumes "wf_node maxFilterDepth nd" and "fn_logic nd \<noteq> []" and "plain_node nd"
  shows "parse_tree L (fn_logic nd) (fn_negate nd) (print_members nd) = Inr nd"
proof (cases nd)
  case (FilterNode ng lg ch fd opr qu la va li)
  have wf: "ch \<noteq> []" "list_all (wf_node (maxFilterDepth - 1)) ch"
      "fd = zero_field" "opr = []" "qu = []" "la = []" "va = []" "li = []"
    using assms FilterNode by (auto split: nat.splits) (metis diff_Suc_1')+
  have ch: "\<forall>c \<in> set ch. reads L 1 c"
    using condition_print [of 1] wf(2) assms(3) FilterNode by (auto simp: list_all_iff maxFilterDepth_def)
  let ?p = "\<lparr>fp_src = print_members nd, fp_pos = 0\<rparr>"
  have "rest ?p = ''('' @ Join (map print_node ch) '','' @ '')'' @ []"
    by (simp add: rest_def print_members_def FilterNode)
  from group_print [OF this wf(1), of "fuel_for (print_members nd)" L 1 lg ng] ch show ?thesis
    using wf by (simp add: parse_tree_def FilterNode fuel_for_def left_def maxFilterDepth_def expectEOF_def eof_def
        advance_def print_members_def)
qed

lemma parseFilter_tree:
  assumes "lg \<in> {''AND'', ''OR''}"
  shows "parseFilter L (group_word ng lg) value = parse_tree L lg ng value"
  using assms by (cases ng) (auto simp: parseFilter_def group_word_def Let_def)

end
