(* ===== verification/FilterProps.thy ===== *)
theory FilterProps
  imports FilterSafe FilterRoundtrip
begin

text \<open>
  The properties of the filter language of \<open>pkg/rest/filter.go\<close>, over the lemmas of
  \<open>FilterCorrect\<close>, \<open>FilterSafe\<close> and \<open>FilterRoundtrip\<close>, with an evaluated example each.
\<close>

definition example_column :: "string \<Rightarrow> string \<Rightarrow> bool \<Rightarrow> Column" where
  "example_column nm dt pk = \<lparr>col_Name = nm, col_DataType = dt, col_UDTSchema = ''pg_catalog'', col_UDTName = dt,
     col_TypeKind = ''b'', col_ElemKind = [], col_IsNullable = False, col_IsPrimaryKey = pk\<rparr>"

definition example_table :: Table where
  "example_table = \<lparr>tbl_Schema = ''public'', tbl_Name = ''users'', tbl_Type = ''TABLE'',
     tbl_Columns = [example_column ''id'' ''integer'' True, example_column ''name'' ''text'' False,
                    example_column ''data'' ''jsonb'' False],
     tbl_PrimaryKeys = [''id''], tbl_ForeignKeys = [], tbl_ViewQuery = []\<rparr>"

section \<open>Safety of the generated SQL\<close>

text \<open>
  C1. The text of a WHERE clause consists of fixed SQL fragments, quoted names of columns of the
  table, and placeholders; everything a client sent is in the bound values, the values bound before
  are kept, and the placeholders are exactly those of the new values.
\<close>

theorem where_clause_safe:
  assumes "buildWhereClause L t filters args = Inr (sql, args')"
  shows "\<exists>toks vals. sql = toks_text L toks \<and> list_all (safe_tok t) toks
    \<and> args' = args @ vals \<and> params toks = {length args<..length args'}"
proof -
  obtain nodes where n: "map_res (parse_raw L) filters = Inr nodes" "list_all (columns_known t) nodes"
      "sql = toks_text L (conds_toks t nodes (length args))" "args' = args @ concat (map (node_vals t) nodes)"
    using assms unfolding buildWhereClause_Inr by blast
  have "list_all (safe_tok t) (conds_toks t nodes (length args))"
    unfolding list_all_iff using conds_toks_safe [OF n(2) parse_raw_wf [OF n(1)]] by blast
  then show ?thesis
    using n params_conds [OF n(2), of "length args"] by (metis length_append)
qed

theorem where_clause_safe_witness:
  "\<exists>toks vals. [CHR 0x22] @ ''name'' @ [CHR 0x22] @ '' = $2'' = toks_text example_lib toks
     \<and> list_all (safe_tok example_table) toks
     \<and> [VInt 7, VStr ''x'' ] = [VInt 7] @ vals \<and> params toks = {length [VInt 7]<..length [VInt 7, VStr ''x'']}"
  by (rule where_clause_safe [where filters = "[\<lparr>rf_Key = ''name'', rf_Value = ''eq.x''\<rparr>]"]) code_simp

text \<open>
  The text of a WHERE clause does not depend on the values a client sends: two lists of
  filters whose trees differ only in operands, list items, JSON keys and indices and text-search
  languages give the same text and equally many bound values.
\<close>

theorem where_clause_values_irrelevant:
  assumes "map_res (parse_raw L) filters = Inr nodes" and "map_res (parse_raw L) filters' = Inr nodes'"
    and "map erase nodes = map erase nodes'" and "length args = length args'"
    and "buildWhereClause L t filters args = Inr (sql, bound)"
  shows "\<exists>bound'. buildWhereClause L t filters' args' = Inr (sql, bound') \<and> length bound' = length bound"
proof -
  have known: "list_all (columns_known t) ns = list_all (columns_known t) (map erase ns)" for ns
    by (simp add: list_all_iff columns_known_erase)
  have vals: "length (concat (map (node_vals t) ns)) = length (concat (map (node_vals t) (map erase ns)))" for ns
    by (simp add: length_concat length_node_vals_erase comp_def)
  have n: "list_all (columns_known t) nodes" "sql = toks_text L (conds_toks t nodes (length args))"
      "bound = args @ concat (map (node_vals t) nodes)"
    using assms(1,5) unfolding buildWhereClause_Inr by auto
  have "conds_toks t nodes' (length args') = conds_toks t nodes (length args)"
    using assms(3,4) by (metis conds_toks_erase)
  moreover have "list_all (columns_known t) nodes'"
    using n(1) known assms(3) by metis
  moreover have "length (args' @ concat (map (node_vals t) nodes')) = length bound"
    using vals assms(3,4) n(3) by (metis length_append)
  ultimately show ?thesis
    using assms(2) n(2) unfolding buildWhereClause_Inr by metis
qed

text \<open>
  C11. A WHERE clause is built exactly when every filter parses and mentions only columns of the
  table, and then it is the conjunction of the conditions of all filters, in their order, with
  their values bound in that order: no filter is dropped, and none is ignored because of an error.
\<close>

theorem where_clause_complete:
  "buildWhereClause L t filters args = Inr (sql, args') \<longleftrightarrow>
     (\<exists>nodes. list_all2 (\<lambda>f n. parseFilter L (rf_Key f) (rf_Value f) = Inr n) filters nodes
        \<and> list_all (columns_known t) nodes
        \<and> sql = toks_text L (conds_toks t nodes (length args))
        \<and> args' = args @ concat (map (node_vals t) nodes))"
  unfolding buildWhereClause_Inr map_res_Inr_iff parse_raw_def by (rule refl)

section \<open>The parser\<close>

text \<open>An error that says the recursion ran out of fuel, alone or inside the caller's message.\<close>

fun ran_out :: "filterError \<Rightarrow> bool" where
  "ran_out OutOfFuel = True"
| "ran_out (ParseLogicTree v e) = (e = OutOfFuel)"
| "ran_out (ParseFilter v e) = (e = OutOfFuel)"
| "ran_out (ParseFilterKey v e) = (e = OutOfFuel)"
| "ran_out _ = False"

lemma expectEOF_error [simp]: "expectEOF p \<noteq> Inl OutOfFuel"
  by (auto simp: expectEOF_def split: if_splits)

lemma parse_tree_ran_out: "parse_tree L lg ng v = Inl e \<Longrightarrow> \<not> ran_out e"
  using parse_tree_fuel [of L lg ng v] by (auto simp: parse_tree_def split: sum.splits)

lemma parse_column_filter_ran_out: "parse_column_filter L f v = Inl e \<Longrightarrow> \<not> ran_out e"
  using opn_total.run_fuel by (auto simp: parse_column_filter_def split: sum.splits)

lemma parseFilterKey_ran_out: "parseFilterKey L k = Inl e \<Longrightarrow> \<not> ran_out e"
  using nm_total.run_fuel jp.run_fuel
  by (fastforce simp: parseFilterKey_def Let_def split: sum.splits if_splits)

text \<open>
  C12. \<open>parseFilter\<close> returns on every input: the mutual recursion of \<open>group\<close> and \<open>condition\<close> never
  needs more steps than the input has bytes, plus three. What it returns is an error or a
  well-formed tree: groups are AND or OR with at least one member, nested at most
  \<open>maxFilterDepth\<close> deep, and every condition has a known operator with operands of its kind.
\<close>

theorem parseFilter_total:
  "case parseFilter L key value of Inl e \<Rightarrow> \<not> ran_out e | Inr node \<Rightarrow> wf_node maxFilterDepth node"
proof (cases "parseFilter L key value")
  case (Inl e)
  then have "\<not> ran_out e"
    by (auto simp: parseFilter_def Let_def split: if_splits sum.splits
        dest: parse_tree_ran_out parse_column_filter_ran_out parseFilterKey_ran_out)
  with Inl show ?thesis by simp
qed (simp add: parseFilter_wf)

text \<open>
  C6. Printing a logic tree in the documented syntax and parsing it gives the tree back: negation,
  nesting, quoted names, JSON paths, quantifiers, languages, lists and operands all survive, whatever
  bytes the names and operands contain.
\<close>

theorem parseFilter_print:
  assumes "wf_node maxFilterDepth node" and "plain_node node" and "fn_logic node \<noteq> []"
  shows "parseFilter L (group_word (fn_negate node) (fn_logic node)) (print_members node) = Inr node"
proof -
  have "fn_logic node \<in> {''AND'', ''OR''}"
    using assms(1,3) by (cases node) (auto split: nat.splits)
  then show ?thesis
    using parseFilter_tree parse_tree_print [OF assms(1,3,2)] by metis
qed

definition example_tree :: filterNode where
  "example_tree = FilterNode True ''OR''
     [FilterNode False [] [] \<lparr>ff_column = ''data'', ff_path = [\<lparr>js_arrow = ''->'', js_key = [], js_index = -1, js_isIndex = True\<rparr>]\<rparr>
        ''in'' [] [] [] [''a,b'', CHR 0x22 # '')'' ],
      FilterNode False ''AND''
        [FilterNode True [] [] \<lparr>ff_column = ''full name'', ff_path = []\<rparr> ''like'' ''ANY'' [] ''{a*}'' []]
        zero_field [] [] [] [] []]
     zero_field [] [] [] [] []"

theorem parseFilter_print_witness:
  "parseFilter example_lib (group_word True ''OR'') (print_members example_tree) = Inr example_tree"
  using parseFilter_print [of example_tree example_lib] by (simp add: example_tree_def plain_step_def zero_field_def
      maxFilterDepth_def wf_condition_def wf_path_def sqlOperators_def quantifiable_def)

section \<open>List operands\<close>

text \<open>
  C13. The value bound for \<open>in.(...)\<close> is a PostgreSQL array literal that reads back as the list the
  client sent: no element can add, drop or merge elements, whatever quotes, commas, braces or
  backslashes it contains.
\<close>

theorem in_list_roundtrip:
  assumes "findColumn t (ff_column (fn_field n)) = Some col" and "fn_operator n = ''in''"
  shows "\<exists>sql lit. conditionSQL L t n args = Inr (sql, args @ map step_val (ff_path (fn_field n)) @ [VStr lit])
    \<and> pg_array lit = Some (fn_list n)"
  using conditionSQL_refines [OF assms(1), of L args] assms(2) pg_array_literal [of "fn_list n"]
  by (auto simp: cond_vals_def rhs_vals_def)

theorem in_list_roundtrip_witness:
  "\<exists>sql lit. conditionSQL example_lib example_table
       (FilterNode False [] [] \<lparr>ff_column = ''id'', ff_path = []\<rparr> ''in'' [] [] [] [''1'', ''}'', CHR 0x22 # '',''])
       [VInt 1] = Inr (sql, [VInt 1] @ map step_val [] @ [VStr lit])
     \<and> pg_array lit = Some [''1'', ''}'', CHR 0x22 # '','']"
  using in_list_roundtrip [of example_table "FilterNode False [] [] \<lparr>ff_column = ''id'', ff_path = []\<rparr> ''in'' [] [] []
      [''1'', ''}'', CHR 0x22 # '','']" _ example_lib "[VInt 1]"]
  by (simp add: findColumn_def example_table_def example_column_def)

end
