(* ===== verification/QueryProps.thy ===== *)
theory QueryProps
  imports Query FilterProps
begin

text \<open>
  The properties of query parameters and SQL statements (\<open>pkg/rest/query.go\<close>, \<open>order_by.go\<close>,
  \<open>http_headers.go\<close>).
\<close>

section \<open>Parameters\<close>

lemma query_filters_keys: "sorted (map rf_Key (query_filters q))"
proof -
  have "sorted (map rf_Key (concat (map (\<lambda>key. if isReservedParam key then []
      else map (\<lambda>v. \<lparr>rf_Key = key, rf_Value = v\<rparr>) (values_of q key)) ks)))" if "sorted ks" for ks
    using that by (induction ks) (auto simp: sorted_append comp_def map_replicate_const)
  then show ?thesis by (simp add: query_filters_def sorted_keys_def)
qed

lemma count_key_values:
  "count (mset (map (\<lambda>v. (k', v)) (map snd (filter (\<lambda>p. fst p = k') ps)))) (k, v)
     = (if k = k' then count (mset ps) (k, v) else 0)"
  by (induction ps) auto

lemma count_query_filters:
  "count (mset (map (\<lambda>f. (rf_Key f, rf_Value f)) (query_filters (ParseQuery raw)))) (k, v)
     = (if isReservedParam k then 0 else count (mset (query_pairs raw)) (k, v))"
proof -
  let ?q = "ParseQuery raw"
  let ?f = "\<lambda>key. if isReservedParam key then [] else map (\<lambda>v. (key, v)) (values_of ?q key)"
  have fs: "map (\<lambda>f. (rf_Key f, rf_Value f)) (query_filters ?q) = concat (map ?f (sorted_keys ?q))"
    by (auto simp: query_filters_def map_concat comp_def intro!: arg_cong [where f = concat] map_cong)
  have one: "count (mset (concat (map ?f ks))) (k, v)
      = (if k \<in> set ks \<and> \<not> isReservedParam k then count (mset (query_pairs raw)) (k, v) else 0)" if "distinct ks" for ks
    using that
  proof (induction ks)
    case (Cons key ks)
    have "count (mset (?f key)) (k, v)
        = (if k = key \<and> \<not> isReservedParam k then count (mset (query_pairs raw)) (k, v) else 0)"
      using count_key_values [of key "query_pairs raw" k v] by (auto simp: values_of_ParseQuery)
    with Cons show ?case by auto
  qed simp
  have "distinct (sorted_keys ?q)"
    using ParseQuery_distinct [of raw] by (simp add: sorted_keys_def)
  moreover have "k \<notin> set (sorted_keys ?q) \<Longrightarrow> count (mset (query_pairs raw)) (k, v) = 0"
    by (auto simp: keys_ParseQuery count_eq_zero_iff image_iff)
  ultimately show ?thesis
    using one [of "sorted_keys ?q"] unfolding fs by auto
qed

text \<open>
  C14. The filters of a request are exactly its well-formed query pairs whose key is not reserved,
  each as often as it was sent (a repeated key gives several filters), ordered by key so that the
  SQL does not depend on the iteration order of a Go map.
\<close>

theorem query_filters_complete:
  "mset (map (\<lambda>f. (rf_Key f, rf_Value f)) (qp_Filters (parseQueryParams raw)))
     = mset (filter (\<lambda>(k, v). \<not> isReservedParam k) (query_pairs raw))
   \<and> sorted (map rf_Key (qp_Filters (parseQueryParams raw)))"
proof
  show "mset (map (\<lambda>f. (rf_Key f, rf_Value f)) (qp_Filters (parseQueryParams raw)))
      = mset (filter (\<lambda>(k, v). \<not> isReservedParam k) (query_pairs raw))"
    by (rule multiset_eqI, case_tac x) (simp add: parseQueryParams_def Let_def count_query_filters del: mset_map)
qed (simp add: parseQueryParams_def Let_def query_filters_keys)


definition example_orders :: "OrderParam list" where
  "example_orders =
     [\<lparr>op_Column = ''age'', op_Direction = ''desc'', op_NullsPosition = ''first'', op_Similarity = []\<rparr>,
      \<lparr>op_Column = ''name'', op_Direction = ''asc'', op_NullsPosition = ''last'', op_Similarity = ''bob''\<rparr>]"


section \<open>Statements\<close>

lemma rhs_toks_text: "toks_text L (rhs_toks col n k lhs) \<noteq> []"
  by (auto simp: rhs_toks_def Let_def split: option.split)

lemma node_toks_text: "columns_known t n \<Longrightarrow> toks_text L (node_toks t n k) \<noteq> []"
  by (cases n) (auto simp: Let_def cond_toks_def rhs_toks_text split: option.splits)

lemma where_nonempty:
  assumes "buildWhereClause L t fs args = Inr (w, args')" and "fs \<noteq> []"
  shows "w \<noteq> []"
proof -
  obtain nodes where n: "map_res (parse_raw L) fs = Inr nodes" "list_all (columns_known t) nodes"
      "w = toks_text L (conds_toks t nodes (length args))"
    using assms(1) unfolding buildWhereClause_Inr by blast
  then obtain m ms where "nodes = m # ms"
    using assms(2) map_res_length [OF n(1)] by (cases nodes) auto
  with n show ?thesis by (simp add: node_toks_text)
qed

lemma delete_is_filtered:
  assumes "qp_Filters qp \<noteq> []" and "buildDeleteQuery L t qp h = Inr (sql, args)"
  shows "\<exists>w. w \<noteq> [] \<and> buildWhereClause L t (qp_Filters qp) [] = Inr (w, args)
    \<and> sql = ''DELETE FROM '' @ lib_sanitize L [tbl_Schema t, tbl_Name t] @ '' WHERE '' @ w @ returning L t h"
proof -
  obtain w where w: "buildWhereClause L t (qp_Filters qp) [] = Inr (w, args)"
      and s: "sql = ''DELETE FROM '' @ lib_sanitize L [tbl_Schema t, tbl_Name t] @ clause '' WHERE '' w @ returning L t h"
    using assms(2) by (auto simp: buildDeleteQuery_def split: sum.splits)
  with where_nonempty [OF w assms(1)] show ?thesis by (auto simp: clause_def)
qed

lemma update_is_filtered:
  assumes "qp_Filters qp \<noteq> []" and "buildUpdateQuery L t data qp h = Inr (sql, args)"
  shows "\<exists>w sets args1. w \<noteq> [] \<and> buildWhereClause L t (qp_Filters qp) args1 = Inr (w, args)
    \<and> sql = ''UPDATE '' @ lib_sanitize L [tbl_Schema t, tbl_Name t] @ '' SET '' @ sets @ '' WHERE '' @ w @ returning L t h"
proof -
  obtain cvs a1 w where w: "buildWhereClause L t (qp_Filters qp) a1 = Inr (w, args)"
      and s: "sql = ''UPDATE '' @ lib_sanitize L [tbl_Schema t, tbl_Name t] @ '' SET ''
        @ Join (map (\<lambda>(c, v). c @ '' = '' @ v) cvs) '', '' @ clause '' WHERE '' w @ returning L t h"
    using assms(2) by (auto simp: buildUpdateQuery_def split: sum.splits if_splits)
  with where_nonempty [OF w assms(1)] show ?thesis by (auto simp: clause_def)
qed

text \<open>
  C4. A DELETE or UPDATE whose request has filters always carries a WHERE clause with the condition
  of those filters; it can not be built without it.
\<close>

theorem mutations_are_filtered:
  assumes "qp_Filters qp \<noteq> []"
  shows "(\<forall>sql args. buildDeleteQuery L t qp h = Inr (sql, args) \<longrightarrow>
           (\<exists>w. w \<noteq> [] \<and> buildWhereClause L t (qp_Filters qp) [] = Inr (w, args)
             \<and> sql = ''DELETE FROM '' @ lib_sanitize L [tbl_Schema t, tbl_Name t] @ '' WHERE '' @ w @ returning L t h))
    \<and> (\<forall>sql args. buildUpdateQuery L t data qp h = Inr (sql, args) \<longrightarrow>
           (\<exists>w sets args1. w \<noteq> [] \<and> buildWhereClause L t (qp_Filters qp) args1 = Inr (w, args)
             \<and> sql = ''UPDATE '' @ lib_sanitize L [tbl_Schema t, tbl_Name t] @ '' SET '' @ sets @ '' WHERE '' @ w
                 @ returning L t h))"
  using delete_is_filtered [OF assms] update_is_filtered [OF assms] by blast

definition delete_params :: QueryParams where
  "delete_params = parseQueryParams ''name=eq.x''"

theorem mutations_are_filtered_witness:
  "\<exists>w sql args. w \<noteq> [] \<and> buildDeleteQuery example_lib example_table delete_params \<lparr>hd_Prefer = None\<rparr> = Inr (sql, args)
     \<and> sql = ''DELETE FROM '' @ lib_sanitize example_lib [tbl_Schema example_table, tbl_Name example_table] @ '' WHERE '' @ w
         @ returning example_lib example_table \<lparr>hd_Prefer = None\<rparr>"
proof -
  have "is_ok (buildDeleteQuery example_lib example_table delete_params \<lparr>hd_Prefer = None\<rparr>)" by code_simp
  then obtain sql args where "buildDeleteQuery example_lib example_table delete_params \<lparr>hd_Prefer = None\<rparr> = Inr (sql, args)"
    by (auto simp: is_ok_conv)
  moreover have "qp_Filters delete_params \<noteq> []" by code_simp
  ultimately show ?thesis
    using mutations_are_filtered [of delete_params example_lib example_table "\<lparr>hd_Prefer = None\<rparr>" "[]"] by blast
qed

text \<open>
  The guarantee starts at the decoded query: \<open>URL.Query()\<close> drops a malformed pair silently, so a
  filter with a semicolon or a bad escape never becomes a filter, and the statement runs on every row.
\<close>

lemma malformed_filter_deletes_all:
  "buildDeleteQuery L t (parseQueryParams ''id=eq.1;'') \<lparr>hd_Prefer = None\<rparr>
     = Inr (''DELETE FROM '' @ lib_sanitize L [tbl_Schema t, tbl_Name t], [])"
proof -
  have "qp_Filters (parseQueryParams ''id=eq.1;'') = []" by code_simp
  then show ?thesis
    by (simp add: buildDeleteQuery_def buildWhereClause_def clause_def returning_def WantsRepresentation_def)
qed

lemma data_columns_plain:
  assumes "\<forall>k \<in> set keys. \<exists>c. findColumn t k = Some c \<and> col_TypeKind c \<noteq> KindComposite"
  shows "data_columns L t data keys args
    = Inr (map (\<lambda>(i, k). (quoteIdent L k, ''$'' @ itoa_nat (Suc i))) (enumerate (length args) keys),
           args @ map (\<lambda>k. case map_of data k of None \<Rightarrow> VNil | Some v \<Rightarrow> v) keys)"
  using assms
proof (induction keys arbitrary: args)
  case (Cons k keys)
  then obtain c where c: "findColumn t k = Some c" "col_TypeKind c \<noteq> KindComposite" by auto
  moreover have "col_Name c = k" using findColumn_Some [OF c(1)] by blast
  ultimately show ?case
    using Cons.IH Cons.prems by (simp add: columnValueExpression_def add_def)
qed simp

lemma enumerate_pairs:
  "map fst (map (\<lambda>(i, k). (f k, g i)) (enumerate n xs)) = map f xs"
  "map snd (map (\<lambda>(i, k). (f k, g i)) (enumerate n xs)) = map g [n..<n + length xs]"
  by (induction xs arbitrary: n) (auto simp: upt_rec)

lemma data_columns_cong: "map_of data' = map_of data \<Longrightarrow> data_columns L t data' keys args = data_columns L t data keys args"
  by (induction keys arbitrary: args) (auto split: option.split sum.split)

lemma buildInsertQuery_order:
  assumes "distinct (map fst data)" and "distinct (map fst data')" and "map_of data' = map_of data"
  shows "buildInsertQuery L t data' h = buildInsertQuery L t data h"
  using sorted_keys_perm [OF assms(2,1,3)] data_columns_cong [OF assms(3)] by (simp add: buildInsertQuery_def)

text \<open>
  C15. An INSERT into columns that are not composite lists the quoted columns of the data in sorted
  order, each with the placeholder of its own value: the i-th column gets \<open>$i\<close>, which is bound to the
  value of that column in the request. The statement is the same for every iteration order of the data.
\<close>

theorem insert_binds_columns:
  assumes "\<forall>k \<in> set (sorted_keys data). \<exists>c. findColumn t k = Some c \<and> col_TypeKind c \<noteq> KindComposite"
    and "data \<noteq> []" and "distinct (map fst data)"
  shows "buildInsertQuery L t data h
      = Inr (''INSERT INTO '' @ lib_sanitize L [tbl_Schema t, tbl_Name t]
               @ '' ('' @ Join (map (quoteIdent L) (sorted_keys data)) '', ''
               @ '') VALUES ('' @ Join (map (\<lambda>i. ''$'' @ itoa_nat (Suc i)) [0..<length data]) '', '' @ '')'' @ returning L t h,
             map (\<lambda>k. the (map_of data k)) (sorted_keys data))
    \<and> (\<forall>data'. distinct (map fst data') \<and> map_of data' = map_of data \<longrightarrow> buildInsertQuery L t data' h = buildInsertQuery L t data h)"
proof
  have vals: "map (\<lambda>k. case map_of data k of None \<Rightarrow> VNil | Some v \<Rightarrow> v) (sorted_keys data)
      = map (\<lambda>k. the (map_of data k)) (sorted_keys data)"
    by (rule map_cong) (auto simp: map_of_eq_None_iff split: option.split)
  have "sorted_keys data \<noteq> []" using assms(2) length_sorted_keys [of data] by (metis length_0_conv)
  then have "enumerate 0 (sorted_keys data) \<noteq> []" by (metis length_0_conv length_enumerate)
  then show "buildInsertQuery L t data h
      = Inr (''INSERT INTO '' @ lib_sanitize L [tbl_Schema t, tbl_Name t]
               @ '' ('' @ Join (map (quoteIdent L) (sorted_keys data)) '', ''
               @ '') VALUES ('' @ Join (map (\<lambda>i. ''$'' @ itoa_nat (Suc i)) [0..<length data]) '', '' @ '')'' @ returning L t h,
             map (\<lambda>k. the (map_of data k)) (sorted_keys data))"
    using data_columns_plain [OF assms(1), of L data "[]"] vals
    by (simp add: buildInsertQuery_def enumerate_pairs del: map_map)
next
  show "\<forall>data'. distinct (map fst data') \<and> map_of data' = map_of data \<longrightarrow> buildInsertQuery L t data' h = buildInsertQuery L t data h"
    using buildInsertQuery_order [OF assms(3)] by blast
qed

theorem insert_binds_columns_witness:
  "buildInsertQuery example_lib example_table [(''name'', VStr ''x''), (''id'', VInt 1)] \<lparr>hd_Prefer = None\<rparr>
     = buildInsertQuery example_lib example_table [(''id'', VInt 1), (''name'', VStr ''x'')] \<lparr>hd_Prefer = None\<rparr>"
proof -
  let ?d = "[(''id'', VInt 1), (''name'', VStr ''x'')]"
  have keys: "sorted_keys ?d = [''id'', ''name'']" by code_simp
  have "\<forall>k \<in> set (sorted_keys ?d). \<exists>c. findColumn example_table k = Some c \<and> col_TypeKind c \<noteq> KindComposite"
    unfolding keys by (simp add: findColumn_def example_table_def example_column_def KindComposite_def)
  then have "\<forall>data'. distinct (map fst data') \<and> map_of data' = map_of ?d \<longrightarrow>
      buildInsertQuery example_lib example_table data' \<lparr>hd_Prefer = None\<rparr>
        = buildInsertQuery example_lib example_table ?d \<lparr>hd_Prefer = None\<rparr>"
    by (rule insert_binds_columns [THEN conjunct2]) simp_all
  moreover have "map_of [(''name'', VStr ''x''), (''id'', VInt 1)] = map_of ?d"
    by (rule ext) simp
  moreover have "distinct (map fst [(''name'', VStr ''x''), (''id'', VInt 1)])" by simp
  ultimately show ?thesis by blast
qed

end
