(* ===== verification/ServerProps.thy ===== *)
theory ServerProps
  imports RestServer QueryProps
begin

text \<open>The properties of the table endpoints (\<open>pkg/rest/server.go\<close>, \<open>pkg/httputil/postgres.go\<close>).\<close>

lemma handleRequest_runs:
  assumes rc: "request_role X (rq_Ctx r) = Some role" "cx_PgConn (rq_Ctx r) = Some c"
  shows "\<exists>new. w_trace (handleRequest L X s r w) = w_trace w @ new
     \<and> (new = [] \<or> conn_run (safe_statement L s) X role c Idle new Released)"
proof -
  obtain res w1 where cr: "ConnWithRole L X r w = (res, w1)" by force
  note drv = ConnWithRole_drives [OF rc, where st = Idle and L = L and w = w and P = "safe_statement L s"]
  have "w_trace (handleRequest L X s r w) = w_trace w \<or> drives (safe_statement L s) X role c Idle w (handleRequest L X s r w) Released"
  proof (cases res)
    case (Inl e)
    have "w_trace w1 = w_trace w \<or> drives (safe_statement L s) X role c Idle w w1 Released"
      using drv cr Inl by auto
    with cr Inl show ?thesis by (auto simp: handleRequest_def)
  next
    case (Inr ud)
    then have d: "drives (safe_statement L s) X role c Idle w w1 AsRole" and res: "res = Inr (fst ud, c)"
      using drv cr by (auto split: prod.splits)
    obtain st where "drives (safe_statement L s) X role c AsRole w1 (route L X s r w1) st"
      using route_drives [OF rc] by blast
    then have "drives (safe_statement L s) X role c Idle w (emit (Release c) (route L X s r w1)) Released"
      by (intro drives_trans [OF d] drives_trans [OF _ drives_emit] conn_step.release)
    with cr res show ?thesis by (simp add: handleRequest_def)
  qed
  then show ?thesis by (auto simp: drives_def)
qed

lemma handleRequest_untouched:
  assumes "request_role X (rq_Ctx r) = None \<or> cx_PgConn (rq_Ctx r) = None"
  shows "w_trace (handleRequest L X s r w) = w_trace w"
proof -
  have "\<exists>e. ConnWithRole L X r w = (Inl e, w)"
    using assms by (auto simp: ConnWithRole_def Conn_def split: option.split)
  then show ?thesis by (auto simp: handleRequest_def)
qed

text \<open>
  C2. Whatever the request, what the server does to the database is a run of the connection
  protocol that ends in a release: the role of the request is set first (so row level security
  applies), every statement sent is made of fixed fragments, names of the schema and placeholders
  for exactly the values bound with it, and nothing is sent after the connection was released.
\<close>

theorem handleRequest_protocol:
  "\<exists>new. w_trace (handleRequest L X s r w) = w_trace w @ new
     \<and> (new = [] \<or> (\<exists>role c. request_role X (rq_Ctx r) = Some role \<and> cx_PgConn (rq_Ctx r) = Some c
                      \<and> conn_run (safe_statement L s) X role c Idle new Released))"
proof (cases "request_role X (rq_Ctx r) = None \<or> cx_PgConn (rq_Ctx r) = None")
  case True
  from handleRequest_untouched [OF this] show ?thesis by simp
next
  case False
  then obtain role c where "request_role X (rq_Ctx r) = Some role" "cx_PgConn (rq_Ctx r) = Some c" by auto
  then show ?thesis using handleRequest_runs [of X r role c L s w] by auto
qed

text \<open>When the claims can be encoded the connection is used, if only to set the role.\<close>

lemma handleRequest_touches:
  assumes "request_role X (rq_Ctx r) = Some role" and "cx_PgConn (rq_Ctx r) = Some c"
    and "conn_user (rq_Ctx r) = Some user" and "lib_marshal L (VMap user) = Some claims"
  shows "w_trace (handleRequest L X s r w) \<noteq> w_trace w"
proof -
  have "\<exists>res w1. ConnWithRole L X r w = (res, w1) \<and> (case res of Inl e \<Rightarrow> w_trace w1 \<noteq> w_trace w | Inr (u, d) \<Rightarrow> d = c)"
    using assms by (auto simp: ConnWithRole_def Conn_def Let_def split: execResult.split)
  then obtain res w1 where cr: "ConnWithRole L X r w = (res, w1)"
      "case res of Inl e \<Rightarrow> w_trace w1 \<noteq> w_trace w | Inr (u, d) \<Rightarrow> d = c" by blast
  show ?thesis
  proof (cases res)
    case (Inl e)
    with cr show ?thesis by (simp add: handleRequest_def)
  next
    case (Inr ud)
    obtain new where "w_trace w1 = w_trace w @ new"
      using ConnWithRole_drives [OF assms(1,2), where st = Idle and L = L and w = w and P = "safe_statement L s"] cr Inr
      by (auto simp: drives_def split: prod.splits)
    moreover obtain new' where "w_trace (route L X s r w1) = w_trace w1 @ new'"
      using route_drives [OF assms(1,2), where L = L and s = s and w = w1] by (auto simp: drives_def)
    ultimately have "length (w_trace (handleRequest L X s r w)) > length (w_trace w)"
      using cr Inr by (auto simp: handleRequest_def split: prod.splits)
    then show ?thesis by auto
  qed
qed

text \<open>
  A request without a role whose connection was acquired: the handler answers an error and never releases
  the connection, so it is lost to the pool (the middleware that acquired it leaves the release to
  the handler).
\<close>

lemma connection_without_role_leaks:
  assumes "request_role X (rq_Ctx r) = None"
  shows "w_trace (handleRequest L X s r w) = w_trace w"
  using assms by (rule handleRequest_untouched [OF disjI1])


definition example_ext :: Ext where
  "example_ext = \<lparr>ext_acquire = (\<lambda>_. True), ext_exec = (\<lambda>_ _. ExecOk), ext_count = (\<lambda>_ _ _. Inr 3),
     ext_query = (\<lambda>_ _ _. Inr \<lparr>rows_fields = [''id''], rows_values = [Inr [VInt 1]], rows_err = None\<rparr>),
     ext_collect = (\<lambda>rows. Inr []), ext_decode = (\<lambda>_ _. Inl False), ext_pgerror = pe_Message,
     ext_quote = id, ext_quoteRune = itoa_nat, ext_marshalError = [], ext_AnonRole = [], ext_JwtClaims = None\<rparr>"

definition example_server :: Server where
  "example_server = \<lparr>sv_basePath = ''/api'', sv_omitempty = False, sv_tables = [(''public.users'', example_table)]\<rparr>"

definition example_request :: "string \<Rightarrow> string \<Rightarrow> Request" where
  "example_request meth query = \<lparr>rq_Method = meth, rq_Path = ''/api/users'', rq_RawQuery = query, rq_Header = [],
     rq_Body = [], rq_ContentLength = 0,
     rq_Ctx = \<lparr>cx_RequestID = None, cx_OIDCUser = None, cx_BasicAuth = None, cx_PgConn = Some 0, cx_OIDCRole = Some ''anon'', cx_LogEntry = False\<rparr>\<rparr>"




text \<open>Without the bound on the sum the addition wraps around and the last row is negative.\<close>

lemma content_range_overflow:
  "content_range 9223372036854775807 5 10 = Itoa 5 @ ''-'' @ Itoa (-9223372036854775805) @ ''/'' @ Itoa 10"
  by (simp add: content_range_def wrap64_def)

end
