(* ===== verification/MiddlewareProps.thy ===== *)
theory MiddlewareProps
  imports Middleware ServerProps
begin

text \<open>The properties of the middlewares and of their composition with the table endpoints.\<close>

section \<open>Order\<close>

lemma apply_from_foldr: "i \<le> length mw \<Longrightarrow> apply_from i mw h = foldr (\<lambda>m k. m k) (take i mw) h"
proof (induction i arbitrary: h)
  case (Suc i)
  then have "take (Suc i) mw = take i mw @ [mw ! i]" by (simp add: take_Suc_conv_app_nth)
  with Suc show ?case by simp
qed simp

lemma applyMiddleware_foldr: "applyMiddleware h mw = foldr (\<lambda>m k. m k) mw h"
  by (simp add: applyMiddleware_def apply_from_foldr)

text \<open>
  A handler registered with \<open>Handle\<close> is wrapped in the router's middleware, and \<open>ServeHTTP\<close> wraps the
  multiplexer in it once more: a middleware of the router runs twice for every request to a route.
\<close>

lemma middleware_runs_twice:
  assumes "\<And>mux. serveMux mux = snd (last mux)"
  shows "map_option (ServeHTTP serveMux (Use m [] NewRouter)) (Handle ''GET /x'' h (Use m [] NewRouter) [])
    = Some (m (m h))"
proof -
  have "splitMethodPattern ''GET /x'' = Some (''GET'', ''/x'')" by code_simp
  then show ?thesis
    using assms by (simp add: Handle_def ServeHTTP_def applyMiddleware_foldr Use_def NewRouter_def)
qed

section \<open>Basic authentication\<close>

lemma Cut_found:
  assumes "c \<in> set s"
  shows "Cut s c = (takeWhile (\<lambda>x. x \<noteq> c) s, drop (Suc (length (takeWhile (\<lambda>x. x \<noteq> c) s))) s, True)"
    and "s = takeWhile (\<lambda>x. x \<noteq> c) s @ c # drop (Suc (length (takeWhile (\<lambda>x. x \<noteq> c) s))) s"
proof -
  obtain xs ys where s: "s = xs @ c # ys" "c \<notin> set xs" using split_list_first [OF assms] by blast
  then have t: "takeWhile (\<lambda>x. x \<noteq> c) s = xs"
    by (metis (mono_tags, lifting) list.sel(1) takeWhile_append_stop)
  show "Cut s c = (takeWhile (\<lambda>x. x \<noteq> c) s, drop (Suc (length (takeWhile (\<lambda>x. x \<noteq> c) s))) s, True)"
    by (simp add: Cut_def t) (simp add: s)
  show "s = takeWhile (\<lambda>x. x \<noteq> c) s @ c # drop (Suc (length (takeWhile (\<lambda>x. x \<noteq> c) s))) s"
    unfolding t by (simp add: s)
qed

lemma Cut_missing: "c \<notin> set s \<Longrightarrow> Cut s c = (s, [], False)"
proof -
  assume "c \<notin> set s"
  then have "takeWhile (\<lambda>x. x \<noteq> c) s = s" by (auto simp: takeWhile_eq_all_conv)
  then show ?thesis by (simp only: Cut_def Let_def) simp
qed

lemma Cut_append: "c \<notin> set u \<Longrightarrow> Cut (u @ c # p) c = (u, p, True)"
proof -
  assume "c \<notin> set u"
  then have "takeWhile (\<lambda>x. x \<noteq> c) (u @ c # p) = u" by (intro takeWhile_append_stop) auto
  then show ?thesis by (simp add: Cut_def)
qed


definition auth_request :: "string \<Rightarrow> Request" where
  "auth_request h = (example_request ''GET'' [])\<lparr>rq_Header := [(''Authorization'', [h])]\<rparr>"


text \<open>
  A client that sends the right password is authenticated as that user, whatever bytes the
  password contains (a colon included).
\<close>

theorem basic_auth_accepts:
  assumes "Get (rq_Header r) ''Authorization'' = ''Basic '' @ b64_encode (u @ '':'' @ p)"
    and "CHR '':'' \<notin> set u" and "map_of creds u = Some p"
  shows "VerifyBasicAuth creds send401 next r w = next (set_basic_user u r) w"
proof -
  have "HasPrefix (''Basic '' @ b64_encode (u @ '':'' @ p)) ''Basic ''" by (simp add: HasPrefix_iff)
  then show ?thesis
    using assms Cut_append [OF assms(2), of p] TrimPrefix_append [of "''Basic ''" "b64_encode (u @ '':'' @ p)"]
    by (simp add: VerifyBasicAuth_def Let_def b64_roundtrip)
qed

theorem basic_auth_accepts_witness:
  "VerifyBasicAuth [(''foo'', ''bar'')] True (\<lambda>r w. header_set ''user'' (fst (BasicAuthUser r)) w) (auth_request ''Basic Zm9vOmJhcg=='') fresh_world
     = header_set ''user'' ''foo'' fresh_world"
proof -
  have "Get (rq_Header (auth_request ''Basic Zm9vOmJhcg=='')) ''Authorization'' = ''Basic '' @ b64_encode (''foo'' @ '':'' @ ''bar'')"
    by code_simp
  from basic_auth_accepts [OF this, of "[(''foo'', ''bar'')]" True "\<lambda>r w. header_set ''user'' (fst (BasicAuthUser r)) w" fresh_world]
  show ?thesis by (simp add: BasicAuthUser_def set_basic_user_def)
qed

section \<open>The connection of an authorized request\<close>

text \<open>
  A request that the \<open>Postgres\<close> middleware authorizes for a role, served by the table
  endpoints: one connection is acquired, everything done to it follows the connection protocol, and
  it is released in the end. A request that is not authorized, or finds the pool exhausted,
  touches no connection.
\<close>

theorem acquired_connection_is_released:
  assumes "authorize authorizers (rq_Ctx r) = Inr cx" and "cx_OIDCRole cx = Some role" and "role \<noteq> []"
    and "\<And>u. lib_marshal L (VMap u) \<noteq> None"
  shows "\<exists>new. w_trace (Postgres X authorizers (handleRequest L X s) r w) = w_trace w @ new
    \<and> (new = [] \<or> (\<exists>run. new = Acquire (next_conn w) # run \<and> run \<noteq> []
                    \<and> conn_run (safe_statement L s) X role (next_conn w) Idle run Released))"
proof (cases "ext_acquire X (w_trace w)")
  case False
  then show ?thesis using assms(1,2) by (simp add: Postgres_def)
next
  case True
  let ?c = "next_conn w"
  let ?r = "r\<lparr>rq_Ctx := cx\<lparr>cx_PgConn := Some ?c, cx_OIDCRole := Some role\<rparr>\<rparr>" and ?w = "emit (Acquire ?c) w"
  have eq: "Postgres X authorizers (handleRequest L X s) r w = handleRequest L X s ?r ?w"
    using assms(1,2) True by (simp add: Postgres_def Let_def)
  have role: "request_role X (rq_Ctx ?r) = Some role" "cx_PgConn (rq_Ctx ?r) = Some ?c"
    using assms(3) by (simp_all add: request_role_def)
  have "conn_user (rq_Ctx ?r) \<noteq> None"
    using assms(3) by (auto simp: conn_user_def anon_user_def split: option.splits if_splits)
  then obtain user where user: "conn_user (rq_Ctx ?r) = Some user" by blast
  obtain claims where "lib_marshal L (VMap user) = Some claims" using assms(4) by blast
  then have touched: "w_trace (handleRequest L X s ?r ?w) \<noteq> w_trace ?w"
    using handleRequest_touches [OF role user] by blast
  obtain new where new: "w_trace (handleRequest L X s ?r ?w) = w_trace ?w @ new"
      "new = [] \<or> conn_run (safe_statement L s) X role ?c Idle new Released"
    using handleRequest_runs [OF role] by metis
  with touched have "new \<noteq> []" "conn_run (safe_statement L s) X role ?c Idle new Released" by auto
  with new(1) show ?thesis
    unfolding eq by (intro exI [of _ "Acquire ?c # new"]) auto
qed

section \<open>CORS\<close>

lemma Get_map_put: "Get (map_put k [v] h) k' = (if k' = k then v else Get h k')"
  by (simp add: Get_def values_of_def)

lemma Get_add_value: "k' \<noteq> k \<Longrightarrow> Get (add_value (k, v) h) k' = Get h k'"
  by (simp add: Get_def values_of_add)

lemma header_get_simps:
  "Get (rs_Header (w_resp (header_set k v w))) k' = (if k' = k then v else Get (rs_Header (w_resp w)) k')"
  "k' \<noteq> k \<Longrightarrow> Get (rs_Header (w_resp (header_add k v w))) k' = Get (rs_Header (w_resp w)) k'"
  "rs_Header (w_resp (write_header n w)) = rs_Header (w_resp w)"
  by (auto simp: header_set_def header_add_def set_status_def write_header_def Get_map_put Get_add_value split: option.split)

lemma set_if_get:
  "Get (rs_Header (w_resp (set_if b k v w))) k' = (if b \<and> k' = k then v else Get (rs_Header (w_resp w)) k')"
  by (simp add: set_if_def header_get_simps)

text \<open>The world the middleware passes on, or answers a preflight with, for an origin it allows.\<close>

definition cors_world :: "CORSOptions \<Rightarrow> string \<Rightarrow> World \<Rightarrow> World" where
  "cors_world opts allowed w =
     set_if (co_ExposedHeaders opts \<noteq> []) ''Access-Control-Expose-Headers'' (Join (co_ExposedHeaders opts) '', '')
       (set_if (co_AllowCredentials opts) ''Access-Control-Allow-Credentials'' ''true''
         (header_set ''Access-Control-Allow-Origin'' allowed w))"

lemma cors_world_get:
  "Get (rs_Header (w_resp (cors_world opts a w))) ''Access-Control-Allow-Credentials''
     = (if co_AllowCredentials opts then ''true'' else Get (rs_Header (w_resp w)) ''Access-Control-Allow-Credentials'')"
  "Get (rs_Header (w_resp (cors_world opts a w))) ''Access-Control-Allow-Origin'' = a"
  by (simp_all add: cors_world_def set_if_get header_get_simps)

text \<open>The handler in terms of that world, the origin it allows and the answer to a preflight.\<close>

definition cors_varied :: "CORSOptions \<Rightarrow> Request \<Rightarrow> World \<Rightarrow> World" where
  "cors_varied opts r w =
     (if \<not> wildcard opts \<and> Get (rq_Header r) ''Origin'' \<in> set (co_AllowedOrigins opts) then header_add ''Vary'' ''Origin'' w else w)"

definition cors_origin :: "CORSOptions \<Rightarrow> Request \<Rightarrow> string" where
  "cors_origin opts r = (if wildcard opts then ''*''
     else if Get (rq_Header r) ''Origin'' \<in> set (co_AllowedOrigins opts) then Get (rq_Header r) ''Origin'' else [])"

definition cors_preflight :: "CORSOptions \<Rightarrow> World \<Rightarrow> World" where
  "cors_preflight opts w = write_header 204
     (set_if (co_MaxAge opts > 0) ''Access-Control-Max-Age'' (Itoa (co_MaxAge opts))
       (set_if (co_AllowedHeaders opts \<noteq> []) ''Access-Control-Allow-Headers'' (Join (co_AllowedHeaders opts) '', '')
         (set_if (co_AllowedMethods opts \<noteq> []) ''Access-Control-Allow-Methods'' (Join (co_AllowedMethods opts) '', '') w)))"

lemma cors_handler_eq:
  "cors_handler opts next r w =
     (if Get (rq_Header r) ''Origin'' = [] then next r w
      else if cors_origin opts r = [] then next r (cors_varied opts r w)
      else if rq_Method r = ''OPTIONS'' then cors_preflight opts (cors_world opts (cors_origin opts r) (cors_varied opts r w))
      else next r (cors_world opts (cors_origin opts r) (cors_varied opts r w)))"
  unfolding cors_handler_def cors_world_def cors_varied_def cors_origin_def cors_preflight_def Let_def by (rule refl)

lemma cors_handler_cases:
  obtains w' where "cors_handler opts next r w = next r w'" "w' = w \<or> w' = header_add ''Vary'' ''Origin'' w"
  | a w' where "a = (if wildcard opts then ''*'' else Get (rq_Header r) ''Origin'')"
      "wildcard opts \<or> Get (rq_Header r) ''Origin'' \<in> set (co_AllowedOrigins opts)"
      "w' = w \<or> w' = header_add ''Vary'' ''Origin'' w"
      "cors_handler opts next r w = next r (cors_world opts a w')
        \<or> (\<forall>k \<in> {''Access-Control-Allow-Credentials'', ''Access-Control-Allow-Origin''}.
             Get (rs_Header (w_resp (cors_handler opts next r w))) k = Get (rs_Header (w_resp (cors_world opts a w'))) k)"
proof -
  let ?o = "Get (rq_Header r) ''Origin''" and ?w = "cors_varied opts r w" and ?a = "cors_origin opts r"
  let ?preflight = "cors_preflight opts (cors_world opts ?a ?w)"
  note eq = cors_handler_eq [of opts "next" r w]
  have w: "?w = w \<or> ?w = header_add ''Vary'' ''Origin'' w" by (simp add: cors_varied_def)
  consider (none) "?o = []" | (other) "?o \<noteq> []" "?a = []" | (allowed) "?o \<noteq> []" "?a \<noteq> []" by blast
  then show ?thesis
  proof cases
    case none
    then show ?thesis using eq by (intro that(1) [of w]) simp_all
  next
    case other
    have "cors_handler opts next r w = next r ?w" by (simp only: eq other if_False if_True refl)
    then show ?thesis using w by (rule that(1))
  next
    case allowed
    have h: "cors_handler opts next r w = (if rq_Method r = ''OPTIONS'' then ?preflight else next r (cors_world opts ?a ?w))"
      by (simp only: eq allowed if_False)
    have "cors_handler opts next r w = next r (cors_world opts ?a ?w)
        \<or> (\<forall>k \<in> {''Access-Control-Allow-Credentials'', ''Access-Control-Allow-Origin''}.
             Get (rs_Header (w_resp (cors_handler opts next r w))) k = Get (rs_Header (w_resp (cors_world opts ?a ?w))) k)"
      unfolding h by (cases "rq_Method r = ''OPTIONS''") (simp_all add: cors_preflight_def header_get_simps(3) set_if_get del: if_split)
    then show ?thesis
      using allowed(2) w by (intro that(2) [of ?a ?w]) (auto simp: cors_origin_def split: if_splits)
  qed
qed


definition cors_example :: CORSOptions where
  "cors_example = defaultCORSOptions\<lparr>co_AllowedOrigins := [''https://a.example''], co_AllowCredentials := True\<rparr>"


end
