(* ===== verification/Store.thy ===== *)
theory Store
  imports GoValue
begin

text \<open>
  The interface of the keyed stores of the program: the expiring cache of
  \<open>pkg/httputil/middleware/cache.go\<close>, the registries of connectors and transformations and the
  peers of the pipeline manager. A provider promises what a lookup gives after a store; what clients
  conclude from it is proved once here and obtained by interpretation where a store is defined.
\<close>

locale keyed_store =
  fixes invar :: "'s \<Rightarrow> bool"
    and lookup :: "'s \<Rightarrow> 'k \<Rightarrow> 'v option"
    and put :: "'k \<Rightarrow> 'v \<Rightarrow> 's \<Rightarrow> 's"
  assumes invar_put: "invar s \<Longrightarrow> invar (put k v s)"
    and lookup_put: "invar s \<Longrightarrow> lookup (put k v s) k' = (if k' = k then Some v else lookup s k')"
begin

definition put_all :: "('k \<times> 'v) list \<Rightarrow> 's \<Rightarrow> 's" where
  "put_all kvs s = foldl (\<lambda>s (k, v). put k v s) s kvs"

lemma put_all_simps [simp]:
  "put_all [] s = s"
  "put_all ((k, v) # kvs) s = put_all kvs (put k v s)"
  by (simp_all add: put_all_def)

lemma invar_put_all: "invar s \<Longrightarrow> invar (put_all kvs s)"
  by (induction kvs arbitrary: s) (auto simp: invar_put)

text \<open>A sequence of stores is read as one map update, the last store to a key winning.\<close>

lemma lookup_put_all:
  assumes "invar s"
  shows "lookup (put_all kvs s) = lookup s ++ map_of (rev kvs)"
  using assms
proof (induction kvs arbitrary: s)
  case (Cons kv kvs)
  obtain k v where kv: "kv = (k, v)" by force
  have "lookup (put k v s) = (lookup s)(k \<mapsto> v)"
    using lookup_put [OF Cons.prems] by (auto simp: fun_eq_iff)
  then show ?case
    using Cons.IH [OF invar_put [OF Cons.prems]] by (simp add: kv map_add_def fun_eq_iff split: option.split)
qed (simp add: fun_eq_iff)

lemma lookup_last_put:
  assumes "invar s" and "k \<notin> fst ` set after"
  shows "lookup (put_all (before @ (k, v) # after) s) k = Some v"
proof -
  have "map_of (rev after) k = None"
    using assms(2) by (simp add: map_of_eq_None_iff rev_map [symmetric])
  then show ?thesis
    using lookup_put_all [OF assms(1)] by (simp add: map_add_def)
qed

lemma lookup_untouched:
  assumes "invar s" and "k \<notin> fst ` set kvs"
  shows "lookup (put_all kvs s) k = lookup s k"
proof -
  have "map_of (rev kvs) k = None"
    using assms(2) by (simp add: map_of_eq_None_iff rev_map [symmetric])
  then show ?thesis
    using lookup_put_all [OF assms(1)] by (simp add: map_add_def)
qed

text \<open>Stores to distinct keys may be reordered.\<close>

lemma lookup_put_all_perm:
  assumes "invar s" and "distinct (map fst kvs)" and "mset kvs = mset kvs'"
  shows "lookup (put_all kvs s) = lookup (put_all kvs' s)"
proof -
  have "distinct (map fst kvs')"
    using assms(2,3) by (metis distinct_map mset_eq_imp_distinct_iff mset_eq_setD)
  then have "map_of (rev kvs') = map_of (rev kvs)"
    using assms(2,3) by (intro map_of_inject_set [THEN iffD2]) (auto simp: rev_map [symmetric] dest: mset_eq_setD)
  then show ?thesis by (simp add: lookup_put_all [OF assms(1)])
qed

end

text \<open>A store with deletion.\<close>

locale deletable_store = keyed_store invar lookup put
  for invar :: "'s \<Rightarrow> bool" and lookup :: "'s \<Rightarrow> 'k \<Rightarrow> 'v option" and put :: "'k \<Rightarrow> 'v \<Rightarrow> 's \<Rightarrow> 's" +
  fixes del :: "'k \<Rightarrow> 's \<Rightarrow> 's"
  assumes invar_del: "invar s \<Longrightarrow> invar (del k s)"
    and lookup_del: "invar s \<Longrightarrow> lookup (del k s) k' = (if k' = k then None else lookup s k')"
begin

lemma lookup_del_put:
  "invar s \<Longrightarrow> lookup (del k (put k v s)) k' = lookup (del k s) k'"
  by (simp add: lookup_del lookup_put invar_put)

lemma lookup_put_del:
  "invar s \<Longrightarrow> lookup (put k v (del k s)) k' = lookup (put k v s) k'"
  by (simp add: lookup_del lookup_put invar_del)

end

text \<open>A Go map, as an association list with distinct keys, is such a store.\<close>

definition map_del :: "string \<Rightarrow> (string \<times> 'v) list \<Rightarrow> (string \<times> 'v) list" where
  "map_del k m = AList.delete k m"

lemma map_of_map_del [simp]: "map_of (map_del k m) = (map_of m)(k := None)"
  by (simp add: map_del_def delete_conv')

lemma distinct_map_del: "distinct (map fst m) \<Longrightarrow> distinct (map fst (map_del k m))"
  by (simp add: map_del_def distinct_delete)

interpretation gomap: deletable_store "\<lambda>m. distinct (map fst m)" map_of map_put map_del
  by unfold_locales (auto simp: distinct_map_put distinct_map_del)

end
