(* ===== verification/Cache.thy ===== *)
theory Cache
  imports Store
begin

text \<open>
  The in-memory cache of \<open>pkg/httputil/middleware/cache.go\<close>. The clock is explicit: an operation
  takes the time \<open>time.Now()\<close> gives it, in nanoseconds. The lock makes every operation atomic, so
  a run of the cache is a sequence of operations.
\<close>

section \<open>The cache and its operations\<close>

record cacheItem =
  ci_value :: any
  ci_expiration :: int

type_synonym Cache = "(string \<times> cacheItem) list"

definition NewCache :: Cache where
  "NewCache = []"

definition Set :: "int \<Rightarrow> string \<Rightarrow> any \<Rightarrow> int \<Rightarrow> Cache \<Rightarrow> Cache" where
  "Set now key val duration c = map_put key \<lparr>ci_value = val, ci_expiration = now + duration\<rparr> c"

text \<open>\<open>Get\<close> deletes an item it finds expired.\<close>

definition Get_cached :: "int \<Rightarrow> string \<Rightarrow> Cache \<Rightarrow> any option \<times> Cache" where
  "Get_cached now key c = (case map_of c key of
       None \<Rightarrow> (None, c)
     | Some item \<Rightarrow> if now > ci_expiration item then (None, map_del key c) else (Some (ci_value item), c))"

text \<open>\<open>CleanupExpired\<close> reads the clock once per item: \<open>clock key\<close> is the time read at that item.\<close>

definition CleanupExpired :: "(string \<Rightarrow> int) \<Rightarrow> Cache \<Rightarrow> Cache" where
  "CleanupExpired clock c = filter (\<lambda>(key, item). \<not> clock key > ci_expiration item) c"

section \<open>Invariant and lookup laws\<close>

definition wf_cache :: "Cache \<Rightarrow> bool" where
  "wf_cache c = distinct (map fst c)"

lemma wf_NewCache: "wf_cache NewCache"
  by (simp add: wf_cache_def NewCache_def)

lemma wf_Set: "wf_cache c \<Longrightarrow> wf_cache (Set now k v d c)"
  by (simp add: wf_cache_def Set_def distinct_map_put)

lemma wf_Get_cached: "wf_cache c \<Longrightarrow> wf_cache (snd (Get_cached now k c))"
  by (auto simp: wf_cache_def Get_cached_def distinct_map_del split: option.split)

lemma wf_Cleanup: "wf_cache c \<Longrightarrow> wf_cache (CleanupExpired clock c)"
  by (simp add: wf_cache_def CleanupExpired_def distinct_map_filter)

text \<open>What a lookup at a time sees of a cache: the items that are not expired then.\<close>

definition visible :: "int \<Rightarrow> Cache \<Rightarrow> string \<Rightarrow> any option" where
  "visible now c k = fst (Get_cached now k c)"

lemma visible_map_of:
  "visible now c k = (case map_of c k of None \<Rightarrow> None | Some i \<Rightarrow> if now \<le> ci_expiration i then Some (ci_value i) else None)"
  by (auto simp: visible_def Get_cached_def split: option.split)

lemma visible_NewCache: "visible now NewCache k = None"
  by (simp add: visible_map_of NewCache_def)

lemma visible_Set:
  "visible now (Set t k v d c) k' = (if k' = k then (if now \<le> t + d then Some v else None) else visible now c k')"
  by (simp add: visible_map_of Set_def)

lemma visible_Get:
  "t \<le> now \<Longrightarrow> visible now (snd (Get_cached t k c)) k' = visible now c k'"
  by (auto simp: visible_map_of Get_cached_def split: option.split)

lemma map_of_filter_distinct:
  "distinct (map fst c) \<Longrightarrow>
    map_of (filter (\<lambda>(k, i). P k i) c) k = (case map_of c k of None \<Rightarrow> None | Some i \<Rightarrow> if P k i then Some i else None)"
  by (induction c) (auto split: option.split simp: map_of_eq_None_iff)

lemma visible_Cleanup:
  "wf_cache c \<Longrightarrow> \<forall>k. clock k \<le> now \<Longrightarrow> visible now (CleanupExpired clock c) k' = visible now c k'"
  by (auto simp: visible_map_of CleanupExpired_def wf_cache_def map_of_filter_distinct not_less split: option.split dest: spec [of _ k'])

text \<open>
  At a fixed time, stores that live at least until then make the cache a keyed store; so every fact
  of the interface holds of what is visible at that time.
\<close>

interpretation cache: deletable_store wf_cache "visible now" "\<lambda>k v. Set now k v (int d)" map_del
  for now :: int and d :: nat
proof unfold_locales
  show "wf_cache c \<Longrightarrow> wf_cache (map_del k c)" for k c
    by (simp add: wf_cache_def distinct_map_del)
  show "visible now (map_del k c) k' = (if k' = k then None else visible now c k')" for k c k'
    by (simp add: visible_map_of)
qed (simp_all add: wf_Set visible_Set)

section \<open>Runs\<close>

datatype cache_op =
    OSet int string any int
  | OGet int string
  | OCleanup "string \<Rightarrow> int"

fun cache_step :: "cache_op \<Rightarrow> Cache \<Rightarrow> Cache" where
  "cache_step (OSet t k v d) c = Set t k v d c"
| "cache_step (OGet t k) c = snd (Get_cached t k c)"
| "cache_step (OCleanup clock) c = CleanupExpired clock c"

definition cache_run :: "cache_op list \<Rightarrow> Cache \<Rightarrow> Cache" where
  "cache_run ops c = fold cache_step ops c"

text \<open>No operation of the run read a time later than \<open>now\<close>.\<close>

fun op_before :: "int \<Rightarrow> cache_op \<Rightarrow> bool" where
  "op_before now (OSet t k v d) = (t \<le> now)"
| "op_before now (OGet t k) = (t \<le> now)"
| "op_before now (OCleanup clock) = (\<forall>k. clock k \<le> now)"

text \<open>The abstract specification: the last \<open>Set\<close> of the key decides, as long as it has not expired.\<close>

fun last_set :: "string \<Rightarrow> cache_op list \<Rightarrow> (any \<times> int) option" where
  "last_set k [] = None"
| "last_set k (op # ops) = (case last_set k ops of
       Some x \<Rightarrow> Some x
     | None \<Rightarrow> (case op of OSet t k' v d \<Rightarrow> if k' = k then Some (v, t + d) else None | _ \<Rightarrow> None))"

definition spec_lookup :: "int \<Rightarrow> string \<Rightarrow> cache_op list \<Rightarrow> any option" where
  "spec_lookup now k ops = (case last_set k ops of
       None \<Rightarrow> None | Some (v, e) \<Rightarrow> if now \<le> e then Some v else None)"

lemma wf_cache_step: "wf_cache c \<Longrightarrow> wf_cache (cache_step op c)"
  by (cases op) (simp_all add: wf_Set wf_Get_cached wf_Cleanup)

lemma wf_cache_run: "wf_cache c \<Longrightarrow> wf_cache (cache_run ops c)"
  by (induction ops arbitrary: c) (simp_all add: cache_run_def wf_cache_step)

lemma visible_step:
  assumes "wf_cache c" and "op_before now op"
  shows "visible now (cache_step op c) k = (case op of
      OSet t k' v d \<Rightarrow> if k' = k then (if now \<le> t + d then Some v else None) else visible now c k
    | _ \<Rightarrow> visible now c k)"
  using assms by (cases op) (auto simp: visible_Set visible_Get visible_Cleanup)

lemma visible_run:
  assumes "wf_cache c" and "list_all (op_before now) ops"
  shows "visible now (cache_run ops c) k = (case last_set k ops of
      None \<Rightarrow> visible now c k | Some (v, e) \<Rightarrow> if now \<le> e then Some v else None)"
  using assms
proof (induction ops arbitrary: c)
  case (Cons op ops)
  have "visible now (cache_run ops (cache_step op c)) k = (case last_set k ops of
      None \<Rightarrow> visible now (cache_step op c) k | Some (v, e) \<Rightarrow> if now \<le> e then Some v else None)"
    using Cons.prems by (intro Cons.IH) (auto simp: wf_cache_step)
  then show ?case
    using visible_step [OF Cons.prems(1), of now op k] Cons.prems(2)
    by (auto simp: cache_run_def split: option.split cache_op.split)
qed (simp add: cache_run_def)



end
