(* ===== verification/Cdc.thy ===== *)
theory Cdc
  imports Store
begin

text \<open>
  Change events (\<open>pkg/pipeline/cdc/cdc.go\<close>): the Debezium-like event a source emits, and the
  builders. The 64-bit fields are integers; the program only copies them, and fills them from unsigned 32-bit
  transaction numbers.

  An event's \<open>Schema.Fields\<close> is a Go slice, a reference to an array that copies of the event share
  and that the \<open>replace\<close> transformation writes to. The array is named by an address in a
  \<open>field_store\<close>; address 0 is the nil slice.
\<close>

section \<open>Events\<close>

type_synonym Operation = string

definition OpCreate :: Operation where "OpCreate = ''c''"
definition OpUpdate :: Operation where "OpUpdate = ''u''"
definition OpDelete :: Operation where "OpDelete = ''d''"
definition OpRead :: Operation where "OpRead = ''r''"
definition OpTruncate :: Operation where "OpTruncate = ''t''"

record Source =
  so_Version :: string
  so_Connector :: string
  so_Name :: string
  so_TsMs :: int
  so_Snapshot :: bool
  so_Db :: string
  so_Sequence :: string
  so_Schema :: string
  so_Table :: string
  so_TxID :: int
  so_Lsn :: int
  so_Xmin :: "int option"

record Transaction =
  tx_ID :: string
  tx_TotalOrder :: int
  tx_DataCollectionOrder :: int

record Payload =
  pa_Before :: any
  pa_After :: any
  pa_Source :: Source
  pa_Op :: Operation
  pa_TsMs :: int
  pa_Transaction :: "Transaction option"

datatype Field = Field (fi_Field: string) (fi_Type: string) (fi_Optional: bool) (fi_Name: string) (fi_Fields: "Field list")

type_synonym field_store = "nat \<Rightarrow> Field list"

record EventSchema =
  es_Type :: string
  es_Optional :: bool
  es_Name :: string
  es_Fields :: nat

record Event =
  ev_Schema :: EventSchema
  ev_Payload :: Payload

definition zero_source :: Source where
  "zero_source = \<lparr>so_Version = [], so_Connector = [], so_Name = [], so_TsMs = 0, so_Snapshot = False, so_Db = [],
     so_Sequence = [], so_Schema = [], so_Table = [], so_TxID = 0, so_Lsn = 0, so_Xmin = None\<rparr>"

definition zero_payload :: Payload where
  "zero_payload = \<lparr>pa_Before = VNil, pa_After = VNil, pa_Source = zero_source, pa_Op = [], pa_TsMs = 0, pa_Transaction = None\<rparr>"

text \<open>The zero value \<open>cdc.Event{}\<close>.\<close>

definition zero_event :: Event where
  "zero_event = \<lparr>ev_Schema = \<lparr>es_Type = [], es_Optional = False, es_Name = [], es_Fields = 0\<rparr>, ev_Payload = zero_payload\<rparr>"

abbreviation map_payload :: "(Payload \<Rightarrow> Payload) \<Rightarrow> Event \<Rightarrow> Event" where
  "map_payload f e \<equiv> ev_Payload_update f e"

abbreviation ev_source :: "Event \<Rightarrow> Source" where
  "ev_source e \<equiv> pa_Source (ev_Payload e)"

section \<open>Builders\<close>

definition NewSourceBuilder :: "string \<Rightarrow> string \<Rightarrow> Source" where
  "NewSourceBuilder connector name = zero_source\<lparr>so_Version := ''1.0'', so_Connector := connector, so_Name := name,
     so_Snapshot := False, so_Sequence := ''[0,0]''\<rparr>"

definition WithSchema :: "string \<Rightarrow> Source \<Rightarrow> Source" where
  "WithSchema s b = b\<lparr>so_Schema := s\<rparr>"

definition WithTable :: "string \<Rightarrow> Source \<Rightarrow> Source" where
  "WithTable t b = b\<lparr>so_Table := t\<rparr>"

definition WithDatabase :: "string \<Rightarrow> Source \<Rightarrow> Source" where
  "WithDatabase d b = b\<lparr>so_Db := d\<rparr>"

definition source_WithTimestamp :: "int \<Rightarrow> Source \<Rightarrow> Source" where
  "source_WithTimestamp ts b = b\<lparr>so_TsMs := ts\<rparr>"

definition source_WithTransaction :: "int \<Rightarrow> int \<Rightarrow> Source \<Rightarrow> Source" where
  "source_WithTransaction txID lsn b = b\<lparr>so_TxID := txID, so_Lsn := lsn\<rparr>"

definition NewEventBuilder :: Event where
  "NewEventBuilder = zero_event\<lparr>ev_Schema := \<lparr>es_Type = ''struct'', es_Optional = False, es_Name = [], es_Fields = 0\<rparr>\<rparr>"

definition WithSource :: "Source \<Rightarrow> Event \<Rightarrow> Event" where
  "WithSource s = map_payload (pa_Source_update (\<lambda>_. s))"

definition WithOperation :: "Operation \<Rightarrow> Event \<Rightarrow> Event" where
  "WithOperation op = map_payload (pa_Op_update (\<lambda>_. op))"

definition WithBefore :: "any \<Rightarrow> Event \<Rightarrow> Event" where
  "WithBefore v = map_payload (pa_Before_update (\<lambda>_. v))"

definition WithAfter :: "any \<Rightarrow> Event \<Rightarrow> Event" where
  "WithAfter v = map_payload (pa_After_update (\<lambda>_. v))"

definition WithTimestamp :: "int \<Rightarrow> Event \<Rightarrow> Event" where
  "WithTimestamp ts = map_payload (pa_TsMs_update (\<lambda>_. ts))"

definition WithTransaction :: "Transaction option \<Rightarrow> Event \<Rightarrow> Event" where
  "WithTransaction tx = map_payload (pa_Transaction_update (\<lambda>_. tx))"

lemmas cdc_builders = NewSourceBuilder_def WithSchema_def WithTable_def WithDatabase_def source_WithTimestamp_def
  source_WithTransaction_def NewEventBuilder_def WithSource_def WithOperation_def WithBefore_def WithAfter_def
  WithTimestamp_def WithTransaction_def zero_event_def zero_payload_def zero_source_def

end
