(* ===== verification/Glob.thy ===== *)
theory Glob
  imports GoStrings
begin

text \<open>
  \<open>filepath.Match\<close> of the Go library on Unix, which the table filters of a pipeline use
  (\<open>pkg/pipeline/transform/filter.go\<close>). The callers drop its error, which comes with \<open>false\<close>: a
  malformed pattern is one that does not match, so \<open>None\<close> stands for a failed match and for a
  malformed chunk alike.
\<close>

section \<open>The matcher\<close>

fun strip_stars :: "string \<Rightarrow> string" where
  "strip_stars (c # p) = (if c = CHR ''*'' then strip_stars p else c # p)"
| "strip_stars [] = []"

text \<open>\<open>scanChunk\<close>: the text up to the next star outside a character class, and the rest.\<close>

fun scan_chunk :: "bool \<Rightarrow> string \<Rightarrow> string \<times> string" where
  "scan_chunk inrange [] = ([], [])"
| "scan_chunk inrange [c] = (if c = CHR ''*'' \<and> \<not> inrange then ([], [c]) else ([c], []))"
| "scan_chunk inrange (c # d # p) =
     (if c = CHR 0x5C then (case scan_chunk inrange p of (a, b) \<Rightarrow> (c # d # a, b))
      else if c = CHR ''*'' \<and> \<not> inrange then ([], c # d # p)
      else (case scan_chunk (c = CHR ''['' \<or> (c \<noteq> CHR '']'' \<and> inrange)) (d # p) of (a, b) \<Rightarrow> (c # a, b)))"

definition getEsc :: "string \<Rightarrow> (nat \<times> string) option" where
  "getEsc chunk =
     (if chunk = [] \<or> hd chunk = CHR ''-'' \<or> hd chunk = CHR '']'' then None
      else (let chunk' = (if hd chunk = CHR 0x5C then tl chunk else chunk) in
        if chunk' = [] then None
        else (case DecodeRune chunk' of (r, n) \<Rightarrow>
          if r = RuneError \<and> n = 1 \<or> drop n chunk' = [] then None else Some (r, drop n chunk'))))"

lemma getEsc_shorter: "getEsc chunk = Some (r, rest) \<Longrightarrow> length rest < length chunk"
  using DecodeRune_width [of chunk] DecodeRune_width [of "tl chunk"]
  by (auto simp: getEsc_def Let_def split: if_splits prod.splits)

text \<open>The ranges of a character class up to its closing bracket.\<close>

function class_ranges :: "nat \<Rightarrow> bool \<Rightarrow> bool \<Rightarrow> string \<Rightarrow> (bool \<times> string) option" where
  "class_ranges r seen matched chunk =
     (if chunk \<noteq> [] \<and> hd chunk = CHR '']'' \<and> seen then Some (matched, tl chunk)
      else (case getEsc chunk of
          None \<Rightarrow> None
        | Some (lo, chunk1) \<Rightarrow>
            if hd chunk1 = CHR ''-'' then (case getEsc (tl chunk1) of
                None \<Rightarrow> None
              | Some (hi, chunk2) \<Rightarrow> class_ranges r True (matched \<or> lo \<le> r \<and> r \<le> hi) chunk2)
            else class_ranges r True (matched \<or> lo = r) chunk1))"
  by pat_completeness auto
termination
proof (relation "measure (\<lambda>(r, seen, matched, chunk). length chunk)", goal_cases)
  case (2 r seen matched chunk a lo chunk1 b hi chunk2)
  then show ?case using getEsc_shorter [of chunk lo chunk1] getEsc_shorter [of "tl chunk1" hi chunk2] by simp
next
  case (3 r seen matched chunk a lo chunk1)
  then show ?case using getEsc_shorter [of chunk lo chunk1] by simp
qed simp

declare class_ranges.simps [simp del]

lemma class_ranges_shorter: "class_ranges r seen matched chunk = Some (m, rest) \<Longrightarrow> length rest < length chunk"
proof (induction r seen matched chunk rule: class_ranges.induct)
  case (1 r seen matched chunk)
  show ?case
  proof (cases "chunk \<noteq> [] \<and> hd chunk = CHR '']'' \<and> seen")
    case True
    then have "rest = tl chunk" using "1.prems" by (simp add: class_ranges.simps [of r True matched chunk])
    then show ?thesis using True by simp
  next
    case False
    then obtain lo c1 where g: "getEsc chunk = Some (lo, c1)"
      using "1.prems" by (auto simp: class_ranges.simps [of r seen matched chunk] split: option.splits)
    show ?thesis
    proof (cases "hd c1 = CHR ''-''")
      case True
      then obtain hi c2 where h: "getEsc (tl c1) = Some (hi, c2)"
        using "1.prems" False g by (auto simp: class_ranges.simps [of r seen matched chunk] split: option.splits)
      have "length rest < length c2"
        by (rule "1.IH"(1) [OF False g refl True h refl])
          (use "1.prems" False g True h in \<open>simp add: class_ranges.simps [of r seen matched chunk]\<close>)
      then show ?thesis using getEsc_shorter [OF g] getEsc_shorter [OF h] by simp
    next
      case c: False
      have "length rest < length c1"
        by (rule "1.IH"(2) [OF False g refl c])
          (use "1.prems" False g c in \<open>simp add: class_ranges.simps [of r seen matched chunk]\<close>)
      then show ?thesis using getEsc_shorter [OF g] by simp
    qed
  qed
qed

text \<open>\<open>matchChunk\<close>: the rest of the name after a chunk without stars, if the chunk matches.\<close>

function matchChunk :: "string \<Rightarrow> string \<Rightarrow> string option" where
  "matchChunk [] s = Some s"
| "matchChunk (c # chunk) s =
     (if s = [] then None
      else if c = CHR ''['' then
        (case DecodeRune s of (r, n) \<Rightarrow>
          let negated = (chunk \<noteq> [] \<and> hd chunk = CHR ''^'');
              chunk1 = (if negated then tl chunk else chunk)
          in (case class_ranges r False False chunk1 of
                None \<Rightarrow> None
              | Some (matched, rest) \<Rightarrow> if matched = negated then None else matchChunk rest (drop n s)))
      else if c = CHR ''?'' then
        (if hd s = CHR 0x2F then None else matchChunk chunk (drop (snd (DecodeRune s)) s))
      else if c = CHR 0x5C then
        (case chunk of [] \<Rightarrow> None | d # chunk' \<Rightarrow> if d = hd s then matchChunk chunk' (tl s) else None)
      else if c = hd s then matchChunk chunk (tl s) else None)"
  by pat_completeness auto
termination
  by (relation "measure (\<lambda>(chunk, s). length chunk)") (auto dest!: class_ranges_shorter split: if_splits)

text \<open>The positions a star may skip to: any number of bytes before the next separator.\<close>

fun skip_match :: "string \<Rightarrow> bool \<Rightarrow> string \<Rightarrow> string option" where
  "skip_match chunk final [] = None"
| "skip_match chunk final (c # s) =
     (if c = CHR 0x2F then None
      else (case matchChunk chunk s of
          Some t \<Rightarrow> if final \<and> t \<noteq> [] then skip_match chunk final s else Some t
        | None \<Rightarrow> skip_match chunk final s))"

lemma scan_chunk_parts: "scan_chunk b p = (chunk, rest) \<Longrightarrow> p = chunk @ rest"
  by (induction b p arbitrary: chunk rest rule: scan_chunk.induct) (auto split: if_splits prod.splits)

lemma length_strip_stars: "length (strip_stars p) \<le> length p"
  by (induction p rule: strip_stars.induct) auto

lemma scan_chunk_progress:
  assumes "scan_chunk False (strip_stars p) = (chunk, rest)" and "p \<noteq> []"
  shows "length rest < length p"
proof (cases "hd p = CHR ''*''")
  case True
  then have "length (strip_stars p) < length p"
    using assms(2) length_strip_stars [of "tl p"] by (cases p) auto
  moreover have "length rest \<le> length (strip_stars p)" by (simp add: scan_chunk_parts [OF assms(1)])
  ultimately show ?thesis by linarith
next
  case False
  then have s: "strip_stars p = p" using assms(2) by (cases p) auto
  with assms False have "chunk \<noteq> []"
    by (cases p rule: remdups_adj.cases) (auto split: if_splits prod.splits)
  then show ?thesis using scan_chunk_parts [OF assms(1)] s by (cases chunk) auto
qed

function Match :: "string \<Rightarrow> string \<Rightarrow> bool" where
  "Match pattern name =
     (if pattern = [] then name = []
      else (case scan_chunk False (strip_stars pattern) of (chunk, rest) \<Rightarrow>
        let star = (hd pattern = CHR ''*'') in
        if star \<and> chunk = [] then CHR 0x2F \<notin> set name
        else (case matchChunk chunk name of
            Some t \<Rightarrow>
              if t = [] \<or> rest \<noteq> [] then Match rest t
              else if star then (case skip_match chunk (rest = []) name of None \<Rightarrow> False | Some t' \<Rightarrow> Match rest t')
              else False
          | None \<Rightarrow>
              if star then (case skip_match chunk (rest = []) name of None \<Rightarrow> False | Some t' \<Rightarrow> Match rest t')
              else False)))"
  by pat_completeness auto
termination
  by (relation "measure (\<lambda>(pattern, name). length pattern)") (auto intro: scan_chunk_progress [OF sym])

declare Match.simps [simp del]

section \<open>The reference semantics of a pattern of bytes and stars\<close>

fun glob :: "string \<Rightarrow> string \<Rightarrow> bool" where
  "glob [] s = (s = [])"
| "glob (c # p) [] = (c = CHR ''*'' \<and> glob p [])"
| "glob (c # p) (d # s) =
     (if c = CHR ''*'' then glob p (d # s) \<or> d \<noteq> CHR 0x2F \<and> glob (c # p) s else c = d \<and> glob p s)"

definition plain_byte :: "char \<Rightarrow> bool" where
  "plain_byte c = (c \<notin> {CHR ''['', CHR ''?'', CHR 0x5C, CHR 0x2F})"

text \<open>\<open>star_split w s x t\<close>: the star took \<open>x\<close>, the chunk \<open>w\<close> follows and \<open>t\<close> is left.\<close>

definition star_split :: "string \<Rightarrow> string \<Rightarrow> string \<Rightarrow> string \<Rightarrow> bool" where
  "star_split w s x t = (s = x @ w @ t \<and> CHR 0x2F \<notin> set x)"

lemma star_split_Cons:
  "star_split w (d # s) x t \<longleftrightarrow> x = [] \<and> d # s = w @ t \<or> (\<exists>y. x = d # y \<and> d \<noteq> CHR 0x2F \<and> star_split w s y t)"
  by (cases x) (auto simp: star_split_def)

lemma glob_star: "glob (CHR ''*'' # p) s \<longleftrightarrow> (\<exists>x t. star_split [] s x t \<and> glob p t)"
proof (induction s)
  case Nil
  show ?case by (auto simp: star_split_def)
next
  case (Cons d s)
  have "(\<exists>x t. star_split [] (d # s) x t \<and> glob p t)
      \<longleftrightarrow> glob p (d # s) \<or> d \<noteq> CHR 0x2F \<and> (\<exists>x t. star_split [] s x t \<and> glob p t)"
    by (simp add: star_split_Cons) blast
  then show ?case using Cons.IH by simp
qed

lemma glob_chunk: "CHR ''*'' \<notin> set w \<Longrightarrow> glob (w @ p) s \<longleftrightarrow> (\<exists>t. s = w @ t \<and> glob p t)"
proof (induction w arbitrary: s)
  case (Cons c w)
  then show ?case by (cases s) auto
qed simp

lemma glob_absorb:
  assumes "glob (CHR ''*'' # p) t" and "CHR 0x2F \<notin> set x"
  shows "glob (CHR ''*'' # p) (x @ t)"
proof -
  obtain y u where "t = y @ u" "CHR 0x2F \<notin> set y" "glob p u"
    using assms(1) by (auto simp: glob_star star_split_def)
  then have "star_split [] (x @ t) (x @ y) u \<and> glob p u" using assms(2) by (simp add: star_split_def)
  then show ?thesis unfolding glob_star by blast
qed

lemma glob_stars: "glob (CHR ''*'' # p) s \<longleftrightarrow> glob (CHR ''*'' # strip_stars p) s"
proof (induction p rule: strip_stars.induct)
  case (1 c p)
  have "glob (CHR ''*'' # CHR ''*'' # p) s \<longleftrightarrow> glob (CHR ''*'' # p) s"
  proof
    assume "glob (CHR ''*'' # CHR ''*'' # p) s"
    then obtain x t where "s = x @ t" "CHR 0x2F \<notin> set x" "glob (CHR ''*'' # p) t"
      unfolding glob_star [of "CHR ''*'' # p"] star_split_def by auto
    then show "glob (CHR ''*'' # p) s" by (simp add: glob_absorb)
  next
    assume "glob (CHR ''*'' # p) s"
    then have "star_split [] s [] s \<and> glob (CHR ''*'' # p) s" by (simp add: star_split_def)
    then show "glob (CHR ''*'' # CHR ''*'' # p) s" unfolding glob_star [of "CHR ''*'' # p"] by blast
  qed
  with 1 show ?case by simp
qed simp

section \<open>The matcher decides the reference semantics\<close>

lemma scan_chunk_plain:
  "list_all plain_byte p \<Longrightarrow> scan_chunk False p = (takeWhile (\<lambda>c. c \<noteq> CHR ''*'') p, dropWhile (\<lambda>c. c \<noteq> CHR ''*'') p)"
  by (induction p rule: induct_list012) (auto simp: plain_byte_def)

lemma matchChunk_plain:
  "list_all plain_byte w \<Longrightarrow> matchChunk w s = (if take (length w) s = w then Some (drop (length w) s) else None)"
proof (induction w arbitrary: s)
  case (Cons c w)
  then show ?case by (cases s) (auto simp: plain_byte_def)
qed simp

lemma matchChunk_Some:
  "list_all plain_byte w \<Longrightarrow> matchChunk w s = Some t \<longleftrightarrow> s = w @ t"
  by (auto simp: matchChunk_plain) (metis append_take_drop_id)

text \<open>A split the matcher may stop at, and the one that skips the least.\<close>

definition usable :: "string \<Rightarrow> bool \<Rightarrow> string \<Rightarrow> string \<Rightarrow> string \<Rightarrow> bool" where
  "usable w final s x t = (star_split w s x t \<and> (final \<longrightarrow> t = []))"

lemma skip_match_Some:
  assumes "list_all plain_byte w" and "skip_match w final s = Some t"
  shows "\<exists>x. x \<noteq> [] \<and> usable w final s x t \<and> (\<forall>x' t'. x' \<noteq> [] \<and> usable w final s x' t' \<longrightarrow> length x \<le> length x')"
  using assms
proof (induction w final s arbitrary: t rule: skip_match.induct)
  case (2 w final c s)
  have c: "c \<noteq> CHR 0x2F" using "2.prems" by auto
  show ?case
  proof (cases "\<exists>t. matchChunk w s = Some t \<and> \<not> (final \<and> t \<noteq> [])")
    case True
    then have "matchChunk w s = Some t" "final \<longrightarrow> t = []" using "2.prems" c by auto
    then have "usable w final (c # s) [c] t" using c by (simp add: usable_def star_split_def matchChunk_Some [OF "2.prems"(1)])
    then show ?thesis by (intro exI [of _ "[c]"]) (simp add: Suc_le_eq)
  next
    case False
    have sk: "skip_match w final s = Some t" using "2.prems"(2) c False by (auto split: option.splits if_splits)
    have "\<exists>x. x \<noteq> [] \<and> usable w final s x t \<and> (\<forall>x' t'. x' \<noteq> [] \<and> usable w final s x' t' \<longrightarrow> length x \<le> length x')"
    proof (cases "matchChunk w s")
      case None
      show ?thesis by (rule "2.IH"(1) [OF c None "2.prems"(1) sk])
    next
      case (Some a)
      with False have "final \<and> a \<noteq> []" by auto
      from "2.IH"(2) [OF c Some this "2.prems"(1) sk] show ?thesis .
    qed
    then obtain x where x: "x \<noteq> []" "usable w final s x t" "\<And>x' t'. x' \<noteq> [] \<Longrightarrow> usable w final s x' t' \<Longrightarrow> length x \<le> length x'"
      by blast
    have "length (c # x) \<le> length x'" if h: "x' \<noteq> []" "usable w final (c # s) x' t'" for x' t'
    proof -
      obtain x'' where x'': "x' = c # x''" "usable w final s x'' t'"
        using h by (auto simp: usable_def star_split_Cons)
      have "x'' \<noteq> []"
      proof
        assume "x'' = []"
        then have "matchChunk w s = Some t' \<and> \<not> (final \<and> t' \<noteq> [])"
          using x''(2) matchChunk_Some [OF "2.prems"(1)] by (simp add: usable_def star_split_def)
        with False show False by blast
      qed
      then show ?thesis using x(3) [OF _ x''(2)] x''(1) by simp
    qed
    then show ?thesis using x(1,2) c by (intro exI [of _ "c # x"]) (auto simp: usable_def star_split_Cons)
  qed
qed simp

lemma skip_match_None:
  assumes "list_all plain_byte w" and "skip_match w final s = None" and "x \<noteq> []"
  shows "\<not> usable w final s x t"
  using assms
proof (induction w final s arbitrary: x rule: skip_match.induct)
  case (1 w final)
  then show ?case by (simp add: usable_def star_split_def)
next
  case (2 w final c s)
  show ?case
  proof
    assume "usable w final (c # s) x t"
    then obtain y where y: "x = c # y" "c \<noteq> CHR 0x2F" "usable w final s y t"
      using "2.prems"(3) by (auto simp: usable_def star_split_Cons)
    have sk: "skip_match w final s = None" using "2.prems"(2) y(2) by (auto split: option.splits if_splits)
    have m: "final \<and> a \<noteq> []" if "matchChunk w s = Some a" for a
      using that "2.prems"(2) y(2) by (auto split: if_splits)
    show False
    proof (cases "matchChunk w s")
      case None
      then have "y \<noteq> []" using y(3) matchChunk_Some [OF "2.prems"(1), of s t] by (auto simp: usable_def star_split_def)
      with "2.IH"(1) [OF y(2) None "2.prems"(1) sk] y(3) show False by blast
    next
      case (Some a)
      then have "y \<noteq> []"
        using m [OF Some] y(3) matchChunk_Some [OF "2.prems"(1), of s t] by (auto simp: usable_def star_split_def)
      with "2.IH"(2) [OF y(2) Some m [OF Some] "2.prems"(1) sk] y(3) show False by blast
    qed
  qed
qed

text \<open>The first position a star finds: with nothing skipped, or the next one that fits.\<close>

definition first_match :: "string \<Rightarrow> bool \<Rightarrow> string \<Rightarrow> string option" where
  "first_match w final s = (case matchChunk w s of
       Some t \<Rightarrow> if t = [] \<or> \<not> final then Some t else skip_match w final s
     | None \<Rightarrow> skip_match w final s)"

lemma first_match_None:
  assumes "list_all plain_byte w" and "first_match w final s = None"
  shows "\<not> usable w final s x t"
proof (cases "x = []")
  case True
  have "matchChunk w s = Some t \<Longrightarrow> final \<and> t \<noteq> []" using assms(2) by (auto simp: first_match_def split: if_splits)
  then show ?thesis using True by (auto simp: usable_def star_split_def matchChunk_Some [OF assms(1)])
next
  case False
  have "skip_match w final s = None" using assms(2) by (auto simp: first_match_def split: option.splits if_splits)
  from skip_match_None [OF assms(1) this False] show ?thesis .
qed

lemma first_match_Some:
  assumes "list_all plain_byte w" and "first_match w final s = Some t"
  shows "\<exists>x. usable w final s x t \<and> (\<forall>x' t'. usable w final s x' t' \<longrightarrow> length x \<le> length x')"
proof (cases "\<exists>t. matchChunk w s = Some t \<and> (t = [] \<or> \<not> final)")
  case True
  then have "matchChunk w s = Some t" "final \<longrightarrow> t = []" using assms(2) by (auto simp: first_match_def)
  then have "usable w final s [] t" by (simp add: usable_def star_split_def matchChunk_Some [OF assms(1)])
  then show ?thesis by (intro exI [of _ "[]"]) simp
next
  case False
  then have "skip_match w final s = Some t" using assms(2) by (auto simp: first_match_def split: option.splits if_splits)
  from skip_match_Some [OF assms(1) this] obtain x where x: "usable w final s x t"
      "\<And>x' t'. x' \<noteq> [] \<Longrightarrow> usable w final s x' t' \<Longrightarrow> length x \<le> length x'" by blast
  have "\<not> usable w final s [] t'" for t'
    using False by (auto simp: usable_def star_split_def matchChunk_Some [OF assms(1)])
  then have "length x \<le> length x'" if "usable w final s x' t'" for x' t'
    using x(2) that by (cases "x' = []") blast+
  then show ?thesis using x(1) by blast
qed

lemma append_longer_split:
  assumes "a @ t = b @ t'" and "length a \<le> length b"
  obtains d where "t = d @ t'" and "b = a @ d"
proof (rule that)
  have "a = take (length a) b" using arg_cong [OF assms(1), of "take (length a)"] assms(2) by simp
  then show b: "b = a @ drop (length a) b" by (metis append_take_drop_id)
  show "t = drop (length a) b @ t'" using assms(1) by (subst (asm) b) simp
qed

text \<open>Skipping the least is enough, because a following star can take what was not skipped.\<close>

lemma glob_star_chunk:
  assumes "list_all plain_byte w" and "CHR ''*'' \<notin> set w" and "rest = [] \<or> hd rest = CHR ''*''"
  shows "glob (CHR ''*'' # w @ rest) s \<longleftrightarrow> (case first_match w (rest = []) s of None \<Rightarrow> False | Some t \<Rightarrow> glob rest t)"
proof -
  let ?f = "rest = []"
  have g: "glob (CHR ''*'' # w @ rest) s \<longleftrightarrow> (\<exists>x t. usable w ?f s x t \<and> glob rest t)"
  proof -
    have "(\<exists>x t. star_split [] s x t \<and> (\<exists>u. t = w @ u \<and> glob rest u)) \<longleftrightarrow> (\<exists>x u. star_split w s x u \<and> glob rest u)"
      by (auto simp: star_split_def)
    also have "\<dots> \<longleftrightarrow> (\<exists>x t. usable w ?f s x t \<and> glob rest t)"
      unfolding usable_def by (rule ex_cong1)+ auto
    finally show ?thesis unfolding glob_star glob_chunk [OF assms(2)] .
  qed
  show ?thesis
  proof (cases "first_match w ?f s")
    case None
    then show ?thesis using first_match_None [OF assms(1) None] by (simp add: g)
  next
    case (Some t)
    obtain x where x: "usable w ?f s x t" "\<And>x' t'. usable w ?f s x' t' \<Longrightarrow> length x \<le> length x'"
      using first_match_Some [OF assms(1) Some] by blast
    have "glob rest t" if h: "usable w ?f s x' t'" "glob rest t'" for x' t'
    proof (cases ?f)
      case True
      then show ?thesis using x(1) by (simp add: usable_def)
    next
      case False
      then obtain r where r: "rest = CHR ''*'' # r" using assms(3) by (cases rest) auto
      have le: "length x \<le> length x'" by (rule x(2) [OF h(1)])
      have s: "x @ w @ t = x' @ w @ t'" "CHR 0x2F \<notin> set (x' @ w)"
        using x(1) h(1) assms(1) by (auto simp: usable_def star_split_def list_all_iff plain_byte_def)
      have "(x @ w) @ t = (x' @ w) @ t'" "length (x @ w) \<le> length (x' @ w)" using s(1) le by simp_all
      then obtain d where d: "t = d @ t'" "x' @ w = (x @ w) @ d"
        by (rule append_longer_split)
      have "set d \<subseteq> set (x' @ w)" unfolding d(2) by auto
      then have "CHR 0x2F \<notin> set d" using s(2) by blast
      with h(2) d(1) show ?thesis by (simp add: r glob_absorb)
    qed
    then show ?thesis using x(1) by (auto simp: g Some)
  qed
qed

lemma strip_stars_parts: "list_all plain_byte p \<Longrightarrow> list_all plain_byte (strip_stars p)"
  by (induction p rule: strip_stars.induct) auto

lemma strip_stars_hd: "strip_stars p = [] \<or> hd (strip_stars p) \<noteq> CHR ''*''"
  by (induction p rule: strip_stars.induct) auto

lemma Match_star:
  assumes "scan_chunk False (strip_stars pattern) = (chunk, rest)" and "pattern \<noteq> []" and "hd pattern = CHR ''*''" and "chunk \<noteq> []"
  shows "Match pattern name = (case first_match chunk (rest = []) name of None \<Rightarrow> False | Some t \<Rightarrow> Match rest t)"
  using assms by (subst Match.simps) (auto simp: first_match_def split: option.split)

lemma Match_literal:
  assumes "scan_chunk False (strip_stars pattern) = (chunk, rest)" and "pattern \<noteq> []" and "hd pattern \<noteq> CHR ''*''"
  shows "Match pattern name = (case matchChunk chunk name of None \<Rightarrow> False | Some t \<Rightarrow> (t = [] \<or> rest \<noteq> []) \<and> Match rest t)"
  using assms by (subst Match.simps) (auto split: option.split)

lemma glob_only_stars: "glob [CHR ''*''] s \<longleftrightarrow> CHR 0x2F \<notin> set s"
  by (simp add: glob_star star_split_def)

text \<open>
  On a pattern of plain bytes and stars, \<open>filepath.Match\<close> decides the reference semantics: a star
  stands for any text without a separator, every other byte for itself, and the whole name is
  matched. The matcher tries only the first position where a chunk fits; that loses no match.
\<close>

lemma Match_is_glob:
  assumes "list_all plain_byte pattern"
  shows "Match pattern name = glob pattern name"
  using assms
proof (induction pattern arbitrary: name rule: length_induct)
  case (1 p)
  define q where "q = strip_stars p"
  define w r where "w = takeWhile (\<lambda>c. c \<noteq> CHR ''*'') q" and "r = dropWhile (\<lambda>c. c \<noteq> CHR ''*'') q"
  have q: "list_all plain_byte q" "q = w @ r" and w: "list_all plain_byte w" "CHR ''*'' \<notin> set w"
    and r: "list_all plain_byte r" "r = [] \<or> hd r = CHR ''*''"
    using "1.prems" strip_stars_parts [of p] hd_dropWhile [of "\<lambda>c. c \<noteq> CHR ''*''" q]
    by (auto simp: q_def w_def r_def list_all_iff dest: set_takeWhileD set_dropWhileD)
  have scan: "scan_chunk False (strip_stars p) = (w, r)"
    unfolding w_def r_def using scan_chunk_plain [OF q(1)] by (simp add: q_def)
  show ?case
  proof (cases "p = []")
    case True
    then show ?thesis by (simp add: Match.simps)
  next
    case False
    have IH: "Match r t = glob r t" for t
      using "1.IH" scan_chunk_progress [OF scan False] r(1) by blast
    show ?thesis
    proof (cases "hd p = CHR ''*''")
      case True
      then have star: "glob p name = glob (CHR ''*'' # w @ r) name"
        using glob_stars [of "tl p" name] False by (cases p) (auto simp: q(2) [symmetric] q_def)
      show ?thesis
      proof (cases "w = []")
        case w0: True
        then have "r = []" using strip_stars_hd [of p] r(2) by (auto simp: q_def [symmetric] q(2))
        then show ?thesis using star w0 scan True False by (subst Match.simps) (simp add: glob_only_stars)
      next
        case w0: False
        show ?thesis
          unfolding star glob_star_chunk [OF w r(2)] Match_star [OF scan False True w0] by (simp add: IH cong: option.case_cong)
      qed
    next
      case lit: False
      then have p: "p = w @ r" using False by (cases p) (auto simp: q(2) [symmetric] q_def)
      have "glob p name \<longleftrightarrow> (\<exists>t. matchChunk w name = Some t \<and> glob r t)"
        unfolding matchChunk_Some [OF w(1)] by (subst p) (rule glob_chunk [OF w(2)])
      then show ?thesis
        unfolding Match_literal [OF scan False lit] IH by (auto split: option.split)
    qed
  qed
qed

end
