(* ===== verification/Transform.thy ===== *)
theory Transform
  imports Cdc Glob
begin

text \<open>
  The transformations of a pipeline (\<open>pkg/pipeline/transform\<close>): \<open>extract\<close>, \<open>filter\<close> and
  \<open>replace\<close>, the registry that finds them by name and the chain that composes them. A transformation
  takes the store of field arrays and an event and returns the store with an error, nothing
  (the event is dropped) or an event.

  Parameters: \<open>re\<close> is \<open>regexp.Compile\<close> (\<open>None\<close> for a pattern that does not compile), giving
  \<open>MatchString\<close> and \<open>ReplaceAllString\<close> of the compiled expression; \<open>D\<close> is
  \<open>mapstructure.Decode\<close> into the three configuration types.
\<close>

section \<open>Errors and configurations\<close>

datatype transform_error =
    NoFields
  | NoCriteria
  | BadPattern string
  | BadOperation string
  | NoReplacement
  | BadReplacementType string
  | InvalidExtract transform_error
  | InvalidFilter transform_error
  | InvalidReplace transform_error
  | MissingTable
  | MissingOperation
  | WrongConfigType string
  | NotFound string
  | BadConfig string
  | UnknownType string
  | NilEvent
  | ChainError transform_error
  | PipelineError transform_error

record Regexp =
  re_MatchString :: "string \<Rightarrow> bool"
  re_ReplaceAllString :: "string \<Rightarrow> string \<Rightarrow> string"

type_synonym regexp_lib = "string \<Rightarrow> Regexp option"

type_synonym Func = "field_store \<Rightarrow> Event \<Rightarrow> field_store \<times> (transform_error, Event option) result"

record ExtractConfig =
  ec_Fields :: "string list"

record FilterConfig =
  fc_TablePattern :: string
  fc_Tables :: "string list"
  fc_ExcludeTables :: "string list"
  fc_Operations :: "string list"

record RegexReplacement =
  rr_Type :: string
  rr_Pattern :: string
  rr_Replace :: string

record ReplaceConfig =
  rc_Schemas :: "(string \<times> string) list"
  rc_Tables :: "(string \<times> string) list"
  rc_Columns :: "(string \<times> string) list"
  rc_Regex :: "RegexReplacement list"

section \<open>\<open>extract.go\<close>\<close>

definition extract_Validate :: "ExtractConfig \<Rightarrow> transform_error option" where
  "extract_Validate c = (if ec_Fields c = [] then Some NoFields else None)"

text \<open>The loop over the configured fields: those the row has, in a fresh map.\<close>

definition pick_fields :: "string list \<Rightarrow> any \<Rightarrow> gomap" where
  "pick_fields flds row = (case row of
       VMap m \<Rightarrow> fold (\<lambda>f new. case map_of m f of None \<Rightarrow> new | Some v \<Rightarrow> map_put f v new) flds []
     | _ \<Rightarrow> [])"

definition Extract :: "ExtractConfig \<Rightarrow> Func" where
  "Extract config st e = (case extract_Validate config of
       Some err \<Rightarrow> (st, Inl (InvalidExtract err))
     | None \<Rightarrow> (st, Inr (Some (map_payload (\<lambda>p. p\<lparr>pa_Before := VMap (pick_fields (ec_Fields config) (pa_Before p)),
                                                     pa_After := VMap (pick_fields (ec_Fields config) (pa_After p))\<rparr>) e))))"

section \<open>\<open>filter.go\<close>\<close>

record tableRef =
  tr_schema :: string
  tr_table :: string
  tr_isGlob :: bool

definition filter_Validate :: "regexp_lib \<Rightarrow> FilterConfig \<Rightarrow> transform_error option" where
  "filter_Validate re c =
     (if fc_Tables c = [] \<and> fc_ExcludeTables c = [] \<and> fc_TablePattern c = [] \<and> fc_Operations c = [] then Some NoCriteria
      else if fc_TablePattern c \<noteq> [] \<and> re (fc_TablePattern c) = None then Some (BadPattern (fc_TablePattern c))
      else map_option BadOperation (find (\<lambda>op. op \<notin> {''c'', ''u'', ''d'', ''r''}) (fc_Operations c)))"

definition parseTableRef :: "string \<Rightarrow> tableRef" where
  "parseTableRef ref =
     (if ref = ''*.*'' then \<lparr>tr_schema = ''*'', tr_table = ''*'', tr_isGlob = True\<rparr>
      else (case Split ref (CHR ''.'') of
          [s, t] \<Rightarrow> \<lparr>tr_schema = s, tr_table = t, tr_isGlob = CHR ''*'' \<in> set s \<or> CHR ''*'' \<in> set t\<rparr>
        | _ \<Rightarrow> \<lparr>tr_schema = [], tr_table = ref, tr_isGlob = CHR ''*'' \<in> set ref\<rparr>))"

definition matchesTableRef :: "Event \<Rightarrow> tableRef \<Rightarrow> bool" where
  "matchesTableRef e ref =
     (let schema = so_Schema (ev_source e); table = so_Table (ev_source e) in
      if tr_isGlob ref then
        (if tr_schema ref = ''*'' \<and> tr_table ref = ''*'' then True
         else if tr_schema ref \<noteq> ''*'' \<and> tr_table ref = ''*'' then Match (tr_schema ref) schema
         else if tr_schema ref = ''*'' \<and> tr_table ref \<noteq> ''*'' then Match (tr_table ref) table
         else Match (tr_schema ref) schema \<and> Match (tr_table ref) table)
      else if tr_schema ref \<noteq> [] \<and> tr_schema ref \<noteq> schema then False
      else tr_table ref = table)"

text \<open>The function \<open>Filter\<close> returns for a valid configuration.\<close>

definition filter_event :: "regexp_lib \<Rightarrow> FilterConfig \<Rightarrow> Event \<Rightarrow> (transform_error, Event option) result" where
  "filter_event re config e =
     (let schema = so_Schema (ev_source e); table = so_Table (ev_source e); op = pa_Op (ev_Payload e) in
      if schema = [] \<or> table = [] then Inl MissingTable
      else if fc_Operations config \<noteq> [] \<and> op = [] then Inl MissingOperation
      else if fc_Operations config \<noteq> [] \<and> op \<notin> set (fc_Operations config) then Inr None
      else if list_ex (matchesTableRef e) (map parseTableRef (fc_ExcludeTables config)) then Inr None
      else if fc_Tables config \<noteq> [] \<and> \<not> list_ex (matchesTableRef e) (map parseTableRef (fc_Tables config)) then Inr None
      else (case (if fc_TablePattern config = [] then None else re (fc_TablePattern config)) of
          None \<Rightarrow> Inr (Some e)
        | Some rx \<Rightarrow>
            if \<not> re_MatchString rx (schema @ ''.'' @ table) \<and> \<not> re_MatchString rx table then Inr None else Inr (Some e)))"

definition Filter :: "regexp_lib \<Rightarrow> FilterConfig \<Rightarrow> Func" where
  "Filter re config st e = (case filter_Validate re config of
       Some err \<Rightarrow> (st, Inl (InvalidFilter err))
     | None \<Rightarrow> (st, filter_event re config e))"

section \<open>\<open>replace.go\<close>\<close>

definition isValidReplacementType :: "string \<Rightarrow> bool" where
  "isValidReplacementType t = (t = ''schema'' \<or> t = ''table'' \<or> t = ''column'')"

fun regex_Validate :: "regexp_lib \<Rightarrow> RegexReplacement list \<Rightarrow> transform_error option" where
  "regex_Validate re [] = None"
| "regex_Validate re (r # rs) =
     (if \<not> isValidReplacementType (rr_Type r) then Some (BadReplacementType (rr_Type r))
      else if re (rr_Pattern r) = None then Some (BadPattern (rr_Pattern r))
      else regex_Validate re rs)"

definition replace_Validate :: "regexp_lib \<Rightarrow> ReplaceConfig \<Rightarrow> transform_error option" where
  "replace_Validate re c =
     (if rc_Schemas c = [] \<and> rc_Tables c = [] \<and> rc_Columns c = [] \<and> rc_Regex c = [] then Some NoReplacement
      else regex_Validate re (rc_Regex c))"

definition renamed :: "(string \<times> string) list \<Rightarrow> string \<Rightarrow> string" where
  "renamed m k = (case map_of m k of None \<Rightarrow> k | Some k' \<Rightarrow> k')"

text \<open>\<open>replaceMapKeys\<close> visits the map in the order of the association list.\<close>

definition replaceMapKeys :: "any \<Rightarrow> (string \<times> string) list \<Rightarrow> any" where
  "replaceMapKeys data replacements = (case data of
       VMap m \<Rightarrow> VMap (fold (\<lambda>(k, v) new. map_put (renamed replacements k) v new) m [])
     | _ \<Rightarrow> data)"

definition apply_regex :: "regexp_lib \<Rightarrow> RegexReplacement \<Rightarrow> Source \<Rightarrow> Source" where
  "apply_regex re r s = (case re (rr_Pattern r) of
       None \<Rightarrow> s
     | Some rx \<Rightarrow>
         if rr_Type r = ''schema'' then s\<lparr>so_Schema := re_ReplaceAllString rx (so_Schema s) (rr_Replace r)\<rparr>
         else if rr_Type r = ''table'' then s\<lparr>so_Table := re_ReplaceAllString rx (so_Table s) (rr_Replace r)\<rparr>
         else s)"

definition rename_field :: "(string \<times> string) list \<Rightarrow> Field \<Rightarrow> Field" where
  "rename_field columns f = (case map_of columns (fi_Field f) of
       None \<Rightarrow> f
     | Some new \<Rightarrow> Field new (fi_Type f) (fi_Optional f) (if fi_Name f \<noteq> [] then new else fi_Name f) (fi_Fields f))"

definition replace_source :: "regexp_lib \<Rightarrow> ReplaceConfig \<Rightarrow> Source \<Rightarrow> Source" where
  "replace_source re config s =
     fold (apply_regex re) (rc_Regex config)
       (s\<lparr>so_Schema := renamed (rc_Schemas config) (so_Schema s), so_Table := renamed (rc_Tables config) (so_Table s)\<rparr>)"

text \<open>The event is copied, the array of its schema's fields is not: it is rewritten in place.\<close>

definition Replace :: "regexp_lib \<Rightarrow> ReplaceConfig \<Rightarrow> Func" where
  "Replace re config st e = (case replace_Validate re config of
       Some err \<Rightarrow> (st, Inl (InvalidReplace err))
     | None \<Rightarrow>
         (let e1 = map_payload (pa_Source_update (replace_source re config)) e in
          if rc_Columns config = [] then (st, Inr (Some e1))
          else (let a = es_Fields (ev_Schema e1) in
            (st(a := map (rename_field (rc_Columns config)) (st a)),
             Inr (Some (map_payload (\<lambda>p. p\<lparr>pa_Before := replaceMapKeys (pa_Before p) (rc_Columns config),
                                              pa_After := replaceMapKeys (pa_After p) (rc_Columns config)\<rparr>) e1))))))"

section \<open>\<open>transform.go\<close>: registry and chain\<close>

record Transformation =
  tf_Config :: gomap
  tf_Type :: string

datatype Config = CExtract ExtractConfig | CFilter FilterConfig | CReplace ReplaceConfig

type_synonym factory = "Config \<Rightarrow> Func"
type_synonym Registry = "(string \<times> factory) list"

record decode_lib =
  dec_extract :: "gomap \<Rightarrow> ExtractConfig option"
  dec_filter :: "gomap \<Rightarrow> FilterConfig option"
  dec_replace :: "gomap \<Rightarrow> ReplaceConfig option"

definition NewRegistry :: Registry where
  "NewRegistry = []"

definition Register :: "string \<Rightarrow> factory \<Rightarrow> Registry \<Rightarrow> Registry" where
  "Register name f r = map_put name f r"

definition registry_Get :: "Registry \<Rightarrow> string \<Rightarrow> (transform_error, factory) result" where
  "registry_Get r name = (case map_of r name of None \<Rightarrow> Inl (NotFound name) | Some f \<Rightarrow> Inr f)"

definition extract_factory :: factory where
  "extract_factory config = (case config of CExtract c \<Rightarrow> Extract c | _ \<Rightarrow> (\<lambda>st e. (st, Inl (WrongConfigType ''extract''))))"

definition filter_factory :: "regexp_lib \<Rightarrow> factory" where
  "filter_factory re config = (case config of CFilter c \<Rightarrow> Filter re c | _ \<Rightarrow> (\<lambda>st e. (st, Inl (WrongConfigType ''extract''))))"

definition replace_factory :: "regexp_lib \<Rightarrow> factory" where
  "replace_factory re config = (case config of CReplace c \<Rightarrow> Replace re c | _ \<Rightarrow> (\<lambda>st e. (st, Inl (WrongConfigType ''replace''))))"

definition RegisterBuiltins :: "regexp_lib \<Rightarrow> Registry \<Rightarrow> Registry" where
  "RegisterBuiltins re r =
     Register ''replace'' (replace_factory re) (Register ''filter'' (filter_factory re) (Register ''extract'' extract_factory r))"

definition ToConfig :: "decode_lib \<Rightarrow> Transformation \<Rightarrow> (transform_error, Config) result" where
  "ToConfig D t =
     (if tf_Type t = ''extract'' then (case dec_extract D (tf_Config t) of None \<Rightarrow> Inl (BadConfig (tf_Type t)) | Some c \<Rightarrow> Inr (CExtract c))
      else if tf_Type t = ''filter'' then (case dec_filter D (tf_Config t) of None \<Rightarrow> Inl (BadConfig (tf_Type t)) | Some c \<Rightarrow> Inr (CFilter c))
      else if tf_Type t = ''replace'' then (case dec_replace D (tf_Config t) of None \<Rightarrow> Inl (BadConfig (tf_Type t)) | Some c \<Rightarrow> Inr (CReplace c))
      else Inl (UnknownType (tf_Type t)))"

definition chain_one :: "decode_lib \<Rightarrow> Registry \<Rightarrow> Transformation \<Rightarrow> (transform_error, Func) result" where
  "chain_one D r t = (case registry_Get r (tf_Type t) of
       Inl err \<Rightarrow> Inl (ChainError err)
     | Inr factory \<Rightarrow> (case ToConfig D t of Inl err \<Rightarrow> Inl (ChainError err) | Inr c \<Rightarrow> Inr (factory c)))"

fun run_chain :: "Func list \<Rightarrow> Func" where
  "run_chain [] st e = (st, Inr (Some e))"
| "run_chain (t # ts) st e = (case t st e of
       (st', Inl err) \<Rightarrow> (st', Inl err)
     | (st', Inr None) \<Rightarrow> (st', Inr None)
     | (st', Inr (Some e')) \<Rightarrow> run_chain ts st' e')"

definition Chain :: "decode_lib \<Rightarrow> Registry \<Rightarrow> Transformation list \<Rightarrow> (transform_error, Func) result" where
  "Chain D r configs = (case map_res (chain_one D r) configs of Inl err \<Rightarrow> Inl err | Inr fs \<Rightarrow> Inr (run_chain fs))"

text \<open>The registry is a keyed store.\<close>

definition factory_of :: "Registry \<Rightarrow> string \<Rightarrow> factory option" where
  "factory_of r name = (case registry_Get r name of Inl _ \<Rightarrow> None | Inr f \<Rightarrow> Some f)"

lemma factory_of_map: "factory_of r = map_of r"
  by (auto simp: factory_of_def registry_Get_def fun_eq_iff split: option.split)

interpretation transforms: keyed_store "\<lambda>r. distinct (map fst r)" factory_of Register
  by unfold_locales (auto simp: factory_of_map Register_def distinct_map_put)

lemma builtins_found:
  "factory_of (RegisterBuiltins re NewRegistry) name =
     (if name = ''replace'' then Some (replace_factory re) else if name = ''filter'' then Some (filter_factory re)
      else if name = ''extract'' then Some extract_factory else None)"
  by (simp add: RegisterBuiltins_def NewRegistry_def factory_of_map Register_def)

end
