(* ===== verification/Pipeline.thy ===== *)
theory Pipeline
  imports Transform
begin

text \<open>
  Pipelines (\<open>pkg/pipeline\<close>): the manager that keeps connectors, peers and subscriptions, and the
  processing of an event from a source through the transformations to the sinks. Connectors are
  objects of the peers' packages; they are named by their registry key, and what they answer is a
  parameter.
\<close>

section \<open>Configuration (\<open>pipeline.go\<close>, \<open>peer.go\<close>)\<close>

record Peer =
  pe_Name :: string
  pe_ConnectorName :: string
  pe_Config :: "gomap option"

record SourceConf =
  sr_Name :: string
  sr_Transformations :: "Transformation list"

record Sink =
  sk_Name :: string
  sk_Transformations :: "Transformation list"

record Pipeline =
  pp_Name :: string
  pp_Sources :: "SourceConf list"
  pp_Transformations :: "Transformation list"
  pp_Sinks :: "Sink list"

record PipelineConfig =
  pc_Peers :: "Peer list"
  pc_Pipelines :: "Pipeline list"

definition config_GetPeer :: "PipelineConfig \<Rightarrow> string \<Rightarrow> Peer option" where
  "config_GetPeer c name = find (\<lambda>p. pe_Name p = name) (pc_Peers c)"

definition GetPipeline :: "PipelineConfig \<Rightarrow> string \<Rightarrow> Pipeline option" where
  "GetPipeline c name = find (\<lambda>p. pp_Name p = name) (pc_Pipelines c)"

section \<open>The manager (\<open>manager.go\<close>, \<open>connector.go\<close>)\<close>

text \<open>
  \<open>mg_connectors\<close> is the package's registry of connectors, whose objects are named by the keys they
  were registered with; a subscription holds the channels of its pipeline's sinks by number.
\<close>

record SourceSubscription =
  ss_SinkChannels :: "(string \<times> nat) list"
  ss_PipelineName :: string

record Manager =
  mg_connectors :: "(string \<times> string) list"
  mg_peers :: "(string \<times> Peer) list"
  mg_subscriptions :: "(string \<times> SourceSubscription list) list"

definition NewManager :: "(string \<times> string) list \<Rightarrow> Manager" where
  "NewManager connectors = \<lparr>mg_connectors = connectors, mg_peers = [], mg_subscriptions = []\<rparr>"

definition RegisterConnector :: "string \<Rightarrow> string \<Rightarrow> (string \<times> string) list \<Rightarrow> (string \<times> string) list" where
  "RegisterConnector name c connectors = map_put name c connectors"

text \<open>\<open>Peer.Connector\<close>: the object registered for the peer's connector name.\<close>

definition Connector :: "Manager \<Rightarrow> Peer \<Rightarrow> string option" where
  "Connector m p = map_of (mg_connectors m) (pe_ConnectorName p)"

datatype pipeline_error =
    ConnectorNotFound string
  | PeerNotFound string
  | AddPeerFailed string pipeline_error
  | MarshalFailed string
  | ConnectFailed string
  | SinkNotFound string pipeline_error
  | SourceNotFound string
  | UnsupportedSource string
  | ConfigError string
  | GrpcServerSource
  | SubFailed string
  | SinksFailed pipeline_error
  | SourceFailed string pipeline_error
  | PipelineFailed string pipeline_error

definition AddPeer :: "string \<Rightarrow> string \<Rightarrow> Manager \<Rightarrow> (pipeline_error, Peer \<times> Manager) result" where
  "AddPeer connector name m =
     (if map_of (mg_connectors m) connector = None then Inl (ConnectorNotFound connector)
      else (let peer = \<lparr>pe_Name = name, pe_ConnectorName = connector, pe_Config = None\<rparr>
            in Inr (peer, m\<lparr>mg_peers := map_put name peer (mg_peers m)\<rparr>)))"

definition Peers :: "Manager \<Rightarrow> Peer list" where
  "Peers m = map snd (mg_peers m)"

definition GetPeer :: "Manager \<Rightarrow> string \<Rightarrow> (pipeline_error, Peer) result" where
  "GetPeer m name = (case map_of (mg_peers m) name of None \<Rightarrow> Inl (PeerNotFound name) | Some p \<Rightarrow> Inr p)"

definition GetSubscriptions :: "Manager \<Rightarrow> string \<Rightarrow> SourceSubscription list" where
  "GetSubscriptions m source = (case map_of (mg_subscriptions m) source of None \<Rightarrow> [] | Some subs \<Rightarrow> subs)"

definition AddSubscription :: "string \<Rightarrow> string \<Rightarrow> (string \<times> nat) list \<Rightarrow> Manager \<Rightarrow> Manager" where
  "AddSubscription source pipeline chans m =
     m\<lparr>mg_subscriptions := map_put source
         (GetSubscriptions m source @ [\<lparr>ss_SinkChannels = chans, ss_PipelineName = pipeline\<rparr>]) (mg_subscriptions m)\<rparr>"

definition IsFirstSubscription :: "Manager \<Rightarrow> string \<Rightarrow> bool" where
  "IsFirstSubscription m source = (GetSubscriptions m source = [])"

text \<open>
  What connectors answer: \<open>cn_connect lg c cfg\<close> is whether \<open>Connect\<close> of object \<open>c\<close> succeeds
  after the attempts in \<open>lg\<close>; \<open>cn_marshal\<close> is \<open>json.Marshal\<close> of a peer's configuration (a nil map
  is encoded as \<open>null\<close>).
\<close>

record connect_lib =
  cn_connect :: "(string \<times> string) list \<Rightarrow> string \<Rightarrow> string \<Rightarrow> bool"
  cn_marshal :: "gomap option \<Rightarrow> string option"

text \<open>The first attempt and the retries after one, two and three seconds.\<close>

fun connect_attempts :: "connect_lib \<Rightarrow> nat \<Rightarrow> string \<Rightarrow> string \<Rightarrow> (string \<times> string) list \<Rightarrow> bool \<times> (string \<times> string) list" where
  "connect_attempts X 0 c cfg lg = (False, lg)"
| "connect_attempts X (Suc n) c cfg lg =
     (if cn_connect X lg c cfg then (True, lg @ [(c, cfg)]) else connect_attempts X n c cfg (lg @ [(c, cfg)]))"

definition connect_delays :: "nat list" where
  "connect_delays = [1, 2, 3]"

text \<open>One iteration of the loop of \<open>Init\<close>. The configuration goes into the returned copy of the peer only.\<close>

definition init_peer ::
  "connect_lib \<Rightarrow> Peer \<Rightarrow> Manager \<Rightarrow> (string \<times> string) list \<Rightarrow> pipeline_error option \<times> Manager \<times> (string \<times> string) list" where
  "init_peer X p m lg = (case AddPeer (pe_ConnectorName p) (pe_Name p) m of
       Inl err \<Rightarrow> (Some (AddPeerFailed (pe_Name p) err), m, lg)
     | Inr (peer, m') \<Rightarrow>
         (let peer' = peer\<lparr>pe_Config := pe_Config p\<rparr> in
          case cn_marshal X (pe_Config peer') of
            None \<Rightarrow> (Some (MarshalFailed (pe_Name p)), m', lg)
          | Some cfg \<Rightarrow>
              (case Connector m' peer' of
                 None \<Rightarrow> (Some (ConnectorNotFound (pe_Name p)), m', lg)
               | Some c \<Rightarrow>
                   (case connect_attempts X (Suc (length connect_delays)) c cfg lg of
                      (ok, lg') \<Rightarrow> (if ok then None else Some (ConnectFailed (pe_Name p)), m', lg')))))"

fun Init_loop ::
  "connect_lib \<Rightarrow> Peer list \<Rightarrow> Manager \<Rightarrow> (string \<times> string) list \<Rightarrow> pipeline_error option \<times> Manager \<times> (string \<times> string) list" where
  "Init_loop X [] m lg = (None, m, lg)"
| "Init_loop X (p # ps) m lg = (case init_peer X p m lg of
       (Some err, m', lg') \<Rightarrow> (Some err, m', lg')
     | (None, m', lg') \<Rightarrow> Init_loop X ps m' lg')"

definition Init :: "connect_lib \<Rightarrow> PipelineConfig \<Rightarrow> Manager \<Rightarrow> pipeline_error option \<times> Manager \<times> (string \<times> string) list" where
  "Init X config m = Init_loop X (pc_Peers config) m []"

section \<open>Processing (\<open>process.go\<close>)\<close>

text \<open>A buffered channel; sending without blocking succeeds when there is room. A closed channel panics.\<close>

record Chan =
  ch_buf :: "Event list"
  ch_cap :: nat
  ch_closed :: bool

datatype metric =
    ProcessedEvents string string string
  | TransformationErrors string string string string
  | PublishErrors string

text \<open>
  The running state: the field arrays, the channels by number, the counters that were incremented
  and the calls of \<open>Pub\<close> (connector object and event) in their order.
\<close>

record Proc =
  pr_store :: field_store
  pr_chans :: "Chan list"
  pr_metrics :: "metric list"
  pr_pubs :: "(string \<times> Event) list"

definition applyTransformations ::
  "regexp_lib \<Rightarrow> decode_lib \<Rightarrow> Transformation list \<Rightarrow> field_store \<Rightarrow> Event option \<Rightarrow> field_store \<times> (transform_error, Event option) result" where
  "applyTransformations re D ts st event =
     (if ts = [] then (st, Inr event)
      else (case event of
          None \<Rightarrow> (st, Inl NilEvent)
        | Some e \<Rightarrow> (case Chain D (RegisterBuiltins re NewRegistry) ts of
            Inl err \<Rightarrow> (st, Inl (PipelineError err))
          | Inr f \<Rightarrow> f st e)))"

definition inc_metric :: "metric \<Rightarrow> Proc \<Rightarrow> Proc" where
  "inc_metric m s = s\<lparr>pr_metrics := pr_metrics s @ [m]\<rparr>"

text \<open>\<open>None\<close> is the panic of a send on a closed channel.\<close>

fun distributeToSinks :: "Pipeline \<Rightarrow> SourceConf \<Rightarrow> Event \<Rightarrow> (string \<times> nat) list \<Rightarrow> Sink list \<Rightarrow> Proc \<Rightarrow> Proc option" where
  "distributeToSinks pl source e chans [] s = Some s"
| "distributeToSinks pl source e chans (sink # sinks) s = (case map_of chans (sk_Name sink) of
       None \<Rightarrow> distributeToSinks pl source e chans sinks s
     | Some c \<Rightarrow>
         (let ch = pr_chans s ! c in
          if ch_closed ch then None
          else if length (ch_buf ch) < ch_cap ch then
            distributeToSinks pl source e chans sinks
              (inc_metric (ProcessedEvents (pp_Name pl) (sr_Name source) (sk_Name sink))
                (s\<lparr>pr_chans := (pr_chans s)[c := ch\<lparr>ch_buf := ch_buf ch @ [e]\<rparr>]\<rparr>))
          else distributeToSinks pl source e chans sinks s))"

definition applyEventTransformations ::
  "regexp_lib \<Rightarrow> decode_lib \<Rightarrow> Event \<Rightarrow> SourceConf \<Rightarrow> Pipeline \<Rightarrow> Proc \<Rightarrow> Event option \<times> Proc" where
  "applyEventTransformations re D e source pl s =
     (case applyTransformations re D (sr_Transformations source) (pr_store s) (Some e) of
        (st, Inl err) \<Rightarrow> (None, inc_metric (TransformationErrors ''source'' (pp_Name pl) (sr_Name source) []) (s\<lparr>pr_store := st\<rparr>))
      | (st, Inr None) \<Rightarrow> (None, s\<lparr>pr_store := st\<rparr>)
      | (st, Inr (Some e1)) \<Rightarrow>
          (case applyTransformations re D (pp_Transformations pl) st (Some e1) of
             (st', Inl err) \<Rightarrow> (None, inc_metric (TransformationErrors ''pipeline'' (pp_Name pl) (sr_Name source) []) (s\<lparr>pr_store := st'\<rparr>))
           | (st', Inr r) \<Rightarrow> (r, s\<lparr>pr_store := st'\<rparr>)))"

definition ProcessEvent ::
  "regexp_lib \<Rightarrow> decode_lib \<Rightarrow> Pipeline \<Rightarrow> SourceConf \<Rightarrow> Event \<Rightarrow> (string \<times> nat) list \<Rightarrow> Proc \<Rightarrow> Proc option" where
  "ProcessEvent re D pl source e chans s = (case applyEventTransformations re D e source pl s of
       (None, s') \<Rightarrow> Some s'
     | (Some e', s') \<Rightarrow> distributeToSinks pl source e' chans (pp_Sinks pl) s')"

text \<open>
  The body of the loop of \<open>processSinkEvents\<close> for an event that was received: \<open>pub_ok\<close> is whether
  \<open>Pub\<close> of the connector succeeds after the calls so far.
\<close>

definition processSinkEvent ::
  "regexp_lib \<Rightarrow> decode_lib \<Rightarrow> ((string \<times> Event) list \<Rightarrow> string \<Rightarrow> Event \<Rightarrow> bool) \<Rightarrow> Pipeline \<Rightarrow> Sink \<Rightarrow> string \<Rightarrow> Event \<Rightarrow> Proc \<Rightarrow> Proc" where
  "processSinkEvent re D pub_ok pl sink connector e s =
     (case applyTransformations re D (sk_Transformations sink) (pr_store s) (Some e) of
        (st, Inl err) \<Rightarrow> inc_metric (TransformationErrors ''sink'' (pp_Name pl) ''multiple'' (sk_Name sink)) (s\<lparr>pr_store := st\<rparr>)
      | (st, Inr None) \<Rightarrow> s\<lparr>pr_store := st\<rparr>
      | (st, Inr (Some e')) \<Rightarrow>
          (let s' = s\<lparr>pr_store := st, pr_pubs := pr_pubs s @ [(connector, e')]\<rparr> in
           if pub_ok (pr_pubs s) connector e' then s' else inc_metric (PublishErrors (sk_Name sink)) s'))"

end
