(* ===== verification/PipelineRun.thy ===== *)
theory PipelineRun
  imports Pipeline
begin

text \<open>
  Running pipelines (\<open>cmd/pigo/pipeline.go\<close> with \<open>SetupSinks\<close> and \<open>processSinkEvents\<close> of
  \<open>pkg/pipeline\<close>): the goroutines a configuration starts, and the steps they take. A goroutine that
  serves a sink is a \<open>Worker\<close>; the event it has received and not yet handled is in its hand.
\<close>

section \<open>State\<close>

record Worker =
  wk_pipeline :: Pipeline
  wk_sink :: Sink
  wk_connector :: string
  wk_chan :: nat
  wk_hand :: "Event option"
  wk_running :: bool

record Run =
  rn_manager :: Manager
  rn_proc :: Proc
  rn_workers :: "Worker list"
  rn_readers :: "string list"
  rn_cancelled :: bool

section \<open>Setup\<close>

text \<open>
  What the sources' packages answer: whether the configuration of a source decodes (and what the
  program takes from it), and whether \<open>Sub\<close> of its connector succeeds with the given arguments.
\<close>

record sub_lib =
  sl_postgres :: "gomap option \<Rightarrow> bool"
  sl_mqtt_topic :: "gomap option \<Rightarrow> string option"
  sl_grpc_server :: "gomap option \<Rightarrow> bool option"
  sl_nats :: "gomap option \<Rightarrow> bool"
  sl_sub :: "string option \<Rightarrow> string list \<Rightarrow> bool"

definition sub_result :: "sub_lib \<Rightarrow> Manager \<Rightarrow> Peer \<Rightarrow> string list \<Rightarrow> pipeline_error option" where
  "sub_result X m peer args = (if sl_sub X (Connector m peer) args then None else Some (SubFailed (pe_Name peer)))"

definition setupGRPCConnection :: "sub_lib \<Rightarrow> Manager \<Rightarrow> Peer \<Rightarrow> Peer \<Rightarrow> pipeline_error option" where
  "setupGRPCConnection X m sourcePeer peer = (case sl_grpc_server X (pe_Config sourcePeer) of
       None \<Rightarrow> Some (ConfigError ''grpc'')
     | Some isServer \<Rightarrow> if isServer then Some GrpcServerSource else sub_result X m peer [])"

definition setupSourceConnection :: "sub_lib \<Rightarrow> Manager \<Rightarrow> Peer \<Rightarrow> Peer \<Rightarrow> pipeline_error option" where
  "setupSourceConnection X m sourcePeer peer =
     (let c = pe_ConnectorName sourcePeer; cfg = pe_Config sourcePeer in
      if c = ''postgres'' then (if sl_postgres X cfg then sub_result X m peer [] else Some (ConfigError ''postgres''))
      else if c = ''mqtt'' then (case sl_mqtt_topic X cfg of None \<Rightarrow> Some (ConfigError ''MQTT'') | Some t \<Rightarrow> sub_result X m peer [t])
      else if c = ''grpc'' then setupGRPCConnection X m sourcePeer peer
      else if c = ''nats'' then (if sl_nats X cfg then sub_result X m peer [] else Some (ConfigError ''NATS''))
      else Some (UnsupportedSource c))"

definition new_worker :: "Manager \<Rightarrow> Pipeline \<Rightarrow> Sink \<Rightarrow> Peer \<Rightarrow> (string \<times> nat) list \<Rightarrow> Worker" where
  "new_worker m pl sink peer chans = \<lparr>wk_pipeline = pl, wk_sink = sink,
     wk_connector = (case Connector m peer of None \<Rightarrow> [] | Some c \<Rightarrow> c),
     wk_chan = the (map_of chans (sk_Name sink)), wk_hand = None, wk_running = True\<rparr>"

fun SetupSinks :: "Pipeline \<Rightarrow> (string \<times> nat) list \<Rightarrow> Sink list \<Rightarrow> Run \<Rightarrow> pipeline_error option \<times> Run" where
  "SetupSinks pl chans [] R = (None, R)"
| "SetupSinks pl chans (sink # sinks) R = (case GetPeer (rn_manager R) (sk_Name sink) of
       Inl err \<Rightarrow> (Some (SinkNotFound (sk_Name sink) err), R)
     | Inr peer \<Rightarrow> SetupSinks pl chans sinks (R\<lparr>rn_workers := rn_workers R @ [new_worker (rn_manager R) pl sink peer chans]\<rparr>))"

definition setupSource ::
  "sub_lib \<Rightarrow> PipelineConfig \<Rightarrow> Pipeline \<Rightarrow> (string \<times> nat) list \<Rightarrow> SourceConf \<Rightarrow> Run \<Rightarrow> pipeline_error option \<times> Run" where
  "setupSource X cfg pl chans source R = (case config_GetPeer cfg (sr_Name source) of
       None \<Rightarrow> (Some (SourceNotFound (sr_Name source)), R)
     | Some sourcePeer \<Rightarrow> (case GetPeer (rn_manager R) (sr_Name source) of
         Inl err \<Rightarrow> (Some err, R)
       | Inr peer \<Rightarrow>
           (let isFirst = IsFirstSubscription (rn_manager R) (sr_Name source);
                R1 = R\<lparr>rn_manager := AddSubscription (sr_Name source) (pp_Name pl) chans (rn_manager R)\<rparr>;
                conn = (if isFirst then setupSourceConnection X (rn_manager R1) sourcePeer peer else None)
            in (case conn of
                  Some err \<Rightarrow> (Some err, R1)
                | None \<Rightarrow>
                    (let R2 = (if isFirst then R1\<lparr>rn_readers := rn_readers R1 @ [sr_Name source]\<rparr> else R1) in
                     case SetupSinks pl chans (pp_Sinks pl) R2 of
                       (Some err, R3) \<Rightarrow> (Some (SinksFailed err), R3)
                     | (None, R3) \<Rightarrow> (None, R3))))))"

text \<open>A channel of capacity 100 per sink name.\<close>

fun make_channels :: "Sink list \<Rightarrow> (string \<times> nat) list \<Rightarrow> Proc \<Rightarrow> (string \<times> nat) list \<times> Proc" where
  "make_channels [] chans s = (chans, s)"
| "make_channels (sink # sinks) chans s =
     make_channels sinks (map_put (sk_Name sink) (length (pr_chans s)) chans)
       (s\<lparr>pr_chans := pr_chans s @ [\<lparr>ch_buf = [], ch_cap = 100, ch_closed = False\<rparr>]\<rparr>)"

definition close_all :: "(string \<times> nat) list \<Rightarrow> Proc \<Rightarrow> Proc" where
  "close_all chans s = s\<lparr>pr_chans := fold (\<lambda>(_, c) chs. chs[c := (chs ! c)\<lparr>ch_closed := True\<rparr>]) chans (pr_chans s)\<rparr>"

fun setup_sources ::
  "sub_lib \<Rightarrow> PipelineConfig \<Rightarrow> Pipeline \<Rightarrow> (string \<times> nat) list \<Rightarrow> SourceConf list \<Rightarrow> Run \<Rightarrow> pipeline_error option \<times> Run" where
  "setup_sources X cfg pl chans [] R = (None, R)"
| "setup_sources X cfg pl chans (source # sources) R = (case setupSource X cfg pl chans source R of
       (Some err, R') \<Rightarrow> (Some (SourceFailed (sr_Name source) err), R'\<lparr>rn_proc := close_all chans (rn_proc R')\<rparr>)
     | (None, R') \<Rightarrow> setup_sources X cfg pl chans sources R')"

definition setupPipeline :: "sub_lib \<Rightarrow> PipelineConfig \<Rightarrow> Pipeline \<Rightarrow> Run \<Rightarrow> pipeline_error option \<times> Run" where
  "setupPipeline X cfg pl R = (case make_channels (pp_Sinks pl) [] (rn_proc R) of
     (chans, s) \<Rightarrow> (case setup_sources X cfg pl chans (pp_Sources pl) (R\<lparr>rn_proc := s\<rparr>) of
         (Some err, R') \<Rightarrow> (Some err, R')
       | (None, R') \<Rightarrow> SetupSinks pl chans (pp_Sinks pl) R'))"

fun startPipelineProcessing :: "sub_lib \<Rightarrow> PipelineConfig \<Rightarrow> Pipeline list \<Rightarrow> Run \<Rightarrow> pipeline_error option \<times> Run" where
  "startPipelineProcessing X cfg [] R = (None, R)"
| "startPipelineProcessing X cfg (pl # pls) R = (case setupPipeline X cfg pl R of
       (Some err, R') \<Rightarrow> (Some (PipelineFailed (pp_Name pl) err), R')
     | (None, R') \<Rightarrow> startPipelineProcessing X cfg pls R')"

section \<open>Steps\<close>

text \<open>The body of the loop of \<open>processSourceEventsWithFanout\<close>; \<open>None\<close> is a panic.\<close>

fun fanout ::
  "regexp_lib \<Rightarrow> decode_lib \<Rightarrow> PipelineConfig \<Rightarrow> string \<Rightarrow> Event \<Rightarrow> SourceSubscription list \<Rightarrow> Proc \<Rightarrow> Proc option" where
  "fanout re D cfg source e [] s = Some s"
| "fanout re D cfg source e (sub # subs) s =
     (case GetPipeline cfg (ss_PipelineName sub) of
        None \<Rightarrow> fanout re D cfg source e subs s
      | Some pl \<Rightarrow> (case find (\<lambda>src. sr_Name src = source) (pp_Sources pl) of
          None \<Rightarrow> fanout re D cfg source e subs s
        | Some src \<Rightarrow> (case ProcessEvent re D pl src e (ss_SinkChannels sub) s of
            None \<Rightarrow> None
          | Some s' \<Rightarrow> fanout re D cfg source e subs s')))"

record run_env =
  re_regexp :: regexp_lib
  re_decode :: decode_lib
  re_config :: PipelineConfig
  re_pub :: "(string \<times> Event) list \<Rightarrow> string \<Rightarrow> Event \<Rightarrow> bool"

abbreviation set_hand :: "nat \<Rightarrow> Event option \<Rightarrow> Run \<Rightarrow> Run" where
  "set_hand i h R \<equiv> R\<lparr>rn_workers := (rn_workers R)[i := (rn_workers R ! i)\<lparr>wk_hand := h\<rparr>]\<rparr>"

definition receive :: "nat \<Rightarrow> Run \<Rightarrow> Run" where
  "receive i R =
     (let c = wk_chan (rn_workers R ! i); ch = pr_chans (rn_proc R) ! c in
      set_hand i (Some (hd (ch_buf ch)))
        (R\<lparr>rn_proc := (rn_proc R)\<lparr>pr_chans := (pr_chans (rn_proc R))[c := ch\<lparr>ch_buf := tl (ch_buf ch)\<rparr>]\<rparr>\<rparr>))"

definition handle :: "run_env \<Rightarrow> nat \<Rightarrow> Run \<Rightarrow> Run" where
  "handle E i R =
     (let w = rn_workers R ! i in
      set_hand i None
        (R\<lparr>rn_proc := processSinkEvent (re_regexp E) (re_decode E) (re_pub E) (wk_pipeline w) (wk_sink w) (wk_connector w)
            (the (wk_hand w)) (rn_proc R)\<rparr>))"

datatype label = LIngest string Event | LReceive nat Event | LHandle nat Event | LQuit nat | LStop string | LCancel

inductive run_step :: "run_env \<Rightarrow> Run \<Rightarrow> label \<Rightarrow> Run \<Rightarrow> bool" for E :: run_env where
  ingest: "source \<in> set (rn_readers R) \<Longrightarrow>
     fanout (re_regexp E) (re_decode E) (re_config E) source e (GetSubscriptions (rn_manager R) source) (rn_proc R) = Some s' \<Longrightarrow>
     run_step E R (LIngest source e) (R\<lparr>rn_proc := s'\<rparr>)"
| receive: "i < length (rn_workers R) \<Longrightarrow> rn_workers R ! i = w \<Longrightarrow> wk_running w \<Longrightarrow> wk_hand w = None \<Longrightarrow>
     ch_buf (pr_chans (rn_proc R) ! wk_chan w) = e # rest \<Longrightarrow> run_step E R (LReceive i e) (receive i R)"
| handle: "i < length (rn_workers R) \<Longrightarrow> wk_hand (rn_workers R ! i) = Some e \<Longrightarrow> run_step E R (LHandle i e) (handle E i R)"
| quit: "i < length (rn_workers R) \<Longrightarrow> wk_hand (rn_workers R ! i) = None \<Longrightarrow>
     rn_cancelled R \<or> ch_closed (pr_chans (rn_proc R) ! wk_chan (rn_workers R ! i)) \<and> ch_buf (pr_chans (rn_proc R) ! wk_chan (rn_workers R ! i)) = [] \<Longrightarrow>
     run_step E R (LQuit i) (R\<lparr>rn_workers := (rn_workers R)[i := (rn_workers R ! i)\<lparr>wk_running := False\<rparr>]\<rparr>)"
| stop: "run_step E R (LStop source) (R\<lparr>rn_readers := removeAll source (rn_readers R)\<rparr>)"
| cancel: "run_step E R LCancel (R\<lparr>rn_cancelled := True\<rparr>)"

inductive_cases run_stepE [consumes 1, case_names ingest receive handle quit stop cancel]: "run_step E R l R'"

inductive runs :: "run_env \<Rightarrow> Run \<Rightarrow> label list \<Rightarrow> Run \<Rightarrow> bool" for E :: run_env where
  start: "runs E R [] R"
| step: "runs E R ls R' \<Longrightarrow> run_step E R' l R'' \<Longrightarrow> runs E R (ls @ [l]) R''"

end
