(* ===== verification/TransformProps.thy ===== *)
theory TransformProps
  imports Transform
begin

text \<open>
  What the transformations of a pipeline do: the projection of \<open>extract\<close>, the meaning of table
  references, the renaming of \<open>replace\<close> with the array it shares, and the composition of chains.
\<close>

section \<open>Table references\<close>

lemma glob_no_star: "CHR ''*'' \<notin> set p \<Longrightarrow> glob p s \<longleftrightarrow> s = p"
  using glob_chunk [of p "[]" s] by auto

lemma glob_star_any: "CHR 0x2F \<notin> set s \<Longrightarrow> glob ''*'' s"
  by (simp add: glob_only_stars)

definition plain_part :: "string \<Rightarrow> bool" where
  "plain_part p = (list_all plain_byte p \<and> CHR ''.'' \<notin> set p)"

lemma parseTableRef_pair:
  assumes "plain_part s" and "plain_part t"
  shows "parseTableRef (s @ CHR ''.'' # t)
    = \<lparr>tr_schema = s, tr_table = t, tr_isGlob = CHR ''*'' \<in> set s \<or> CHR ''*'' \<in> set t\<rparr>"
proof -
  have "Split (s @ CHR ''.'' # t) (CHR ''.'') = [s, t]"
    using assms by (simp add: plain_part_def Split_append_sep Split_single)
  moreover have "s = ''*'' \<and> t = ''*''" if "s @ CHR ''.'' # t = ''*.*''"
    using assms that by (auto simp: plain_part_def append_eq_Cons_conv)
  ultimately show ?thesis by (auto simp: parseTableRef_def)
qed


definition example_event :: Event where
  "example_event = map_payload (\<lambda>p. p\<lparr>pa_Op := OpCreate, pa_After := VMap [(''id'', VInt 1), (''name'', VStr ''x'')],
       pa_Source := (pa_Source p)\<lparr>so_Schema := ''public'', so_Table := ''users''\<rparr>\<rparr>) NewEventBuilder"

lemma example_event_simps [simp]:
  "so_Schema (ev_source example_event) = ''public''" "so_Table (ev_source example_event) = ''users''"
  "pa_Op (ev_Payload example_event) = ''c''" "pa_Before (ev_Payload example_event) = VNil"
  "pa_After (ev_Payload example_event) = VMap [(''id'', VInt 1), (''name'', VStr ''x'')]"
  by (simp_all add: example_event_def cdc_builders OpCreate_def)


text \<open>A pattern without a schema selects nothing, although a plain name without one selects that table.\<close>

lemma glob_without_schema_matches_nothing:
  assumes "CHR ''.'' \<notin> set ref" and "CHR ''*'' \<in> set ref" and "so_Schema (ev_source e) \<noteq> []"
  shows "\<not> matchesTableRef e (parseTableRef ref)"
proof -
  have "ref \<noteq> ''*.*''" using assms(1) by auto
  then have "parseTableRef ref = \<lparr>tr_schema = [], tr_table = ref, tr_isGlob = True\<rparr>"
    using assms(1,2) by (simp add: parseTableRef_def Split_single)
  moreover have "\<not> Match [] (so_Schema (ev_source e))" using assms(3) by (simp add: Match.simps)
  ultimately show ?thesis by (simp add: matchesTableRef_def Let_def)
qed

section \<open>Filtering\<close>

text \<open>A transformation that passes an event on unchanged or drops it.\<close>

lemma filter_event_keeps: "filter_event re config e = Inr (Some e') \<Longrightarrow> e' = e"
  by (auto simp: filter_event_def Let_def split: if_splits option.splits)

text \<open>The criteria of a valid configuration.\<close>

definition selected :: "regexp_lib \<Rightarrow> FilterConfig \<Rightarrow> Event \<Rightarrow> bool" where
  "selected re c e =
     ((fc_Operations c = [] \<or> pa_Op (ev_Payload e) \<in> set (fc_Operations c))
      \<and> (\<forall>x \<in> set (fc_ExcludeTables c). \<not> matchesTableRef e (parseTableRef x))
      \<and> (fc_Tables c = [] \<or> (\<exists>x \<in> set (fc_Tables c). matchesTableRef e (parseTableRef x)))
      \<and> (fc_TablePattern c = [] \<or> (\<exists>rx. re (fc_TablePattern c) = Some rx
           \<and> (re_MatchString rx (so_Schema (ev_source e) @ ''.'' @ so_Table (ev_source e)) \<or> re_MatchString rx (so_Table (ev_source e))))))"

text \<open>
  The \<open>filter\<close> transformation with a valid configuration passes an event on unchanged when it
  satisfies every criterion (its operation is listed, no exclusion matches, an inclusion does, the
  pattern does), drops it when it does not, and never fails on an event that names its schema, table and operation.
\<close>

theorem filter_selects:
  assumes "filter_Validate re c = None" and "so_Schema (ev_source e) \<noteq> []" and "so_Table (ev_source e) \<noteq> []"
    and "pa_Op (ev_Payload e) \<noteq> []"
  shows "Filter re c st e = (st, Inr (if selected re c e then Some e else None))"
proof -
  have "fc_TablePattern c = [] \<or> (\<exists>rx. re (fc_TablePattern c) = Some rx)"
    using assms(1) by (auto simp: filter_Validate_def split: if_splits)
  then show ?thesis
    using assms by (auto simp: Filter_def filter_event_def selected_def Let_def list_ex_iff split: option.splits)
qed

section \<open>Projection\<close>

lemma map_of_pick:
  "map_of (fold (\<lambda>f new. case map_of m f of None \<Rightarrow> new | Some v \<Rightarrow> map_put f v new) fs acc) k
     = (if k \<in> set fs \<and> map_of m k \<noteq> None then map_of m k else map_of acc k)"
  by (induction fs arbitrary: acc) (auto split: option.split)

lemma pick_fields_lookup:
  "map_of (pick_fields fs (VMap m)) k = (if k \<in> set fs then map_of m k else None)"
  by (simp add: pick_fields_def map_of_pick)

lemma distinct_pick: "distinct (map fst (pick_fields fs row))"
proof -
  have "distinct (map fst acc) \<Longrightarrow>
      distinct (map fst (fold (\<lambda>f new. case map_of m f of None \<Rightarrow> new | Some v \<Rightarrow> map_put f v new) fs acc))" for m acc :: gomap
    by (induction fs arbitrary: acc) (auto simp: distinct_map_put split: option.split)
  then show ?thesis by (cases row) (simp_all add: pick_fields_def)
qed

lemma pick_idem: "pick_fields fs (VMap (pick_fields fs row)) = pick_fields fs row"
proof (cases row)
  case (VMap m)
  let ?f = "\<lambda>m f new. case map_of m f of None \<Rightarrow> new | Some v \<Rightarrow> map_put f v new"
  have "map_of (pick_fields fs (VMap m)) f = map_of m f" if "f \<in> set fs" for f
    using that by (simp add: pick_fields_lookup)
  then have "fold (?f (pick_fields fs (VMap m))) fs [] = fold (?f m) fs []" by (intro fold_cong) auto
  then show ?thesis by (simp add: VMap) (simp add: pick_fields_def)
qed (simp_all add: pick_fields_def fold_invariant [where P = "\<lambda>x. x = []" and Q = "\<lambda>_. True"])

definition row :: "any \<Rightarrow> gomap" where
  "row v = (case v of VMap m \<Rightarrow> m | _ \<Rightarrow> [])"

lemma pick_fields_row: "map_of (pick_fields fs v) k = (if k \<in> set fs then map_of (row v) k else None)"
  by (cases v) (simp_all add: row_def pick_fields_lookup, simp_all add: pick_fields_def)

text \<open>
  \<open>extract\<close> projects both rows of an event to the configured fields: a field that is configured
  keeps its value, every other one is gone, nothing else of the event changes, no field array is
  touched, and extracting again changes nothing.
\<close>

theorem extract_projects:
  assumes "ec_Fields c \<noteq> []"
  shows "\<exists>e' b a. Extract c st e = (st, Inr (Some e')) \<and> e' = WithBefore (VMap b) (WithAfter (VMap a) e)
    \<and> (\<forall>k. map_of b k = (if k \<in> set (ec_Fields c) then map_of (row (pa_Before (ev_Payload e))) k else None))
    \<and> (\<forall>k. map_of a k = (if k \<in> set (ec_Fields c) then map_of (row (pa_After (ev_Payload e))) k else None))
    \<and> Extract c st e' = (st, Inr (Some e'))"
proof -
  let ?b = "pick_fields (ec_Fields c) (pa_Before (ev_Payload e))" and ?a = "pick_fields (ec_Fields c) (pa_After (ev_Payload e))"
  have v: "extract_Validate c = None" using assms by (simp add: extract_Validate_def)
  have "Extract c st e = (st, Inr (Some (WithBefore (VMap ?b) (WithAfter (VMap ?a) e))))"
    by (simp add: Extract_def v WithBefore_def WithAfter_def)
  moreover have "Extract c st (WithBefore (VMap ?b) (WithAfter (VMap ?a) e)) = (st, Inr (Some (WithBefore (VMap ?b) (WithAfter (VMap ?a) e))))"
    by (simp add: Extract_def v WithBefore_def WithAfter_def pick_idem)
  ultimately show ?thesis using pick_fields_row by blast
qed

theorem extract_projects_witness:
  "\<exists>e' a. Extract \<lparr>ec_Fields = [''id'']\<rparr> (\<lambda>_. []) example_event = (\<lambda>_. [], Inr (Some e'))
     \<and> pa_After (ev_Payload e') = VMap a \<and> map_of a ''id'' = Some (VInt 1) \<and> map_of a ''name'' = None"
proof -
  have "ec_Fields \<lparr>ec_Fields = [''id'']\<rparr> \<noteq> []" by simp
  from extract_projects [OF this, of "\<lambda>_. []" example_event] obtain e' b a
    where "Extract \<lparr>ec_Fields = [''id'']\<rparr> (\<lambda>_. []) example_event = (\<lambda>_. [], Inr (Some e'))"
      "e' = WithBefore (VMap b) (WithAfter (VMap a) example_event)"
      "\<forall>k. map_of a k = (if k \<in> set (ec_Fields \<lparr>ec_Fields = [''id'']\<rparr>) then map_of (row (pa_After (ev_Payload example_event))) k else None)"
    by blast
  then show ?thesis by (intro exI [of _ e'] exI [of _ a]) (simp add: WithBefore_def WithAfter_def row_def)
qed

section \<open>Renaming\<close>

lemma replaceMapKeys_puts:
  "replaceMapKeys (VMap m) R = VMap (gomap.put_all (map (\<lambda>(k, v). (renamed R k, v)) m) [])"
proof -
  have "fold (\<lambda>(k, v) new. map_put (renamed R k) v new) m acc = gomap.put_all (map (\<lambda>(k, v). (renamed R k, v)) m) acc" for acc
    by (induction m arbitrary: acc) auto
  then show ?thesis by (simp add: replaceMapKeys_def)
qed

lemma map_of_inj_keys:
  assumes "inj_on f (fst ` set m)" and "k \<in> fst ` set m"
  shows "map_of (map (\<lambda>(k, v). (f k, v)) m) (f k) = map_of m k"
  using assms by (induction m) (auto simp: inj_on_def)

lemma renamed_lookup:
  assumes "distinct (map fst m)" and "inj_on (renamed R) (fst ` set m)"
  shows "map_of (row (replaceMapKeys (VMap m) R)) k'
    = (case find (\<lambda>k. renamed R k = k') (map fst m) of None \<Rightarrow> None | Some k \<Rightarrow> map_of m k)"
proof -
  let ?m = "map (\<lambda>(k, v). (renamed R k, v)) m"
  have keys: "map fst ?m = map (renamed R) (map fst m)" by (simp add: case_prod_unfold comp_def)
  then have d: "distinct (map fst ?m)" using assms by (simp add: distinct_map del: map_map)
  have "map_of (row (replaceMapKeys (VMap m) R)) = map_of (rev ?m)"
    unfolding replaceMapKeys_puts row_def any.case using gomap.lookup_put_all [of "[]" ?m] by (simp add: map_add_def fun_eq_iff split: option.split)
  also have "\<dots> = map_of ?m" using d by (intro map_of_inject_set [THEN iffD2]) (simp_all add: rev_map [symmetric])
  finally have eq: "map_of (row (replaceMapKeys (VMap m) R)) k' = map_of ?m k'" by simp
  show ?thesis
  proof (cases "find (\<lambda>k. renamed R k = k') (map fst m)")
    case None
    then have "k' \<notin> fst ` set ?m" by (force simp: find_None_iff)
    then show ?thesis using eq None by (simp add: map_of_eq_None_iff)
  next
    case (Some k)
    then have "k \<in> fst ` set m" "renamed R k = k'" by (auto simp: find_Some_iff)
    then show ?thesis using eq Some map_of_inj_keys [OF assms(2)] by auto
  qed
qed

lemma renamed_lookup_key:
  assumes "distinct (map fst m)" and "inj_on (renamed R) (fst ` set m)" and "k \<in> fst ` set m"
  shows "map_of (row (replaceMapKeys (VMap m) R)) (renamed R k) = map_of m k"
proof -
  have "find (\<lambda>k'. renamed R k' = renamed R k) (map fst m) = Some k"
  proof (cases "find (\<lambda>k'. renamed R k' = renamed R k) (map fst m)")
    case None
    then show ?thesis using assms(3) by (auto simp: find_None_iff)
  next
    case (Some k')
    then have "k' \<in> fst ` set m" "renamed R k' = renamed R k" by (auto simp: find_Some_iff)
    then show ?thesis using Some assms(2,3) by (auto dest: inj_onD)
  qed
  then show ?thesis by (simp add: renamed_lookup [OF assms(1,2)])
qed

definition swapped :: "(string \<times> string) list \<Rightarrow> (string \<times> string) list" where
  "swapped R = map (\<lambda>(k, v). (v, k)) R"

text \<open>A renaming that loses nothing on a row: its targets are distinct and no other column has such a name.\<close>

definition reversible :: "(string \<times> string) list \<Rightarrow> gomap \<Rightarrow> bool" where
  "reversible R m = (distinct (map fst R) \<and> distinct (map snd R)
     \<and> (\<forall>k \<in> fst ` set m. k \<notin> fst ` set R \<longrightarrow> k \<notin> snd ` set R))"

lemma renamed_swapped:
  assumes "reversible R m" and "k \<in> fst ` set m"
  shows "renamed (swapped R) (renamed R k) = k"
proof (cases "map_of R k")
  case None
  then have "k \<notin> fst ` set R" by (simp add: map_of_eq_None_iff)
  then have "k \<notin> snd ` set R" using assms unfolding reversible_def by blast
  then have "map_of (swapped R) k = None" by (force simp: swapped_def map_of_eq_None_iff)
  then show ?thesis using None by (simp add: renamed_def)
next
  case (Some v)
  have "distinct (map fst (swapped R))" using assms(1) by (simp add: swapped_def reversible_def comp_def case_prod_unfold)
  moreover have "(v, k) \<in> set (swapped R)" using map_of_SomeD [OF Some] by (force simp: swapped_def)
  ultimately have "map_of (swapped R) v = Some k" by simp
  then show ?thesis using Some by (simp add: renamed_def)
qed

lemma reversible_inj: "reversible R m \<Longrightarrow> inj_on (renamed R) (fst ` set m)"
  by (rule inj_on_inverseI [where g = "renamed (swapped R)"]) (simp add: renamed_swapped)

lemma distinct_replaceMapKeys: "distinct (map fst (row (replaceMapKeys (VMap m) R)))"
  unfolding replaceMapKeys_puts row_def any.case by (rule gomap.invar_put_all) simp

lemma replaceMapKeys_keys:
  assumes "distinct (map fst m)" and "inj_on (renamed R) (fst ` set m)"
  shows "fst ` set (row (replaceMapKeys (VMap m) R)) = renamed R ` fst ` set m"
proof -
  have "dom (map_of (row (replaceMapKeys (VMap m) R))) = renamed R ` fst ` set m"
  proof (intro set_eqI iffI)
    fix k' assume "k' \<in> dom (map_of (row (replaceMapKeys (VMap m) R)))"
    then show "k' \<in> renamed R ` fst ` set m"
      by (auto simp: renamed_lookup [OF assms] find_Some_iff split: option.splits)
  next
    fix k' assume "k' \<in> renamed R ` fst ` set m"
    then obtain k where "k \<in> fst ` set m" "k' = renamed R k" by blast
    then show "k' \<in> dom (map_of (row (replaceMapKeys (VMap m) R)))"
      using renamed_lookup_key [OF assms] by (simp add: domIff map_of_eq_None_iff)
  qed
  then show ?thesis by (simp only: dom_map_of_conv_image_fst)
qed

text \<open>
  Renaming columns loses nothing: when no two columns get the same name, renaming a row and then
  renaming it back gives the same columns with the same values, whatever the order in which Go
  visits the maps.
\<close>

theorem replace_roundtrip:
  assumes "distinct (map fst m)" and "reversible R m"
  shows "map_of (row (replaceMapKeys (replaceMapKeys (VMap m) R) (swapped R))) = map_of m"
proof -
  let ?m' = "row (replaceMapKeys (VMap m) R)"
  have inj: "inj_on (renamed R) (fst ` set m)" by (rule reversible_inj [OF assms(2)])
  have v: "replaceMapKeys (VMap m) R = VMap ?m'" by (simp add: replaceMapKeys_puts row_def)
  have inv: "renamed (swapped R) (renamed R k) = k" if "k \<in> fst ` set m" for k
    by (rule renamed_swapped [OF assms(2) that])
  have keys: "fst ` set ?m' = renamed R ` fst ` set m" by (rule replaceMapKeys_keys [OF assms(1) inj])
  have inj': "inj_on (renamed (swapped R)) (fst ` set ?m')"
    unfolding keys by (rule inj_on_inverseI [where g = "renamed R"]) (use inv in fastforce)
  show ?thesis
  proof
    fix k
    show "map_of (row (replaceMapKeys (replaceMapKeys (VMap m) R) (swapped R))) k = map_of m k"
    proof (cases "k \<in> fst ` set m")
      case True
      then have "renamed R k \<in> fst ` set ?m'" by (simp add: keys)
      from renamed_lookup_key [OF distinct_replaceMapKeys inj' this] renamed_lookup_key [OF assms(1) inj True]
      show ?thesis by (simp add: v [symmetric] inv [OF True])
    next
      case False
      have "fst ` set (row (replaceMapKeys (VMap ?m') (swapped R))) = fst ` set m"
        unfolding replaceMapKeys_keys [OF distinct_replaceMapKeys inj'] keys image_image by (simp add: inv cong: image_cong)
      then show ?thesis using False by (metis map_of_eq_None_iff v)
    qed
  qed
qed

text \<open>
  The array of schema fields is renamed in place: every other event that shares the array sees the
  new names, and no other array changes.
\<close>

lemma replace_renames_shared_fields:
  assumes "replace_Validate re c = None" and "rc_Columns c \<noteq> []"
  shows "fst (Replace re c st e) = st(es_Fields (ev_Schema e) := map (rename_field (rc_Columns c)) (st (es_Fields (ev_Schema e))))"
  using assms by (simp add: Replace_def Let_def)

section \<open>Chains\<close>

definition then_func :: "Func \<Rightarrow> Func \<Rightarrow> Func" where
  "then_func f g st e = (case f st e of
       (st', Inr (Some e')) \<Rightarrow> g st' e' | (st', Inr None) \<Rightarrow> (st', Inr None) | (st', Inl err) \<Rightarrow> (st', Inl err))"

lemma run_chain_append: "run_chain (fs @ gs) st e = then_func (run_chain fs) (run_chain gs) st e"
  by (induction fs arbitrary: st e) (auto simp: then_func_def split: prod.split sum.split option.split)

lemma map_res_append:
  "map_res f (xs @ ys) = (case map_res f xs of Inl e \<Rightarrow> Inl e | Inr as \<Rightarrow>
     (case map_res f ys of Inl e \<Rightarrow> Inl e | Inr bs \<Rightarrow> Inr (as @ bs)))"
  by (induction xs) (auto split: sum.split)

lemma Chain_append:
  "Chain D r (xs @ ys) = (case Chain D r xs of Inl e \<Rightarrow> Inl e | Inr f \<Rightarrow>
     (case Chain D r ys of Inl e \<Rightarrow> Inl e | Inr g \<Rightarrow> Inr (then_func f g)))"
proof -
  have "run_chain (fs @ gs) = then_func (run_chain fs) (run_chain gs)" for fs gs
    using run_chain_append by (simp add: fun_eq_iff)
  then show ?thesis by (auto simp: Chain_def map_res_append split: sum.split)
qed

lemma Chain_Nil: "Chain D r [] = Inr (\<lambda>st e. (st, Inr (Some e)))"
  by (simp add: Chain_def fun_eq_iff)

end
