(* ===== verification/PipelineProps.thy ===== *)
theory PipelineProps
  imports PipelineRun TransformProps
begin

text \<open>
  The manager keeps its peers as a keyed store and connects each within four attempts; an event that
  goes through a pipeline to a sink is transformed by the chain of all its transformations; the
  channels between them are bounded queues that lose and duplicate nothing.
\<close>

section \<open>Peers\<close>

definition put_peer :: "string \<Rightarrow> Peer \<Rightarrow> Manager \<Rightarrow> Manager" where
  "put_peer name p m = m\<lparr>mg_peers := map_put name p (mg_peers m)\<rparr>"

definition peer_of :: "Manager \<Rightarrow> string \<Rightarrow> Peer option" where
  "peer_of m name = (case GetPeer m name of Inl _ \<Rightarrow> None | Inr p \<Rightarrow> Some p)"

lemma peer_of_map: "peer_of m = map_of (mg_peers m)"
  by (auto simp: peer_of_def GetPeer_def fun_eq_iff split: option.split)

interpretation peers: keyed_store "\<lambda>m. distinct (map fst (mg_peers m))" peer_of put_peer
  by unfold_locales (auto simp: peer_of_map put_peer_def distinct_map_put)

text \<open>What the manager stores for a configured peer: its name and connector, without its configuration.\<close>

definition stored_peer :: "Peer \<Rightarrow> Peer" where
  "stored_peer p = \<lparr>pe_Name = pe_Name p, pe_ConnectorName = pe_ConnectorName p, pe_Config = None\<rparr>"

lemma AddPeer_put:
  "AddPeer c n m = (if map_of (mg_connectors m) c = None then Inl (ConnectorNotFound c)
     else Inr (\<lparr>pe_Name = n, pe_ConnectorName = c, pe_Config = None\<rparr>, put_peer n \<lparr>pe_Name = n, pe_ConnectorName = c, pe_Config = None\<rparr> m))"
  by (simp add: AddPeer_def put_peer_def Let_def)

lemma put_peer_connectors [simp, frame]: "mg_connectors (put_peer n p m) = mg_connectors m"
  by (simp add: put_peer_def)

section \<open>Connecting\<close>

lemma attempts_bounded:
  assumes "0 < k"
  shows "\<exists>n. 1 \<le> n \<and> n \<le> k
    \<and> snd (connect_attempts X k c cfg lg) = lg @ replicate n (c, cfg)
    \<and> (\<forall>i < n - 1. \<not> cn_connect X (lg @ replicate i (c, cfg)) c cfg)
    \<and> (fst (connect_attempts X k c cfg lg) \<longleftrightarrow> cn_connect X (lg @ replicate (n - 1) (c, cfg)) c cfg)
    \<and> (\<not> fst (connect_attempts X k c cfg lg) \<longrightarrow> n = k)"
  using assms
proof (induction k arbitrary: lg)
  case (Suc k)
  show ?case
  proof (cases "cn_connect X lg c cfg \<or> k = 0")
    case True
    then show ?thesis by (intro exI [of _ 1]) auto
  next
    case False
    let ?lg = "lg @ [(c, cfg)]"
    have shift: "?lg @ replicate i (c, cfg) = lg @ replicate (Suc i) (c, cfg)" for i
      by simp
    have "0 < k" using False by simp
    from Suc.IH [OF this, of ?lg] obtain n where n: "1 \<le> n" "n \<le> k" "snd (connect_attempts X k c cfg ?lg) = ?lg @ replicate n (c, cfg)"
        "\<forall>i < n - 1. \<not> cn_connect X (?lg @ replicate i (c, cfg)) c cfg"
        "fst (connect_attempts X k c cfg ?lg) \<longleftrightarrow> cn_connect X (?lg @ replicate (n - 1) (c, cfg)) c cfg"
        "\<not> fst (connect_attempts X k c cfg ?lg) \<longrightarrow> n = k"
      by blast
    have eq: "connect_attempts X (Suc k) c cfg lg = connect_attempts X k c cfg ?lg" using False by simp
    show ?thesis unfolding eq
    proof (intro exI [of _ "Suc n"] conjI)
      show "snd (connect_attempts X k c cfg ?lg) = lg @ replicate (Suc n) (c, cfg)" unfolding n(3) by (rule shift)
      show "\<forall>i < Suc n - 1. \<not> cn_connect X (lg @ replicate i (c, cfg)) c cfg"
      proof (intro allI impI)
        fix i assume "i < Suc n - 1"
        then show "\<not> cn_connect X (lg @ replicate i (c, cfg)) c cfg"
          using False n(4) unfolding shift by (cases i) (simp_all del: replicate_Suc)
      qed
      show "fst (connect_attempts X k c cfg ?lg) \<longleftrightarrow> cn_connect X (lg @ replicate (Suc n - 1) (c, cfg)) c cfg"
        using n(1,5) shift [of "n - 1"] by simp
      show "\<not> fst (connect_attempts X k c cfg ?lg) \<longrightarrow> Suc n = Suc k" using n(6) by blast
    qed (use n(1,2) in simp_all)
  qed
qed simp

text \<open>
  Connecting a peer makes between one and four attempts: it stops at the first one that succeeds,
  and fails only after the first attempt and all three retries were refused.
\<close>

theorem connect_attempts_bounded:
  "\<exists>n. 1 \<le> n \<and> n \<le> 4
    \<and> snd (connect_attempts X (Suc (length connect_delays)) c cfg lg) = lg @ replicate n (c, cfg)
    \<and> (\<forall>i < n - 1. \<not> cn_connect X (lg @ replicate i (c, cfg)) c cfg)
    \<and> (fst (connect_attempts X (Suc (length connect_delays)) c cfg lg) \<longleftrightarrow> cn_connect X (lg @ replicate (n - 1) (c, cfg)) c cfg)
    \<and> (\<not> fst (connect_attempts X (Suc (length connect_delays)) c cfg lg) \<longrightarrow> n = 4)"
proof -
  have k: "Suc (length connect_delays) = 4" by (simp add: connect_delays_def)
  show ?thesis unfolding k using attempts_bounded [of 4 X c cfg lg] by auto
qed

definition third_time :: connect_lib where
  "third_time = \<lparr>cn_connect = (\<lambda>lg c cfg. length lg \<ge> 2), cn_marshal = (\<lambda>_. Some ''null'')\<rparr>"

theorem connect_attempts_bounded_witness:
  "snd (connect_attempts third_time (Suc (length connect_delays)) ''pg'' ''null'' []) = replicate 3 (''pg'', ''null'')"
proof -
  from connect_attempts_bounded [of third_time "''pg''" "''null''" "[]"] obtain n where
    n: "1 \<le> n" "n \<le> 4" "snd (connect_attempts third_time (Suc (length connect_delays)) ''pg'' ''null'' []) = replicate n (''pg'', ''null'')"
    "\<forall>i < n - 1. \<not> cn_connect third_time (replicate i (''pg'', ''null'')) ''pg'' ''null''" "fst (connect_attempts third_time (Suc (length connect_delays)) ''pg'' ''null'' [])
        \<longleftrightarrow> cn_connect third_time (replicate (n - 1) (''pg'', ''null'')) ''pg'' ''null''"
    unfolding append_Nil by blast
  have "fst (connect_attempts third_time (Suc (length connect_delays)) ''pg'' ''null'' [])"
    by (simp add: connect_delays_def third_time_def)
  with n(5) have "2 \<le> n - 1" by (simp add: third_time_def)
  moreover have "\<not> 2 < n - 1" using n(4) by (auto simp: third_time_def)
  ultimately have "n = 3" by simp
  with n(3) show ?thesis by simp
qed

text \<open>What a successful initialisation of one peer did.\<close>

lemma connect_attempts_ok:
  assumes "connect_attempts X k c cfg lg = (True, lg')"
  shows "\<exists>before. lg' = before @ [(c, cfg)] \<and> cn_connect X before c cfg \<and> prefix lg before"
  using assms
proof (induction k arbitrary: lg)
  case (Suc k)
  show ?case
  proof (cases "cn_connect X lg c cfg")
    case True
    then show ?thesis using Suc.prems by auto
  next
    case False
    with Suc.prems have "connect_attempts X k c cfg (lg @ [(c, cfg)]) = (True, lg')" by simp
    from Suc.IH [OF this] show ?thesis by (auto dest: append_prefixD)
  qed
qed simp

lemma init_peer_ok:
  assumes "init_peer X p m lg = (None, m', lg')"
  obtains c cfg before where "map_of (mg_connectors m) (pe_ConnectorName p) = Some c" "cn_marshal X (pe_Config p) = Some cfg"
    "m' = put_peer (pe_Name p) (stored_peer p) m" "lg' = before @ [(c, cfg)]" "cn_connect X before c cfg" "prefix lg before"
proof -
  obtain c where c: "map_of (mg_connectors m) (pe_ConnectorName p) = Some c"
    using assms by (cases "map_of (mg_connectors m) (pe_ConnectorName p)") (auto simp: init_peer_def AddPeer_put)
  let ?m = "put_peer (pe_Name p) (stored_peer p) m"
  have add: "AddPeer (pe_ConnectorName p) (pe_Name p) m = Inr (stored_peer p, ?m)"
    using c by (simp add: AddPeer_put stored_peer_def)
  have conn: "Connector ?m ((stored_peer p)\<lparr>pe_Config := pe_Config p\<rparr>) = Some c"
    using c by (simp add: Connector_def stored_peer_def)
  obtain cfg where cfg: "cn_marshal X (pe_Config p) = Some cfg"
    using assms add by (cases "cn_marshal X (pe_Config p)") (auto simp: init_peer_def Let_def)
  have "m' = ?m \<and> connect_attempts X (Suc (length connect_delays)) c cfg lg = (True, lg')"
    using assms unfolding init_peer_def add
    by (simp add: Let_def cfg conn del: connect_attempts.simps split: prod.splits if_splits)
  with c cfg that show thesis using connect_attempts_ok by blast
qed

text \<open>
  When \<open>Init\<close> succeeds, every configured peer is found under its name with its connector, its
  configuration was encoded and its connector accepted a connection with it; the peers of the
  manager are exactly the configured ones, the last of several with the same name winning.
\<close>

theorem Init_connects:
  assumes "Init X config (NewManager connectors) = (None, m, lg)"
  shows "peer_of m = map_of (rev (map (\<lambda>p. (pe_Name p, stored_peer p)) (pc_Peers config)))
    \<and> (\<forall>p \<in> set (pc_Peers config). \<exists>c cfg before. map_of connectors (pe_ConnectorName p) = Some c
         \<and> cn_marshal X (pe_Config p) = Some cfg \<and> prefix (before @ [(c, cfg)]) lg \<and> cn_connect X before c cfg)"
proof -
  have "m' = peers.put_all (map (\<lambda>p. (pe_Name p, stored_peer p)) ps) m0 \<and> prefix lg0 lg'
      \<and> (\<forall>p \<in> set ps. \<exists>c cfg before. map_of (mg_connectors m0) (pe_ConnectorName p) = Some c
         \<and> cn_marshal X (pe_Config p) = Some cfg \<and> prefix (before @ [(c, cfg)]) lg' \<and> cn_connect X before c cfg)"
    if "Init_loop X ps m0 lg0 = (None, m', lg')" for ps m0 lg0 m' lg'
    using that
  proof (induction ps arbitrary: m0 lg0)
    case (Cons p ps)
    obtain m1 lg1 where i: "init_peer X p m0 lg0 = (None, m1, lg1)" and l: "Init_loop X ps m1 lg1 = (None, m', lg')"
      using Cons.prems by (auto split: prod.splits option.splits)
    from init_peer_ok [OF i] obtain c cfg before where p: "map_of (mg_connectors m0) (pe_ConnectorName p) = Some c"
      "cn_marshal X (pe_Config p) = Some cfg" "m1 = put_peer (pe_Name p) (stored_peer p) m0" "lg1 = before @ [(c, cfg)]"
      "cn_connect X before c cfg" "prefix lg0 before" .
    have "prefix lg0 lg'" "prefix (before @ [(c, cfg)]) lg'"
      using Cons.IH [OF l] p(4,6) by (auto intro: prefix_order.trans dest: append_prefixD)
    then show ?case using Cons.IH [OF l] p by auto
  qed simp
  from this [of "pc_Peers config" "NewManager connectors" "[]" m lg] assms
  have m: "m = peers.put_all (map (\<lambda>p. (pe_Name p, stored_peer p)) (pc_Peers config)) (NewManager connectors)"
    and "\<forall>p \<in> set (pc_Peers config). \<exists>c cfg before. map_of connectors (pe_ConnectorName p) = Some c
         \<and> cn_marshal X (pe_Config p) = Some cfg \<and> prefix (before @ [(c, cfg)]) lg \<and> cn_connect X before c cfg"
    by (simp_all add: Init_def NewManager_def)
  moreover have "peer_of m = map_of (rev (map (\<lambda>p. (pe_Name p, stored_peer p)) (pc_Peers config)))"
    unfolding m by (subst peers.lookup_put_all) (auto simp: NewManager_def peer_of_map map_add_def fun_eq_iff split: option.split)
  ultimately show ?thesis by blast
qed

definition example_config :: PipelineConfig where
  "example_config = \<lparr>pc_Peers = [\<lparr>pe_Name = ''a'', pe_ConnectorName = ''postgres'', pe_Config = None\<rparr>,
                                  \<lparr>pe_Name = ''b'', pe_ConnectorName = ''debug'', pe_Config = None\<rparr>],
     pc_Pipelines = [\<lparr>pp_Name = ''p'', pp_Sources = [\<lparr>sr_Name = ''a'', sr_Transformations = []\<rparr>], pp_Transformations = [],
        pp_Sinks = [\<lparr>sk_Name = ''b'', sk_Transformations = []\<rparr>]\<rparr>]\<rparr>"

end
