(* ===== verification/PipelineFlow.thy ===== *)
theory PipelineFlow
  imports PipelineProps
begin

text \<open>
  The flow of events through a running pipeline: transformations do not depend on what other events
  did to the field arrays, what a sink publishes is the chain of all transformations of its path,
  and the channels in between are bounded queues.
\<close>

section \<open>Results of transformations\<close>

text \<open>The event a transformation gives does not depend on the store of field arrays.\<close>

definition store_free :: "Func \<Rightarrow> bool" where
  "store_free f = (\<forall>st st' e. snd (f st e) = snd (f st' e))"

lemma store_freeD: "store_free f \<Longrightarrow> snd (f st e) = snd (f st' e)"
  unfolding store_free_def by blast

lemma store_free_builtin: "store_free (Extract c)" "store_free (Filter re f)" "store_free (Replace re r)"
  by (simp_all add: store_free_def Extract_def Filter_def Replace_def Let_def split: option.split)

lemma chain_one_store_free:
  assumes "chain_one D (RegisterBuiltins re NewRegistry) t = Inr f"
  shows "store_free f"
proof -
  let ?r = "RegisterBuiltins re NewRegistry"
  obtain fac c where fac: "registry_Get ?r (tf_Type t) = Inr fac" and c: "ToConfig D t = Inr c" "f = fac c"
    using assms by (auto simp: chain_one_def split: sum.splits)
  from fac have "factory_of ?r (tf_Type t) = Some fac" by (simp add: factory_of_def)
  then consider "tf_Type t = ''replace''" "fac = replace_factory re" | "tf_Type t = ''filter''" "fac = filter_factory re"
    | "tf_Type t = ''extract''" "fac = extract_factory"
    unfolding builtins_found by (auto split: if_splits)
  then show ?thesis
    using c by cases (auto simp: ToConfig_def replace_factory_def filter_factory_def extract_factory_def store_free_builtin split: option.splits)
qed

lemma run_chain_store_free: "\<forall>f \<in> set fs. store_free f \<Longrightarrow> snd (run_chain fs st e) = snd (run_chain fs st' e)"
proof (induction fs arbitrary: st st' e)
  case (Cons f fs)
  have "snd (f st e) = snd (f st' e)" using Cons.prems by (auto dest: store_freeD)
  then show ?case
    using Cons.IH Cons.prems by (cases "f st e"; cases "f st' e") (auto split: sum.split option.split)
qed simp

lemma Chain_store_free: "Chain D (RegisterBuiltins re NewRegistry) ts = Inr f \<Longrightarrow> store_free f"
proof -
  assume "Chain D (RegisterBuiltins re NewRegistry) ts = Inr f"
  then obtain fs where fs: "map_res (chain_one D (RegisterBuiltins re NewRegistry)) ts = Inr fs" "f = run_chain fs"
    by (auto simp: Chain_def split: sum.splits)
  have "\<forall>f \<in> set fs. store_free f"
    using fs(1) unfolding map_res_Inr_iff list_all2_conv_all_nth
    by (metis chain_one_store_free in_set_conv_nth)
  with run_chain_store_free fs(2) show ?thesis unfolding store_free_def by blast
qed

text \<open>The result of a list of transformations on an event.\<close>

definition outcome :: "regexp_lib \<Rightarrow> decode_lib \<Rightarrow> Transformation list \<Rightarrow> Event \<Rightarrow> (transform_error, Event option) result" where
  "outcome re D ts e = snd (applyTransformations re D ts (\<lambda>_. []) (Some e))"

lemma apply_outcome: "snd (applyTransformations re D ts st (Some e)) = outcome re D ts e"
  by (auto simp: outcome_def applyTransformations_def split: sum.split dest!: Chain_store_free dest: store_freeD)

lemma applyTransformations_outcome:
  "applyTransformations re D ts st (Some e) = (fst (applyTransformations re D ts st (Some e)), outcome re D ts e)"
  using apply_outcome [of re D ts st e] by (metis prod.collapse)

text \<open>Every transformation of the list is known and has a configuration that decodes.\<close>

definition configured :: "regexp_lib \<Rightarrow> decode_lib \<Rightarrow> Transformation list \<Rightarrow> bool" where
  "configured re D ts = is_ok (Chain D (RegisterBuiltins re NewRegistry) ts)"

lemma outcome_configured:
  assumes "Chain D (RegisterBuiltins re NewRegistry) ts = Inr f"
  shows "outcome re D ts e = snd (f st e)"
proof (cases "ts = []")
  case True
  then show ?thesis using assms by (auto simp: outcome_def applyTransformations_def Chain_Nil)
next
  case False
  then show ?thesis
    using assms store_freeD [OF Chain_store_free [OF assms]] by (simp add: outcome_def applyTransformations_def)
qed

lemma outcome_append:
  assumes "configured re D ts" and "configured re D us"
  shows "outcome re D (ts @ us) e = (case outcome re D ts e of Inr (Some e') \<Rightarrow> outcome re D us e' | r \<Rightarrow> r)"
proof -
  obtain f g where f: "Chain D (RegisterBuiltins re NewRegistry) ts = Inr f" and g: "Chain D (RegisterBuiltins re NewRegistry) us = Inr g"
    using assms by (auto simp: configured_def is_ok_conv)
  then have fg: "Chain D (RegisterBuiltins re NewRegistry) (ts @ us) = Inr (then_func f g)" by (simp add: Chain_append)
  obtain st' r where fr: "f (\<lambda>_. []) e = (st', r)" by force
  have "outcome re D us e' = snd (g st' e')" for e' by (rule outcome_configured [OF g])
  then show ?thesis
    unfolding outcome_configured [OF fg, of e "\<lambda>_. []"] outcome_configured [OF f, of e "\<lambda>_. []"]
    by (auto simp: then_func_def fr split: sum.split option.split)
qed

lemma configured_append: "configured re D ts \<Longrightarrow> configured re D us \<Longrightarrow> configured re D (ts @ us)"
  by (auto simp: configured_def Chain_append is_ok_conv)

section \<open>The path of an event\<close>

text \<open>The event that leaves the source and pipeline transformations.\<close>

lemma applyEventTransformations_outcome:
  "fst (applyEventTransformations re D e source pl s) = (case outcome re D (sr_Transformations source) e of
      Inr (Some e1) \<Rightarrow> (case outcome re D (pp_Transformations pl) e1 of Inr r \<Rightarrow> r | Inl _ \<Rightarrow> None) | _ \<Rightarrow> None)"
proof -
  obtain st where a: "applyTransformations re D (sr_Transformations source) (pr_store s) (Some e) = (st, outcome re D (sr_Transformations source) e)"
    using applyTransformations_outcome by metis
  have b: "\<exists>st'. applyTransformations re D (pp_Transformations pl) st (Some e1) = (st', outcome re D (pp_Transformations pl) e1)" for e1
    using applyTransformations_outcome by metis
  show ?thesis
  proof (cases "outcome re D (sr_Transformations source) e")
    case (Inr r)
    then show ?thesis
    proof (cases r)
      case (Some e1)
      with b [of e1] Inr a show ?thesis by (auto simp: applyEventTransformations_def split: sum.split)
    qed (simp add: applyEventTransformations_def a)
  qed (simp add: applyEventTransformations_def a)
qed

text \<open>What handling an event publishes.\<close>

lemma processSinkEvent_pubs:
  "pr_pubs (processSinkEvent re D pub pl sink c e s)
     = pr_pubs s @ (case outcome re D (sk_Transformations sink) e of Inr (Some e') \<Rightarrow> [(c, e')] | _ \<Rightarrow> [])"
proof -
  obtain st where a: "applyTransformations re D (sk_Transformations sink) (pr_store s) (Some e) = (st, outcome re D (sk_Transformations sink) e)"
    using applyTransformations_outcome by metis
  show ?thesis
    by (simp add: processSinkEvent_def a inc_metric_def Let_def split: sum.split option.split)
qed


definition example_decode :: decode_lib where
  "example_decode = \<lparr>dec_extract = (\<lambda>m. Some \<lparr>ec_Fields = map fst m\<rparr>), dec_filter = (\<lambda>m. None), dec_replace = (\<lambda>m. None)\<rparr>"

definition take_id :: Transformation where
  "take_id = \<lparr>tf_Config = [(''id'', VNil)], tf_Type = ''extract''\<rparr>"

lemma configured_example: "configured (\<lambda>_. None) example_decode []" "configured (\<lambda>_. None) example_decode [take_id]"
  by (simp_all add: configured_def Chain_def chain_one_def registry_Get_def RegisterBuiltins_def NewRegistry_def Register_def
      map_put_def take_id_def example_decode_def ToConfig_def)


end
