(* ===== verification/PipelineQueue.thy ===== *)
theory PipelineQueue
  imports PipelineFlow
begin

text \<open>
  The channels of a running pipeline: bounded, in order, nothing lost and nothing twice between the
  send of a source and the handling by a worker; and what the number of workers per sink means for
  the order of publishing.
\<close>

section \<open>Sending\<close>

lemma nth_update: "j < length xs \<Longrightarrow> xs[i := x] ! j = (if i = j then x else xs ! j)"
  by (cases "i < length xs") (auto simp: nth_list_update)

lemma nth_update_keeps: "f x = f (xs ! i) \<Longrightarrow> f (xs[i := x] ! j) = f (xs ! j)"
  by (cases "i < length xs") (auto simp: nth_list_update list_update_beyond)

definition extends :: "Proc \<Rightarrow> Proc \<Rightarrow> bool" where
  "extends s s' = (length (pr_chans s') = length (pr_chans s) \<and> (\<forall>c < length (pr_chans s). \<exists>xs.
     ch_buf (pr_chans s' ! c) = ch_buf (pr_chans s ! c) @ xs \<and> ch_cap (pr_chans s' ! c) = ch_cap (pr_chans s ! c)
     \<and> length (ch_buf (pr_chans s' ! c)) \<le> max (ch_cap (pr_chans s ! c)) (length (ch_buf (pr_chans s ! c)))))"

lemma extends_same: "pr_chans s' = pr_chans s \<Longrightarrow> extends s s'"
  by (simp add: extends_def)

lemma extends_trans:
  assumes "extends s s'" and "extends s' s''"
  shows "extends s s''"
  unfolding extends_def
proof (intro conjI allI impI)
  show "length (pr_chans s'') = length (pr_chans s)" using assms by (simp add: extends_def)
  fix c assume c: "c < length (pr_chans s)"
  then have c': "c < length (pr_chans s')" using assms(1) by (simp add: extends_def)
  from assms(1) c obtain xs where x: "ch_buf (pr_chans s' ! c) = ch_buf (pr_chans s ! c) @ xs" "ch_cap (pr_chans s' ! c) = ch_cap (pr_chans s ! c)"
      "length (ch_buf (pr_chans s' ! c)) \<le> max (ch_cap (pr_chans s ! c)) (length (ch_buf (pr_chans s ! c)))"
    unfolding extends_def by blast
  from assms(2) c' obtain ys where y: "ch_buf (pr_chans s'' ! c) = ch_buf (pr_chans s' ! c) @ ys" "ch_cap (pr_chans s'' ! c) = ch_cap (pr_chans s' ! c)"
      "length (ch_buf (pr_chans s'' ! c)) \<le> max (ch_cap (pr_chans s' ! c)) (length (ch_buf (pr_chans s' ! c)))"
    unfolding extends_def by blast
  have "ch_buf (pr_chans s'' ! c) = ch_buf (pr_chans s ! c) @ (xs @ ys)" using x(1) y(1) by simp
  moreover have "length (ch_buf (pr_chans s'' ! c)) \<le> max (ch_cap (pr_chans s ! c)) (length (ch_buf (pr_chans s ! c)))"
    using x(2,3) y(3) by linarith
  ultimately show "\<exists>xs. ch_buf (pr_chans s'' ! c) = ch_buf (pr_chans s ! c) @ xs \<and> ch_cap (pr_chans s'' ! c) = ch_cap (pr_chans s ! c)
     \<and> length (ch_buf (pr_chans s'' ! c)) \<le> max (ch_cap (pr_chans s ! c)) (length (ch_buf (pr_chans s ! c)))"
    using x(2) y(2) by auto
qed

lemma extends_send:
  assumes "length (ch_buf (pr_chans s ! c)) < ch_cap (pr_chans s ! c)"
  shows "extends s (inc_metric m (s\<lparr>pr_chans := (pr_chans s)[c := (pr_chans s ! c)\<lparr>ch_buf := ch_buf (pr_chans s ! c) @ [e]\<rparr>]\<rparr>))"
  using assms by (auto simp: extends_def inc_metric_def nth_update)

lemma distribute_extends: "distributeToSinks pl source e chans sinks s = Some s' \<Longrightarrow> extends s s'"
proof (induction pl source e chans sinks s rule: distributeToSinks.induct)
  case (2 pl source e chans sink sinks s)
  show ?case
  proof (cases "map_of chans (sk_Name sink)")
    case None
    then show ?thesis using 2 by simp
  next
    case (Some c)
    have open_chan: "\<not> ch_closed (pr_chans s ! c)" using "2.prems" Some by (auto simp: Let_def split: if_splits)
    show ?thesis
    proof (cases "length (ch_buf (pr_chans s ! c)) < ch_cap (pr_chans s ! c)")
      case True
      have "extends (inc_metric (ProcessedEvents (pp_Name pl) (sr_Name source) (sk_Name sink))
          (s\<lparr>pr_chans := (pr_chans s)[c := (pr_chans s ! c)\<lparr>ch_buf := ch_buf (pr_chans s ! c) @ [e]\<rparr>]\<rparr>)) s'"
        by (rule "2.IH"(2) [OF Some refl open_chan True]) (use "2.prems" Some open_chan True in \<open>simp add: Let_def\<close>)
      then show ?thesis by (rule extends_trans [OF extends_send [OF True]])
    next
      case False
      show ?thesis by (rule "2.IH"(3) [OF Some refl open_chan False]) (use "2.prems" Some open_chan False in \<open>simp add: Let_def\<close>)
    qed
  qed
qed (simp add: extends_same)

lemma applyEvent_chans: "pr_chans (snd (applyEventTransformations re D e source pl s)) = pr_chans s"
  by (simp add: applyEventTransformations_def inc_metric_def split: prod.split sum.split option.split)

lemma ProcessEvent_extends: "ProcessEvent re D pl source e chans s = Some s' \<Longrightarrow> extends s s'"
  using applyEvent_chans [of re D e source pl s]
  by (cases "applyEventTransformations re D e source pl s")
    (auto simp: ProcessEvent_def split: option.splits intro: extends_same extends_trans [OF extends_same distribute_extends])

lemma fanout_extends: "fanout re D cfg source e subs s = Some s' \<Longrightarrow> extends s s'"
proof (induction subs arbitrary: s)
  case (Cons sub subs)
  show ?case
  proof (cases "GetPipeline cfg (ss_PipelineName sub)")
    case None
    then show ?thesis using Cons by simp
  next
    case (Some pl)
    show ?thesis
    proof (cases "find (\<lambda>src. sr_Name src = source) (pp_Sources pl)")
      case None
      then show ?thesis using Cons Some by simp
    next
      case src: (Some src)
      obtain s1 where "ProcessEvent re D pl src e (ss_SinkChannels sub) s = Some s1" "fanout re D cfg source e subs s1 = Some s'"
        using Cons.prems Some src by (auto split: option.splits)
      then show ?thesis using Cons.IH ProcessEvent_extends extends_trans by blast
    qed
  qed
qed (simp add: extends_same)

section \<open>Histories\<close>

abbreviation buf :: "Run \<Rightarrow> nat \<Rightarrow> Event list" where
  "buf R c \<equiv> ch_buf (pr_chans (rn_proc R) ! c)"

abbreviation in_hand :: "Run \<Rightarrow> nat \<Rightarrow> Event list" where
  "in_hand R i \<equiv> (case wk_hand (rn_workers R ! i) of None \<Rightarrow> [] | Some e \<Rightarrow> [e])"

definition appended :: "label \<Rightarrow> Run \<Rightarrow> Run \<Rightarrow> nat \<Rightarrow> Event list" where
  "appended l R R' c = (case l of LIngest _ _ \<Rightarrow> drop (length (buf R c)) (buf R' c) | _ \<Rightarrow> [])"

definition taken :: "label \<Rightarrow> nat \<Rightarrow> Event list" where
  "taken l i = (case l of LReceive j e \<Rightarrow> if j = i then [e] else [] | _ \<Rightarrow> [])"

definition handled :: "label \<Rightarrow> nat \<Rightarrow> Event list" where
  "handled l i = (case l of LHandle j e \<Rightarrow> if j = i then [e] else [] | _ \<Rightarrow> [])"

text \<open>
  A run with its history: \<open>snt c\<close> the events put into channel \<open>c\<close>, \<open>rcv\<close> the events received with
  the worker that received them, \<open>hnd i\<close> the events worker \<open>i\<close> has handled.
\<close>

inductive history :: "run_env \<Rightarrow> Run \<Rightarrow> Run \<Rightarrow> (nat \<Rightarrow> Event list) \<Rightarrow> (nat \<times> Event) list \<Rightarrow> (nat \<Rightarrow> Event list) \<Rightarrow> bool"
  for E :: run_env and R0 :: Run where
  init: "history E R0 R0 (\<lambda>_. []) [] (\<lambda>_. [])"
| step: "history E R0 R snt rcv hnd \<Longrightarrow> run_step E R l R' \<Longrightarrow>
     history E R0 R' (\<lambda>c. snt c @ appended l R R' c) (rcv @ (case l of LReceive i e \<Rightarrow> [(i, e)] | _ \<Rightarrow> [])) (\<lambda>i. hnd i @ handled l i)"

text \<open>A started pipeline: nothing is on its way.\<close>

definition idle :: "Run \<Rightarrow> bool" where
  "idle R = (list_all (\<lambda>ch. ch_buf ch = []) (pr_chans (rn_proc R)) \<and> list_all (\<lambda>w. wk_hand w = None) (rn_workers R))"

definition chan_of :: "Run \<Rightarrow> nat \<Rightarrow> nat" where
  "chan_of R i = wk_chan (rn_workers R ! i)"

definition received :: "Run \<Rightarrow> nat \<Rightarrow> (nat \<times> Event) list \<Rightarrow> Event list" where
  "received R c rcv = map snd (filter (\<lambda>(i, e). chan_of R i = c) rcv)"

definition received_by :: "nat \<Rightarrow> (nat \<times> Event) list \<Rightarrow> Event list" where
  "received_by i rcv = map snd (filter (\<lambda>(j, e). j = i) rcv)"

text \<open>The invariant: queues are in order and bounded, and a worker has handled what it received but for its hand.\<close>

definition queue_inv :: "Run \<Rightarrow> Run \<Rightarrow> (nat \<Rightarrow> Event list) \<Rightarrow> (nat \<times> Event) list \<Rightarrow> (nat \<Rightarrow> Event list) \<Rightarrow> bool" where
  "queue_inv R0 R snt rcv hnd =
     (length (pr_chans (rn_proc R)) = length (pr_chans (rn_proc R0))
      \<and> length (rn_workers R) = length (rn_workers R0) \<and> (\<forall>i. chan_of R i = chan_of R0 i)
      \<and> (\<forall>c < length (pr_chans (rn_proc R0)). snt c = received R0 c rcv @ buf R c
           \<and> ch_cap (pr_chans (rn_proc R) ! c) = ch_cap (pr_chans (rn_proc R0) ! c)
           \<and> length (buf R c) \<le> ch_cap (pr_chans (rn_proc R0) ! c))
      \<and> (\<forall>i < length (rn_workers R0). received_by i rcv = hnd i @ in_hand R i))"

lemma chan_of_simps [simp]:
  "chan_of (R\<lparr>rn_proc := s\<rparr>) j = chan_of R j"
  "chan_of (receive i R) j = chan_of R j"
  "chan_of (handle E i R) j = chan_of R j"
  "chan_of (R\<lparr>rn_workers := (rn_workers R)[i := (rn_workers R ! i)\<lparr>wk_running := b\<rparr>]\<rparr>) j = chan_of R j"
  "chan_of (R\<lparr>rn_readers := rs\<rparr>) j = chan_of R j"
  "chan_of (R\<lparr>rn_cancelled := b\<rparr>) j = chan_of R j"
  by (simp_all add: chan_of_def receive_def handle_def Let_def nth_update_keeps)

lemma received_by_snoc: "received_by i (rcv @ [(j, e)]) = received_by i rcv @ (if j = i then [e] else [])"
  by (simp add: received_by_def)

lemma received_snoc: "received R c (rcv @ [(j, e)]) = received R c rcv @ (if chan_of R j = c then [e] else [])"
  by (simp add: received_def)

text \<open>The steps keep the invariant.\<close>

lemma inv_ingest:
  assumes "queue_inv R0 R snt rcv hnd" and "extends (rn_proc R) s'"
  shows "queue_inv R0 (R\<lparr>rn_proc := s'\<rparr>) (\<lambda>c. snt c @ drop (length (buf R c)) (ch_buf (pr_chans s' ! c))) rcv hnd"
proof -
  have len: "length (pr_chans (rn_proc R)) = length (pr_chans (rn_proc R0))" using assms(1) by (simp add: queue_inv_def)
  have "snt c @ drop (length (buf R c)) (ch_buf (pr_chans s' ! c)) = received R0 c rcv @ ch_buf (pr_chans s' ! c)
      \<and> ch_cap (pr_chans s' ! c) = ch_cap (pr_chans (rn_proc R0) ! c) \<and> length (ch_buf (pr_chans s' ! c)) \<le> ch_cap (pr_chans (rn_proc R0) ! c)"
    if c: "c < length (pr_chans (rn_proc R0))" for c
  proof -
    from assms(2) c len obtain xs where x: "ch_buf (pr_chans s' ! c) = buf R c @ xs" "ch_cap (pr_chans s' ! c) = ch_cap (pr_chans (rn_proc R) ! c)"
        "length (ch_buf (pr_chans s' ! c)) \<le> max (ch_cap (pr_chans (rn_proc R) ! c)) (length (buf R c))"
      unfolding extends_def by metis
    from assms(1) c have h: "snt c = received R0 c rcv @ buf R c" "ch_cap (pr_chans (rn_proc R) ! c) = ch_cap (pr_chans (rn_proc R0) ! c)"
        "length (buf R c) \<le> ch_cap (pr_chans (rn_proc R0) ! c)"
      unfolding queue_inv_def by blast+
    show ?thesis using x(3) h by (simp add: x(1,2))
  qed
  with assms show ?thesis unfolding queue_inv_def extends_def by simp
qed

lemma inv_receive:
  assumes inv: "queue_inv R0 R snt rcv hnd" and i: "i < length (rn_workers R)" and hand: "wk_hand (rn_workers R ! i) = None"
    and head: "buf R (chan_of R i) = e # rest" and c: "chan_of R0 i < length (pr_chans (rn_proc R0))"
  shows "queue_inv R0 (receive i R) snt (rcv @ [(i, e)]) hnd"
proof -
  let ?c = "chan_of R0 i"
  have ci: "chan_of R i = ?c" and lens: "length (pr_chans (rn_proc R)) = length (pr_chans (rn_proc R0))" "length (rn_workers R) = length (rn_workers R0)"
    using inv by (simp_all add: queue_inv_def)
  have R': "receive i R = set_hand i (Some e) (R\<lparr>rn_proc := (rn_proc R)\<lparr>pr_chans := (pr_chans (rn_proc R))[?c := (pr_chans (rn_proc R) ! ?c)\<lparr>ch_buf := rest\<rparr>]\<rparr>\<rparr>)"
    using head ci by (simp add: receive_def Let_def chan_of_def)
  have chans: "snt d = received R0 d (rcv @ [(i, e)]) @ buf (receive i R) d
      \<and> ch_cap (pr_chans (rn_proc (receive i R)) ! d) = ch_cap (pr_chans (rn_proc R0) ! d)
      \<and> length (buf (receive i R) d) \<le> ch_cap (pr_chans (rn_proc R0) ! d)"
    if d: "d < length (pr_chans (rn_proc R0))" for d
  proof -
    from inv d have h: "snt d = received R0 d rcv @ buf R d" "ch_cap (pr_chans (rn_proc R) ! d) = ch_cap (pr_chans (rn_proc R0) ! d)"
        "length (buf R d) \<le> ch_cap (pr_chans (rn_proc R0) ! d)"
      unfolding queue_inv_def by blast+
    show ?thesis using h head d ci by (auto simp: R' nth_update lens received_snoc)
  qed
  have hands: "received_by j (rcv @ [(i, e)]) = hnd j @ in_hand (receive i R) j" if j: "j < length (rn_workers R0)" for j
  proof -
    from inv j have "received_by j rcv = hnd j @ in_hand R j" unfolding queue_inv_def by blast
    then show ?thesis using hand j by (auto simp: R' nth_update lens received_by_snoc)
  qed
  have "chan_of (receive i R) j = chan_of R0 j" for j using inv by (simp add: queue_inv_def)
  moreover have "length (pr_chans (rn_proc (receive i R))) = length (pr_chans (rn_proc R0))" "length (rn_workers (receive i R)) = length (rn_workers R0)"
    by (simp_all add: R' lens)
  ultimately show ?thesis using chans hands unfolding queue_inv_def by blast
qed

lemma inv_handle:
  assumes inv: "queue_inv R0 R snt rcv hnd" and i: "i < length (rn_workers R)" and hand: "wk_hand (rn_workers R ! i) = Some e"
  shows "queue_inv R0 (handle E i R) snt rcv (\<lambda>j. hnd j @ (if i = j then [e] else []))"
proof -
  have lens: "length (rn_workers R) = length (rn_workers R0)" using inv by (simp add: queue_inv_def)
  have chans: "pr_chans (rn_proc (handle E i R)) = pr_chans (rn_proc R)"
    by (simp add: handle_def Let_def processSinkEvent_def inc_metric_def split: prod.split sum.split option.split)
  have hands: "received_by j rcv = (hnd j @ (if i = j then [e] else [])) @ in_hand (handle E i R) j" if j: "j < length (rn_workers R0)" for j
  proof -
    from inv j have "received_by j rcv = hnd j @ in_hand R j" unfolding queue_inv_def by blast
    then show ?thesis using hand i j by (auto simp: handle_def Let_def nth_update lens)
  qed
  have "chan_of (handle E i R) j = chan_of R0 j" for j using inv by (simp add: queue_inv_def)
  moreover have "length (rn_workers (handle E i R)) = length (rn_workers R0)" by (simp add: handle_def Let_def lens)
  ultimately show ?thesis using inv hands unfolding queue_inv_def chans by blast
qed

lemma idle_inv: "idle R \<Longrightarrow> queue_inv R R (\<lambda>_. []) [] (\<lambda>_. [])"
  by (auto simp: queue_inv_def idle_def received_def received_by_def list_all_length)

lemma history_inv:
  assumes "history E R0 R snt rcv hnd" and "idle R0" and "\<forall>i < length (rn_workers R0). chan_of R0 i < length (pr_chans (rn_proc R0))"
  shows "queue_inv R0 R snt rcv hnd"
  using assms(1)
proof induction
  case init
  show ?case by (rule idle_inv [OF assms(2)])
next
  case (step R snt rcv hnd l R')
  have lens: "length (rn_workers R) = length (rn_workers R0)" using step.IH by (simp add: queue_inv_def)
  from step.hyps(2) show ?case
  proof (cases rule: run_stepE)
    case (ingest source e s')
    then show ?thesis
      using inv_ingest [OF step.IH fanout_extends [OF ingest(4)]] by (simp add: appended_def handled_def)
  next
    case (receive i e rest)
    have "queue_inv R0 (PipelineRun.receive i R) snt (rcv @ [(i, e)]) hnd"
      using receive assms(3) lens by (intro inv_receive [OF step.IH]) (auto simp: chan_of_def)
    then show ?thesis using receive by (simp add: appended_def handled_def)
  next
    case (handle i e)
    then show ?thesis using inv_handle [OF step.IH handle(3,4), of E] by (simp add: appended_def handled_def)
  next
    case (quit i)
    have "wk_hand (((rn_workers R)[i := (rn_workers R ! i)\<lparr>wk_running := False\<rparr>]) ! j) = wk_hand (rn_workers R ! j)" for j
      by (simp add: nth_update_keeps)
    then show ?thesis using step.IH quit by (simp add: queue_inv_def appended_def handled_def)
  next
    case stop
    then show ?thesis using step.IH by (simp add: queue_inv_def appended_def handled_def)
  next
    case cancel
    then show ?thesis using step.IH by (simp add: queue_inv_def appended_def handled_def)
  qed
qed

section \<open>Setup\<close>

definition wired :: "Run \<Rightarrow> bool" where
  "wired R = (idle R \<and> (\<forall>w \<in> set (rn_workers R). wk_chan w < length (pr_chans (rn_proc R))))"

text \<open>A map from sink names to channels that has one for every sink, all of them existing.\<close>

definition covers :: "(string \<times> nat) list \<Rightarrow> Sink list \<Rightarrow> Run \<Rightarrow> bool" where
  "covers chans sinks R = (\<forall>sink \<in> set sinks. \<exists>c. map_of chans (sk_Name sink) = Some c \<and> c < length (pr_chans (rn_proc R)))"

lemma SetupSinks_effect:
  assumes "SetupSinks pl chans sinks R = (r, R')"
  shows "\<exists>ws. R' = R\<lparr>rn_workers := rn_workers R @ ws\<rparr> \<and> (r = None \<longrightarrow> length ws = length sinks)
    \<and> (\<forall>w \<in> set ws. \<exists>sink \<in> set sinks. \<exists>peer. w = new_worker (rn_manager R) pl sink peer chans)"
  using assms
proof (induction sinks arbitrary: R)
  case (Cons sink sinks)
  show ?case
  proof (cases "GetPeer (rn_manager R) (sk_Name sink)")
    case (Inl err)
    then show ?thesis using Cons.prems by (intro exI [of _ "[]"]) auto
  next
    case (Inr peer)
    let ?w = "new_worker (rn_manager R) pl sink peer chans"
    have "SetupSinks pl chans sinks (R\<lparr>rn_workers := rn_workers R @ [?w]\<rparr>) = (r, R')" using Cons.prems Inr by simp
    from Cons.IH [OF this] obtain ws where ws: "R' = R\<lparr>rn_workers := rn_workers R @ ?w # ws\<rparr>" "r = None \<longrightarrow> length ws = length sinks"
        "\<forall>w \<in> set ws. \<exists>sink \<in> set sinks. \<exists>peer. w = new_worker (rn_manager R) pl sink peer chans"
      by auto
    then show ?thesis by (intro exI [of _ "?w # ws"]) auto
  qed
qed simp

lemma SetupSinks_wired:
  assumes "SetupSinks pl chans sinks R = (r, R')" and "wired R" and "covers chans sinks R"
  shows "wired R'"
proof -
  from SetupSinks_effect [OF assms(1)] obtain ws where ws: "R' = R\<lparr>rn_workers := rn_workers R @ ws\<rparr>"
      "\<forall>w \<in> set ws. \<exists>sink \<in> set sinks. \<exists>peer. w = new_worker (rn_manager R) pl sink peer chans" by blast
  have "wk_hand w = None \<and> wk_chan w < length (pr_chans (rn_proc R))" if "w \<in> set ws" for w
    using ws(2) assms(3) that by (fastforce simp: new_worker_def covers_def)
  then show ?thesis using assms(2) by (auto simp: ws(1) wired_def idle_def list_all_iff)
qed

lemma setupSource_effect:
  assumes "setupSource X cfg pl chans source R = (r, R')" and "wired R" and "covers chans (pp_Sinks pl) R"
  shows "wired R' \<and> rn_proc R' = rn_proc R
    \<and> (r = None \<longrightarrow> length (rn_workers R') = length (rn_workers R) + length (pp_Sinks pl))"
proof -
  have same: "wired R1 \<and> covers chans (pp_Sinks pl) R1" if "rn_proc R1 = rn_proc R" "rn_workers R1 = rn_workers R" for R1
    using assms(2,3) that by (simp add: wired_def idle_def covers_def)
  let ?R1 = "R\<lparr>rn_manager := AddSubscription (sr_Name source) (pp_Name pl) chans (rn_manager R)\<rparr>"
  let ?R2 = "?R1\<lparr>rn_readers := rn_readers R @ [sr_Name source]\<rparr>"
  have "r \<noteq> None \<and> (R' = R \<or> R' = ?R1) \<or> (\<exists>R1 \<in> {?R1, ?R2}. \<exists>r1. SetupSinks pl chans (pp_Sinks pl) R1 = (r1, R') \<and> (r = None \<longleftrightarrow> r1 = None))"
    using assms(1) by (auto simp: setupSource_def Let_def split: option.splits sum.splits prod.splits if_splits)
  then consider (fail) "r \<noteq> None" "R' = R \<or> R' = ?R1"
    | (sinks) R1 r1 where "R1 = ?R1 \<or> R1 = ?R2" "SetupSinks pl chans (pp_Sinks pl) R1 = (r1, R')" "r = None \<longleftrightarrow> r1 = None"
    by blast
  then show ?thesis
  proof cases
    case fail
    then show ?thesis using same [of R'] by auto
  next
    case sinks
    then have "rn_proc R1 = rn_proc R" "rn_workers R1 = rn_workers R" by auto
    then show ?thesis
      using SetupSinks_effect [OF sinks(2)] SetupSinks_wired [OF sinks(2)] same [of R1] sinks(3) by auto
  qed
qed

lemma make_channels_effect:
  assumes "make_channels sinks chans s = (chans', s')" and "list_all (\<lambda>ch. ch_buf ch = []) (pr_chans s)"
    and "\<forall>n c. map_of chans n = Some c \<longrightarrow> c < length (pr_chans s)"
  shows "list_all (\<lambda>ch. ch_buf ch = []) (pr_chans s') \<and> length (pr_chans s) \<le> length (pr_chans s')
    \<and> sk_Name ` set sinks \<union> dom (map_of chans) \<subseteq> dom (map_of chans')
    \<and> (\<forall>n c. map_of chans' n = Some c \<longrightarrow> c < length (pr_chans s'))"
  using assms
proof (induction sinks arbitrary: chans s)
  case (Cons sink sinks)
  let ?s = "s\<lparr>pr_chans := pr_chans s @ [\<lparr>ch_buf = [], ch_cap = 100, ch_closed = False\<rparr>]\<rparr>"
  let ?chans = "map_put (sk_Name sink) (length (pr_chans s)) chans"
  have "list_all (\<lambda>ch. ch_buf ch = []) (pr_chans s') \<and> length (pr_chans ?s) \<le> length (pr_chans s')
    \<and> sk_Name ` set sinks \<union> dom (map_of ?chans) \<subseteq> dom (map_of chans')
    \<and> (\<forall>n c. map_of chans' n = Some c \<longrightarrow> c < length (pr_chans s'))"
    using Cons.prems by (intro Cons.IH) (auto simp: less_Suc_eq split: if_splits)
  then show ?case by auto
qed (auto simp: dom_def)

lemma make_channels_frame [frame]: "make_channels sinks chans s = (chans', s') \<Longrightarrow> pr_pubs s' = pr_pubs s"
  by (induction sinks arbitrary: chans s) auto

lemma close_all_bufs: "list_all (\<lambda>ch. ch_buf ch = []) (pr_chans s) \<Longrightarrow>
    list_all (\<lambda>ch. ch_buf ch = []) (pr_chans (close_all chans s)) \<and> length (pr_chans (close_all chans s)) = length (pr_chans s)"
proof -
  have "list_all (\<lambda>ch. ch_buf ch = []) chs \<Longrightarrow> list_all (\<lambda>ch. ch_buf ch = []) (fold (\<lambda>(_, c) chs. chs[c := (chs ! c)\<lparr>ch_closed := True\<rparr>]) cs chs)
      \<and> length (fold (\<lambda>(_, c) chs. chs[c := (chs ! c)\<lparr>ch_closed := True\<rparr>]) cs chs) = length chs" for chs :: "Chan list" and cs :: "(string \<times> nat) list"
    by (induction cs arbitrary: chs) (auto simp: list_all_length nth_update)
  then show "list_all (\<lambda>ch. ch_buf ch = []) (pr_chans s) \<Longrightarrow> ?thesis" by (simp add: close_all_def)
qed

lemma setup_sources_effect:
  assumes "setup_sources X cfg pl chans sources R = (r, R')" and "wired R" and "covers chans (pp_Sinks pl) R"
  shows "wired R' \<and> length (pr_chans (rn_proc R')) = length (pr_chans (rn_proc R))
    \<and> (r = None \<longrightarrow> length (rn_workers R') = length (rn_workers R) + length sources * length (pp_Sinks pl))"
  using assms
proof (induction sources arbitrary: R)
  case (Cons source sources)
  obtain r1 R1 where s: "setupSource X cfg pl chans source R = (r1, R1)" by force
  note e = setupSource_effect [OF s Cons.prems(2,3)]
  show ?case
  proof (cases r1)
    case None
    have "covers chans (pp_Sinks pl) R1" using Cons.prems(3) e by (simp add: covers_def)
    moreover have "setup_sources X cfg pl chans sources R1 = (r, R')" using Cons.prems(1) s None by simp
    ultimately show ?thesis using Cons.IH [of R1] e None by auto
  next
    case (Some err)
    then have "R' = R1\<lparr>rn_proc := close_all chans (rn_proc R1)\<rparr>" "r \<noteq> None" using Cons.prems(1) s by auto
    then show ?thesis using e close_all_bufs [of "rn_proc R1" chans] by (auto simp: wired_def idle_def)
  qed
qed simp

lemma setupPipeline_effect:
  assumes "setupPipeline X cfg pl R = (r, R')" and "wired R"
  shows "wired R' \<and> (r = None \<longrightarrow> length (rn_workers R') = length (rn_workers R) + Suc (length (pp_Sources pl)) * length (pp_Sinks pl))"
proof -
  obtain chans s where m: "make_channels (pp_Sinks pl) [] (rn_proc R) = (chans, s)" by force
  obtain r1 R1 where s1: "setup_sources X cfg pl chans (pp_Sources pl) (R\<lparr>rn_proc := s\<rparr>) = (r1, R1)" by force
  have me: "list_all (\<lambda>ch. ch_buf ch = []) (pr_chans s) \<and> length (pr_chans (rn_proc R)) \<le> length (pr_chans s)
    \<and> sk_Name ` set (pp_Sinks pl) \<subseteq> dom (map_of chans) \<and> (\<forall>n c. map_of chans n = Some c \<longrightarrow> c < length (pr_chans s))"
    using make_channels_effect [OF m] assms(2) by (simp add: wired_def idle_def)
  then have w: "wired (R\<lparr>rn_proc := s\<rparr>)" "covers chans (pp_Sinks pl) (R\<lparr>rn_proc := s\<rparr>)"
    using assms(2) by (auto simp: wired_def idle_def covers_def dest: less_le_trans)
  note e = setup_sources_effect [OF s1 w]
  show ?thesis
  proof (cases r1)
    case None
    then have s2: "SetupSinks pl chans (pp_Sinks pl) R1 = (r, R')" using assms(1) m s1 by (simp add: setupPipeline_def)
    have "covers chans (pp_Sinks pl) R1" using w(2) e by (simp add: covers_def)
    then show ?thesis using SetupSinks_wired [OF s2] SetupSinks_effect [OF s2] e None by auto
  next
    case (Some err)
    then show ?thesis using assms(1) m s1 e by (auto simp: setupPipeline_def)
  qed
qed

lemma start_effect:
  assumes "startPipelineProcessing X cfg pls R = (r, R')" and "wired R"
  shows "wired R' \<and> (r = None \<longrightarrow> length (rn_workers R')
     = length (rn_workers R) + (\<Sum>pl \<leftarrow> pls. Suc (length (pp_Sources pl)) * length (pp_Sinks pl)))"
  using assms
proof (induction pls arbitrary: R)
  case (Cons pl pls)
  obtain r1 R1 where s: "setupPipeline X cfg pl R = (r1, R1)" by force
  note e = setupPipeline_effect [OF s Cons.prems(2)]
  show ?case
  proof (cases r1)
    case None
    then have "startPipelineProcessing X cfg pls R1 = (r, R')" using Cons.prems(1) s by simp
    from Cons.IH [OF this] show ?thesis using e None by simp
  next
    case (Some err)
    then show ?thesis using Cons.prems(1) s e by auto
  qed
qed simp

definition fresh_run :: "Manager \<Rightarrow> Run" where
  "fresh_run m = \<lparr>rn_manager = m, rn_proc = \<lparr>pr_store = (\<lambda>_. []), pr_chans = [], pr_metrics = [], pr_pubs = []\<rparr>,
     rn_workers = [], rn_readers = [], rn_cancelled = False\<rparr>"

lemma wired_fresh: "wired (fresh_run m)"
  by (simp add: wired_def idle_def fresh_run_def)

section \<open>Properties of running pipelines\<close>


text \<open>With one worker on a channel the events are handled in the order in which they were sent.\<close>

lemma one_worker_keeps_order:
  assumes "queue_inv R0 R snt rcv hnd" and "c < length (pr_chans (rn_proc R0))" and "i < length (rn_workers R0)"
    and "\<forall>(j, e) \<in> set rcv. j < length (rn_workers R0)" and "\<forall>j < length (rn_workers R0). chan_of R0 j = c \<longleftrightarrow> j = i"
  shows "snt c = hnd i @ in_hand R i @ buf R c"
proof -
  have "filter (\<lambda>(j, e). chan_of R0 j = c) rcv = filter (\<lambda>(j, e). j = i) rcv"
    using assms(4,5) by (intro filter_cong) auto
  then have "received R0 c rcv = received_by i rcv" by (simp add: received_def received_by_def)
  moreover have "snt c = received R0 c rcv @ buf R c" "received_by i rcv = hnd i @ in_hand R i"
    using assms(1-3) unfolding queue_inv_def by blast+
  ultimately show ?thesis by simp
qed

text \<open>
  Starting a pipeline starts one worker per sink for every source and one more: a pipeline with a
  single source already has two workers on each sink's channel.
\<close>

theorem workers_per_sink:
  assumes "startPipelineProcessing X cfg pls (fresh_run m) = (None, R)"
  shows "length (rn_workers R) = (\<Sum>pl \<leftarrow> pls. Suc (length (pp_Sources pl)) * length (pp_Sinks pl))"
  using start_effect [OF assms wired_fresh] by (simp add: fresh_run_def)

definition example_sub :: sub_lib where
  "example_sub = \<lparr>sl_postgres = (\<lambda>_. True), sl_mqtt_topic = (\<lambda>_. None), sl_grpc_server = (\<lambda>_. None), sl_nats = (\<lambda>_. True), sl_sub = (\<lambda>_ _. True)\<rparr>"

definition example_manager :: Manager where
  "example_manager = \<lparr>mg_connectors = [(''postgres'', ''pg''), (''debug'', ''dbg'')],
     mg_peers = map (\<lambda>p. (pe_Name p, p)) (pc_Peers example_config), mg_subscriptions = []\<rparr>"

definition example_run :: Run where
  "example_run = snd (startPipelineProcessing example_sub example_config (pc_Pipelines example_config) (fresh_run example_manager))"

lemma example_starts:
  "startPipelineProcessing example_sub example_config (pc_Pipelines example_config) (fresh_run example_manager) = (None, example_run)"
  unfolding example_run_def
  by (simp add: example_config_def example_sub_def example_manager_def fresh_run_def setupPipeline_def setupSource_def config_GetPeer_def
      GetPeer_def IsFirstSubscription_def GetSubscriptions_def AddSubscription_def setupSourceConnection_def sub_result_def Let_def map_put_def)

theorem workers_per_sink_witness: "length (rn_workers example_run) = 2"
  using workers_per_sink [OF example_starts] by (simp add: example_config_def)

text \<open>A run of this pipeline: two events are sent, the two workers take one each, and the second is published first.\<close>

definition example_run_env :: run_env where
  "example_run_env = \<lparr>re_regexp = (\<lambda>_. None), re_decode = example_decode, re_config = example_config, re_pub = (\<lambda>_ _ _. True)\<rparr>"

definition example_pipeline :: Pipeline where
  "example_pipeline = hd (pc_Pipelines example_config)"

definition example_worker :: "Event option \<Rightarrow> Worker" where
  "example_worker h = \<lparr>wk_pipeline = example_pipeline, wk_sink = \<lparr>sk_Name = ''b'', sk_Transformations = []\<rparr>, wk_connector = ''dbg'',
     wk_chan = 0, wk_hand = h, wk_running = True\<rparr>"

definition example_state :: "Event list \<Rightarrow> metric list \<Rightarrow> (string \<times> Event) list \<Rightarrow> Event option \<Rightarrow> Event option \<Rightarrow> Run" where
  "example_state b ms pubs h0 h1 = \<lparr>rn_manager = example_manager\<lparr>mg_subscriptions := [(''a'', [\<lparr>ss_SinkChannels = [(''b'', 0)], ss_PipelineName = ''p''\<rparr>])]\<rparr>,
     rn_proc = \<lparr>pr_store = (\<lambda>_. []), pr_chans = [\<lparr>ch_buf = b, ch_cap = 100, ch_closed = False\<rparr>], pr_metrics = ms, pr_pubs = pubs\<rparr>,
     rn_workers = [example_worker h0, example_worker h1], rn_readers = [''a''], rn_cancelled = False\<rparr>"

lemma example_run_state: "example_run = example_state [] [] [] None None"
  unfolding example_run_def example_state_def example_worker_def example_pipeline_def
  by (simp add: example_config_def example_sub_def example_manager_def fresh_run_def setupPipeline_def setupSource_def config_GetPeer_def
      GetPeer_def IsFirstSubscription_def GetSubscriptions_def AddSubscription_def setupSourceConnection_def sub_result_def Let_def map_put_def
      new_worker_def Connector_def)

lemma example_ingest:
  assumes "length b < 100"
  shows "run_step example_run_env (example_state b ms pubs h0 h1) (LIngest ''a'' e)
    (example_state (b @ [e]) (ms @ [ProcessedEvents ''p'' ''a'' ''b'']) pubs h0 h1)"
proof -
  let ?R = "example_state b ms pubs h0 h1"
  have "fanout (re_regexp example_run_env) (re_decode example_run_env) (re_config example_run_env) ''a'' e (GetSubscriptions (rn_manager ?R) ''a'') (rn_proc ?R)
      = Some (rn_proc (example_state (b @ [e]) (ms @ [ProcessedEvents ''p'' ''a'' ''b'']) pubs h0 h1))"
    using assms by (simp add: example_state_def example_run_env_def example_config_def GetSubscriptions_def GetPipeline_def ProcessEvent_def
        applyEventTransformations_def applyTransformations_def inc_metric_def)
  from run_step.ingest [OF _ this] show ?thesis by (simp add: example_state_def)
qed

lemma example_receive0:
  "run_step example_run_env (example_state (e # b) ms pubs None h1) (LReceive 0 e) (example_state b ms pubs (Some e) h1)"
  using run_step.receive [of 0 "example_state (e # b) ms pubs None h1" "example_worker None" e b example_run_env]
  by (simp add: example_state_def receive_def example_worker_def Let_def)

lemma example_receive1:
  "run_step example_run_env (example_state (e # b) ms pubs h0 None) (LReceive 1 e) (example_state b ms pubs h0 (Some e))"
  using run_step.receive [of 1 "example_state (e # b) ms pubs h0 None" "example_worker None" e b example_run_env]
  by (simp add: example_state_def receive_def example_worker_def Let_def)

lemma example_handle0:
  "run_step example_run_env (example_state b ms pubs (Some e) h1) (LHandle 0 e) (example_state b ms (pubs @ [(''dbg'', e)]) None h1)"
  using run_step.handle [of 0 "example_state b ms pubs (Some e) h1" e example_run_env]
  by (simp add: example_state_def handle_def example_worker_def example_run_env_def processSinkEvent_def applyTransformations_def Let_def)

lemma example_handle1:
  "run_step example_run_env (example_state b ms pubs h0 (Some e)) (LHandle 1 e) (example_state b ms (pubs @ [(''dbg'', e)]) h0 None)"
  using run_step.handle [of 1 "example_state b ms pubs h0 (Some e)" e example_run_env]
  by (simp add: example_state_def handle_def example_worker_def example_run_env_def processSinkEvent_def applyTransformations_def Let_def)

text \<open>
  Events of one source can be published out of order: with the two workers of the smallest pipeline, the event
  sent second is published first.
\<close>

lemma publishing_can_reorder:
  "\<exists>ms. runs example_run_env example_run
     [LIngest ''a'' e1, LIngest ''a'' e2, LReceive 0 e1, LReceive 1 e2, LHandle 1 e2, LHandle 0 e1]
     (example_state [] ms [(''dbg'', e2), (''dbg'', e1)] None None)"
proof -
  let ?p = "ProcessedEvents ''p'' ''a'' ''b''"
  have i2: "run_step example_run_env (example_state [e1] [?p] [] None None) (LIngest ''a'' e2) (example_state [e1, e2] [?p, ?p] [] None None)"
    using example_ingest [of "[e1]" "[?p]" "[]" None None e2] by simp
  have "run_step example_run_env example_run (LIngest ''a'' e1) (example_state [e1] [?p] [] None None)"
    using example_ingest [of "[]" "[]" "[]" None None e1] by (simp add: example_run_state)
  from runs.step [OF runs.step [OF runs.step [OF runs.step [OF runs.step [OF runs.step [OF runs.start this]
        i2] example_receive0] example_receive1] example_handle1] example_handle0]
  show ?thesis by auto
qed


end
