(* ===== verification/Rpc.thy ===== *)
theory Rpc
  imports RestServer
begin

text \<open>
  Function calls over \<open>/rpc/\<close> (\<open>pkg/rest/rpc.go\<close>): looking the function up in the catalog, building
  the call from the JSON arguments and running it. Parameters in \<open>RpcExt\<close>: what the catalog queries answer,
  \<open>encoding/json\<close> on a body, and the texts \<open>fmt\<close> and \<open>strconv\<close> produce for values that are not strings.
\<close>

section \<open>Functions\<close>

record FunctionParam =
  fp_Name :: string
  fp_DataType :: string
  fp_DefaultValue :: "string option"
  fp_Mode :: string
  fp_Position :: nat

record Function =
  fu_Schema :: string
  fu_Name :: string
  fu_Parameters :: "FunctionParam list"
  fu_ReturnType :: string
  fu_IsSetof :: bool
  fu_IsAggregate :: bool

text \<open>
  An argument of type \<open>any\<close> of \<open>parseFunctionParameters\<close>, by its dynamic type: nil, a string, a slice
  of \<open>any\<close>, or one of the two pointer types the caller passes. A nil pointer is not a nil interface.
\<close>

datatype dynamic = DNil | DString string | DSlice "any list" | DPtrString "string option" | DPtrStrings "string list option"

text \<open>The row of the catalog query.\<close>

record FunctionRow =
  fr_funcName :: string
  fr_schema :: string
  fr_isSetof :: bool
  fr_returnType :: string
  fr_isAggregate :: bool
  fr_numArgs :: int
  fr_argNames :: "string list option"
  fr_argTypes :: "string option"
  fr_argModes :: "string list option"
  fr_argDefaults :: "string option"

record RpcExt =
  rx_function :: "effect list \<Rightarrow> string \<Rightarrow> string \<Rightarrow> (string, FunctionRow) result"
  rx_types :: "effect list \<Rightarrow> int list \<Rightarrow> (string, (int \<times> string) list) result"
  rx_readAll :: "Request \<Rightarrow> string option"
  rx_unmarshal :: "string \<Rightarrow> gomap option"
  rx_decode :: "string \<Rightarrow> gomap option"
  rx_sprint :: "any \<Rightarrow> string"
  rx_sprint_s :: "any \<Rightarrow> string"
  rx_numError :: "string \<Rightarrow> string \<Rightarrow> string"
  rx_ParseFloat :: "string \<Rightarrow> rat option"
  rx_outOfRange :: "rat \<Rightarrow> int"
  rx_marshalError :: string

definition function_sql :: string where
  "function_sql = (let nl = [CHR 0x0A]; t = [CHR 0x09]; q = [CHR 0x27] in
     nl @ t @ t @ ''SELECT '' @ nl
     @ t @ t @ t @ ''p.proname as function_name,'' @ nl
     @ t @ t @ t @ ''n.nspname as schema_name,'' @ nl
     @ t @ t @ t @ ''p.proretset as is_setof,'' @ nl
     @ t @ t @ t @ ''t.typname as return_type,'' @ nl
     @ t @ t @ t @ ''p.prolang as language_oid,'' @ nl
     @ t @ t @ t @ ''CASE WHEN p.prokind = '' @ q @ ''a'' @ q @ '' THEN true ELSE false END as is_aggregate,'' @ nl
     @ t @ t @ t @ ''p.pronargs as num_args,'' @ nl
     @ t @ t @ t @ ''p.proargnames as arg_names,'' @ nl
     @ t @ t @ t @ ''p.proargtypes::text as arg_types,'' @ nl
     @ t @ t @ t @ ''p.proargmodes as arg_modes,'' @ nl
     @ t @ t @ t @ ''p.proargdefaults as arg_defaults'' @ nl
     @ t @ t @ ''FROM pg_proc p'' @ nl
     @ t @ t @ ''JOIN pg_namespace n ON p.pronamespace = n.oid'' @ nl
     @ t @ t @ ''JOIN pg_type t ON p.prorettype = t.oid'' @ nl
     @ t @ t @ ''WHERE n.nspname = $1 AND p.proname = $2'' @ nl
     @ t @ t @ ''AND p.prokind = '' @ q @ ''f'' @ q @ ''  -- Only functions, not procedures'' @ nl @ t)"

definition type_sql :: string where
  "type_sql = ''SELECT oid, typname FROM pg_type WHERE oid = ANY($1)''"

section \<open>Parameters of a function\<close>

text \<open>\<open>strings.Fields\<close>: the maximal runs of bytes that are not white space.\<close>

fun take_field :: "string \<Rightarrow> string \<times> string" where
  "take_field [] = ([], [])"
| "take_field (c # s) = (if space_prefix (c # s) > 0 then ([], c # s) else (case take_field s of (f, tail) \<Rightarrow> (c # f, tail)))"

lemma take_field_split: "take_field s = (f, tail) \<Longrightarrow> s = f @ tail"
  by (induction s arbitrary: f) (auto split: if_splits prod.splits)

lemma take_field_nonempty: "s \<noteq> [] \<Longrightarrow> space_prefix s = 0 \<Longrightarrow> take_field s = (f, tail) \<Longrightarrow> f \<noteq> []"
  by (cases s) (auto split: prod.splits)

lemma TrimLeftSpace_length: "length (TrimLeftSpace s) \<le> length s"
proof (induction s rule: TrimLeftSpace.induct)
  case (1 s)
  then show ?case by (subst TrimLeftSpace.simps) auto
qed

lemma TrimLeftSpace_head: "TrimLeftSpace s \<noteq> [] \<Longrightarrow> space_prefix (TrimLeftSpace s) = 0"
proof (induction s rule: TrimLeftSpace.induct)
  case (1 s)
  then show ?case by (subst (asm) (2) TrimLeftSpace.simps, subst TrimLeftSpace.simps) (auto split: if_splits)
qed

function Fields :: "string \<Rightarrow> string list" where
  "Fields s = (let t = TrimLeftSpace s in
     if t = [] then [] else (case take_field t of (f, tail) \<Rightarrow> f # Fields tail))"
  by pat_completeness auto
termination
proof (relation "measure length", goal_cases)
  case (2 s t f tail)
  have "f \<noteq> []" using 2 TrimLeftSpace_head [of s] take_field_nonempty [of t f tail] by simp
  then have "length tail < length t" using 2 take_field_split [of t f tail] by (cases f) auto
  then show ?case using 2 TrimLeftSpace_length [of s] by simp
qed simp

declare Fields.simps [simp del]

definition parse_oid :: "string \<Rightarrow> (string, int) result" where
  "parse_oid s = (case ParseInt s 64 of None \<Rightarrow> Inl (''invalid type OID: '' @ s) | Some i \<Rightarrow> Inr i)"

definition type_oids :: "dynamic \<Rightarrow> (string, int list) result" where
  "type_oids argTypes = (case argTypes of DString v \<Rightarrow> map_res parse_oid (Fields v) | _ \<Rightarrow> Inr [])"

definition arg_names :: "dynamic \<Rightarrow> string list" where
  "arg_names argNames = (case argNames of
       DSlice xs \<Rightarrow> map (\<lambda>(i, x). case x of VStr n \<Rightarrow> n | _ \<Rightarrow> ''arg'' @ itoa_nat (Suc i)) (enumerate 0 xs)
     | _ \<Rightarrow> [])"

definition arg_mode :: "any \<Rightarrow> string" where
  "arg_mode m = (case m of
       VStr s \<Rightarrow> if s = ''o'' then ''OUT'' else if s = ''b'' then ''INOUT'' else if s = ''v'' then ''VARIADIC'' else ''IN''
     | _ \<Rightarrow> ''IN'')"

definition arg_modes :: "dynamic \<Rightarrow> string list" where
  "arg_modes argModes = (case argModes of DSlice xs \<Rightarrow> map arg_mode xs | _ \<Rightarrow> [])"

text \<open>The names of the types; the query is sent only when there are any.\<close>

definition type_names :: "RpcExt \<Rightarrow> nat \<Rightarrow> int list \<Rightarrow> World \<Rightarrow> (string, string list) result \<times> World" where
  "type_names R c oids w =
     (if oids = [] then (Inr [], w)
      else (let w1 = emit (QueryRows c type_sql [VSlice (map VInt oids)]) w in
        case rx_types R (w_trace w) oids of
          Inl e \<Rightarrow> (Inl e, w1)
        | Inr rows \<Rightarrow> (Inr (map (\<lambda>oid. case map_of (rev rows) oid of None \<Rightarrow> ''unknown'' | Some n \<Rightarrow> n) oids), w1)))"

definition build_param :: "string list \<Rightarrow> string list \<Rightarrow> string list \<Rightarrow> nat \<Rightarrow> FunctionParam" where
  "build_param names types modes i = \<lparr>
     fp_Name = (if i < length names \<and> names ! i \<noteq> [] then names ! i else ''arg'' @ itoa_nat (Suc i)),
     fp_DataType = (if i < length types then types ! i else ''text''),
     fp_DefaultValue = None,
     fp_Mode = (if i < length modes then modes ! i else ''IN''),
     fp_Position = Suc i\<rparr>"

definition parseFunctionParameters ::
  "RpcExt \<Rightarrow> nat \<Rightarrow> dynamic \<Rightarrow> dynamic \<Rightarrow> dynamic \<Rightarrow> dynamic \<Rightarrow> int \<Rightarrow> World \<Rightarrow> (string, FunctionParam list) result \<times> World" where
  "parseFunctionParameters R c argNames argTypes argModes argDefaults numArgs w =
     (case type_oids argTypes of
        Inl e \<Rightarrow> (Inl e, w)
      | Inr oids \<Rightarrow> (case type_names R c oids w of
            (Inl e, w1) \<Rightarrow> (Inl e, w1)
          | (Inr types, w1) \<Rightarrow>
              (Inr (map (build_param (arg_names argNames) types (arg_modes argModes)) [0..<nat numArgs]), w1)))"

definition getFunction :: "RpcExt \<Rightarrow> nat \<Rightarrow> string \<Rightarrow> string \<Rightarrow> World \<Rightarrow> (string, Function) result \<times> World" where
  "getFunction R c schemaName functionName w =
     (let w1 = emit (QueryRow c function_sql [VStr schemaName, VStr functionName]) w in
      case rx_function R (w_trace w) schemaName functionName of
        Inl e \<Rightarrow> (Inl e, w1)
      | Inr row \<Rightarrow>
          (let f = \<lparr>fu_Schema = fr_schema row, fu_Name = fr_funcName row, fu_Parameters = [], fu_ReturnType = fr_returnType row,
                    fu_IsSetof = fr_isSetof row, fu_IsAggregate = fr_isAggregate row\<rparr> in
           if fr_numArgs row > 0 then
             (case parseFunctionParameters R c (DPtrStrings (fr_argNames row)) (DPtrString (fr_argTypes row))
                     (DPtrStrings (fr_argModes row)) (DPtrString (fr_argDefaults row)) (fr_numArgs row) w1 of
                (Inl e, w2) \<Rightarrow> (Inl (''failed to parse parameters: '' @ e), w2)
              | (Inr ps, w2) \<Rightarrow> (Inr (f\<lparr>fu_Parameters := ps\<rparr>), w2))
           else (Inr f, w1)))"

section \<open>Arguments\<close>

text \<open>\<open>int64(v)\<close> truncates towards zero; what it gives outside the range is left to the implementation.\<close>

definition truncate64 :: "RpcExt \<Rightarrow> rat \<Rightarrow> int" where
  "truncate64 R v = (let i = (if v \<ge> 0 then \<lfloor>v\<rfloor> else \<lceil>v\<rceil>) in if - (2 ^ 63) \<le> i \<and> i < 2 ^ 63 then i else wrap64 (rx_outOfRange R v))"

fun type_name :: "any \<Rightarrow> string" where
  "type_name VNil = ''<nil>''"
| "type_name (VBool _) = ''bool''"
| "type_name (VInt _) = ''int''"
| "type_name (VFloat _) = ''float64''"
| "type_name (VStr _) = ''string''"
| "type_name (VSlice _) = ''[]interface {}''"
| "type_name (VMap _) = ''map[string]interface {}''"

definition convert_integer :: "RpcExt \<Rightarrow> any \<Rightarrow> (string, any) result" where
  "convert_integer R v = (case v of
       VFloat x \<Rightarrow> Inr (VInt (truncate64 R x))
     | VStr s \<Rightarrow> (case ParseInt s 64 of None \<Rightarrow> Inl (rx_numError R ''ParseInt'' s) | Some i \<Rightarrow> Inr (VInt i))
     | VInt i \<Rightarrow> Inr (VInt i)
     | _ \<Rightarrow> Inl (''cannot convert '' @ type_name v @ '' to integer''))"

definition convert_numeric :: "RpcExt \<Rightarrow> any \<Rightarrow> (string, any) result" where
  "convert_numeric R v = (case v of
       VFloat x \<Rightarrow> Inr (VFloat x)
     | VStr s \<Rightarrow> (case rx_ParseFloat R s of None \<Rightarrow> Inl (rx_numError R ''ParseFloat'' s) | Some x \<Rightarrow> Inr (VFloat x))
     | VInt i \<Rightarrow> Inr (VFloat (rat_of_int i))
     | _ \<Rightarrow> Inl (''cannot convert '' @ type_name v @ '' to numeric''))"

definition convert_boolean :: "RpcExt \<Rightarrow> any \<Rightarrow> (string, any) result" where
  "convert_boolean R v = (case v of
       VBool b \<Rightarrow> Inr (VBool b)
     | VStr s \<Rightarrow> (case ParseBool s of None \<Rightarrow> Inl (rx_numError R ''ParseBool'' s) | Some b \<Rightarrow> Inr (VBool b))
     | _ \<Rightarrow> Inl (''cannot convert '' @ type_name v @ '' to boolean''))"

definition convert_json :: "golib \<Rightarrow> RpcExt \<Rightarrow> any \<Rightarrow> (string, any) result" where
  "convert_json L R v = (case v of
       VStr s \<Rightarrow> Inr (VStr s)
     | _ \<Rightarrow> (case lib_marshal L v of None \<Rightarrow> Inl (''cannot convert to JSON: '' @ rx_marshalError R) | Some j \<Rightarrow> Inr (VStr j)))"

definition integer_types :: "string list" where
  "integer_types = [''integer'', ''int4'', ''int8'', ''bigint'', ''smallint'']"

definition numeric_types :: "string list" where
  "numeric_types = [''numeric'', ''decimal'', ''real'', ''double precision'', ''float4'', ''float8'']"

definition convertArgumentType :: "golib \<Rightarrow> RpcExt \<Rightarrow> any \<Rightarrow> string \<Rightarrow> (string, any) result" where
  "convertArgumentType L R v dataType =
     (if v = VNil then Inr VNil
      else if dataType \<in> set integer_types then convert_integer R v
      else if dataType \<in> set numeric_types then convert_numeric R v
      else if dataType \<in> {''boolean'', ''bool''} then convert_boolean R v
      else if dataType \<in> {''json'', ''jsonb''} then convert_json L R v
      else if dataType = ''uuid'' then
        Inr (VStr ([CHR 0x22] @ (case v of VStr s \<Rightarrow> s | _ \<Rightarrow> rx_sprint_s R v) @ [CHR 0x22] @ ''::TEXT''))
      else Inr (VStr (case v of VStr s \<Rightarrow> s | _ \<Rightarrow> rx_sprint R v)))"

section \<open>The call\<close>

definition input_params :: "Function \<Rightarrow> FunctionParam list" where
  "input_params f = filter (\<lambda>p. fp_Mode p = ''IN'' \<or> fp_Mode p = ''INOUT'') (fu_Parameters f)"

text \<open>The value sent for the \<open>i\<close>-th input parameter: by name, or as \<open>arg1\<close>, \<open>arg2\<close>, and so on.\<close>

definition argument_of :: "gomap \<Rightarrow> nat \<Rightarrow> FunctionParam \<Rightarrow> any option" where
  "argument_of args i p = (case map_of args (fp_Name p) of
       Some v \<Rightarrow> Some v
     | None \<Rightarrow> map_of args (''arg'' @ itoa_nat (Suc i)))"

fun bind_arguments :: "golib \<Rightarrow> RpcExt \<Rightarrow> gomap \<Rightarrow> nat \<Rightarrow> FunctionParam list \<Rightarrow> argList \<Rightarrow> (string, argList) result" where
  "bind_arguments L R args i [] acc = Inr acc"
| "bind_arguments L R args i (p # ps) acc = (case argument_of args i p of
       None \<Rightarrow>
         if fp_DefaultValue p \<noteq> None then bind_arguments L R args (Suc i) ps acc
         else Inl (''missing required parameter: '' @ fp_Name p)
     | Some v \<Rightarrow> (case convertArgumentType L R v (fp_DataType p) of
         Inl e \<Rightarrow> Inl (''invalid value for parameter '' @ fp_Name p @ '': '' @ e)
       | Inr v' \<Rightarrow> bind_arguments L R args (Suc i) ps (acc @ [v'])))"

definition placeholders :: "nat \<Rightarrow> string" where
  "placeholders n = Join (map (\<lambda>i. ''$'' @ itoa_nat (Suc i)) [0..<n]) '', ''"

definition call_sql :: "Function \<Rightarrow> nat \<Rightarrow> string" where
  "call_sql f n = (let q = [CHR 0x22]; name = q @ fu_Schema f @ q @ ''.'' @ q @ fu_Name f @ q in
     if fu_IsSetof f then ''SELECT * FROM '' @ name @ ''('' @ placeholders n @ '')''
     else ''SELECT '' @ name @ ''('' @ placeholders n @ '') as result'')"

definition buildFunctionCallQuery :: "golib \<Rightarrow> RpcExt \<Rightarrow> Function \<Rightarrow> gomap \<Rightarrow> (string, string \<times> argList) result" where
  "buildFunctionCallQuery L R f args = (case bind_arguments L R args 0 (input_params f) [] of
       Inl e \<Rightarrow> Inl e
     | Inr queryArgs \<Rightarrow> Inr (call_sql f (length queryArgs), queryArgs))"

text \<open>A function that returns no set and one row with one column is answered with that value.\<close>

definition call_result :: "bool \<Rightarrow> any \<Rightarrow> any" where
  "call_result isSetof results = (case results of
       VSlice [VMap [(k, v)]] \<Rightarrow> if isSetof then results else v
     | _ \<Rightarrow> results)"

definition executeFunctionQuery :: "golib \<Rightarrow> Ext \<Rightarrow> Server \<Rightarrow> string \<Rightarrow> argList \<Rightarrow> bool \<Rightarrow> handler" where
  "executeFunctionQuery L X s query args isSetof r w = (case ConnWithRole L X r w of
       (Inl e, w1) \<Rightarrow> Error L 500 (ext_pgerror X e) w1
     | (Inr (_, c), w1) \<Rightarrow>
         emit (Release c)
           (let w2 = emit (QueryRows c query args) w1 in
            case ext_query X (w_trace w1) query args of
              Inl e \<Rightarrow> Error L 500 (''Function execution failed: '' @ e) w2
            | Inr rows \<Rightarrow> (case collect X s rows of
                  Inl e \<Rightarrow> Error L 500 (''Failed to collect results: '' @ e) w2
                | Inr results \<Rightarrow> JSON L 200 (call_result isSetof results) w2)))"

text \<open>The arguments in the body: \<open>Inl\<close> is the message of the answer 400.\<close>

definition body_arguments :: "RpcExt \<Rightarrow> Request \<Rightarrow> (string, gomap) result" where
  "body_arguments R r =
     (if rq_ContentLength r = 0 \<or> rq_ContentLength r = -1 then
        (case rx_readAll R r of
           None \<Rightarrow> Inl ''Error reading request body''
         | Some body \<Rightarrow> if body = [] then Inr []
             else (case rx_unmarshal R body of None \<Rightarrow> Inl ''Invalid JSON body'' | Some m \<Rightarrow> Inr m))
      else (case rx_decode R (rq_Body r) of None \<Rightarrow> Inl ''Invalid JSON body'' | Some m \<Rightarrow> Inr m))"

definition handleFunctionCall :: "golib \<Rightarrow> Ext \<Rightarrow> RpcExt \<Rightarrow> Server \<Rightarrow> Function \<Rightarrow> handler" where
  "handleFunctionCall L X R s f r w = (case body_arguments R r of
       Inl e \<Rightarrow> Error L 400 e w
     | Inr args \<Rightarrow> (case buildFunctionCallQuery L R f args of
         Inl e \<Rightarrow> Error L 400 e w
       | Inr (query, queryArgs) \<Rightarrow> executeFunctionQuery L X s query queryArgs (fu_IsSetof f) r w))"

definition rpc_target :: "string \<Rightarrow> string \<times> string" where
  "rpc_target path = (let pathParts = Split (Trim path ''/'') (CHR ''/'') in
     if length pathParts > 1 then (pathParts ! 0, pathParts ! 1) else (''public'', pathParts ! 0))"

definition rpc_route :: "golib \<Rightarrow> Ext \<Rightarrow> RpcExt \<Rightarrow> Server \<Rightarrow> nat \<Rightarrow> handler" where
  "rpc_route L X R s c r w =
     (let path = TrimPrefix (rq_Path r) (sv_basePath s @ ''/rpc/'') in
      if path = [] then Error L 400 ''Function name required'' w
      else (case rpc_target path of (schemaName, functionName) \<Rightarrow>
        if rq_Method r \<noteq> ''POST'' then Error L 405 ''Only POST method allowed for RPC calls'' w
        else (case getFunction R c schemaName functionName w of
            (Inl e, w1) \<Rightarrow> Error L 404 (''Function '' @ schemaName @ ''.'' @ functionName @ '' not found: '' @ e) w1
          | (Inr f, w1) \<Rightarrow> handleFunctionCall L X R s f r w1)))"

definition handleRPC :: "golib \<Rightarrow> Ext \<Rightarrow> RpcExt \<Rightarrow> Server \<Rightarrow> handler" where
  "handleRPC L X R s r w = (case ConnWithRole L X r w of
       (Inl e, w1) \<Rightarrow> Error L 500 (ext_pgerror X e) w1
     | (Inr (_, c), w1) \<Rightarrow> emit (Release c) (rpc_route L X R s c r w1))"

end
