(* ===== verification/RpcProps.thy ===== *)
theory RpcProps
  imports Rpc ServerProps
begin

text \<open>
  Function calls: the statement is built from the catalog's names and one placeholder per bound
  value, the values have the type the parameter asks for, and the connection is used by the
  protocol of the table endpoints.
\<close>

section \<open>The call\<close>

text \<open>The values bound for a list of parameters, when none has a default.\<close>

lemma bind_arguments_values:
  assumes "bind_arguments L R args i ps acc = Inr vs" and "\<forall>p \<in> set ps. fp_DefaultValue p = None"
  shows "\<exists>us. vs = acc @ us \<and> length us = length ps
    \<and> (\<forall>k < length ps. \<exists>v. argument_of args (i + k) (ps ! k) = Some v \<and> convertArgumentType L R v (fp_DataType (ps ! k)) = Inr (us ! k))"
  using assms
proof (induction ps arbitrary: i acc)
  case (Cons p ps)
  obtain v u where v: "argument_of args i p = Some v" "convertArgumentType L R v (fp_DataType p) = Inr u"
      "bind_arguments L R args (Suc i) ps (acc @ [u]) = Inr vs"
    using Cons.prems by (auto split: option.splits sum.splits if_splits)
  from Cons.IH [OF v(3)] Cons.prems(2) obtain us where us: "vs = acc @ u # us" "length us = length ps"
      "\<forall>k < length ps. \<exists>v. argument_of args (Suc i + k) (ps ! k) = Some v \<and> convertArgumentType L R v (fp_DataType (ps ! k)) = Inr (us ! k)"
    by auto
  have "\<exists>v. argument_of args (i + k) ((p # ps) ! k) = Some v \<and> convertArgumentType L R v (fp_DataType ((p # ps) ! k)) = Inr ((u # us) ! k)"
    if "k < length (p # ps)" for k
    using that us(3) v by (cases k) auto
  then show ?case using us(1,2) by (intro exI [of _ "u # us"]) auto
qed simp

text \<open>No parameter of a function that was looked up has a default value.\<close>

definition no_defaults :: "Function \<Rightarrow> bool" where
  "no_defaults f = (\<forall>p \<in> set (fu_Parameters f). fp_DefaultValue p = None)"

lemma parameters_no_defaults:
  "parseFunctionParameters R c n t m d k w = (Inr ps, w') \<Longrightarrow> \<forall>p \<in> set ps. fp_DefaultValue p = None"
  by (auto simp: parseFunctionParameters_def build_param_def split: sum.splits prod.splits)

lemma getFunction_no_defaults:
  assumes "getFunction R c s n w = (Inr f, w')"
  shows "no_defaults f"
proof -
  obtain row where row: "rx_function R (w_trace w) s n = Inr row"
    using assms by (auto simp: getFunction_def Let_def split: sum.splits)
  show ?thesis
  proof (cases "fr_numArgs row > 0")
    case False
    then show ?thesis using assms row by (auto simp: getFunction_def Let_def no_defaults_def)
  next
    case True
    then obtain ps w2 where "parseFunctionParameters R c (DPtrStrings (fr_argNames row)) (DPtrString (fr_argTypes row))
          (DPtrStrings (fr_argModes row)) (DPtrString (fr_argDefaults row)) (fr_numArgs row)
          (emit (QueryRow c function_sql [VStr s, VStr n]) w) = (Inr ps, w2)" "fu_Parameters f = ps"
      using assms row by (auto simp: getFunction_def Let_def split: sum.splits prod.splits)
    then show ?thesis using parameters_no_defaults by (auto simp: no_defaults_def)
  qed
qed

text \<open>
  C33. The statement of a function call depends on the catalog's names and on the number of input
  parameters only, never on what the client sends as arguments: the \<open>i\<close>-th placeholder is bound
  to the converted argument of the \<open>i\<close>-th input parameter, found by its name or by position.
\<close>

theorem function_call_binds:
  assumes "getFunction R c schemaName functionName w = (Inr f, w')" and "buildFunctionCallQuery L R f args = Inr (sql, vals)"
  shows "sql = call_sql f (length (input_params f)) \<and> length vals = length (input_params f)
    \<and> (\<forall>i < length vals. \<exists>v. argument_of args i (input_params f ! i) = Some v
          \<and> convertArgumentType L R v (fp_DataType (input_params f ! i)) = Inr (vals ! i))"
proof -
  have "\<forall>p \<in> set (input_params f). fp_DefaultValue p = None"
    using getFunction_no_defaults [OF assms(1)] by (auto simp: no_defaults_def input_params_def)
  moreover have b: "bind_arguments L R args 0 (input_params f) [] = Inr vals" "sql = call_sql f (length vals)"
    using assms(2) by (auto simp: buildFunctionCallQuery_def split: sum.splits)
  ultimately show ?thesis using bind_arguments_values [OF b(1)] by auto
qed

definition example_function_row :: FunctionRow where
  "example_function_row = \<lparr>fr_funcName = ''add'', fr_schema = ''public'', fr_isSetof = False, fr_returnType = ''int4'', fr_isAggregate = False,
     fr_numArgs = 2, fr_argNames = Some [''a'', ''b''], fr_argTypes = Some ''23 23'', fr_argModes = None, fr_argDefaults = None\<rparr>"

definition example_rpc :: RpcExt where
  "example_rpc = \<lparr>rx_function = (\<lambda>tr s n. if n = ''add'' then Inr example_function_row else Inl ''no rows''),
     rx_types = (\<lambda>tr oids. Inr []), rx_readAll = (\<lambda>r. Some (rq_Body r)), rx_unmarshal = (\<lambda>b. None), rx_decode = (\<lambda>b. None),
     rx_sprint = (\<lambda>v. ''?''), rx_sprint_s = (\<lambda>v. ''?''), rx_numError = (\<lambda>f s. s), rx_ParseFloat = (\<lambda>s. None),
     rx_outOfRange = (\<lambda>x. 0), rx_marshalError = []\<rparr>"

definition example_function :: Function where
  "example_function = \<lparr>fu_Schema = ''public'', fu_Name = ''add'',
     fu_Parameters = [\<lparr>fp_Name = ''arg1'', fp_DataType = ''text'', fp_DefaultValue = None, fp_Mode = ''IN'', fp_Position = 1\<rparr>,
                      \<lparr>fp_Name = ''arg2'', fp_DataType = ''text'', fp_DefaultValue = None, fp_Mode = ''IN'', fp_Position = 2\<rparr>],
     fu_ReturnType = ''int4'', fu_IsSetof = False, fu_IsAggregate = False\<rparr>"

text \<open>
  The caller passes pointers, which match none of the type switches: names, types and modes of the
  catalog are ignored, and every parameter is called \<open>arg1\<close>, \<open>arg2\<close>, and so on, of type text.
\<close>

lemma pointer_arguments_are_ignored:
  "parseFunctionParameters R c (DPtrStrings names) (DPtrString types) (DPtrStrings modes) d n w
     = (Inr (map (build_param [] [] []) [0..<nat n]), w)"
  by (simp add: parseFunctionParameters_def type_oids_def type_names_def arg_names_def arg_modes_def)

lemma itoa_small: "itoa_nat (Suc 0) = ''1''" "itoa_nat (Suc (Suc 0)) = ''2''" "itoa_nat 1 = ''1''" "itoa_nat 2 = ''2''"
  by code_simp+

lemma example_getFunction:
  "getFunction example_rpc 0 ''public'' ''add'' fresh_world = (Inr example_function, emit (QueryRow 0 function_sql [VStr ''public'', VStr ''add'']) fresh_world)"
proof -
  have "[0..<2] = [0, Suc 0]" by (simp add: upt_rec numeral_2_eq_2)
  then show ?thesis
    by (simp add: getFunction_def example_rpc_def example_function_row_def Let_def pointer_arguments_are_ignored build_param_def
        example_function_def itoa_small)
qed

theorem function_call_binds_witness:
  "buildFunctionCallQuery example_lib example_rpc example_function [(''arg2'', VStr ''y''), (''arg1'', VStr ''x'')]
     = Inr (''SELECT '' @ [CHR 0x22] @ ''public'' @ [CHR 0x22] @ ''.'' @ [CHR 0x22] @ ''add'' @ [CHR 0x22] @ ''($1, $2) as result'', [VStr ''x'', VStr ''y''])"
proof -
  let ?args = "[(''arg2'', VStr ''y''), (''arg1'', VStr ''x'')]"
  have b: "bind_arguments example_lib example_rpc ?args 0 (input_params example_function) [] = Inr [VStr ''x'', VStr ''y'']"
    by (simp add: input_params_def example_function_def argument_of_def itoa_small convertArgumentType_def integer_types_def numeric_types_def)
  then obtain sql where q: "buildFunctionCallQuery example_lib example_rpc example_function ?args = Inr (sql, [VStr ''x'', VStr ''y''])"
    by (simp add: buildFunctionCallQuery_def)
  have n: "length (input_params example_function) = 2" by (simp add: input_params_def example_function_def)
  have "sql = call_sql example_function 2" using function_call_binds [OF example_getFunction q] by (simp only: n)
  moreover have "placeholders 2 = ''$1, $2''" by (simp add: placeholders_def upt_rec numeral_2_eq_2 itoa_small)
  ultimately show ?thesis using q by (simp add: call_sql_def example_function_def Let_def)
qed

section \<open>Conversion\<close>

text \<open>The Go type a converted argument has, by the parameter's type.\<close>

definition has_type :: "string \<Rightarrow> any \<Rightarrow> bool" where
  "has_type dataType v =
     (if dataType \<in> set integer_types then (\<exists>i. v = VInt i \<and> - (2 ^ 63) \<le> i \<and> i < 2 ^ 63)
      else if dataType \<in> set numeric_types then (\<exists>x. v = VFloat x)
      else if dataType \<in> {''boolean'', ''bool''} then (\<exists>b. v = VBool b)
      else (\<exists>s. v = VStr s))"

lemma truncate64_range: "- (2 ^ 63) \<le> truncate64 R x \<and> truncate64 R x < 2 ^ 63"
  using wrap64_range [of "rx_outOfRange R x"] by (simp add: truncate64_def Let_def)

text \<open>A decoded JSON value holds no machine integer outside 64 bits (numbers decode to \<open>float64\<close>).\<close>

definition json_int :: "any \<Rightarrow> bool" where
  "json_int v = (case v of VInt i \<Rightarrow> - (2 ^ 63) \<le> i \<and> i < 2 ^ 63 | _ \<Rightarrow> True)"

text \<open>
  C34. A converted argument has the Go type that the parameter's type asks for: a 64-bit integer for the
  integer types (numbers are truncated, texts parsed with their range checked), a float, a
  boolean, or a text; null stays null.
\<close>

theorem converted_type:
  assumes "convertArgumentType L R v dataType = Inr v'" and "json_int v"
  shows "if v = VNil then v' = VNil else has_type dataType v'"
proof (cases "v = VNil")
  case True
  then show ?thesis using assms(1) by (simp add: convertArgumentType_def)
next
  case False
  have int_ok: "convert_integer R v = Inr v' \<Longrightarrow> \<exists>i. v' = VInt i \<and> - (2 ^ 63) \<le> i \<and> i < 2 ^ 63"
    using assms(2) truncate64_range [of R] ParseInt_range [of _ 64]
    by (cases v) (auto simp: convert_integer_def json_int_def split: option.splits)
  have num_ok: "convert_numeric R v = Inr v' \<Longrightarrow> \<exists>x. v' = VFloat x"
    by (cases v) (auto simp: convert_numeric_def split: option.splits)
  have bool_ok: "convert_boolean R v = Inr v' \<Longrightarrow> \<exists>b. v' = VBool b"
    by (cases v) (auto simp: convert_boolean_def split: option.splits)
  have json_ok: "convert_json L R v = Inr v' \<Longrightarrow> \<exists>s. v' = VStr s"
    by (cases v) (auto simp: convert_json_def split: option.splits)
  show ?thesis
    using assms(1) False int_ok num_ok bool_ok json_ok
    by (auto simp: convertArgumentType_def has_type_def split: if_splits)
qed

theorem converted_type_witness: "has_type ''int4'' (VInt (- 7))"
proof -
  have c: "convertArgumentType example_lib example_rpc (VFloat (- 15 / 2)) ''int4'' = Inr (VInt (- 7))"
    by (simp add: convertArgumentType_def integer_types_def convert_integer_def truncate64_def Let_def ceiling_eq_iff)
  have "json_int (VFloat (- 15 / 2))" by (simp add: json_int_def)
  from converted_type [OF c this] show ?thesis by simp
qed

section \<open>The connection\<close>

definition rpc_statement :: "string \<Rightarrow> argList \<Rightarrow> bool" where
  "rpc_statement q args = (q = function_sql \<and> (\<exists>s n. args = [VStr s, VStr n])
     \<or> q = type_sql \<and> (\<exists>oids. args = [VSlice oids]) \<or> (\<exists>f. q = call_sql f (length args)))"

lemma getFunction_drives:
  "drives rpc_statement X role c AsRole w (snd (getFunction R c s n w)) AsRole"
proof -
  let ?w1 = "emit (QueryRow c function_sql [VStr s, VStr n]) w"
  have one: "drives rpc_statement X role c AsRole w ?w1 AsRole"
    by (intro drives_emit conn_step.query_row) (auto simp: rpc_statement_def)
  have "snd (parseFunctionParameters R c (DPtrStrings a) (DPtrString b) (DPtrStrings d) e k ?w1) = ?w1" for a b d e k
    by (simp add: pointer_arguments_are_ignored)
  then have "snd (getFunction R c s n w) = ?w1"
    by (simp add: getFunction_def Let_def pointer_arguments_are_ignored split: sum.split)
  with one show ?thesis by simp
qed

lemma executeFunctionQuery_drives:
  assumes "request_role X (rq_Ctx r) = Some role" and "cx_PgConn (rq_Ctx r) = Some c" and "rpc_statement q args"
  shows "\<exists>st. drives rpc_statement X role c AsRole w (executeFunctionQuery L X s q args b r w) st"
proof -
  obtain res w1 where cr: "ConnWithRole L X r w = (res, w1)" by force
  note drv = ConnWithRole_drives [OF assms(1,2), where st = AsRole and L = L and w = w and P = rpc_statement]
  show ?thesis
  proof (cases res)
    case (Inl e)
    with drv cr have "w1 = w \<or> drives rpc_statement X role c AsRole w w1 Released" by simp
    moreover have "executeFunctionQuery L X s q args b r w = Error L 500 (ext_pgerror X e) w1"
      using cr Inl by (simp add: executeFunctionQuery_def)
    ultimately show ?thesis using drives_resp by metis
  next
    case (Inr ud)
    then have d: "drives rpc_statement X role c AsRole w w1 AsRole" and res: "res = Inr (fst ud, c)"
      using drv cr by (auto split: prod.splits)
    let ?w2 = "emit (QueryRows c q args) w1"
    have "drives rpc_statement X role c AsRole w ?w2 AsRole"
      by (rule drives_trans [OF d drives_emit]) (rule conn_step.query_rows, rule assms(3))
    then have "drives rpc_statement X role c AsRole w w3 AsRole" if "w_trace w3 = w_trace ?w2" for w3
      using that by (rule drives_frame [rotated])
    then have "drives rpc_statement X role c AsRole w (emit (Release c) w3) Released" if "w_trace w3 = w_trace ?w2" for w3
      using that by (blast intro: drives_trans drives_emit conn_step.release)
    moreover have "\<exists>w3. executeFunctionQuery L X s q args b r w = emit (Release c) w3 \<and> w_trace w3 = w_trace ?w2"
      using cr res by (auto simp: executeFunctionQuery_def Let_def split: sum.split)
    ultimately show ?thesis by metis
  qed
qed

lemma rpc_route_drives:
  assumes "request_role X (rq_Ctx r) = Some role" and "cx_PgConn (rq_Ctx r) = Some c"
  shows "\<exists>st. drives rpc_statement X role c AsRole w (rpc_route L X R s c r w) st"
proof -
  have err: "\<exists>st. drives rpc_statement X role c AsRole w (Error L n m w) st" for n m
    by (rule exI [of _ AsRole]) simp
  obtain sn fn where t: "rpc_target (TrimPrefix (rq_Path r) (sv_basePath s @ ''/rpc/'')) = (sn, fn)" by force
  obtain res w1 where g: "getFunction R c sn fn w = (res, w1)" by force
  have d: "drives rpc_statement X role c AsRole w w1 AsRole" using getFunction_drives [of X role c w R sn fn] g by simp
  have "\<exists>st. drives rpc_statement X role c AsRole w (case res of Inl e \<Rightarrow> Error L 404 (m e) w1 | Inr f \<Rightarrow> handleFunctionCall L X R s f r w1) st" for m
  proof (cases res)
    case (Inl e)
    then show ?thesis using d by auto
  next
    case (Inr f)
    have "\<exists>st. drives rpc_statement X role c AsRole w1 (handleFunctionCall L X R s f r w1) st"
    proof (cases "\<exists>args sql vals. body_arguments R r = Inr args \<and> buildFunctionCallQuery L R f args = Inr (sql, vals)")
      case True
      then obtain args sql vals where a: "body_arguments R r = Inr args" "buildFunctionCallQuery L R f args = Inr (sql, vals)" by blast
      then have "rpc_statement sql vals" by (auto simp: rpc_statement_def buildFunctionCallQuery_def split: sum.splits)
      from executeFunctionQuery_drives [OF assms this] a show ?thesis by (simp add: handleFunctionCall_def)
    next
      case False
      then have "\<exists>m. handleFunctionCall L X R s f r w1 = Error L 400 m w1"
        by (auto simp: handleFunctionCall_def split: sum.split)
      then obtain m where "handleFunctionCall L X R s f r w1 = Error L 400 m w1" by blast
      then show ?thesis by (auto intro: exI [of _ AsRole])
    qed
    then show ?thesis using Inr d by (auto intro: drives_trans)
  qed
  then show ?thesis
    using err t g by (simp add: rpc_route_def Let_def del: drives_resp split: sum.split)
qed

text \<open>
  A function call uses its connection by the same protocol as the table endpoints: the role of
  the request is set before anything else, then only the catalog lookup and the call itself are
  sent, each with its values bound, and the connection is released in the end on every path.
\<close>

theorem handleRPC_protocol:
  "\<exists>new. w_trace (handleRPC L X R s r w) = w_trace w @ new
     \<and> (new = [] \<or> (\<exists>role c. request_role X (rq_Ctx r) = Some role \<and> cx_PgConn (rq_Ctx r) = Some c
                      \<and> conn_run rpc_statement X role c Idle new Released))"
proof (cases "request_role X (rq_Ctx r) = None \<or> cx_PgConn (rq_Ctx r) = None")
  case True
  then have "\<exists>e. ConnWithRole L X r w = (Inl e, w)"
    by (auto simp: ConnWithRole_def Conn_def split: option.split)
  then show ?thesis by (auto simp: handleRPC_def)
next
  case False
  then obtain role c where rc: "request_role X (rq_Ctx r) = Some role" "cx_PgConn (rq_Ctx r) = Some c" by auto
  obtain res w1 where cr: "ConnWithRole L X r w = (res, w1)" by force
  note drv = ConnWithRole_drives [OF rc, where st = Idle and L = L and w = w and P = rpc_statement]
  have "w_trace (handleRPC L X R s r w) = w_trace w \<or> drives rpc_statement X role c Idle w (handleRPC L X R s r w) Released"
  proof (cases res)
    case (Inl e)
    have "w_trace w1 = w_trace w \<or> drives rpc_statement X role c Idle w w1 Released"
      using drv cr Inl by auto
    with cr Inl show ?thesis by (auto simp: handleRPC_def)
  next
    case (Inr ud)
    then have d: "drives rpc_statement X role c Idle w w1 AsRole" and res: "res = Inr (fst ud, c)"
      using drv cr by (auto split: prod.splits)
    obtain st where "drives rpc_statement X role c AsRole w1 (rpc_route L X R s c r w1) st"
      using rpc_route_drives [OF rc] by blast
    then have "drives rpc_statement X role c Idle w (emit (Release c) (rpc_route L X R s c r w1)) Released"
      by (intro drives_trans [OF d] drives_trans [OF _ drives_emit] conn_step.release)
    with cr res show ?thesis by (simp add: handleRPC_def)
  qed
  then show ?thesis using rc by (auto simp: drives_def)
qed

end
