(* ===== verification/Invariants.thy ===== *)
theory Invariants
  imports Main
begin

text \<open>
  State machines and their invariants: what every step preserves holds in every state that is reached. The caches, the
  channels and the lifetimes of the program interpret these locales on their step relations.
\<close>

locale preserving =
  fixes step :: "'s \<Rightarrow> 's \<Rightarrow> bool" and inv :: "'s \<Rightarrow> bool"
  assumes preserved: "step s s' \<Longrightarrow> inv s \<Longrightarrow> inv s'"
begin

lemma preserved_runs: "step\<^sup>*\<^sup>* s t \<Longrightarrow> inv s \<Longrightarrow> inv t"
  by (induction rule: rtranclp_induct) (auto intro: preserved)

end

locale machine = preserving step inv for step :: "'s \<Rightarrow> 's \<Rightarrow> bool" and inv :: "'s \<Rightarrow> bool" +
  fixes start :: 's
  assumes initial: "inv start"
begin

lemma reachable: "step\<^sup>*\<^sup>* start t \<Longrightarrow> inv t"
  using preserved_runs initial by blast

end

text \<open>A measure of progress that no step takes back.\<close>

locale advancing =
  fixes step :: "'s \<Rightarrow> 's \<Rightarrow> bool" and progress :: "'s \<Rightarrow> 'p::order"
  assumes advances: "step s s' \<Longrightarrow> progress s \<le> progress s'"
begin

lemma advances_runs: "step\<^sup>*\<^sup>* s t \<Longrightarrow> progress s \<le> progress t"
  by (induction rule: rtranclp_induct) (auto intro: order_trans advances)

lemma never_back: "step\<^sup>*\<^sup>* s t \<Longrightarrow> p \<le> progress s \<Longrightarrow> p \<le> progress t"
  using advances_runs order_trans by blast

end

end
