(* ===== verification/SchemaCache.thy ===== *)
theory SchemaCache
  imports Schema Store Invariants
begin

text \<open>
  The schema cache (\<open>pkg/pgx/schema/schema.go\<close>): loading the tables of all schemas, the snapshot the
  server reads, the reload on a notification and the reconnection with backoff. The database is the
  parameter \<open>Catalog\<close>: for each catalog query of the source, the rows it answers. A row set is the list
  of the results of \<open>Scan\<close> and the error of the iteration (\<open>rows.Err()\<close>).
\<close>

section \<open>The catalog\<close>

record 'r Rowset =
  rw_rows :: "(string, 'r) result list"
  rw_err :: "string option"

type_synonym ('k, 'r) catalog_query = "'k \<Rightarrow> (string, 'r Rowset) result"

record TableRow =
  ta_Schema :: string
  ta_Name :: string
  ta_Type :: string

record ColumnRow =
  cr_Name :: string
  cr_DataType :: string
  cr_UDTSchema :: string
  cr_UDTName :: string
  cr_kind :: "string option"
  cr_elemKind :: "string option"
  cr_IsNullable :: bool
  cr_IsPrimaryKey :: bool

record Catalog =
  ca_schemas :: "(unit, string) catalog_query"
  ca_tables :: "(string, TableRow) catalog_query"
  ca_viewdef :: "string \<times> string \<Rightarrow> (string, string option) result"
  ca_matviewdef :: "string \<times> string \<Rightarrow> (string, string option) result"
  ca_columns :: "(string \<times> string, ColumnRow) catalog_query"
  ca_fkeys :: "(string \<times> string, ForeignKey) catalog_query"

text \<open>A loop over the rows: the body may fail, and so may the scan or the iteration.\<close>

definition each_row :: "('r \<Rightarrow> (string, 'a) result) \<Rightarrow> (string, 'r Rowset) result \<Rightarrow> (string, 'a list) result" where
  "each_row body q = (case q of
       Inl e \<Rightarrow> Inl e
     | Inr rs \<Rightarrow> (case map_res (\<lambda>r. case r of Inl e \<Rightarrow> Inl e | Inr x \<Rightarrow> body x) (rw_rows rs) of
         Inl e \<Rightarrow> Inl e
       | Inr ys \<Rightarrow> (case rw_err rs of Some e \<Rightarrow> Inl e | None \<Rightarrow> Inr ys)))"

definition TypeTable :: string where "TypeTable = ''TABLE''"
definition TypeView :: string where "TypeView = ''VIEW''"
definition TypeMaterializedView :: string where "TypeMaterializedView = ''MATERIALIZED VIEW''"

section \<open>Loading\<close>

definition querySchemas :: "Catalog \<Rightarrow> (string, string list) result" where
  "querySchemas C = each_row Inr (ca_schemas C ())"

definition scan_column :: "ColumnRow \<Rightarrow> Column" where
  "scan_column r = \<lparr>col_Name = cr_Name r, col_DataType = cr_DataType r, col_UDTSchema = cr_UDTSchema r, col_UDTName = cr_UDTName r,
     col_TypeKind = (case cr_kind r of None \<Rightarrow> [] | Some k \<Rightarrow> k), col_ElemKind = (case cr_elemKind r of None \<Rightarrow> [] | Some k \<Rightarrow> k),
     col_IsNullable = cr_IsNullable r, col_IsPrimaryKey = cr_IsPrimaryKey r\<rparr>"

definition queryColumns :: "Catalog \<Rightarrow> string \<Rightarrow> string \<Rightarrow> (string, Column list \<times> string list) result" where
  "queryColumns C schema table = (case each_row (\<lambda>r. Inr (scan_column r)) (ca_columns C (schema, table)) of
       Inl e \<Rightarrow> Inl e
     | Inr cols \<Rightarrow> Inr (cols, map col_Name (filter col_IsPrimaryKey cols)))"

definition queryForeignKeys :: "Catalog \<Rightarrow> string \<Rightarrow> string \<Rightarrow> (string, ForeignKey list) result" where
  "queryForeignKeys C schema table = each_row Inr (ca_fkeys C (schema, table))"

definition view_query :: "Catalog \<Rightarrow> TableRow \<Rightarrow> (string, string) result" where
  "view_query C r =
     (let name = ta_Schema r @ ''.'' @ ta_Name r; text = (\<lambda>d. case d of None \<Rightarrow> [] | Some v \<Rightarrow> v) in
      if ta_Type r = TypeView then
        (case ca_viewdef C (ta_Schema r, ta_Name r) of Inl e \<Rightarrow> Inl (''get view definition '' @ name @ '': '' @ e) | Inr d \<Rightarrow> Inr (text d))
      else if ta_Type r = TypeMaterializedView then
        (case ca_matviewdef C (ta_Schema r, ta_Name r) of
           Inl e \<Rightarrow> Inl (''get materialized view definition '' @ name @ '': '' @ e) | Inr d \<Rightarrow> Inr (text d))
      else Inr [])"

definition load_table :: "Catalog \<Rightarrow> TableRow \<Rightarrow> (string, Table) result" where
  "load_table C r = (case view_query C r of
       Inl e \<Rightarrow> Inl e
     | Inr vq \<Rightarrow> (case queryColumns C (ta_Schema r) (ta_Name r) of
         Inl e \<Rightarrow> Inl (''query columns '' @ ta_Schema r @ ''.'' @ ta_Name r @ '': '' @ e)
       | Inr (cols, pkeys) \<Rightarrow>
           (case (if ta_Type r = TypeTable then queryForeignKeys C (ta_Schema r) (ta_Name r) else Inr []) of
              Inl e \<Rightarrow> Inl (''query foreign keys '' @ ta_Schema r @ ''.'' @ ta_Name r @ '': '' @ e)
            | Inr fkeys \<Rightarrow> Inr \<lparr>tbl_Schema = ta_Schema r, tbl_Name = ta_Name r, tbl_Type = ta_Type r, tbl_Columns = cols,
                 tbl_PrimaryKeys = pkeys, tbl_ForeignKeys = fkeys, tbl_ViewQuery = vq\<rparr>)))"

type_synonym tables = "(string \<times> Table) list"

definition loadSchema :: "Catalog \<Rightarrow> string \<Rightarrow> (string, tables) result" where
  "loadSchema C schema = (case each_row (load_table C) (ca_tables C schema) of
       Inl e \<Rightarrow> Inl e
     | Inr ts \<Rightarrow> Inr (fold (\<lambda>t m. map_put (fullName t) t m) ts []))"

text \<open>\<open>maps.Copy\<close>: the entries of the second map are put into the first.\<close>

definition maps_Copy :: "tables \<Rightarrow> tables \<Rightarrow> tables" where
  "maps_Copy dst src = fold (\<lambda>(k, v) m. map_put k v m) src dst"

fun load_schemas :: "Catalog \<Rightarrow> string list \<Rightarrow> tables \<Rightarrow> (string, tables) result" where
  "load_schemas C [] acc = Inr acc"
| "load_schemas C (schema # schemas) acc =
     (if isSystem schema then load_schemas C schemas acc
      else (case loadSchema C schema of
          Inl e \<Rightarrow> Inl (''load schema '' @ schema @ '': '' @ e)
        | Inr ts \<Rightarrow> load_schemas C schemas (maps_Copy acc ts)))"

definition loadAll :: "Catalog \<Rightarrow> (string, tables) result" where
  "loadAll C = (case querySchemas C of
       Inl e \<Rightarrow> Inl (''query schemas: '' @ e)
     | Inr schemas \<Rightarrow> load_schemas C schemas [])"

section \<open>The cache\<close>

text \<open>
  The state that changes: the tables and the channel of capacity one on which each new snapshot is
  sent. A send to a full channel blocks until the watcher takes the snapshot in it.
\<close>

record SchemaCache =
  sc_tables :: tables
  sc_watch :: "tables list"

definition new_cache :: SchemaCache where
  "new_cache = \<lparr>sc_tables = [], sc_watch = []\<rparr>"

definition Snapshot :: "SchemaCache \<Rightarrow> tables" where
  "Snapshot c = maps_Copy [] (sc_tables c)"

text \<open>
  \<open>reload\<close> in its two parts: the tables are replaced, then the snapshot is sent. On an error the old tables stay.
\<close>

definition reload_tables :: "Catalog \<Rightarrow> SchemaCache \<Rightarrow> (string, SchemaCache) result" where
  "reload_tables C c = (case loadAll C of Inl e \<Rightarrow> Inl e | Inr ts \<Rightarrow> Inr (c\<lparr>sc_tables := ts\<rparr>))"

definition send_snapshot :: "SchemaCache \<Rightarrow> SchemaCache option" where
  "send_snapshot c = (if length (sc_watch c) < 1 then Some (c\<lparr>sc_watch := sc_watch c @ [Snapshot c]\<rparr>) else None)"

definition reloadPayload :: string where
  "reloadPayload = ''reload schema''"

text \<open>
  The life of a cache: \<open>Init\<close> loads the tables and starts \<open>handleUpdates\<close>, which waits for notifications
  (\<open>Waiting\<close>) until the connection is lost (\<open>Lost\<close>) and then reconnects, with a reload, as often as it
  takes; \<open>Sending\<close> when \<open>reload\<close> waits at the channel. A notification with another payload, or a reload that
  fails, changes nothing. The context may be cancelled while the cache waits or reconnects (\<open>Stopped\<close>), and
  the watcher takes a snapshot at any time.
\<close>

datatype listener = Starting | Waiting | Lost | Sending | Stopped

inductive listen_step :: "SchemaCache \<times> listener \<Rightarrow> SchemaCache \<times> listener \<Rightarrow> bool" where
  initialised: "reload_tables C c = Inr c' \<Longrightarrow> listen_step (c, Starting) (c', Sending)"
| init_failed: "reload_tables C c = Inl e \<Longrightarrow> listen_step (c, Starting) (c, Stopped)"
| notified: "payload = reloadPayload \<Longrightarrow> reload_tables C c = Inr c' \<Longrightarrow> listen_step (c, Waiting) (c', Sending)"
| ignored: "payload \<noteq> reloadPayload \<or> reload_tables C c = Inl e \<Longrightarrow> listen_step (c, Waiting) (c, Waiting)"
| lost: "listen_step (c, Waiting) (c, Lost)"
| reconnected: "reload_tables C c = Inr c' \<Longrightarrow> listen_step (c, Lost) (c', Sending)"
| not_reconnected: "listen_step (c, Lost) (c, Lost)"
| cancelled: "l \<in> {Waiting, Lost} \<Longrightarrow> listen_step (c, l) (c, Stopped)"
| sent: "send_snapshot c = Some c' \<Longrightarrow> listen_step (c, Sending) (c', Waiting)"
| watched: "sc_watch c = t # ts \<Longrightarrow> listen_step (c, l) (c\<lparr>sc_watch := ts\<rparr>, l)"

inductive_cases listen_stepE: "listen_step s s'"

section \<open>Reconnecting\<close>

text \<open>Durations in seconds: the backoff doubles after a failure, up to two minutes.\<close>

definition maxBackoff :: nat where
  "maxBackoff = 120"

definition next_backoff :: "nat \<Rightarrow> nat" where
  "next_backoff backoff = min (backoff * 2) maxBackoff"

text \<open>
  \<open>reconnectWithBackoff\<close>, given for each attempt whether \<open>reconnect\<close> succeeds: the pauses it makes (without
  the jitter) until the first success.
\<close>

fun backoff_pauses :: "nat \<Rightarrow> bool list \<Rightarrow> nat list" where
  "backoff_pauses backoff [] = []"
| "backoff_pauses backoff (ok # attempts) = backoff # (if ok then [] else backoff_pauses (next_backoff backoff) attempts)"

definition reconnectWithBackoff :: "bool list \<Rightarrow> nat list" where
  "reconnectWithBackoff attempts = backoff_pauses 1 attempts"

section \<open>What is loaded\<close>

lemma each_row_ok:
  assumes "each_row body q = Inr ys"
  obtains rs xs where "q = Inr rs" "rw_rows rs = map Inr xs" "rw_err rs = None" "list_all2 (\<lambda>x y. body x = Inr y) xs ys"
proof -
  obtain rs where q: "q = Inr rs" using assms by (cases q) (auto simp: each_row_def)
  have m: "map_res (\<lambda>r. case r of Inl e \<Rightarrow> Inl e | Inr x \<Rightarrow> body x) (rw_rows rs) = Inr ys" and e: "rw_err rs = None"
    using assms by (auto simp: each_row_def q split: sum.splits option.splits)
  have "\<exists>xs. rows = map Inr xs \<and> list_all2 (\<lambda>x y. body x = Inr y) xs ys"
    if "list_all2 (\<lambda>r y. (case r of Inl e \<Rightarrow> Inl e | Inr x \<Rightarrow> body x) = Inr y) rows ys" for rows
    using that
  proof (induction rule: list_all2_induct)
    case (Cons r rows y ys)
    then obtain x xs where "r = Inr x" "body x = Inr y" "rows = map Inr xs" "list_all2 (\<lambda>x y. body x = Inr y) xs ys"
      by (auto split: sum.splits)
    then show ?case by (intro exI [of _ "x # xs"]) simp
  qed simp
  with m q e that show thesis unfolding map_res_Inr_iff by blast
qed

text \<open>
  The invariant of a loaded set of tables: every table stands under its full name, its primary keys
  are the names of its key columns, only base tables have foreign keys and only views a query.
\<close>

definition wf_table :: "Table \<Rightarrow> bool" where
  "wf_table t = (tbl_PrimaryKeys t = map col_Name (filter col_IsPrimaryKey (tbl_Columns t))
     \<and> (tbl_ForeignKeys t \<noteq> [] \<longrightarrow> tbl_Type t = TypeTable)
     \<and> (tbl_ViewQuery t \<noteq> [] \<longrightarrow> tbl_Type t \<in> {TypeView, TypeMaterializedView}))"

definition wf_tables :: "tables \<Rightarrow> bool" where
  "wf_tables ts = (distinct (map fst ts) \<and> (\<forall>k t. map_of ts k = Some t \<longrightarrow> fullName t = k \<and> wf_table t))"

lemma load_table_wf: "load_table C r = Inr t \<Longrightarrow> wf_table t"
  by (auto simp: load_table_def view_query_def queryColumns_def wf_table_def Let_def split: sum.splits if_splits)

lemma wf_put: "wf_tables ts \<Longrightarrow> wf_table t \<Longrightarrow> wf_tables (map_put (fullName t) t ts)"
  by (simp add: wf_tables_def distinct_map_put)

lemma loadSchema_wf:
  assumes "loadSchema C schema = Inr ts"
  shows "wf_tables ts"
proof -
  obtain ys where ys: "each_row (load_table C) (ca_tables C schema) = Inr ys" "ts = fold (\<lambda>t m. map_put (fullName t) t m) ys []"
    using assms by (auto simp: loadSchema_def split: sum.splits)
  from each_row_ok [OF ys(1)] obtain xs where "list_all2 (\<lambda>x y. load_table C x = Inr y) xs ys" by metis
  then have "\<forall>t \<in> set ys. wf_table t" by (induction rule: list_all2_induct) (auto intro: load_table_wf)
  moreover have fold_wf: "wf_tables acc \<Longrightarrow> \<forall>t \<in> set ys. wf_table t \<Longrightarrow> wf_tables (fold (\<lambda>t m. map_put (fullName t) t m) ys acc)" for acc ys
    by (induction ys arbitrary: acc) (simp_all add: wf_put)
  moreover have "wf_tables []" by (simp add: wf_tables_def)
  ultimately show ?thesis unfolding ys(2) by blast
qed

lemma maps_Copy_put_all: "maps_Copy dst src = gomap.put_all src dst"
  unfolding maps_Copy_def gomap.put_all_def foldl_conv_fold by (simp add: case_prod_unfold)

lemma maps_Copy_lookup:
  assumes "distinct (map fst dst)" and "distinct (map fst src)"
  shows "map_of (maps_Copy dst src) = map_of dst ++ map_of src" "distinct (map fst (maps_Copy dst src))"
proof -
  have "map_of (rev src) = map_of src"
    using assms(2) by (intro map_of_inject_set [THEN iffD2]) (simp_all add: rev_map [symmetric])
  then show "map_of (maps_Copy dst src) = map_of dst ++ map_of src"
    unfolding maps_Copy_put_all gomap.lookup_put_all [OF assms(1)] by simp
  show "distinct (map fst (maps_Copy dst src))"
    unfolding maps_Copy_put_all by (rule gomap.invar_put_all [OF assms(1)])
qed

lemma maps_Copy_wf: "wf_tables dst \<Longrightarrow> wf_tables src \<Longrightarrow> wf_tables (maps_Copy dst src)"
proof -
  assume d: "wf_tables dst" and s: "wf_tables src"
  then have l: "map_of (maps_Copy dst src) = map_of dst ++ map_of src" "distinct (map fst (maps_Copy dst src))"
    using maps_Copy_lookup [of dst src] by (simp_all add: wf_tables_def)
  show ?thesis unfolding wf_tables_def l(1) using d s l(2) by (auto simp: wf_tables_def map_add_Some_iff)
qed

lemma load_schemas_wf: "load_schemas C schemas acc = Inr ts \<Longrightarrow> wf_tables acc \<Longrightarrow> wf_tables ts"
proof (induction schemas arbitrary: acc)
  case (Cons schema schemas)
  then show ?case by (auto split: if_splits sum.splits intro: maps_Copy_wf loadSchema_wf)
qed simp

lemma loadAll_wf: "loadAll C = Inr ts \<Longrightarrow> wf_tables ts"
proof -
  assume "loadAll C = Inr ts"
  then obtain schemas where "load_schemas C schemas [] = Inr ts" by (auto simp: loadAll_def split: sum.splits)
  then show ?thesis by (rule load_schemas_wf) (simp add: wf_tables_def)
qed

lemma Snapshot_tables: "wf_tables (sc_tables c) \<Longrightarrow> map_of (Snapshot c) = map_of (sc_tables c) \<and> wf_tables (Snapshot c)"
  using maps_Copy_lookup [of "[]" "sc_tables c"] maps_Copy_wf [of "[]" "sc_tables c"]
  by (simp add: Snapshot_def wf_tables_def)

section \<open>Properties\<close>

definition cache_inv :: "SchemaCache \<times> listener \<Rightarrow> bool" where
  "cache_inv s = (wf_tables (sc_tables (fst s)) \<and> length (sc_watch (fst s)) \<le> 1 \<and> (\<forall>t \<in> set (sc_watch (fst s)). wf_tables t)
     \<and> (snd s \<noteq> Sending \<longrightarrow> (\<forall>t \<in> set (sc_watch (fst s)). map_of t = map_of (sc_tables (fst s)))))"

lemma cache_inv_reload: "reload_tables C c = Inr c' \<Longrightarrow> cache_inv (c, l) \<Longrightarrow> cache_inv (c', Sending)"
  using loadAll_wf [of C] by (auto simp: reload_tables_def cache_inv_def split: sum.splits)

lemma cache_inv_listener: "cache_inv (c, l) \<Longrightarrow> l \<noteq> Sending \<Longrightarrow> cache_inv (c, l')"
  by (simp add: cache_inv_def)

lemma cache_inv_step: "listen_step s s' \<Longrightarrow> cache_inv s \<Longrightarrow> cache_inv s'"
proof (induction rule: listen_step.induct)
  case (sent c c')
  then have w: "sc_watch c = []" "c' = c\<lparr>sc_watch := [Snapshot c]\<rparr>" by (auto simp: send_snapshot_def split: if_splits)
  then show ?case using sent Snapshot_tables [of c] by (simp add: cache_inv_def)
next
  case (watched c t ts l)
  have e: "sc_watch (c\<lparr>sc_watch := ts\<rparr>) = ts" "sc_tables (c\<lparr>sc_watch := ts\<rparr>) = sc_tables c" by simp_all
  have "set ts \<subseteq> set (sc_watch c)" "length ts \<le> length (sc_watch c)" unfolding watched(1) by auto
  then show ?case using watched.prems unfolding cache_inv_def fst_conv snd_conv e by (meson le_trans subsetD)
qed (auto intro: cache_inv_reload cache_inv_listener)

lemma cache_inv_start: "cache_inv (new_cache, Starting)"
  by (simp add: cache_inv_def new_cache_def wf_tables_def)

interpretation cache_states: machine listen_step cache_inv "(new_cache, Starting)"
  by unfold_locales (auto intro: cache_inv_step cache_inv_start)

text \<open>
  C35. Whatever the database answers and whenever it notifies, the cache holds well-formed tables: each
  under its full name, with its primary keys, foreign keys and view query consistent. At most one
  snapshot waits for the watcher, and unless a newer one is about to be sent it is the current one, so that a
  watcher that takes it has seen the latest schema.
\<close>

theorem schema_cache_invariant:
  assumes "listen_step\<^sup>*\<^sup>* (new_cache, Starting) (c, l)"
  shows "(\<forall>k t. map_of (sc_tables c) k = Some t \<longrightarrow> fullName t = k \<and> wf_table t) \<and> length (sc_watch c) \<le> 1
    \<and> (l \<noteq> Sending \<longrightarrow> (\<forall>snap \<in> set (sc_watch c). map_of snap = map_of (sc_tables c)))"
  using cache_states.reachable [OF assms] by (simp add: cache_inv_def wf_tables_def)

definition example_catalog :: Catalog where
  "example_catalog = \<lparr>ca_schemas = (\<lambda>_. Inr \<lparr>rw_rows = [Inr ''pg_catalog'', Inr ''public''], rw_err = None\<rparr>),
     ca_tables = (\<lambda>s. Inr \<lparr>rw_rows = [Inr \<lparr>ta_Schema = s, ta_Name = ''users'', ta_Type = ''TABLE''\<rparr>], rw_err = None\<rparr>),
     ca_viewdef = (\<lambda>_. Inr None), ca_matviewdef = (\<lambda>_. Inr None),
     ca_columns = (\<lambda>_. Inr \<lparr>rw_rows = [Inr \<lparr>cr_Name = ''id'', cr_DataType = ''integer'', cr_UDTSchema = ''pg_catalog'', cr_UDTName = ''int4'',
        cr_kind = Some ''b'', cr_elemKind = None, cr_IsNullable = False, cr_IsPrimaryKey = True\<rparr>], rw_err = None\<rparr>),
     ca_fkeys = (\<lambda>_. Inr \<lparr>rw_rows = [], rw_err = None\<rparr>)\<rparr>"

theorem schema_cache_invariant_witness:
  "\<exists>c t. listen_step\<^sup>*\<^sup>* (new_cache, Starting) (c, Waiting) \<and> map_of (sc_tables c) ''public.users'' = Some t \<and> wf_table t \<and> tbl_PrimaryKeys t = [''id'']"
proof -
  obtain c where c: "reload_tables example_catalog new_cache = Inr c" "\<exists>t. map_of (sc_tables c) ''public.users'' = Some t \<and> tbl_PrimaryKeys t = [''id'']"
      "sc_watch c = []"
    by (auto simp: reload_tables_def loadAll_def querySchemas_def each_row_def example_catalog_def isSystem_def loadSchema_def load_table_def
        view_query_def queryColumns_def queryForeignKeys_def scan_column_def fullName_def TypeTable_def TypeView_def TypeMaterializedView_def
        maps_Copy_def new_cache_def map_put_def)
  have "listen_step (new_cache, Starting) (c, Sending)" by (rule listen_step.initialised [OF c(1)])
  moreover obtain c' where c': "send_snapshot c = Some c'" "sc_tables c' = sc_tables c" using c(3) by (simp add: send_snapshot_def)
  ultimately have r: "listen_step\<^sup>*\<^sup>* (new_cache, Starting) (c', Waiting)"
    by (meson listen_step.sent converse_rtranclp_into_rtranclp r_into_rtranclp)
  from c(2) obtain t where t: "map_of (sc_tables c') ''public.users'' = Some t" "tbl_PrimaryKeys t = [''id'']" by (auto simp: c'(2))
  with schema_cache_invariant [OF r] r show ?thesis by blast
qed

text \<open>
  While reconnecting fails, the \<open>i\<close>-th pause is \<open>2 ^ i\<close> seconds but never more than two minutes, and
  the first success ends it.
\<close>

theorem backoff_bounded:
  "(\<forall>i < length (reconnectWithBackoff attempts). reconnectWithBackoff attempts ! i = min (2 ^ i) maxBackoff)
   \<and> length (reconnectWithBackoff attempts) = length (takeWhile (\<lambda>ok. \<not> ok) attempts) + (if True \<in> set attempts then 1 else 0)"
proof -
  have "backoff_pauses (min (2 ^ k) maxBackoff) attempts = map (\<lambda>i. min (2 ^ (k + i)) maxBackoff)
      [0..<length (takeWhile (\<lambda>ok. \<not> ok) attempts) + (if True \<in> set attempts then 1 else 0)]" for k
  proof (induction attempts arbitrary: k)
    case (Cons ok attempts)
    have n: "next_backoff (min (2 ^ k) maxBackoff) = min (2 ^ Suc k) maxBackoff"
      by (simp add: next_backoff_def maxBackoff_def min_def)
    have "[0..<Suc n] = 0 # map Suc [0..<n]" for n by (simp add: upt_conv_Cons map_Suc_upt del: upt_Suc)
    then show ?case using Cons.IH [of "Suc k"] by (simp add: n del: upt_Suc)
  qed simp
  from this [of 0] show ?thesis by (simp add: reconnectWithBackoff_def maxBackoff_def)
qed

theorem backoff_bounded_witness: "reconnectWithBackoff [False, False, True] = [1, 2, 4]"
proof -
  let ?p = "reconnectWithBackoff [False, False, True]"
  have l: "length ?p = 3" using backoff_bounded [of "[False, False, True]"] by simp
  have "\<forall>i < 3. ?p ! i = min (2 ^ i) maxBackoff" using backoff_bounded [of "[False, False, True]"] l by simp
  then have "?p ! 0 = 1" "?p ! 1 = 2" "?p ! 2 = 4" by (auto simp: maxBackoff_def)
  with l show ?thesis by (auto simp: list_eq_iff_nth_eq less_Suc_eq numeral_3_eq_3 numeral_2_eq_2)
qed

end
