(* ===== verification/OpenApi.thy ===== *)
theory OpenApi
  imports SchemaCache RestServer
begin

text \<open>
  The OpenAPI description of the API (\<open>pkg/pgx/schema/openapi.go\<close>), generated from a snapshot of the
  schema cache. The document is a value of Go's dynamic type, as it is handed to the JSON encoder.
\<close>

section \<open>The generator\<close>

record OpenAPIInfo =
  oi_Title :: string
  oi_Description :: string
  oi_Version :: string
  oi_ContactName :: string
  oi_ContactEmail :: string
  oi_ContactURL :: string

record SecurityConfig =
  se_EnableJWT :: bool
  se_EnableBasic :: bool

record OpenAPIGenerator =
  og_basePath :: string
  og_info :: OpenAPIInfo
  og_security :: SecurityConfig

definition NewOpenAPIGenerator :: "string \<Rightarrow> OpenAPIInfo \<Rightarrow> OpenAPIGenerator" where
  "NewOpenAPIGenerator basePath info = \<lparr>og_basePath = TrimSuffix basePath ''/'', og_info = info,
     og_security = \<lparr>se_EnableJWT = True, se_EnableBasic = True\<rparr>\<rparr>"

definition WithSecurity :: "SecurityConfig \<Rightarrow> OpenAPIGenerator \<Rightarrow> OpenAPIGenerator" where
  "WithSecurity config g = g\<lparr>og_security := config\<rparr>"

section \<open>Types of columns\<close>

abbreviation str :: "string \<Rightarrow> any" where
  "str s \<equiv> VStr s"

definition getColumnSchema :: "Column \<Rightarrow> any" where
  "getColumnSchema col =
     (let has = Contains (col_DataType col); typed = (\<lambda>t f. VMap [(''type'', str t), (''format'', str f)]) in
      if has ''int'' then
        typed ''integer'' (if has ''smallint'' then ''int16'' else if has ''bigint'' then ''int64'' else ''int32'')
      else if has ''numeric'' \<or> has ''decimal'' \<or> has ''real'' \<or> has ''double'' then
        typed ''number'' (if has ''double'' then ''double'' else ''float'')
      else if has ''bool'' then VMap [(''type'', str ''boolean'')]
      else if has ''date'' then typed ''string'' ''date''
      else if has ''timestamp'' then typed ''string'' ''date-time''
      else if has ''time'' then typed ''string'' ''time''
      else if has ''uuid'' then typed ''string'' ''uuid''
      else if has ''json'' \<or> has ''jsonb'' then VMap [(''type'', str ''object''), (''additionalProperties'', VBool True)]
      else VMap [(''type'', str ''string'')])"

definition getParameterSchema :: "Column \<Rightarrow> any" where
  "getParameterSchema col =
     (let has = Contains (col_DataType col) in
      if has ''int'' \<or> has ''numeric'' \<or> has ''decimal'' \<or> has ''real'' \<or> has ''double'' then VMap [(''type'', str ''number'')]
      else if has ''bool'' then VMap [(''type'', str ''boolean'')]
      else VMap [(''type'', str ''string'')])"

section \<open>Parameters and schemas\<close>

definition query_parameter :: "string \<Rightarrow> string \<Rightarrow> any \<Rightarrow> any" where
  "query_parameter nm d sch = VMap [(''name'', str nm), (''in'', str ''query''), (''description'', str d), (''schema'', sch)]"

definition buildQueryParameters :: "Table \<Rightarrow> any" where
  "buildQueryParameters t = VSlice
     ([query_parameter ''limit'' ''Limit the number of returned records'' (VMap [(''type'', str ''integer'')]),
       query_parameter ''offset'' ''Offset for pagination'' (VMap [(''type'', str ''integer'')]),
       query_parameter ''order'' ''Order by column(s)'' (VMap [(''type'', str ''string'')])]
      @ map (\<lambda>col. query_parameter (col_Name col) (''Filter by '' @ col_Name col) (getParameterSchema col)) (tbl_Columns t))"

definition zero_column :: Column where
  "zero_column = \<lparr>col_Name = [], col_DataType = [], col_UDTSchema = [], col_UDTName = [], col_TypeKind = [], col_ElemKind = [],
     col_IsNullable = False, col_IsPrimaryKey = False\<rparr>"

definition buildPrimaryKeyParameters :: "Table \<Rightarrow> any" where
  "buildPrimaryKeyParameters t = VSlice (map (\<lambda>key.
     VMap [(''name'', str key), (''in'', str ''path''), (''required'', VBool True), (''description'', str (''Primary key '' @ key)),
           (''schema'', getParameterSchema (case findColumn t key of None \<Rightarrow> zero_column | Some c \<Rightarrow> c))]) (tbl_PrimaryKeys t))"

definition buildTableSchema :: "Table \<Rightarrow> any" where
  "buildTableSchema t =
     (let properties = fold (\<lambda>col m. map_put (col_Name col) (getColumnSchema col) m) (tbl_Columns t) [];
          required = map col_Name (filter (\<lambda>col. \<not> col_IsNullable col) (tbl_Columns t))
      in VMap ([(''type'', str ''object''), (''properties'', VMap properties)]
               @ (if required \<noteq> [] then [(''required'', VSlice (map str required))] else [])))"

section \<open>Operations\<close>

definition schema_ref :: "Table \<Rightarrow> any" where
  "schema_ref t = VMap [(''$ref'', str (''#/components/schemas/'' @ fullName t))]"

definition described :: "string \<Rightarrow> any" where
  "described d = VMap [(''description'', str d)]"

definition json_content :: "any \<Rightarrow> any" where
  "json_content schema = VMap [(''application/json'', VMap [(''schema'', schema)])]"

definition answer :: "string \<Rightarrow> any \<Rightarrow> any" where
  "answer d schema = VMap [(''description'', str d), (''content'', json_content schema)]"

definition request_body :: "Table \<Rightarrow> any" where
  "request_body t = VMap [(''content'', json_content (schema_ref t)), (''required'', VBool True)]"

definition tags :: "Table \<Rightarrow> any" where
  "tags t = VSlice [str (tbl_Schema t)]"

definition buildTableOperations :: "Table \<Rightarrow> any" where
  "buildTableOperations t = VMap
     [(''get'', VMap [(''summary'', str (''List '' @ tbl_Name t @ '' records'')),
                      (''description'', str (''Retrieves records from '' @ tbl_Schema t @ ''.'' @ tbl_Name t)),
                      (''parameters'', buildQueryParameters t),
                      (''responses'', VMap [(''200'', answer ''Success'' (VMap [(''type'', str ''array''), (''items'', schema_ref t)])),
                                            (''400'', described ''Bad Request''), (''401'', described ''Unauthorized''),
                                            (''403'', described ''Forbidden''), (''404'', described ''Not Found'')]),
                      (''tags'', tags t)]),
      (''post'', VMap [(''summary'', str (''Create '' @ tbl_Name t @ '' record'')),
                       (''description'', str (''Creates a new record in '' @ tbl_Schema t @ ''.'' @ tbl_Name t)),
                       (''requestBody'', request_body t),
                       (''responses'', VMap [(''201'', answer ''Created'' (schema_ref t)),
                                             (''400'', described ''Bad Request''), (''401'', described ''Unauthorized''),
                                             (''403'', described ''Forbidden''), (''409'', described ''Conflict'')]),
                       (''tags'', tags t)])]"

definition buildRecordOperations :: "Table \<Rightarrow> any" where
  "buildRecordOperations t = VMap
     [(''get'', VMap [(''summary'', str (''Get '' @ tbl_Name t @ '' record'')),
                      (''description'', str (''Retrieves a single record from '' @ tbl_Schema t @ ''.'' @ tbl_Name t @ '' by primary key'')),
                      (''parameters'', buildPrimaryKeyParameters t),
                      (''responses'', VMap [(''200'', answer ''Success'' (schema_ref t)), (''401'', described ''Unauthorized''),
                                            (''403'', described ''Forbidden''), (''404'', described ''Not Found'')]),
                      (''tags'', tags t)]),
      (''patch'', VMap [(''summary'', str (''Update '' @ tbl_Name t @ '' record'')),
                        (''description'', str (''Updates a record in '' @ tbl_Schema t @ ''.'' @ tbl_Name t @ '' by primary key'')),
                        (''parameters'', buildPrimaryKeyParameters t),
                        (''requestBody'', request_body t),
                        (''responses'', VMap [(''200'', answer ''Success'' (schema_ref t)), (''400'', described ''Bad Request''),
                                              (''401'', described ''Unauthorized''), (''403'', described ''Forbidden''),
                                              (''404'', described ''Not Found'')]),
                        (''tags'', tags t)]),
      (''delete'', VMap [(''summary'', str (''Delete '' @ tbl_Name t @ '' record'')),
                         (''description'', str (''Deletes a record from '' @ tbl_Schema t @ ''.'' @ tbl_Name t @ '' by primary key'')),
                         (''parameters'', buildPrimaryKeyParameters t),
                         (''responses'', VMap [(''200'', described ''Success''), (''401'', described ''Unauthorized''),
                                               (''403'', described ''Forbidden''), (''404'', described ''Not Found'')]),
                         (''tags'', tags t)])]"

definition table_path :: "Table \<Rightarrow> string" where
  "table_path t = (if tbl_Schema t \<noteq> ''public'' then ''/'' @ tbl_Schema t @ ''/'' @ tbl_Name t else ''/'' @ tbl_Name t)"

definition buildRecordPath :: "Table \<Rightarrow> string" where
  "buildRecordPath t = table_path t @ concat (map (\<lambda>key. ''/{'' @ key @ ''}'') (tbl_PrimaryKeys t))"

section \<open>The document\<close>

definition buildSecuritySchemes :: "OpenAPIGenerator \<Rightarrow> gomap" where
  "buildSecuritySchemes g =
     (if se_EnableJWT (og_security g) then
        [(''bearerAuth'', VMap [(''type'', str ''http''), (''scheme'', str ''bearer''), (''bearerFormat'', str ''JWT''),
                                (''description'', str ''JWT token authentication. Use format: Bearer <token>'')])] else [])
     @ (if se_EnableBasic (og_security g) then
        [(''basicAuth'', VMap [(''type'', str ''http''), (''scheme'', str ''basic''),
                               (''description'', str ''Basic HTTP authentication using username and password'')])] else [])"

definition buildGlobalSecurity :: "OpenAPIGenerator \<Rightarrow> any list" where
  "buildGlobalSecurity g =
     (if se_EnableJWT (og_security g) then [VMap [(''bearerAuth'', VSlice [])]] else [])
     @ (if se_EnableBasic (og_security g) then [VMap [(''basicAuth'', VSlice [])]] else [])"

definition add_table_paths :: "Table \<Rightarrow> gomap \<Rightarrow> gomap" where
  "add_table_paths t paths =
     (let paths1 = map_put (table_path t) (buildTableOperations t) paths in
      if tbl_PrimaryKeys t \<noteq> [] then map_put (buildRecordPath t) (buildRecordOperations t) paths1 else paths1)"

definition build_paths :: "Table list \<Rightarrow> gomap" where
  "build_paths ts = fold add_table_paths ts []"

definition build_schemas :: "Table list \<Rightarrow> gomap" where
  "build_schemas ts = fold (\<lambda>t m. map_put (fullName t) (buildTableSchema t) m) ts []"

definition GenerateSpecification :: "OpenAPIGenerator \<Rightarrow> SchemaCache \<Rightarrow> gomap" where
  "GenerateSpecification g c =
     (let ts = map snd (Snapshot c); schemes = buildSecuritySchemes g; security = buildGlobalSecurity g; i = og_info g;
          components = [(''schemas'', VMap (build_schemas ts))] @ (if schemes \<noteq> [] then [(''securitySchemes'', VMap schemes)] else [])
      in [(''openapi'', str ''3.1.0''),
          (''info'', VMap [(''title'', str (oi_Title i)), (''description'', str (oi_Description i)), (''version'', str (oi_Version i)),
             (''contact'', VMap [(''name'', str (oi_ContactName i)), (''email'', str (oi_ContactEmail i)), (''url'', str (oi_ContactURL i))])]),
          (''servers'', VSlice [VMap [(''url'', str (og_basePath g)), (''description'', str ''API Server'')]]),
          (''paths'', VMap (build_paths ts)),
          (''components'', VMap components)]
         @ (if security \<noteq> [] then [(''security'', VSlice security)] else []))"

section \<open>References\<close>

text \<open>The targets of the references in a document.\<close>

fun refs :: "any \<Rightarrow> string list" where
  "refs (VMap m) = concat (map (\<lambda>(k, v). (case v of VStr s \<Rightarrow> if k = ''$ref'' then [s] else [] | _ \<Rightarrow> []) @ refs v) m)"
| "refs (VSlice xs) = concat (map refs xs)"
| "refs _ = []"

lemma refs_getColumnSchema [simp]: "refs (getColumnSchema col) = []" "refs (getParameterSchema col) = []"
  by (simp_all add: getColumnSchema_def getParameterSchema_def Let_def)

lemma refs_query_parameter [simp]: "refs sch = [] \<Longrightarrow> \<exists>m. sch = VMap m \<Longrightarrow> refs (query_parameter n d sch) = []"
  by (auto simp: query_parameter_def)

lemma getParameterSchema_map: "\<exists>m. getParameterSchema col = VMap m" "\<exists>m. getColumnSchema col = VMap m"
  by (simp_all add: getParameterSchema_def getColumnSchema_def Let_def)

lemma refs_parameters [simp]: "refs (buildQueryParameters t) = []" "refs (buildPrimaryKeyParameters t) = []"
  using getParameterSchema_map by (auto simp: buildQueryParameters_def buildPrimaryKeyParameters_def split: any.split)

definition target :: "Table \<Rightarrow> string" where
  "target t = ''#/components/schemas/'' @ fullName t"

lemma refs_parts [simp]:
  "refs (schema_ref t) = [target t]" "refs (described d) = []" "refs (tags t) = []" "refs (request_body t) = [target t]"
  "refs (answer d (schema_ref t)) = [target t]"
  by (simp_all add: schema_ref_def described_def tags_def request_body_def json_content_def answer_def target_def)

lemma part_maps: "\<exists>m. described d = VMap m" "\<exists>m. answer d v = VMap m" "\<exists>m. request_body t = VMap m" "\<exists>m. tags t = VSlice m"
  "\<exists>m. schema_ref t = VMap m" "\<exists>m. buildQueryParameters t = VSlice m" "\<exists>m. buildPrimaryKeyParameters t = VSlice m"
  by (simp_all add: described_def answer_def request_body_def tags_def schema_ref_def buildQueryParameters_def buildPrimaryKeyParameters_def)

lemma refs_operations: "set (refs (buildTableOperations t)) \<subseteq> {target t}" "set (refs (buildRecordOperations t)) \<subseteq> {target t}"
  by (auto simp: buildTableOperations_def buildRecordOperations_def answer_def json_content_def described_def request_body_def
      schema_ref_def tags_def target_def)

lemma refs_empty: "refs (VMap []) = []"
  by simp

lemma set_map_put: "set (map_put k v m) \<subseteq> insert (k, v) (set m)"
  unfolding map_put_def by (induction m) auto

lemma refs_map_put: "v = VMap m' \<or> v = VSlice vs \<Longrightarrow> set (refs (VMap (map_put k v m))) \<subseteq> set (refs v) \<union> set (refs (VMap m))"
  using set_map_put [of k v m] by auto

lemma operations_map: "\<exists>m. buildTableOperations t = VMap m" "\<exists>m. buildRecordOperations t = VMap m" "\<exists>m. buildTableSchema t = VMap m"
  by (simp_all add: buildTableOperations_def buildRecordOperations_def buildTableSchema_def Let_def)

lemma refs_buildTableSchema: "refs (buildTableSchema t) = []"
proof -
  let ?p = "\<lambda>cols acc. fold (\<lambda>col m. map_put (col_Name col) (getColumnSchema col) m) cols acc"
  have "set (refs (VMap (?p cols acc))) \<subseteq> set (refs (VMap acc))" for cols acc
  proof (induction cols arbitrary: acc)
    case (Cons col cols)
    obtain m where m: "getColumnSchema col = VMap m" using getParameterSchema_map(2) by blast
    have "set (refs (VMap (map_put (col_Name col) (getColumnSchema col) acc))) \<subseteq> set (refs (getColumnSchema col)) \<union> set (refs (VMap acc))"
      by (rule refs_map_put) (simp add: m)
    then show ?case using Cons.IH [of "map_put (col_Name col) (getColumnSchema col) acc"] by (simp del: refs.simps)
  qed simp
  from this [of "tbl_Columns t" "[]"] have "refs (VMap (?p (tbl_Columns t) [])) = []"
    by (simp add: refs_empty del: refs.simps)
  then show ?thesis by (simp add: buildTableSchema_def Let_def comp_def)
qed

lemma refs_build_schemas: "refs (VMap (build_schemas ts)) = []"
proof -
  have "set (refs (VMap (fold (\<lambda>t m. map_put (fullName t) (buildTableSchema t) m) ts acc))) \<subseteq> set (refs (VMap acc))" for acc
  proof (induction ts arbitrary: acc)
    case (Cons t ts)
    obtain m where m: "buildTableSchema t = VMap m" using operations_map(3) by blast
    have "set (refs (VMap (map_put (fullName t) (buildTableSchema t) acc))) \<subseteq> set (refs (buildTableSchema t)) \<union> set (refs (VMap acc))"
      by (rule refs_map_put) (simp add: m)
    then show ?case
      using Cons.IH [of "map_put (fullName t) (buildTableSchema t) acc"] refs_buildTableSchema [of t] by (simp del: refs.simps)
  qed simp
  from this [of "[]"] show ?thesis by (simp add: build_schemas_def refs_empty del: refs.simps)
qed

lemma refs_add_table_paths: "set (refs (VMap (add_table_paths t acc))) \<subseteq> insert (target t) (set (refs (VMap acc)))"
proof -
  obtain m m' where m: "buildTableOperations t = VMap m" "buildRecordOperations t = VMap m'" using operations_map by blast
  have one: "set (refs (VMap (map_put (table_path t) (buildTableOperations t) acc))) \<subseteq> insert (target t) (set (refs (VMap acc)))"
    using refs_map_put [of "buildTableOperations t" m] refs_operations(1) [of t] m(1) by blast
  show ?thesis
    using one refs_map_put [of "buildRecordOperations t" m'] refs_operations(2) [of t] m(2)
    unfolding add_table_paths_def Let_def by (cases "tbl_PrimaryKeys t = []") (simp del: refs.simps, fastforce simp del: refs.simps)
qed

lemma refs_build_paths: "set (refs (VMap (build_paths ts))) \<subseteq> target ` set ts"
proof -
  have "set (refs (VMap (fold add_table_paths ts acc))) \<subseteq> target ` set ts \<union> set (refs (VMap acc))" for acc
  proof (induction ts arbitrary: acc)
    case (Cons t ts)
    show ?case using Cons.IH [of "add_table_paths t acc"] refs_add_table_paths [of t acc] by (auto simp del: refs.simps)
  qed simp
  from this [of "[]"] show ?thesis by (simp add: build_paths_def refs_empty del: refs.simps)
qed

lemma keys_build_schemas: "fst ` set (build_schemas ts) = fullName ` set ts"
proof -
  have "fst ` set (fold (\<lambda>t m. map_put (fullName t) (buildTableSchema t) m) ts acc) = fullName ` set ts \<union> fst ` set acc" for acc
    by (induction ts arbitrary: acc) (auto simp: keys_map_put)
  from this [of "[]"] show ?thesis by (simp add: build_schemas_def)
qed

lemma keys_build_paths: "table_path ` set ts \<subseteq> fst ` set (build_paths ts)"
proof -
  have "table_path ` set ts \<union> fst ` set acc \<subseteq> fst ` set (fold add_table_paths ts acc)" for acc
  proof (induction ts arbitrary: acc)
    case (Cons t ts)
    have "insert (table_path t) (fst ` set acc) \<subseteq> fst ` set (add_table_paths t acc)"
      by (auto simp: add_table_paths_def Let_def keys_map_put)
    then show ?case using Cons.IH [of "add_table_paths t acc"] by (simp only: fold_simps list.set image_insert) blast
  qed simp
  from this [of "[]"] show ?thesis by (simp add: build_paths_def)
qed

definition spec_part :: "string \<Rightarrow> gomap \<Rightarrow> any" where
  "spec_part k m = (case map_of m k of None \<Rightarrow> VNil | Some v \<Rightarrow> v)"

lemma spec_parts:
  "spec_part ''paths'' (GenerateSpecification g c) = VMap (build_paths (map snd (Snapshot c)))"
  "\<exists>m. spec_part ''components'' (GenerateSpecification g c) = VMap m \<and> spec_part ''schemas'' m = VMap (build_schemas (map snd (Snapshot c)))"
  by (simp_all add: spec_part_def GenerateSpecification_def Let_def)

lemma refs_specification: "set (refs (VMap (GenerateSpecification g c))) \<subseteq> target ` snd ` set (Snapshot c)"
proof -
  let ?ts = "map snd (Snapshot c)"
  have "set (refs (VMap (GenerateSpecification g c))) = set (refs (VMap (build_paths ?ts))) \<union> set (refs (VMap (build_schemas ?ts)))"
    by (auto simp: GenerateSpecification_def Let_def buildSecuritySchemes_def buildGlobalSecurity_def)
  then show ?thesis using refs_build_paths [of ?ts] refs_build_schemas [of ?ts] by (auto simp del: refs.simps)
qed

text \<open>
  C37. Every reference in the generated document resolves: it names a schema that the document defines
  under its components, for every content of the schema cache.
\<close>

theorem openapi_refs_resolve:
  "\<exists>components schemas. spec_part ''components'' (GenerateSpecification g c) = VMap components
     \<and> spec_part ''schemas'' components = VMap schemas
     \<and> set (refs (VMap (GenerateSpecification g c))) \<subseteq> (\<lambda>k. ''#/components/schemas/'' @ k) ` fst ` set schemas"
proof -
  let ?ts = "map snd (Snapshot c)"
  obtain m where m: "spec_part ''components'' (GenerateSpecification g c) = VMap m" "spec_part ''schemas'' m = VMap (build_schemas ?ts)"
    using spec_parts(2) by blast
  have "target ` snd ` set (Snapshot c) = (\<lambda>k. ''#/components/schemas/'' @ k) ` fst ` set (build_schemas ?ts)"
    unfolding keys_build_schemas by (auto simp: target_def image_image)
  then show ?thesis using m refs_specification [of g c] by auto
qed

section \<open>Documented and served\<close>

lemma dropWhile_other: "c \<notin> set x \<Longrightarrow> x \<noteq> [] \<Longrightarrow> dropWhile (\<lambda>d. d = c) (x @ r) = x @ r"
  by (cases x) auto

lemma Trim_slash: "CHR ''/'' \<notin> set x \<Longrightarrow> x \<noteq> [] \<Longrightarrow> Trim (CHR ''/'' # x) ''/'' = x"
  using dropWhile_other [of "CHR ''/''" x "[]"] dropWhile_other [of "CHR ''/''" "rev x" "[]"] by (simp add: Trim_def)

lemma Trim_slash2:
  assumes "CHR ''/'' \<notin> set x" "x \<noteq> []" "CHR ''/'' \<notin> set y" "y \<noteq> []"
  shows "Trim (CHR ''/'' # x @ CHR ''/'' # y) ''/'' = x @ CHR ''/'' # y"
  using dropWhile_other [OF assms(1,2), of "CHR ''/'' # y"] dropWhile_other [of "CHR ''/''" "rev y" "CHR ''/'' # rev x"] assms(3,4)
  by (simp add: Trim_def)

lemma table_key_path:
  assumes "CHR ''/'' \<notin> set (tbl_Schema t)" "tbl_Schema t \<noteq> []" "CHR ''/'' \<notin> set (tbl_Name t)" "tbl_Name t \<noteq> []"
  shows "table_key (table_path t) = fullName t"
  using assms
  by (cases "tbl_Schema t = ''public''")
    (simp_all add: table_key_def table_path_def fullName_def Trim_slash Trim_slash2 Split_single Split_append_sep Let_def)

text \<open>
  C38. Every table of the schema cache is documented under a path that the server serves with that very
  table: the path the generator writes and the path the server parses agree, for the public schema
  and for every other one.
\<close>

theorem documented_paths_are_served:
  assumes "wf_tables (sc_tables c)" and "map_of (sc_tables c) k = Some t" and "sv_tables s = Snapshot c"
    and "CHR ''/'' \<notin> set (tbl_Schema t)" "tbl_Schema t \<noteq> []" "CHR ''/'' \<notin> set (tbl_Name t)" "tbl_Name t \<noteq> []"
  shows "tableFromPath s (table_path t) = Inr t
    \<and> (\<exists>paths. spec_part ''paths'' (GenerateSpecification g c) = VMap paths \<and> table_path t \<in> fst ` set paths)"
proof
  have snap: "map_of (Snapshot c) k = Some t" "fullName t = k"
    using Snapshot_tables [OF assms(1)] assms(1,2) unfolding wf_tables_def by auto
  then show "tableFromPath s (table_path t) = Inr t"
    using assms(3) by (simp add: tableFromPath_def table_key_path [OF assms(4-7)])
  have "t \<in> set (map snd (Snapshot c))" using map_of_SomeD [OF snap(1)] by force
  then show "\<exists>paths. spec_part ''paths'' (GenerateSpecification g c) = VMap paths \<and> table_path t \<in> fst ` set paths"
    using keys_build_paths [of "map snd (Snapshot c)"] spec_parts(1) by blast
qed

definition example_doc_table :: Table where
  "example_doc_table = \<lparr>tbl_Schema = ''app'', tbl_Name = ''users'', tbl_Type = ''TABLE'', tbl_Columns = [], tbl_PrimaryKeys = [],
     tbl_ForeignKeys = [], tbl_ViewQuery = []\<rparr>"

theorem documented_paths_are_served_witness:
  "tableFromPath \<lparr>sv_basePath = [], sv_omitempty = False, sv_tables = [(''app.users'', example_doc_table)]\<rparr> ''/app/users'' = Inr example_doc_table"
proof -
  let ?c = "\<lparr>sc_tables = [(''app.users'', example_doc_table)], sc_watch = []\<rparr>"
  let ?s = "\<lparr>sv_basePath = [], sv_omitempty = False, sv_tables = [(''app.users'', example_doc_table)]\<rparr>"
  have wf: "wf_tables (sc_tables ?c)" by (simp add: wf_tables_def wf_table_def example_doc_table_def fullName_def)
  have snap: "sv_tables ?s = Snapshot ?c" by (simp add: Snapshot_def maps_Copy_def map_put_def)
  have "tableFromPath ?s (table_path example_doc_table) = Inr example_doc_table"
    using documented_paths_are_served [OF wf _ snap, of "''app.users''" example_doc_table]
    by (simp add: example_doc_table_def)
  then show ?thesis by (simp add: table_path_def example_doc_table_def)
qed

text \<open>
  The documented path of a single record is not served as such: a request to it is looked up as a
  schema and a table.
\<close>

lemma record_path_is_another_table:
  assumes "CHR ''/'' \<notin> set nm" "nm \<noteq> []" "CHR ''/'' \<notin> set key" "key \<noteq> []"
  shows "table_key (''/'' @ nm @ ''/'' @ key) = nm @ ''.'' @ key"
  using assms by (simp add: table_key_def Trim_slash2 Split_single Split_append_sep Let_def)

text \<open>A column of type \<open>interval\<close> or \<open>point\<close> is documented as an integer.\<close>

lemma interval_is_documented_as_integer:
  "map_of (case getColumnSchema (zero_column\<lparr>col_DataType := ''interval''\<rparr>) of VMap m \<Rightarrow> m | _ \<Rightarrow> []) ''type'' = Some (VStr ''integer'')"
  by (simp add: getColumnSchema_def Let_def HasPrefix_def)

end
