(* ===== verification/LogRepl.thy ===== *)
theory LogRepl
  imports Cdc GoStrings "HOL-Library.Word"
begin

text \<open>
  Logical replication (\<open>pkg/pglogrepl\<close>): the configuration and its defaults, the publication and the slot,
  the decoding of \<open>pgoutput\<close> messages into change events, and the loop that receives messages, emits events
  and reports the position to the server.

  PostgreSQL and the package \<open>jackc/pglogrepl\<close> are parameters: \<open>ReplConn\<close> answers the commands sent on the
  connection (the answer may depend on the commands before it), and \<open>Env\<close> holds the parsers of messages, the
  type map and the order in which a Go map is ranged over.
\<close>

section \<open>Configuration\<close>

datatype repl_error =
    NilConnection | NilConfig | InvalidOperation string | IntervalTooShort | InvalidGenerated string
  | ExecError string | NoVersion | BadVersion string | NeedsVersion18 string int
  | InvalidTable | InvalidColumn | Wrapped string repl_error | Panic | Fatal

type_synonym Op = string

definition OpInsert_repl :: Op where "OpInsert_repl = ''insert''"
definition OpUpdate_repl :: Op where "OpUpdate_repl = ''update''"
definition OpDelete_repl :: Op where "OpDelete_repl = ''delete''"
definition OpTruncate_repl :: Op where "OpTruncate_repl = ''truncate''"

definition second :: int where "second = 1000000000"
definition defaultStandbyUpdateInterval :: int where "defaultStandbyUpdateInterval = 10 * second"
definition defaultBufferSize :: int where "defaultBufferSize = 1000"
definition defaultPublication :: string where "defaultPublication = ''pigo_pub''"
definition defaultSlot :: string where "defaultSlot = ''pigo_slot''"
definition defaultPlugin :: string where "defaultPlugin = ''pgoutput''"
definition minPgVersionGeneratedCols :: int where "minPgVersionGeneratedCols = 180000"

definition PublishGeneratedColumnsUnset :: string where "PublishGeneratedColumnsUnset = []"
definition PublishGeneratedColumnsNone :: string where "PublishGeneratedColumnsNone = ''none''"
definition PublishGeneratedColumnsStored :: string where "PublishGeneratedColumnsStored = ''stored''"

record ReplConfig =
  cf_Publication :: string
  cf_Slot :: string
  cf_Plugin :: string
  cf_Tables :: "string list"
  cf_Ops :: "Op list"
  cf_PartitionRoot :: bool
  cf_StandbyUpdateInterval :: int
  cf_ReplicaIdentity :: "(string \<times> string) list"
  cf_BufferSize :: int
  cf_PublishGeneratedColumns :: string

definition DefaultConfig :: ReplConfig where
  "DefaultConfig = \<lparr>cf_Publication = defaultPublication, cf_Slot = defaultSlot, cf_Plugin = defaultPlugin, cf_Tables = [],
     cf_Ops = [OpInsert_repl, OpUpdate_repl, OpDelete_repl, OpTruncate_repl], cf_PartitionRoot = False,
     cf_StandbyUpdateInterval = defaultStandbyUpdateInterval, cf_ReplicaIdentity = [], cf_BufferSize = defaultBufferSize,
     cf_PublishGeneratedColumns = []\<rparr>"

definition validateConfig :: "ReplConfig option \<Rightarrow> repl_error option" where
  "validateConfig cfg = (case cfg of
       None \<Rightarrow> Some NilConfig
     | Some c \<Rightarrow> (case find (\<lambda>op. op \<notin> {OpInsert_repl, OpUpdate_repl, OpDelete_repl, OpTruncate_repl}) (cf_Ops c) of
         Some op \<Rightarrow> Some (InvalidOperation op)
       | None \<Rightarrow>
           if cf_StandbyUpdateInterval c < second then Some IntervalTooShort
           else if cf_PublishGeneratedColumns c \<in> {PublishGeneratedColumnsUnset, PublishGeneratedColumnsNone, PublishGeneratedColumnsStored}
           then None else Some (InvalidGenerated (cf_PublishGeneratedColumns c))))"

text \<open>\<open>cmp.Or\<close>: the first argument that is not the zero value.\<close>

definition cmp_Or :: "'a \<Rightarrow> 'a \<Rightarrow> 'a \<Rightarrow> 'a" where
  "cmp_Or zero x y = (if x \<noteq> zero then x else y)"

definition mergeWithDefaults :: "ReplConfig option \<Rightarrow> ReplConfig" where
  "mergeWithDefaults cfg = (let d = DefaultConfig in case cfg of
       None \<Rightarrow> d
     | Some c \<Rightarrow> c\<lparr>cf_Ops := (if cf_Ops c = [] then cf_Ops d else cf_Ops c),
         cf_Publication := cmp_Or [] (cf_Publication c) (cf_Publication d),
         cf_Slot := cmp_Or [] (cf_Slot c) (cf_Slot d),
         cf_Plugin := cmp_Or [] (cf_Plugin c) (cf_Plugin d),
         cf_StandbyUpdateInterval := cmp_Or 0 (cf_StandbyUpdateInterval c) (cf_StandbyUpdateInterval d),
         cf_BufferSize := cmp_Or 0 (cf_BufferSize c) (cf_BufferSize d)\<rparr>)"

section \<open>The replication connection\<close>

type_synonym LSN = "64 word"

datatype repl_cmd =
    Exec string
  | IdentifySystem
  | CreateReplicationSlot string string
  | StartReplication string LSN "string list"

text \<open>The rows of each result of a statement, in text; a row is its first column and the others.\<close>

type_synonym sql_results = "(string \<times> string list) list list"

record ReplConn =
  rx_exec :: "repl_cmd list \<Rightarrow> string \<Rightarrow> (string, sql_results) result"
  rx_identify :: "repl_cmd list \<Rightarrow> (string, LSN) result"
  rx_create_slot :: "repl_cmd list \<Rightarrow> string \<Rightarrow> string \<Rightarrow> string option"
  rx_start :: "repl_cmd list \<Rightarrow> string \<Rightarrow> LSN \<Rightarrow> string list \<Rightarrow> string option"

type_synonym 'a repl = "repl_cmd list \<Rightarrow> (repl_error, 'a) result \<times> repl_cmd list"

definition exec_sql :: "ReplConn \<Rightarrow> string \<Rightarrow> sql_results repl" where
  "exec_sql X sql tr = (case rx_exec X tr sql of
       Inl e \<Rightarrow> (Inl (ExecError e), tr @ [Exec sql]) | Inr rs \<Rightarrow> (Inr rs, tr @ [Exec sql]))"

definition first_cell :: "sql_results \<Rightarrow> string option" where
  "first_cell rs = (case rs of ((cell, _) # _) # _ \<Rightarrow> Some cell | _ \<Rightarrow> None)"

definition exists_sql :: "string \<Rightarrow> string \<Rightarrow> string \<Rightarrow> string" where
  "exists_sql table column value =
     ''SELECT EXISTS (SELECT 1 FROM '' @ table @ '' WHERE '' @ column @ '' = '' @ [CHR 0x27] @ value @ [CHR 0x27] @ '')''"

definition checkExists :: "ReplConn \<Rightarrow> string \<Rightarrow> string \<Rightarrow> string \<Rightarrow> bool repl" where
  "checkExists X table column value tr =
     (if table \<noteq> ''pg_publication'' \<and> table \<noteq> ''pg_replication_slots'' then (Inl InvalidTable, tr)
      else if column \<noteq> ''pubname'' \<and> column \<noteq> ''slot_name'' then (Inl InvalidColumn, tr)
      else (case exec_sql X (exists_sql table column value) tr of
          (Inl e, tr1) \<Rightarrow> (Inl (Wrapped ''check exists'' e), tr1)
        | (Inr rs, tr1) \<Rightarrow> (Inr (first_cell rs = Some ''t''), tr1)))"

definition serverVersionNum :: "ReplConn \<Rightarrow> int repl" where
  "serverVersionNum X tr = (case exec_sql X ''SHOW server_version_num'' tr of
       (Inl e, tr1) \<Rightarrow> (Inl (Wrapped ''query server_version_num'' e), tr1)
     | (Inr rs, tr1) \<Rightarrow> (case first_cell rs of
         None \<Rightarrow> (Inl NoVersion, tr1)
       | Some cell \<Rightarrow> (case Atoi cell of None \<Rightarrow> (Inl (BadVersion cell), tr1) | Some n \<Rightarrow> (Inr n, tr1))))"

section \<open>Publication and slot\<close>

record tablePattern =
  tp_allTables :: bool
  tp_schemas :: "string list"
  tp_tables :: "string list"

definition LastIndex :: "string \<Rightarrow> string \<Rightarrow> nat option" where
  "LastIndex s sub = find (\<lambda>i. HasPrefix (drop i s) sub) (rev [0..<length s])"

fun parse_patterns :: "tablePattern \<Rightarrow> string list \<Rightarrow> tablePattern" where
  "parse_patterns tp [] = tp"
| "parse_patterns tp (p # ps) =
     (if p = ''*'' \<or> p = ''*.*'' then \<lparr>tp_allTables = True, tp_schemas = [], tp_tables = []\<rparr>
      else (case LastIndex p ''.*'' of
          Some (Suc i) \<Rightarrow> parse_patterns (tp\<lparr>tp_schemas := tp_schemas tp @ [take (Suc i) p]\<rparr>) ps
        | _ \<Rightarrow> parse_patterns (tp\<lparr>tp_tables := tp_tables tp @ [p]\<rparr>) ps))"

definition parsePublicationTables :: "string list \<Rightarrow> tablePattern" where
  "parsePublicationTables patterns = parse_patterns \<lparr>tp_allTables = False, tp_schemas = [], tp_tables = []\<rparr> patterns"

definition publication_target :: "tablePattern \<Rightarrow> string" where
  "publication_target tp =
     (if tp_allTables tp then '' FOR ALL TABLES''
      else if tp_schemas tp \<noteq> [] then '' FOR TABLES IN SCHEMA '' @ Join (tp_schemas tp) '', ''
      else if tp_tables tp \<noteq> [] then '' FOR TABLE '' @ Join (tp_tables tp) '', ''
      else [])"

definition generated_columns_param :: "ReplConn \<Rightarrow> ReplConfig \<Rightarrow> string list repl" where
  "generated_columns_param X cfg tr =
     (if cf_PublishGeneratedColumns cfg = PublishGeneratedColumnsUnset then (Inr [], tr)
      else (case serverVersionNum X tr of
          (Inl e, tr1) \<Rightarrow> (Inl (Wrapped ''checking server version for publish_generated_columns'' e), tr1)
        | (Inr verNum, tr1) \<Rightarrow>
            if verNum < minPgVersionGeneratedCols then (Inl (NeedsVersion18 (cf_PublishGeneratedColumns cfg) verNum), tr1)
            else (Inr [''publish_generated_columns = '' @ [CHR 0x27] @ cf_PublishGeneratedColumns cfg @ [CHR 0x27]], tr1)))"

definition reconcilePublication :: "ReplConn \<Rightarrow> ReplConfig \<Rightarrow> unit repl" where
  "reconcilePublication X cfg tr = (case generated_columns_param X cfg tr of
       (Inl e, tr1) \<Rightarrow> (Inl e, tr1)
     | (Inr ps, tr1) \<Rightarrow>
         if ps = [] then (Inr (), tr1)
         else (case exec_sql X (''ALTER PUBLICATION '' @ cf_Publication cfg @ '' SET ('' @ Join ps '', '' @ '')'') tr1 of
             (Inl e, tr2) \<Rightarrow> (Inl (Wrapped ''alter publication'' e), tr2) | (Inr _, tr2) \<Rightarrow> (Inr (), tr2)))"

definition publication_params :: "ReplConfig \<Rightarrow> string list" where
  "publication_params cfg =
     (if cf_Ops cfg \<noteq> [] then [''publish = '' @ [CHR 0x27] @ Join (cf_Ops cfg) '', '' @ [CHR 0x27]] else [])
     @ (if cf_PartitionRoot cfg then [''publish_via_partition_root = true''] else [])"

definition create_sql :: "ReplConfig \<Rightarrow> string list \<Rightarrow> string" where
  "create_sql cfg ps = ''CREATE PUBLICATION '' @ cf_Publication cfg @ publication_target (parsePublicationTables (cf_Tables cfg))
     @ (if ps \<noteq> [] then '' WITH ('' @ Join ps '', '' @ '')'' else [])"

definition create_publication :: "ReplConn \<Rightarrow> ReplConfig \<Rightarrow> unit repl" where
  "create_publication X cfg tr = (case generated_columns_param X cfg tr of
       (Inl e, tr1) \<Rightarrow> (Inl e, tr1)
     | (Inr gs, tr1) \<Rightarrow>
         (case exec_sql X (create_sql cfg (publication_params cfg @ gs)) tr1 of
             (Inl e, tr2) \<Rightarrow> (Inl (Wrapped ''create publication'' e), tr2) | (Inr _, tr2) \<Rightarrow> (Inr (), tr2)))"

definition ensurePublication :: "ReplConn \<Rightarrow> ReplConfig \<Rightarrow> unit repl" where
  "ensurePublication X cfg tr = (case checkExists X ''pg_publication'' ''pubname'' (cf_Publication cfg) tr of
       (Inl e, tr1) \<Rightarrow> (Inl e, tr1)
     | (Inr False, tr1) \<Rightarrow> create_publication X cfg tr1
     | (Inr True, tr1) \<Rightarrow> (case reconcilePublication X cfg tr1 of
         (Inl e, tr2) \<Rightarrow> (Inl (Wrapped ''alter publication'' e), tr2) | (Inr _, tr2) \<Rightarrow> (Inr (), tr2)))"

definition ensureSlot :: "ReplConn \<Rightarrow> string \<Rightarrow> string \<Rightarrow> unit repl" where
  "ensureSlot X slot plugin tr = (case checkExists X ''pg_replication_slots'' ''slot_name'' slot tr of
       (Inl e, tr1) \<Rightarrow> (Inl e, tr1)
     | (Inr True, tr1) \<Rightarrow> (Inr (), tr1)
     | (Inr False, tr1) \<Rightarrow> (case rx_create_slot X tr1 slot plugin of
         Some e \<Rightarrow> (Inl (ExecError e), tr1 @ [CreateReplicationSlot slot plugin])
       | None \<Rightarrow> (Inr (), tr1 @ [CreateReplicationSlot slot plugin])))"

definition plugin_args :: "ReplConfig \<Rightarrow> string list" where
  "plugin_args cfg = [''proto_version '' @ [CHR 0x27] @ ''4'' @ [CHR 0x27],
     ''publication_names '' @ [CHR 0x27] @ cf_Publication cfg @ [CHR 0x27],
     ''messages '' @ [CHR 0x27] @ ''true'' @ [CHR 0x27], ''streaming '' @ [CHR 0x27] @ ''true'' @ [CHR 0x27]]"

definition setupReplication :: "ReplConn \<Rightarrow> ReplConfig \<Rightarrow> unit repl" where
  "setupReplication X cfg tr = (case ensurePublication X cfg tr of
       (Inl e, tr1) \<Rightarrow> (Inl (Wrapped ''publication'' e), tr1)
     | (Inr _, tr1) \<Rightarrow> (case rx_identify X tr1 of
         Inl e \<Rightarrow> (Inl (Wrapped ''identify system'' (ExecError e)), tr1 @ [IdentifySystem])
       | Inr pos \<Rightarrow> (case ensureSlot X (cf_Slot cfg) (cf_Plugin cfg) (tr1 @ [IdentifySystem]) of
           (Inl e, tr2) \<Rightarrow> (Inl (Wrapped ''slot'' e), tr2)
         | (Inr _, tr2) \<Rightarrow> (case rx_start X tr2 (cf_Slot cfg) pos (plugin_args cfg) of
             Some e \<Rightarrow> (Inl (ExecError e), tr2 @ [StartReplication (cf_Slot cfg) pos (plugin_args cfg)])
           | None \<Rightarrow> (Inr (), tr2 @ [StartReplication (cf_Slot cfg) pos (plugin_args cfg)])))))"

text \<open>
  \<open>Stream\<close>: the merged configuration with which \<open>streamEvents\<close> is started. A negative buffer size makes
  \<open>make\<close> panic.
\<close>

definition Stream :: "ReplConn option \<Rightarrow> ReplConfig option \<Rightarrow> ReplConfig repl" where
  "Stream conn cfg tr = (case conn of
       None \<Rightarrow> (Inl NilConnection, tr)
     | Some X \<Rightarrow> (let c = mergeWithDefaults cfg in case validateConfig (Some c) of
         Some e \<Rightarrow> (Inl (Wrapped ''invalid configuration'' e), tr)
       | None \<Rightarrow>
           if cf_BufferSize c < 0 then (Inl Panic, tr)
           else (case setupReplication X c tr of
               (Inl e, tr1) \<Rightarrow> (Inl (Wrapped ''setup replication'' e), tr1) | (Inr _, tr1) \<Rightarrow> (Inr c, tr1))))"

section \<open>Messages\<close>

text \<open>The messages of the \<open>pgoutput\<close> plugin, with the fields the program reads.\<close>

type_synonym OID = "32 word"

record RelationColumn =
  rc_Name :: string
  rc_DataType :: OID

record Relation =
  rl_RelationID :: OID
  rl_Namespace :: string
  rl_RelationName :: string
  rl_Columns :: "RelationColumn list"

record TupleColumn =
  tc_DataType :: char
  tc_Data :: string

datatype LogicalMsg =
    RelationMsg Relation
  | InsertMsg OID "32 word" "TupleColumn list option"
  | UpdateMsg OID "32 word" "TupleColumn list option" "TupleColumn list option"
  | DeleteMsg OID "32 word" "TupleColumn list option"
  | TruncateMsg "32 word"
  | StreamStart
  | StreamStop
  | OtherMsg string

type_synonym relations = "(OID \<times> Relation) list"

text \<open>The codec of a type: how it decodes the text of a column. pigo's own codec keeps a UUID as text.\<close>

type_synonym TypeMap = "OID \<Rightarrow> (string \<Rightarrow> (string, any) result) option"

definition uuidTextCodec :: "string \<Rightarrow> (string, any) result" where
  "uuidTextCodec src = Inr (VStr src)"

definition newTypeMap :: "TypeMap \<Rightarrow> TypeMap" where
  "newTypeMap m = m(2950 := Some uuidTextCodec)"

definition decodeTextColumnData :: "TypeMap \<Rightarrow> string \<Rightarrow> OID \<Rightarrow> (string, any) result" where
  "decodeTextColumnData mi data dataType = (case mi dataType of Some codec \<Rightarrow> codec data | None \<Rightarrow> Inr (VStr data))"

definition decodeColumn :: "TupleColumn \<Rightarrow> TypeMap \<Rightarrow> OID \<Rightarrow> any" where
  "decodeColumn col typeMap dataType =
     (if tc_DataType col = CHR ''n'' then VNil
      else if tc_DataType col = CHR ''u'' then VNil
      else if tc_DataType col = CHR ''t'' then
        (case decodeTextColumnData typeMap (tc_Data col) dataType of Inl e \<Rightarrow> VNil | Inr v \<Rightarrow> v)
      else VNil)"

text \<open>The loop over the columns of a tuple: \<open>rel.Columns[idx]\<close> panics when the relation has fewer columns.\<close>

fun tuple_values :: "TypeMap \<Rightarrow> RelationColumn list \<Rightarrow> TupleColumn list \<Rightarrow> gomap \<Rightarrow> (repl_error, gomap) result" where
  "tuple_values tm cols [] m = Inr m"
| "tuple_values tm [] (c # cs) m = Inl Panic"
| "tuple_values tm (rc # cols) (c # cs) m = tuple_values tm cols cs (map_put (rc_Name rc) (decodeColumn c tm (rc_DataType rc)) m)"

text \<open>The source of a change, with the time at which it is built.\<close>

definition change_source :: "Relation \<Rightarrow> string \<Rightarrow> string \<Rightarrow> 32 word \<Rightarrow> int \<Rightarrow> int \<Rightarrow> Source" where
  "change_source rel serverName dbName xid lsn now =
     source_WithTimestamp now (source_WithTransaction (uint xid) lsn (WithTable (rl_RelationName rel)
       (WithSchema (rl_Namespace rel) (WithDatabase dbName (NewSourceBuilder ''postgresql'' serverName)))))"

type_synonym times = "int \<times> int"

definition handleInsertMessageV2 ::
  "OID \<Rightarrow> 32 word \<Rightarrow> TupleColumn list option \<Rightarrow> relations \<Rightarrow> TypeMap \<Rightarrow> string \<Rightarrow> string \<Rightarrow> int \<Rightarrow> times \<Rightarrow> (repl_error, Event) result" where
  "handleInsertMessageV2 relid xid tup rels tm serverName dbName lsn ts = (case map_of rels relid of
       None \<Rightarrow> Inr zero_event
     | Some rel \<Rightarrow> (case tup of None \<Rightarrow> Inl Panic
       | Some cols \<Rightarrow> (case tuple_values tm (rl_Columns rel) cols [] of Inl e \<Rightarrow> Inl e
         | Inr values \<Rightarrow> Inr (WithTimestamp (snd ts) (WithAfter (VMap values) (WithOperation Cdc.OpCreate
             (WithSource (change_source rel serverName dbName xid lsn (fst ts)) NewEventBuilder)))))))"

text \<open>An absent tuple of an update is an empty row.\<close>

definition optional_tuple :: "TypeMap \<Rightarrow> RelationColumn list \<Rightarrow> TupleColumn list option \<Rightarrow> (repl_error, gomap) result" where
  "optional_tuple tm cols tup = (case tup of None \<Rightarrow> Inr [] | Some cs \<Rightarrow> tuple_values tm cols cs [])"

definition handleUpdateMessageV2 ::
  "OID \<Rightarrow> 32 word \<Rightarrow> TupleColumn list option \<Rightarrow> TupleColumn list option \<Rightarrow> relations \<Rightarrow> TypeMap \<Rightarrow> string \<Rightarrow> string \<Rightarrow> int \<Rightarrow> times
     \<Rightarrow> (repl_error, Event) result" where
  "handleUpdateMessageV2 relid xid oldt newt rels tm serverName dbName lsn ts = (case map_of rels relid of
       None \<Rightarrow> Inr zero_event
     | Some rel \<Rightarrow> (case optional_tuple tm (rl_Columns rel) oldt of Inl e \<Rightarrow> Inl e
       | Inr oldValues \<Rightarrow> (case optional_tuple tm (rl_Columns rel) newt of Inl e \<Rightarrow> Inl e
         | Inr newValues \<Rightarrow> Inr (WithTimestamp (snd ts) (WithAfter (VMap newValues) (WithBefore (VMap oldValues) (WithOperation Cdc.OpUpdate
             (WithSource (change_source rel serverName dbName xid lsn (fst ts)) NewEventBuilder))))))))"

definition handleDeleteMessageV2 ::
  "OID \<Rightarrow> 32 word \<Rightarrow> TupleColumn list option \<Rightarrow> relations \<Rightarrow> TypeMap \<Rightarrow> string \<Rightarrow> string \<Rightarrow> int \<Rightarrow> times \<Rightarrow> (repl_error, Event) result" where
  "handleDeleteMessageV2 relid xid oldt rels tm serverName dbName lsn ts = (case map_of rels relid of
       None \<Rightarrow> Inr zero_event
     | Some rel \<Rightarrow> (case oldt of None \<Rightarrow> Inl Panic
       | Some cols \<Rightarrow> (case tuple_values tm (rl_Columns rel) cols [] of Inl e \<Rightarrow> Inl e
         | Inr oldValues \<Rightarrow> Inr (WithTimestamp (snd ts) (WithBefore (VMap oldValues) (WithOperation Cdc.OpDelete
             (WithSource (change_source rel serverName dbName xid lsn (fst ts)) NewEventBuilder)))))))"

text \<open>A truncation takes the first relation that the range over the map happens to visit (\<open>pick\<close>).\<close>

definition handleTruncateMessageV2 ::
  "(relations \<Rightarrow> nat) \<Rightarrow> 32 word \<Rightarrow> relations \<Rightarrow> string \<Rightarrow> string \<Rightarrow> int \<Rightarrow> times \<Rightarrow> Event" where
  "handleTruncateMessageV2 pick xid rels serverName dbName lsn ts =
     (if rels = [] then zero_event
      else (let rel = snd (rels ! (pick rels mod length rels)) in
        WithTimestamp (snd ts) (WithOperation Cdc.OpTruncate (WithSource (change_source rel serverName dbName xid lsn (fst ts)) NewEventBuilder))))"

record Env =
  en_ParseV2 :: "string \<Rightarrow> bool \<Rightarrow> LogicalMsg option"
  en_types :: TypeMap
  en_pick :: "relations \<Rightarrow> nat"
  en_keepalive :: "string \<Rightarrow> LSN option"
  en_xlog :: "string \<Rightarrow> (LSN \<times> string) option"
  en_server :: string

text \<open>What a message does to the known relations and to the streaming flag, and the event it gives.\<close>

definition process_msg :: "Env \<Rightarrow> LogicalMsg \<Rightarrow> relations \<Rightarrow> bool \<Rightarrow> times \<Rightarrow> (repl_error, Event list \<times> relations \<times> bool) result" where
  "process_msg E msg rels inStream ts =
     (let ev = (\<lambda>r. case r of Inl e \<Rightarrow> Inl e | Inr event \<Rightarrow> Inr ([event], rels, inStream)); tm = newTypeMap (en_types E) in
      case msg of
        RelationMsg rel \<Rightarrow> Inr ([], AList.update (rl_RelationID rel) rel rels, inStream)
      | InsertMsg relid xid tup \<Rightarrow> ev (handleInsertMessageV2 relid xid tup rels tm (en_server E) [] (uint xid) ts)
      | UpdateMsg relid xid oldt newt \<Rightarrow> ev (handleUpdateMessageV2 relid xid oldt newt rels tm (en_server E) [] (uint xid) ts)
      | DeleteMsg relid xid oldt \<Rightarrow> ev (handleDeleteMessageV2 relid xid oldt rels tm (en_server E) [] (uint xid) ts)
      | TruncateMsg xid \<Rightarrow> ev (Inr (handleTruncateMessageV2 (en_pick E) xid rels (en_server E) [] (uint xid) ts))
      | StreamStart \<Rightarrow> Inr ([], rels, True)
      | StreamStop \<Rightarrow> Inr ([], rels, False)
      | OtherMsg _ \<Rightarrow> Inr ([], rels, inStream))"

definition processV2 :: "Env \<Rightarrow> string \<Rightarrow> relations \<Rightarrow> bool \<Rightarrow> times \<Rightarrow> (repl_error, Event list \<times> relations \<times> bool) result" where
  "processV2 E walData rels inStream ts = (case en_ParseV2 E walData inStream of
       None \<Rightarrow> Inl Fatal
     | Some msg \<Rightarrow> process_msg E msg rels inStream ts)"

section \<open>The stream\<close>

text \<open>
  \<open>streamEvents\<close>, one iteration at a time. An iteration reads the clock, sends a status update when one is due
  (\<open>it_sent\<close>: whether that succeeds), and receives: nothing before the deadline, an error, another kind of
  message or copy data. The output is the sequence of reported positions and emitted events; a send to the
  channel waits for its reader and loses nothing.
\<close>

datatype recv = RecvTimeout | RecvError | OtherMessage | CopyData string

record Iteration =
  it_now :: int
  it_later :: int
  it_sent :: bool
  it_recv :: recv
  it_times :: times

datatype stream_output = Ack LSN | Emit Event

datatype stream_status = Running | Closed | Crashed repl_error

record StreamState =
  ss_relations :: relations
  ss_inStream :: bool
  ss_walPos :: LSN
  ss_nextStandby :: int
  ss_out :: "stream_output list"
  ss_status :: stream_status

definition start_stream :: "ReplConfig \<Rightarrow> int \<Rightarrow> StreamState" where
  "start_stream cfg now = \<lparr>ss_relations = [], ss_inStream = False, ss_walPos = 0, ss_nextStandby = now + cf_StandbyUpdateInterval cfg,
     ss_out = [], ss_status = Running\<rparr>"

definition advance_pos :: "LSN \<Rightarrow> LSN \<Rightarrow> LSN" where
  "advance_pos pos walPos = (if pos > walPos then pos else walPos)"

definition receive_data :: "Env \<Rightarrow> times \<Rightarrow> string \<Rightarrow> StreamState \<Rightarrow> StreamState" where
  "receive_data E ts data s = (case data of
       [] \<Rightarrow> s\<lparr>ss_status := Crashed Panic\<rparr>
     | kind # body \<Rightarrow>
         if kind = CHR ''k'' then
           (case en_keepalive E body of None \<Rightarrow> s | Some pos \<Rightarrow> s\<lparr>ss_walPos := advance_pos pos (ss_walPos s)\<rparr>)
         else if kind = CHR ''w'' then
           (case en_xlog E body of None \<Rightarrow> s
            | Some (pos, walData) \<Rightarrow>
                (let s1 = s\<lparr>ss_walPos := advance_pos pos (ss_walPos s)\<rparr> in
                 case processV2 E walData (ss_relations s) (ss_inStream s) ts of
                   Inl e \<Rightarrow> s1\<lparr>ss_status := Crashed e\<rparr>
                 | Inr (events, rels, inStream) \<Rightarrow>
                     s1\<lparr>ss_relations := rels, ss_inStream := inStream, ss_out := ss_out s1 @ map Emit events\<rparr>))
         else s)"

definition receive_msg :: "Env \<Rightarrow> Iteration \<Rightarrow> StreamState \<Rightarrow> StreamState" where
  "receive_msg E it s = (case it_recv it of
       RecvTimeout \<Rightarrow> s
     | RecvError \<Rightarrow> s\<lparr>ss_status := Closed\<rparr>
     | OtherMessage \<Rightarrow> s
     | CopyData data \<Rightarrow> receive_data E (it_times it) data s)"

definition stream_step :: "Env \<Rightarrow> ReplConfig \<Rightarrow> Iteration \<Rightarrow> StreamState \<Rightarrow> StreamState" where
  "stream_step E cfg it s =
     (if ss_status s \<noteq> Running then s
      else if it_now it > ss_nextStandby s then
        (if it_sent it then
           receive_msg E it (s\<lparr>ss_out := ss_out s @ [Ack (ss_walPos s)], ss_nextStandby := it_later it + cf_StandbyUpdateInterval cfg\<rparr>)
         else s\<lparr>ss_status := Closed\<rparr>)
      else receive_msg E it s)"

definition streamEvents :: "Env \<Rightarrow> ReplConfig \<Rightarrow> int \<Rightarrow> Iteration list \<Rightarrow> StreamState" where
  "streamEvents E cfg now its = fold (stream_step E cfg) its (start_stream cfg now)"

end
