(* ===== verification/LogReplProps.thy ===== *)
theory LogReplProps
  imports LogRepl
begin

text \<open>
  What the replication source promises: the events it emits describe the changes of the write-ahead log, in order
  and with the columns of the relation as announced last; the positions it reports; and how a stream is set up.
\<close>

section \<open>Rows\<close>

definition row_pairs :: "TypeMap \<Rightarrow> RelationColumn list \<Rightarrow> TupleColumn list \<Rightarrow> (string \<times> any) list" where
  "row_pairs tm cols cs = map2 (\<lambda>rc c. (rc_Name rc, decodeColumn c tm (rc_DataType rc))) cols cs"

lemma tuple_values_put_all:
  "tuple_values tm cols cs m = (if length cs \<le> length cols then Inr (gomap.put_all (row_pairs tm cols cs) m) else Inl Panic)"
  by (induction tm cols cs m rule: tuple_values.induct) (auto simp: row_pairs_def)

lemma row_pairs_names: "map fst (row_pairs tm cols cs) = take (length cs) (map rc_Name cols)"
  by (intro nth_equalityI) (auto simp: row_pairs_def)

text \<open>A decoded row: each column of the tuple under its name, the last one winning when names repeat.\<close>

definition row_of :: "TypeMap \<Rightarrow> Relation \<Rightarrow> TupleColumn list \<Rightarrow> any \<Rightarrow> bool" where
  "row_of tm rel cs v = (length cs \<le> length (rl_Columns rel)
     \<and> (\<exists>m. v = VMap m \<and> distinct (map fst m) \<and> map_of m = map_of (rev (row_pairs tm (rl_Columns rel) cs))))"

lemma tuple_values_row: "tuple_values tm (rl_Columns rel) cs [] = Inr m \<Longrightarrow> row_of tm rel cs (VMap m)"
  using gomap.lookup_put_all [of "[]" "row_pairs tm (rl_Columns rel) cs"]
    gomap.invar_put_all [of "[]" "row_pairs tm (rl_Columns rel) cs"]
  by (simp add: tuple_values_put_all row_of_def split: if_splits)

lemma optional_tuple_row: "optional_tuple tm (rl_Columns rel) tup = Inr m \<Longrightarrow> row_of tm rel (case tup of None \<Rightarrow> [] | Some cs \<Rightarrow> cs) (VMap m)"
  using tuple_values_row [of tm rel "[]"] by (cases tup) (simp_all add: optional_tuple_def tuple_values_row)

lemma row_of_column:
  assumes "row_of tm rel cs (VMap m)" and "distinct (map rc_Name (rl_Columns rel))" and "i < length cs"
  shows "map_of m (rc_Name (rl_Columns rel ! i)) = Some (decodeColumn (cs ! i) tm (rc_DataType (rl_Columns rel ! i)))"
proof -
  let ?ps = "row_pairs tm (rl_Columns rel) cs"
  have len: "length cs \<le> length (rl_Columns rel)" and m: "map_of m = map_of (rev ?ps)" using assms(1) by (auto simp: row_of_def)
  have "distinct (map fst (rev ?ps))" using assms(2) row_pairs_names by (simp add: rev_map [symmetric] distinct_take)
  moreover have "(rc_Name (rl_Columns rel ! i), decodeColumn (cs ! i) tm (rc_DataType (rl_Columns rel ! i))) \<in> set (rev ?ps)"
    using assms(3) len unfolding row_pairs_def set_rev in_set_conv_nth by (intro exI [of _ i]) simp
  ultimately show ?thesis using m by (simp add: map_of_is_SomeI)
qed

section \<open>Messages and events\<close>

text \<open>The relation announced last under an identifier.\<close>

definition announced :: "LogicalMsg \<Rightarrow> (OID \<times> Relation) list" where
  "announced m = (case m of RelationMsg rel \<Rightarrow> [(rl_RelationID rel, rel)] | _ \<Rightarrow> [])"

definition last_relation :: "LogicalMsg list \<Rightarrow> OID \<Rightarrow> Relation option" where
  "last_relation ms = map_of (rev (concat (map announced ms)))"

definition is_change :: "LogicalMsg \<Rightarrow> bool" where
  "is_change m = (case m of InsertMsg _ _ _ \<Rightarrow> True | UpdateMsg _ _ _ _ \<Rightarrow> True | DeleteMsg _ _ _ \<Rightarrow> True | TruncateMsg _ \<Rightarrow> True | _ \<Rightarrow> False)"

definition change_of :: "Relation \<Rightarrow> string \<Rightarrow> 32 word \<Rightarrow> Operation \<Rightarrow> Event \<Rightarrow> bool" where
  "change_of rel server xid op e = (pa_Op (ev_Payload e) = op \<and> so_Connector (ev_source e) = ''postgresql'' \<and> so_Name (ev_source e) = server
     \<and> so_Schema (ev_source e) = rl_Namespace rel \<and> so_Table (ev_source e) = rl_RelationName rel \<and> so_TxID (ev_source e) = uint xid)"

text \<open>
  The event of a change, given the messages before it: the operation, the table, the transaction and the rows.
  A change of a relation that was not announced gives the zero event; a truncation names some announced relation.
\<close>

definition describes :: "Env \<Rightarrow> LogicalMsg list \<Rightarrow> LogicalMsg \<Rightarrow> Event \<Rightarrow> bool" where
  "describes E before m e = (let tm = newTypeMap (en_types E); row = (\<lambda>tup. case tup of None \<Rightarrow> [] | Some cs \<Rightarrow> cs) in case m of
       InsertMsg relid xid tup \<Rightarrow> (case last_relation before relid of None \<Rightarrow> e = zero_event
         | Some rel \<Rightarrow> change_of rel (en_server E) xid ''c'' e \<and> pa_Before (ev_Payload e) = VNil \<and> row_of tm rel (row tup) (pa_After (ev_Payload e)))
     | UpdateMsg relid xid oldt newt \<Rightarrow> (case last_relation before relid of None \<Rightarrow> e = zero_event
         | Some rel \<Rightarrow> change_of rel (en_server E) xid ''u'' e \<and> row_of tm rel (row oldt) (pa_Before (ev_Payload e))
             \<and> row_of tm rel (row newt) (pa_After (ev_Payload e)))
     | DeleteMsg relid xid oldt \<Rightarrow> (case last_relation before relid of None \<Rightarrow> e = zero_event
         | Some rel \<Rightarrow> change_of rel (en_server E) xid ''d'' e \<and> row_of tm rel (row oldt) (pa_Before (ev_Payload e)) \<and> pa_After (ev_Payload e) = VNil)
     | TruncateMsg xid \<Rightarrow> (if \<forall>relid. last_relation before relid = None then e = zero_event
         else \<exists>relid rel. last_relation before relid = Some rel \<and> change_of rel (en_server E) xid ''t'' e)
     | _ \<Rightarrow> False)"

lemma last_relation_snoc:
  "last_relation (ms @ [m]) relid = (case m of RelationMsg rel \<Rightarrow> if rl_RelationID rel = relid then Some rel else last_relation ms relid
     | _ \<Rightarrow> last_relation ms relid)"
  by (auto simp: last_relation_def announced_def split: LogicalMsg.split)

lemma change_source_simps [simp]:
  "so_Connector (change_source rel srv db xid lsn now) = ''postgresql''" "so_Name (change_source rel srv db xid lsn now) = srv"
  "so_Schema (change_source rel srv db xid lsn now) = rl_Namespace rel" "so_Table (change_source rel srv db xid lsn now) = rl_RelationName rel"
  "so_TxID (change_source rel srv db xid lsn now) = uint xid"
  by (simp_all add: change_source_def cdc_builders)

text \<open>The relations known to the program are those announced last.\<close>

definition known :: "relations \<Rightarrow> LogicalMsg list \<Rightarrow> bool" where
  "known rels ms = (distinct (map fst rels) \<and> map_of rels = last_relation ms)"

lemma known_relation: "known rels ms \<Longrightarrow> known (AList.update (rl_RelationID rel) rel rels) (ms @ [RelationMsg rel])"
  by (auto simp: known_def distinct_update update_conv' last_relation_snoc fun_eq_iff)

lemma known_other: "known rels ms \<Longrightarrow> (\<And>rel. m \<noteq> RelationMsg rel) \<Longrightarrow> known rels (ms @ [m])"
  by (cases m) (auto simp: known_def last_relation_snoc fun_eq_iff)

lemma event_simps: "change_of rel srv xid op (WithTimestamp t e) = change_of rel srv xid op e"
  "change_of rel srv xid op (WithAfter v e) = change_of rel srv xid op e"
  "change_of rel srv xid op (WithBefore v e) = change_of rel srv xid op e"
  "change_of rel srv xid op (WithOperation op (WithSource (change_source rel srv db xid lsn now) NewEventBuilder))"
  by (simp_all add: change_of_def WithTimestamp_def WithAfter_def WithBefore_def WithOperation_def WithSource_def)

lemma payload_simps: "pa_Before (ev_Payload (WithTimestamp t e)) = pa_Before (ev_Payload e)" "pa_After (ev_Payload (WithTimestamp t e)) = pa_After (ev_Payload e)"
  "pa_Before (ev_Payload (WithAfter v e)) = pa_Before (ev_Payload e)" "pa_After (ev_Payload (WithAfter v e)) = v"
  "pa_Before (ev_Payload (WithBefore v e)) = v" "pa_After (ev_Payload (WithBefore v e)) = pa_After (ev_Payload e)"
  "pa_Before (ev_Payload (WithOperation op (WithSource s NewEventBuilder))) = VNil" "pa_After (ev_Payload (WithOperation op (WithSource s NewEventBuilder))) = VNil"
  by (simp_all add: WithTimestamp_def WithAfter_def WithBefore_def WithOperation_def WithSource_def NewEventBuilder_def zero_event_def zero_payload_def)

lemma handlers_describe:
  assumes "known rels ms"
  shows "handleInsertMessageV2 relid xid tup rels (newTypeMap (en_types E)) (en_server E) db lsn ts = Inr e \<Longrightarrow> describes E ms (InsertMsg relid xid tup) e"
    and "handleUpdateMessageV2 relid xid oldt newt rels (newTypeMap (en_types E)) (en_server E) db lsn ts = Inr e \<Longrightarrow> describes E ms (UpdateMsg relid xid oldt newt) e"
    and "handleDeleteMessageV2 relid xid oldt rels (newTypeMap (en_types E)) (en_server E) db lsn ts = Inr e \<Longrightarrow> describes E ms (DeleteMsg relid xid oldt) e"
proof -
  have k: "map_of rels = last_relation ms" using assms by (simp add: known_def)
  note ops = Cdc.OpCreate_def Cdc.OpUpdate_def Cdc.OpDelete_def
  show "handleInsertMessageV2 relid xid tup rels (newTypeMap (en_types E)) (en_server E) db lsn ts = Inr e \<Longrightarrow> describes E ms (InsertMsg relid xid tup) e"
    unfolding handleInsertMessageV2_def describes_def k Let_def
    by (auto simp: event_simps payload_simps ops tuple_values_row split: option.splits sum.splits)
  show "handleUpdateMessageV2 relid xid oldt newt rels (newTypeMap (en_types E)) (en_server E) db lsn ts = Inr e \<Longrightarrow> describes E ms (UpdateMsg relid xid oldt newt) e"
    unfolding handleUpdateMessageV2_def describes_def k Let_def
    by (simp add: event_simps payload_simps ops split: option.split_asm sum.split_asm)
      (auto simp: event_simps payload_simps dest!: optional_tuple_row)
  show "handleDeleteMessageV2 relid xid oldt rels (newTypeMap (en_types E)) (en_server E) db lsn ts = Inr e \<Longrightarrow> describes E ms (DeleteMsg relid xid oldt) e"
    unfolding handleDeleteMessageV2_def describes_def k Let_def
    by (auto simp: event_simps payload_simps ops tuple_values_row split: option.splits sum.splits)
qed

text \<open>A truncation names a relation announced before.\<close>

lemma truncate_describes:
  assumes "known rels ms"
  shows "describes E ms (TruncateMsg xid) (handleTruncateMessageV2 pick xid rels (en_server E) db lsn ts)"
proof (cases "rels = []")
  case True
  then have "\<forall>relid. last_relation ms relid = None" using assms by (auto simp: known_def fun_eq_iff)
  then show ?thesis using True by (simp add: describes_def handleTruncateMessageV2_def)
next
  case False
  obtain relid rel where r: "rels ! (pick rels mod length rels) = (relid, rel)" by force
  have "(relid, rel) \<in> set rels" using False r by (metis length_greater_0_conv mod_less_divisor nth_mem)
  then have "last_relation ms relid = Some rel" using assms by (metis known_def map_of_is_SomeI)
  then show ?thesis
    using False r unfolding describes_def handleTruncateMessageV2_def Let_def
    by (auto simp: event_simps Cdc.OpTruncate_def intro!: exI [of _ relid] exI [of _ rel])
qed

text \<open>One message: the events it gives, and what is known after it.\<close>

lemma process_msg_describes:
  assumes "known rels ms" and "process_msg E m rels b ts = Inr (events, rels', b')"
  shows "known rels' (ms @ [m])" and "(is_change m \<and> (\<exists>e. events = [e] \<and> describes E ms m e)) \<or> (\<not> is_change m \<and> events = [])"
proof -
  show "known rels' (ms @ [m])"
    using assms by (cases m) (auto simp: process_msg_def Let_def known_relation known_other split: sum.splits)
  show "(is_change m \<and> (\<exists>e. events = [e] \<and> describes E ms m e)) \<or> (\<not> is_change m \<and> events = [])"
    using assms
    by (cases m) (auto simp: process_msg_def Let_def is_change_def intro: handlers_describe truncate_describes split: sum.splits)
qed

section \<open>The log and the output\<close>

text \<open>The data of an iteration that carries a piece of the log, and the messages in it.\<close>

definition log_in :: "Env \<Rightarrow> string \<Rightarrow> string list" where
  "log_in E data = (case data of
       [] \<Rightarrow> []
     | kind # body \<Rightarrow> if kind = CHR ''w'' then (case en_xlog E body of None \<Rightarrow> [] | Some (_, walData) \<Rightarrow> [walData]) else [])"

definition wal_data :: "Env \<Rightarrow> Iteration \<Rightarrow> string list" where
  "wal_data E it = (case it_recv it of CopyData data \<Rightarrow> log_in E data | _ \<Rightarrow> [])"

definition stream_flag :: "LogicalMsg \<Rightarrow> bool \<Rightarrow> bool" where
  "stream_flag m b = (case m of StreamStart \<Rightarrow> True | StreamStop \<Rightarrow> False | _ \<Rightarrow> b)"

fun parse_log :: "Env \<Rightarrow> bool \<Rightarrow> string list \<Rightarrow> (LogicalMsg list \<times> bool) option" where
  "parse_log E b [] = Some ([], b)"
| "parse_log E b (w # ws) = (case en_ParseV2 E w b of None \<Rightarrow> None
     | Some m \<Rightarrow> (case parse_log E (stream_flag m b) ws of None \<Rightarrow> None | Some (ms, b') \<Rightarrow> Some (m # ms, b')))"

lemma parse_log_snoc:
  "parse_log E b ws = Some (ms, b') \<Longrightarrow> en_ParseV2 E w b' = Some m \<Longrightarrow> parse_log E b (ws @ [w]) = Some (ms @ [m], stream_flag m b')"
  by (induction ws arbitrary: b ms) (auto split: option.splits)

definition the_log :: "Env \<Rightarrow> Iteration list \<Rightarrow> string list" where
  "the_log E its = concat (map (wal_data E) its)"

definition emitted :: "StreamState \<Rightarrow> Event list" where
  "emitted s = concat (map (\<lambda>o'. case o' of Emit e \<Rightarrow> [e] | _ \<Rightarrow> []) (ss_out s))"

definition acks :: "StreamState \<Rightarrow> LSN list" where
  "acks s = concat (map (\<lambda>o'. case o' of Ack p \<Rightarrow> [p] | _ \<Rightarrow> []) (ss_out s))"

definition changes :: "LogicalMsg list \<Rightarrow> nat list" where
  "changes ms = filter (\<lambda>i. is_change (ms ! i)) [0..<length ms]"

lemma changes_snoc: "changes (ms @ [m]) = changes ms @ (if is_change m then [length ms] else [])"
proof -
  have "filter (\<lambda>i. is_change ((ms @ [m]) ! i)) [0..<length ms] = filter (\<lambda>i. is_change (ms ! i)) [0..<length ms]"
    by (rule filter_cong) (auto simp: nth_append)
  then show ?thesis by (simp add: changes_def)
qed

definition described_by :: "Env \<Rightarrow> LogicalMsg list \<Rightarrow> Event list \<Rightarrow> bool" where
  "described_by E ms es = list_all2 (\<lambda>i e. describes E (take i ms) (ms ! i) e) (changes ms) es"

lemma described_snoc:
  assumes "described_by E ms es"
  shows "is_change m \<Longrightarrow> describes E ms m e \<Longrightarrow> described_by E (ms @ [m]) (es @ [e])" and "\<not> is_change m \<Longrightarrow> described_by E (ms @ [m]) es"
proof -
  have old: "list_all2 (\<lambda>i e. describes E (take i (ms @ [m])) ((ms @ [m]) ! i) e) (changes ms) es"
    using assms unfolding described_by_def by (rule list.rel_mono_strong) (auto simp: changes_def nth_append)
  show "is_change m \<Longrightarrow> describes E ms m e \<Longrightarrow> described_by E (ms @ [m]) (es @ [e])"
    using old by (simp add: described_by_def changes_snoc list_all2_appendI)
  show "\<not> is_change m \<Longrightarrow> described_by E (ms @ [m]) es" using old by (simp add: described_by_def changes_snoc)
qed

lemma emitted_simps [simp]: "emitted (s\<lparr>ss_out := ss_out s @ [Ack p]\<rparr>) = emitted s"
  "emitted (s\<lparr>ss_out := ss_out s' @ map Emit es\<rparr>) = emitted s' @ es"
  by (simp_all add: emitted_def comp_def)

text \<open>The invariant of a running stream.\<close>

definition stream_inv :: "Env \<Rightarrow> string list \<Rightarrow> StreamState \<Rightarrow> bool" where
  "stream_inv E ws s = (\<exists>ms. parse_log E False ws = Some (ms, ss_inStream s) \<and> known (ss_relations s) ms \<and> described_by E ms (emitted s))"

lemma receive_data_inv:
  assumes "stream_inv E ws s" and "ss_status (receive_data E ts data s) = Running" and "ss_status s = Running"
  shows "stream_inv E (ws @ log_in E data) (receive_data E ts data s)"
proof (cases "\<exists>body pos d. data = CHR ''w'' # body \<and> en_xlog E body = Some (pos, d)")
  case True
  then obtain body pos d where d: "data = CHR ''w'' # body" "en_xlog E body = Some (pos, d)" by blast
  then obtain events rels b where p: "processV2 E d (ss_relations s) (ss_inStream s) ts = Inr (events, rels, b)"
    using assms(2) by (auto simp: receive_data_def Let_def split: sum.splits prod.splits)
  then obtain m where m: "en_ParseV2 E d (ss_inStream s) = Some m" "process_msg E m (ss_relations s) (ss_inStream s) ts = Inr (events, rels, b)"
    by (auto simp: processV2_def split: option.splits)
  have b: "b = stream_flag m (ss_inStream s)"
    using m(2) by (cases m) (auto simp: process_msg_def Let_def stream_flag_def split: sum.splits)
  obtain ms where ms: "parse_log E False ws = Some (ms, ss_inStream s)" "known (ss_relations s) ms" "described_by E ms (emitted s)"
    using assms(1) by (auto simp: stream_inv_def)
  have "described_by E (ms @ [m]) (emitted s @ events)"
    using process_msg_describes(2) [OF ms(2) m(2)] described_snoc [OF ms(3)] by auto
  then show ?thesis
    using d p parse_log_snoc [OF ms(1) m(1)] process_msg_describes(1) [OF ms(2) m(2)]
    unfolding stream_inv_def by (auto simp: receive_data_def log_in_def Let_def b emitted_def comp_def)
next
  case False
  then show ?thesis
    using assms by (auto simp: receive_data_def log_in_def stream_inv_def emitted_def Let_def split: list.splits if_splits option.splits)
qed

text \<open>An iteration in its two parts: the status update, if it is due, and the message.\<close>

definition standby :: "ReplConfig \<Rightarrow> Iteration \<Rightarrow> StreamState \<Rightarrow> StreamState" where
  "standby cfg it s = (if it_now it > ss_nextStandby s
     then s\<lparr>ss_out := ss_out s @ [Ack (ss_walPos s)], ss_nextStandby := it_later it + cf_StandbyUpdateInterval cfg\<rparr> else s)"

lemma standby_frame [simp]:
  "ss_relations (standby cfg it s) = ss_relations s" "ss_inStream (standby cfg it s) = ss_inStream s" "ss_walPos (standby cfg it s) = ss_walPos s"
  "ss_status (standby cfg it s) = ss_status s" "emitted (standby cfg it s) = emitted s"
  "acks (standby cfg it s) = acks s @ (if it_now it > ss_nextStandby s then [ss_walPos s] else [])"
  by (simp_all add: standby_def emitted_def acks_def)

lemma stream_step_parts: "ss_status s = Running \<Longrightarrow> stream_step E cfg it s =
    (if it_now it > ss_nextStandby s \<and> \<not> it_sent it then s\<lparr>ss_status := Closed\<rparr> else receive_msg E it (standby cfg it s))"
  by (simp add: stream_step_def standby_def)

lemma stream_step_inv:
  assumes "ss_status s = Running \<Longrightarrow> stream_inv E ws s" and "ss_status (stream_step E cfg it s) = Running"
  shows "stream_inv E (ws @ wal_data E it) (stream_step E cfg it s)"
proof -
  have run: "ss_status s = Running" using assms(2) by (auto simp: stream_step_def split: if_splits)
  have st: "stream_step E cfg it s = receive_msg E it (standby cfg it s)"
    using assms(2) run by (auto simp: stream_step_parts split: if_splits)
  have inv: "stream_inv E ws (standby cfg it s)" "ss_status (standby cfg it s) = Running"
    using assms(1) [OF run] run by (auto simp: stream_inv_def)
  show ?thesis
  proof (cases "it_recv it")
    case (CopyData data)
    then have r: "stream_step E cfg it s = receive_data E (it_times it) data (standby cfg it s)" unfolding st by (simp add: receive_msg_def)
    have "wal_data E it = log_in E data" using CopyData by (simp add: wal_data_def)
    then show ?thesis using receive_data_inv [OF inv(1) _ inv(2)] assms(2) unfolding r by simp
  qed (use assms(2) inv in \<open>auto simp: st receive_msg_def wal_data_def\<close>)
qed

lemma streamEvents_inv: "ss_status (streamEvents E cfg now its) = Running \<Longrightarrow> stream_inv E (the_log E its) (streamEvents E cfg now its)"
proof (induction its rule: rev_induct)
  case Nil
  show ?case by (simp add: streamEvents_def start_stream_def the_log_def stream_inv_def known_def last_relation_def described_by_def changes_def emitted_def)
next
  case (snoc it its)
  have "streamEvents E cfg now (its @ [it]) = stream_step E cfg it (streamEvents E cfg now its)" by (simp add: streamEvents_def)
  then show ?case using snoc stream_step_inv [of "streamEvents E cfg now its" E "the_log E its"] by (simp add: the_log_def)
qed

section \<open>What stops a stream\<close>

text \<open>The conditions under which an iteration goes well, given the state it starts from.\<close>

definition fits :: "relations \<Rightarrow> OID \<Rightarrow> TupleColumn list option \<Rightarrow> bool" where
  "fits rels relid tup = (case map_of rels relid of None \<Rightarrow> True
     | Some rel \<Rightarrow> (case tup of None \<Rightarrow> False | Some cs \<Rightarrow> length cs \<le> length (rl_Columns rel)))"

definition good_msg :: "relations \<Rightarrow> LogicalMsg \<Rightarrow> bool" where
  "good_msg rels m = (case m of InsertMsg relid _ tup \<Rightarrow> fits rels relid tup
     | UpdateMsg relid _ oldt newt \<Rightarrow> (oldt = None \<or> fits rels relid oldt) \<and> (newt = None \<or> fits rels relid newt)
     | DeleteMsg relid _ oldt \<Rightarrow> fits rels relid oldt | _ \<Rightarrow> True)"

definition good_iteration :: "Env \<Rightarrow> Iteration \<Rightarrow> StreamState \<Rightarrow> bool" where
  "good_iteration E it s = ((it_now it > ss_nextStandby s \<longrightarrow> it_sent it) \<and> it_recv it \<noteq> RecvError \<and> it_recv it \<noteq> CopyData []
     \<and> (\<forall>w \<in> set (wal_data E it). \<exists>m. en_ParseV2 E w (ss_inStream s) = Some m \<and> good_msg (ss_relations s) m))"

lemma process_msg_good: "is_ok (process_msg E m rels b ts) \<longleftrightarrow> good_msg rels m"
  by (cases m) (auto simp: process_msg_def Let_def good_msg_def fits_def handleInsertMessageV2_def handleUpdateMessageV2_def
      handleDeleteMessageV2_def tuple_values_put_all optional_tuple_def is_ok_conv split: option.splits if_splits)

lemma good_iteration_runs:
  assumes "ss_status s = Running"
  shows "ss_status (stream_step E cfg it s) = Running \<longleftrightarrow> good_iteration E it s"
proof -
  have ok: "is_ok (processV2 E w rels b ts) \<longleftrightarrow> (\<exists>m. en_ParseV2 E w b = Some m \<and> good_msg rels m)" for w rels b ts
    by (auto simp: processV2_def process_msg_good [of E _ rels b ts, symmetric] is_ok_conv split: option.splits)
  have data: "ss_status (receive_data E ts d s') = Running \<longleftrightarrow> d \<noteq> [] \<and> (\<forall>w \<in> set (log_in E d). is_ok (processV2 E w (ss_relations s') (ss_inStream s') ts))"
    if run: "ss_status s' = Running" for ts d s'
  proof (cases "\<exists>body pos w. d = CHR ''w'' # body \<and> en_xlog E body = Some (pos, w)")
    case True
    then obtain body pos w where w: "d = CHR ''w'' # body" "en_xlog E body = Some (pos, w)" by blast
    then show ?thesis
      using run by (cases "processV2 E w (ss_relations s') (ss_inStream s') ts") (auto simp: receive_data_def log_in_def Let_def)
  next
    case False
    then have "log_in E d = []" by (auto simp: log_in_def split: list.split option.split)
    moreover have "ss_status (receive_data E ts d s') = Running \<longleftrightarrow> d \<noteq> []"
      using False run by (auto simp: receive_data_def split: list.split option.split)
    ultimately show ?thesis by simp
  qed
  have "ss_status (receive_msg E it (standby cfg it s)) = Running \<longleftrightarrow> it_recv it \<noteq> RecvError \<and> it_recv it \<noteq> CopyData []
      \<and> (\<forall>w \<in> set (wal_data E it). \<exists>m. en_ParseV2 E w (ss_inStream s) = Some m \<and> good_msg (ss_relations s) m)"
    using assms data [of "standby cfg it s"] by (cases "it_recv it") (simp_all add: receive_msg_def wal_data_def ok)
  then show ?thesis using assms by (simp add: stream_step_parts good_iteration_def)
qed

section \<open>Positions\<close>

text \<open>The position an iteration announces; 0 when it announces none.\<close>

definition position :: "Env \<Rightarrow> Iteration \<Rightarrow> LSN" where
  "position E it = (case it_recv it of
       CopyData (kind # body) \<Rightarrow>
         if kind = CHR ''k'' then (case en_keepalive E body of None \<Rightarrow> 0 | Some p \<Rightarrow> p)
         else if kind = CHR ''w'' then (case en_xlog E body of None \<Rightarrow> 0 | Some (p, _) \<Rightarrow> p) else 0
     | _ \<Rightarrow> 0)"

definition highest :: "LSN list \<Rightarrow> LSN" where
  "highest ps = fold max ps 0"

lemma highest_snoc [simp]: "highest [] = 0" "highest (ps @ [p]) = max p (highest ps)"
  by (simp_all add: highest_def)

lemma advance_pos_max: "advance_pos p q = max p q"
  by (auto simp: advance_pos_def max_def)

lemma receive_pos:
  "ss_walPos (receive_msg E it s) = max (position E it) (ss_walPos s)" "acks (receive_msg E it s) = acks s"
proof -
  have zero: "max 0 x = x" for x :: LSN by (simp add: max_def)
  have "ss_walPos (receive_data E ts data s) = max (position E (it\<lparr>it_recv := CopyData data\<rparr>)) (ss_walPos s) \<and> acks (receive_data E ts data s) = acks s" for ts data
  proof (cases data)
    case (Cons k body)
    show ?thesis
    proof (cases "k = CHR ''w''")
      case True
      show ?thesis
      proof (cases "en_xlog E body")
        case (Some xld)
        then obtain p d where d: "en_xlog E body = Some (p, d)" by (cases xld) auto
        then show ?thesis
          using Cons True by (cases "processV2 E d (ss_relations s) (ss_inStream s) ts")
            (auto simp: receive_data_def Let_def position_def acks_def advance_pos_max comp_def)
      qed (use Cons True in \<open>simp add: receive_data_def position_def zero\<close>)
    qed (use Cons in \<open>cases "en_keepalive E body"; simp add: receive_data_def position_def advance_pos_max acks_def zero\<close>)
  qed (simp add: receive_data_def position_def acks_def zero)
  note d = this
  show "ss_walPos (receive_msg E it s) = max (position E it) (ss_walPos s)" "acks (receive_msg E it s) = acks s"
    using d by (cases "it_recv it"; simp add: receive_msg_def position_def acks_def zero)+
qed

text \<open>What is true of the positions in every state, and the highest position announced so far while the stream runs.\<close>

definition pos_inv :: "LSN list \<Rightarrow> StreamState \<Rightarrow> bool" where
  "pos_inv ps s = (sorted (acks s) \<and> (\<forall>p \<in> set (acks s). p \<le> ss_walPos s \<and> p \<in> insert 0 (set ps)) \<and> ss_walPos s \<in> insert 0 (set ps)
     \<and> (ss_status s = Running \<longrightarrow> ss_walPos s = highest ps))"

lemma stream_step_pos:
  assumes "pos_inv ps s"
  shows "pos_inv (ps @ [position E it]) (stream_step E cfg it s)"
proof (cases "ss_status s = Running")
  case True
  have w: "p \<le> ss_walPos s \<Longrightarrow> p \<le> max (position E it) (ss_walPos s)" for p by (simp add: le_max_iff_disj)
  have m: "max (position E it) (ss_walPos s) \<in> insert 0 (set (ps @ [position E it]))"
    using assms by (auto simp: pos_inv_def max_def)
  show ?thesis
  proof (cases "it_now it > ss_nextStandby s \<and> \<not> it_sent it")
    case True
    then show ?thesis
      using assms \<open>ss_status s = Running\<close> unfolding pos_inv_def by (auto simp: stream_step_parts acks_def)
  next
    case False
    then have st: "stream_step E cfg it s = receive_msg E it (standby cfg it s)" using True by (auto simp: stream_step_parts)
    show ?thesis
      using assms True w m unfolding pos_inv_def st by (auto simp: receive_pos sorted_append)
  qed
next
  case False
  then show ?thesis using assms by (auto simp: pos_inv_def stream_step_def)
qed

lemma streamEvents_pos: "pos_inv (map (position E) its) (streamEvents E cfg now its)"
proof (induction its rule: rev_induct)
  case Nil
  show ?case by (simp add: streamEvents_def start_stream_def pos_inv_def acks_def)
next
  case (snoc it its)
  then show ?case using stream_step_pos [OF snoc.IH, of E it cfg] by (simp add: streamEvents_def)
qed

section \<open>Properties of the stream\<close>

text \<open>
  C26. While a replication stream runs, the log it has received parses, and the events it has emitted are exactly the
  row changes and truncations of that log, in order: each with its operation, its transaction, the schema and table
  and the columns of the relation announced last under its identifier, each column decoded by its type. (A
  change of a relation never announced gives an empty event, and a truncation names some announced relation.)
\<close>

theorem stream_describes_log:
  assumes "ss_status (streamEvents E cfg now its) = Running"
  shows "\<exists>ms b. parse_log E False (the_log E its) = Some (ms, b)
    \<and> list_all2 (\<lambda>i e. describes E (take i ms) (ms ! i) e) (changes ms) (emitted (streamEvents E cfg now its))"
  using streamEvents_inv [OF assms] unfolding stream_inv_def described_by_def by blast

definition example_relation :: Relation where
  "example_relation = \<lparr>rl_RelationID = 7, rl_Namespace = ''public'', rl_RelationName = ''users'',
     rl_Columns = [\<lparr>rc_Name = ''id'', rc_DataType = 23\<rparr>, \<lparr>rc_Name = ''name'', rc_DataType = 25\<rparr>]\<rparr>"

definition example_insert :: LogicalMsg where
  "example_insert = InsertMsg 7 42 (Some [\<lparr>tc_DataType = CHR ''t'', tc_Data = ''1''\<rparr>, \<lparr>tc_DataType = CHR ''n'', tc_Data = []\<rparr>])"

definition example_env :: Env where
  "example_env = \<lparr>en_ParseV2 = (\<lambda>w b. map_of [(''R'', RelationMsg example_relation), (''I'', example_insert), (''S'', StreamStart),
       (''E'', StreamStop), (''A'', OtherMsg ''stream abort'')] w),
     en_types = (\<lambda>_. None), en_pick = (\<lambda>_. 0), en_keepalive = (\<lambda>_. Some 9), en_xlog = (\<lambda>body. Some (5, body)), en_server = ''db''\<rparr>"

definition receives :: "string \<Rightarrow> Iteration" where
  "receives data = \<lparr>it_now = 0, it_later = 0, it_sent = True, it_recv = CopyData data, it_times = (3, 4)\<rparr>"

lemmas run_simps = streamEvents_def start_stream_def stream_step_def receive_msg_def receive_data_def receives_def example_env_def
  processV2_def process_msg_def handleInsertMessageV2_def example_insert_def example_relation_def advance_pos_def Let_def

theorem stream_describes_log_witness:
  "\<exists>e. emitted (streamEvents example_env DefaultConfig 0 [receives ''wR'', receives ''wI'']) = [e] \<and> so_Table (ev_source e) = ''users''
     \<and> (\<exists>m. pa_After (ev_Payload e) = VMap m \<and> map_of m ''id'' = Some (VStr ''1''))"
proof -
  let ?s = "streamEvents example_env DefaultConfig 0 [receives ''wR'', receives ''wI'']"
  have run: "ss_status ?s = Running" by (simp add: run_simps DefaultConfig_def defaultStandbyUpdateInterval_def second_def)
  have log: "parse_log example_env False (the_log example_env [receives ''wR'', receives ''wI'']) = Some ([RelationMsg example_relation, example_insert], False)"
    by (simp add: the_log_def wal_data_def log_in_def receives_def example_env_def stream_flag_def example_insert_def)
  have "changes [RelationMsg example_relation, example_insert] = [1]" by (simp add: changes_def is_change_def example_insert_def upt_rec)
  then obtain e where e: "emitted ?s = [e]" "describes example_env [RelationMsg example_relation] example_insert e"
    using stream_describes_log [OF run] log by (auto simp: list_all2_Cons1)
  have rel: "last_relation [RelationMsg example_relation] 7 = Some example_relation"
    by (simp add: last_relation_def announced_def example_relation_def)
  obtain m where m: "change_of example_relation ''db'' 42 ''c'' e" "pa_After (ev_Payload e) = VMap m"
      "row_of (newTypeMap (\<lambda>_. None)) example_relation [\<lparr>tc_DataType = CHR ''t'', tc_Data = ''1''\<rparr>, \<lparr>tc_DataType = CHR ''n'', tc_Data = []\<rparr>] (VMap m)"
    using e(2) rel by (auto simp: describes_def example_insert_def example_env_def row_of_def)
  have "map_of m ''id'' = Some (VStr ''1'')"
    using row_of_column [OF m(3), of 0] by (simp add: example_relation_def decodeColumn_def decodeTextColumnData_def newTypeMap_def)
  then show ?thesis using e(1) m(1,2) by (auto simp: change_of_def example_relation_def)
qed

text \<open>
  The stream asks for streamed transactions but does not wait for their commit: a change of a transaction that the
  server streams and then aborts has been emitted.
\<close>

lemma aborted_changes_are_emitted:
  "length (emitted (streamEvents example_env DefaultConfig 0 (map receives [''wR'', ''wS'', ''wI'', ''wE'', ''wA'']))) = 1"
  by (simp add: run_simps DefaultConfig_def defaultStandbyUpdateInterval_def second_def emitted_def tuple_values_put_all)

text \<open>
  C27. The positions reported to the server never go back, and each is a position the server announced before (or 0): in
  particular the last one never exceeds the highest announced.
\<close>

theorem standby_positions:
  "sorted (acks (streamEvents E cfg now its)) \<and> set (acks (streamEvents E cfg now its)) \<subseteq> insert 0 (set (map (position E) its))"
  using streamEvents_pos [of E its cfg now] unfolding pos_inv_def by blast

text \<open>
  C29. A running stream goes on and reports: when the standby interval is over and the connection works, the next iteration
  sends the highest position announced so far, and the next report is due one interval later. A running stream ends
  only with a failed report, a failed receive, data that does not parse or a tuple that does not fit its relation.
\<close>

theorem standby_is_reported:
  assumes "ss_status (streamEvents E cfg now its) = Running" and "good_iteration E it (streamEvents E cfg now its)"
    and "it_now it > ss_nextStandby (streamEvents E cfg now its)"
  shows "ss_status (streamEvents E cfg now (its @ [it])) = Running
    \<and> acks (streamEvents E cfg now (its @ [it])) = acks (streamEvents E cfg now its) @ [highest (map (position E) its)]
    \<and> ss_nextStandby (streamEvents E cfg now (its @ [it])) = it_later it + cf_StandbyUpdateInterval cfg"
proof -
  let ?s = "streamEvents E cfg now its"
  have st: "streamEvents E cfg now (its @ [it]) = stream_step E cfg it ?s" by (simp add: streamEvents_def)
  have r: "stream_step E cfg it ?s = receive_msg E it (standby cfg it ?s)"
    using assms by (auto simp: stream_step_parts good_iteration_def)
  have pos: "ss_walPos ?s = highest (map (position E) its)" using streamEvents_pos [of E its cfg now] assms(1) by (simp add: pos_inv_def)
  have due: "ss_nextStandby (receive_msg E it s) = ss_nextStandby s" for s
    by (auto simp: receive_msg_def receive_data_def Let_def split: recv.split list.split option.split sum.split)
  show ?thesis
    using good_iteration_runs [OF assms(1), of E cfg it] assms(2,3) unfolding st r
    by (simp add: receive_pos pos due) (simp add: standby_def)
qed

theorem standby_is_reported_witness:
  "acks (streamEvents example_env DefaultConfig 0 ([receives ''wR'', receives ''kx''] @ [receives ''wI''\<lparr>it_now := 20000000000\<rparr>])) = [9]"
proof -
  let ?its = "[receives ''wR'', receives ''kx'']" and ?it = "receives ''wI''\<lparr>it_now := 20000000000\<rparr>"
  let ?s = "streamEvents example_env DefaultConfig 0 ?its"
  have run: "ss_status ?s = Running" "ss_nextStandby ?s = 10000000000" "acks ?s = []" "map_of (ss_relations ?s) 7 = Some example_relation"
    by (simp_all add: run_simps DefaultConfig_def defaultStandbyUpdateInterval_def second_def acks_def)
  have "good_iteration example_env ?it ?s"
    using run(4) by (simp add: good_iteration_def wal_data_def log_in_def receives_def example_env_def good_msg_def fits_def example_insert_def example_relation_def)
  from standby_is_reported [OF run(1) this] show ?thesis
    unfolding run(2,3) by (simp add: position_def receives_def example_env_def highest_def)
qed

section \<open>Setting up a stream\<close>

lemma merged_config:
  "cf_Publication (mergeWithDefaults cfg) \<noteq> []" "cf_Slot (mergeWithDefaults cfg) \<noteq> []" "cf_Ops (mergeWithDefaults cfg) \<noteq> []"
  "mergeWithDefaults (Some (mergeWithDefaults cfg)) = mergeWithDefaults cfg"
  by (cases cfg; simp add: mergeWithDefaults_def cmp_Or_def DefaultConfig_def defaultPublication_def defaultSlot_def Let_def)+

lemma exec_sql_cases:
  "exec_sql X sql tr = (r, tr') \<Longrightarrow> tr' = tr @ [Exec sql] \<and> (\<forall>rs. r = Inr rs \<longrightarrow> rx_exec X tr sql = Inr rs)"
  by (auto simp: exec_sql_def split: sum.splits)

definition answers_true :: "ReplConn \<Rightarrow> repl_cmd list \<Rightarrow> string \<Rightarrow> bool" where
  "answers_true X tr sql = (case rx_exec X tr sql of Inl _ \<Rightarrow> False | Inr rs \<Rightarrow> first_cell rs = Some ''t'')"

lemma checkExists_ok:
  "checkExists X table column value tr = (Inr b, tr') \<Longrightarrow>
     tr' = tr @ [Exec (exists_sql table column value)] \<and> b = answers_true X tr (exists_sql table column value)"
  by (auto simp: checkExists_def answers_true_def exec_sql_def split: if_splits sum.splits prod.splits)

lemma serverVersionNum_trace: "serverVersionNum X tr = (r, tr') \<Longrightarrow> tr' = tr @ [Exec ''SHOW server_version_num'']"
  by (auto simp: serverVersionNum_def exec_sql_def split: sum.splits prod.splits option.splits)

lemma generated_columns_param_ok:
  assumes "generated_columns_param X cfg tr = (Inr gs, tr')"
  shows "(cf_PublishGeneratedColumns cfg = [] \<and> gs = [] \<and> tr' = tr)
    \<or> (cf_PublishGeneratedColumns cfg \<noteq> [] \<and> gs = [''publish_generated_columns = '' @ [CHR 0x27] @ cf_PublishGeneratedColumns cfg @ [CHR 0x27]]
        \<and> tr' = tr @ [Exec ''SHOW server_version_num''])"
  using assms serverVersionNum_trace [of X tr]
  by (auto simp: generated_columns_param_def PublishGeneratedColumnsUnset_def split: if_splits sum.splits prod.splits)

text \<open>The commands that make sure of the publication, and those that make sure of the slot.\<close>

definition version_checks :: "ReplConfig \<Rightarrow> repl_cmd list" where
  "version_checks cfg = (if cf_PublishGeneratedColumns cfg = [] then [] else [Exec ''SHOW server_version_num''])"

definition generated_params :: "ReplConfig \<Rightarrow> string list" where
  "generated_params cfg = (if cf_PublishGeneratedColumns cfg = [] then []
     else [''publish_generated_columns = '' @ [CHR 0x27] @ cf_PublishGeneratedColumns cfg @ [CHR 0x27]])"

definition publication_cmds :: "ReplConn \<Rightarrow> ReplConfig \<Rightarrow> repl_cmd list" where
  "publication_cmds X cfg = (let check = exists_sql ''pg_publication'' ''pubname'' (cf_Publication cfg) in
     Exec check # version_checks cfg @
       (if \<not> answers_true X [] check then [Exec (create_sql cfg (publication_params cfg @ generated_params cfg))]
        else if generated_params cfg = [] then []
        else [Exec (''ALTER PUBLICATION '' @ cf_Publication cfg @ '' SET ('' @ Join (generated_params cfg) '', '' @ '')'')]))"

definition slot_cmds :: "ReplConn \<Rightarrow> repl_cmd list \<Rightarrow> ReplConfig \<Rightarrow> repl_cmd list" where
  "slot_cmds X before cfg = (let check = exists_sql ''pg_replication_slots'' ''slot_name'' (cf_Slot cfg) in
     Exec check # (if answers_true X before check then [] else [CreateReplicationSlot (cf_Slot cfg) (cf_Plugin cfg)]))"

lemma generated_columns_param_cmds:
  "generated_columns_param X cfg tr = (Inr gs, tr') \<Longrightarrow> gs = generated_params cfg \<and> tr' = tr @ version_checks cfg"
  using generated_columns_param_ok [of X cfg tr gs tr'] by (auto simp: generated_params_def version_checks_def)

lemma ensurePublication_ok:
  assumes "ensurePublication X cfg [] = (Inr u, tr)"
  shows "tr = publication_cmds X cfg"
proof -
  obtain b tr1 where c: "checkExists X ''pg_publication'' ''pubname'' (cf_Publication cfg) [] = (Inr b, tr1)"
    using assms by (auto simp: ensurePublication_def split: prod.splits sum.splits)
  note check = checkExists_ok [OF c]
  show ?thesis
  proof (cases b)
    case False
    obtain gs tr2 where g: "generated_columns_param X cfg tr1 = (Inr gs, tr2)"
      using assms c False by (auto simp: ensurePublication_def create_publication_def split: prod.splits sum.splits)
    show ?thesis
      using assms c False g check generated_columns_param_cmds [OF g]
      by (auto simp: ensurePublication_def create_publication_def publication_cmds_def Let_def exec_sql_def split: sum.splits)
  next
    case True
    obtain gs tr2 where g: "generated_columns_param X cfg tr1 = (Inr gs, tr2)"
      using assms c True by (auto simp: ensurePublication_def reconcilePublication_def split: prod.splits sum.splits)
    show ?thesis
      using assms c True g check generated_columns_param_cmds [OF g]
      by (auto simp: ensurePublication_def reconcilePublication_def publication_cmds_def Let_def exec_sql_def split: sum.splits if_splits prod.splits)
  qed
qed

lemma ensureSlot_ok: "ensureSlot X (cf_Slot cfg) (cf_Plugin cfg) tr = (Inr u, tr') \<Longrightarrow> tr' = tr @ slot_cmds X tr cfg"
  using checkExists_ok [of X "''pg_replication_slots''" "''slot_name''" "cf_Slot cfg" tr]
  by (auto simp: ensureSlot_def slot_cmds_def Let_def split: prod.splits sum.splits bool.splits option.splits)

text \<open>
  When a stream starts, its configuration is complete and valid, and the commands sent were exactly these, in order: the
  publication is created if and only if it did not exist (and altered only for generated columns), then the server is
  asked for its position, then the slot is created if and only if it did not exist, and replication starts on that slot
  at that position.
\<close>

theorem stream_setup:
  assumes "Stream (Some X) cfg [] = (Inr c, tr)"
  shows "c = mergeWithDefaults cfg \<and> validateConfig (Some c) = None
    \<and> (\<exists>pos. rx_identify X (publication_cmds X c) = Inr pos
      \<and> (let before = publication_cmds X c @ [IdentifySystem] in
           tr = before @ slot_cmds X before c @ [StartReplication (cf_Slot c) pos (plugin_args c)]))"
proof -
  have c: "c = mergeWithDefaults cfg" "validateConfig (Some c) = None" "setupReplication X c [] = (Inr (), tr)"
    using assms by (auto simp: Stream_def Let_def split: option.splits if_splits prod.splits sum.splits)
  obtain tr1 where p: "ensurePublication X c [] = (Inr (), tr1)"
    using c(3) by (auto simp: setupReplication_def split: prod.splits sum.splits)
  obtain pos where i: "rx_identify X tr1 = Inr pos" using c(3) p by (auto simp: setupReplication_def split: sum.splits)
  obtain tr2 where s: "ensureSlot X (cf_Slot c) (cf_Plugin c) (tr1 @ [IdentifySystem]) = (Inr (), tr2)"
    using c(3) p i by (auto simp: setupReplication_def split: prod.splits sum.splits)
  have "tr = tr2 @ [StartReplication (cf_Slot c) pos (plugin_args c)]"
    using c(3) p i s by (auto simp: setupReplication_def split: option.splits)
  then show ?thesis
    using c i ensurePublication_ok [OF p] ensureSlot_ok [OF s] by (auto simp: Let_def)
qed

definition example_conn :: ReplConn where
  "example_conn = \<lparr>rx_exec = (\<lambda>_ _. Inr [[(''f'', [])]]), rx_identify = (\<lambda>_. Inr 77), rx_create_slot = (\<lambda>_ _ _. None), rx_start = (\<lambda>_ _ _ _. None)\<rparr>"

lemma example_setup: "fst (Stream (Some example_conn) None []) = Inr DefaultConfig"
  by (simp add: Stream_def mergeWithDefaults_def validateConfig_def DefaultConfig_def defaultStandbyUpdateInterval_def second_def
      defaultBufferSize_def PublishGeneratedColumnsUnset_def setupReplication_def ensurePublication_def checkExists_def exec_sql_def example_conn_def first_cell_def create_publication_def
      generated_columns_param_def ensureSlot_def Let_def)

theorem stream_setup_witness:
  "StartReplication ''pigo_slot'' 77 (plugin_args DefaultConfig) = List.last (snd (Stream (Some example_conn) None []))"
proof -
  obtain tr where t: "Stream (Some example_conn) None [] = (Inr DefaultConfig, tr)" using example_setup by (metis prod.collapse)
  show ?thesis
    using stream_setup [OF t] unfolding t by (auto simp: example_conn_def Let_def DefaultConfig_def defaultSlot_def)
qed

text \<open>A publication for schemas and single tables leaves the tables out.\<close>

lemma tables_beside_schemas_are_dropped:
  "publication_target (parsePublicationTables [''sales.*'', ''public.users'']) = '' FOR TABLES IN SCHEMA sales''"
proof -
  have "LastIndex ''sales.*'' ''.*'' = Some (Suc 4)" "LastIndex ''public.users'' ''.*'' = None" by code_simp+
  then show ?thesis by (simp add: publication_target_def parsePublicationTables_def)
qed

end
