(* ===== verification/Crud.thy ===== *)
theory Crud
  imports SchemaCache LogRepl
begin

text \<open>
  Writing rows (\<open>pkg/pgx/crud.go\<close>) and the PostgreSQL peer of a pipeline (\<open>pkg/pipeline/peer/pg/peer.go\<close>), which
  writes change events as INSERT and UPDATE statements. The connection is a parameter that answers a statement with
  its bound values by an error or the number of affected rows; the statements sent are returned.
\<close>

section \<open>Rows\<close>

datatype crud_error = NotAMap | InsertFailed string | NoWhere | UpdateFailed string | NoRowsUpdated | BadJSON string

record queryBuilder =
  qb_schema :: string
  qb_table :: string
  qb_columns :: "string list"
  qb_values :: argList
  qb_nextIndex :: nat

definition newQueryBuilder :: "string \<Rightarrow> string list \<Rightarrow> queryBuilder" where
  "newQueryBuilder tableName schema = \<lparr>qb_schema = (case schema of s # _ \<Rightarrow> if s \<noteq> [] then s else ''public'' | [] \<Rightarrow> ''public''),
     qb_table = tableName, qb_columns = [], qb_values = [], qb_nextIndex = 1\<rparr>"

definition addValue :: "string \<Rightarrow> any \<Rightarrow> queryBuilder \<Rightarrow> queryBuilder" where
  "addValue column value qb = qb\<lparr>qb_columns := qb_columns qb @ [column], qb_values := qb_values qb @ [value]\<rparr>"

definition placeholder :: "queryBuilder \<Rightarrow> string \<times> queryBuilder" where
  "placeholder qb = (''$'' @ itoa_nat (qb_nextIndex qb), qb\<lparr>qb_nextIndex := qb_nextIndex qb + 1\<rparr>)"

definition tableIdentifier :: "golib \<Rightarrow> queryBuilder \<Rightarrow> string" where
  "tableIdentifier L qb = lib_sanitize L [qb_schema qb, qb_table qb]"

text \<open>The loop over a map: each column, quoted, with its placeholder; the value is bound to it.\<close>

fun bind_columns :: "golib \<Rightarrow> gomap \<Rightarrow> queryBuilder \<Rightarrow> (string \<times> string) list \<times> queryBuilder" where
  "bind_columns L [] qb = ([], qb)"
| "bind_columns L ((k, v) # m) qb =
     (let (ph, qb1) = placeholder qb; (cs, qb2) = bind_columns L m (addValue [] v qb1) in ((lib_sanitize L [k], ph) # cs, qb2))"

type_synonym sent = "(string \<times> argList) list"
type_synonym pg_exec = "string \<Rightarrow> argList \<Rightarrow> (string, nat) result"

definition InsertRow :: "golib \<Rightarrow> pg_exec \<Rightarrow> string \<Rightarrow> any \<Rightarrow> string list \<Rightarrow> crud_error option \<times> sent" where
  "InsertRow L X tableName data schema = (case data of
       VMap m \<Rightarrow>
         (let (cs, qb) = bind_columns L m (newQueryBuilder tableName schema);
              sql = ''INSERT INTO '' @ tableIdentifier L qb @ '' ('' @ Join (map fst cs) '', '' @ '') VALUES ('' @ Join (map snd cs) '', '' @ '')''
          in (case X sql (qb_values qb) of Inl e \<Rightarrow> Some (InsertFailed e) | Inr _ \<Rightarrow> None, [(sql, qb_values qb)]))
     | _ \<Rightarrow> (Some NotAMap, []))"

definition UpdateRow :: "golib \<Rightarrow> pg_exec \<Rightarrow> string \<Rightarrow> any \<Rightarrow> gomap \<Rightarrow> string list \<Rightarrow> crud_error option \<times> sent" where
  "UpdateRow L X tableName data conds schema = (case data of
       VMap m \<Rightarrow>
         (let (sets, qb1) = bind_columns L m (newQueryBuilder tableName schema);
              (wheres, qb) = bind_columns L conds qb1;
              clauses = (\<lambda>cs. map (\<lambda>(c, ph). c @ '' = '' @ ph) cs);
              sql = ''UPDATE '' @ tableIdentifier L qb @ '' SET '' @ Join (clauses sets) '', '' @ '' WHERE '' @ Join (clauses wheres) '' AND ''
          in if wheres = [] then (Some NoWhere, [])
             else (case X sql (qb_values qb) of
                 Inl e \<Rightarrow> Some (UpdateFailed e)
               | Inr n \<Rightarrow> if n = 0 then Some NoRowsUpdated else None, [(sql, qb_values qb)]))
     | _ \<Rightarrow> (Some NotAMap, []))"

text \<open>JSON input; decoding into a map is a parameter.\<close>

type_synonym unmarshal = "string \<Rightarrow> (string, gomap) result"

definition parseJSON :: "unmarshal \<Rightarrow> string \<Rightarrow> (crud_error, gomap) result" where
  "parseJSON U data = (case U data of Inl e \<Rightarrow> Inl (BadJSON e) | Inr m \<Rightarrow> Inr m)"

definition InsertRowJSON :: "golib \<Rightarrow> pg_exec \<Rightarrow> unmarshal \<Rightarrow> string \<Rightarrow> string \<Rightarrow> string list \<Rightarrow> crud_error option \<times> sent" where
  "InsertRowJSON L X U tableName json schema = (case parseJSON U json of
       Inl e \<Rightarrow> (Some e, []) | Inr m \<Rightarrow> InsertRow L X tableName (VMap m) schema)"

definition UpdateRowJSON :: "golib \<Rightarrow> pg_exec \<Rightarrow> unmarshal \<Rightarrow> string \<Rightarrow> string \<Rightarrow> gomap \<Rightarrow> string list \<Rightarrow> crud_error option \<times> sent" where
  "UpdateRowJSON L X U tableName json conds schema = (case parseJSON U json of
       Inl e \<Rightarrow> (Some e, []) | Inr m \<Rightarrow> UpdateRow L X tableName (VMap m) conds schema)"

section \<open>The PostgreSQL peer\<close>

record PgConfig =
  pc_ConnString :: string
  pc_Replication :: ReplConfig

text \<open>The peer's handles: the pool and the replication connection, if open, and the tables the watcher keeps up to date.\<close>

record PeerPG =
  pg_pool :: "bool"
  pg_conn :: "ReplConn option"
  pg_cfg :: PgConfig
  pg_tables :: tables

datatype pg_error =
    NotConnected | NoTableName | TableNotFound string | BeforeMissing | NoKeyValues string | UnknownOperation | PgPanic
  | Crud crud_error | ConfigParse string | BadConnString string | ConnectFailed string | PoolFailed string | PingFailed string
  | CacheFailed string | CacheInitFailed string

text \<open>
  What connecting depends on: the decoded configuration, whether its connection string asks for replication, and
  the outcome of each step.
\<close>

record pg_lib =
  pl_config :: "string \<Rightarrow> (string, PgConfig) result"
  pl_replication :: "string \<Rightarrow> (string, bool) result"
  pl_connect :: "string \<Rightarrow> (string, ReplConn) result"
  pl_pool :: "string \<Rightarrow> string option"
  pl_ping :: "string option"
  pl_cache :: "string \<Rightarrow> string option"
  pl_init :: "string option"

definition Connect_pg :: "pg_lib \<Rightarrow> string \<Rightarrow> PeerPG \<Rightarrow> pg_error option \<times> PeerPG" where
  "Connect_pg P config p = (case pl_config P config of
       Inl e \<Rightarrow> (Some (ConfigParse e), p)
     | Inr cfg \<Rightarrow> (let p1 = p\<lparr>pg_cfg := cfg\<rparr> in case pl_replication P (pc_ConnString cfg) of
         Inl e \<Rightarrow> (Some (BadConnString e), p1)
       | Inr True \<Rightarrow> (case pl_connect P (pc_ConnString cfg) of
           Inl e \<Rightarrow> (Some (ConnectFailed e), p1\<lparr>pg_conn := None\<rparr>) | Inr c \<Rightarrow> (None, p1\<lparr>pg_conn := Some c\<rparr>))
       | Inr False \<Rightarrow> (case pl_pool P (pc_ConnString cfg) of
           Some e \<Rightarrow> (Some (PoolFailed e), p1\<lparr>pg_pool := False\<rparr>)
         | None \<Rightarrow> (let p2 = p1\<lparr>pg_pool := True\<rparr> in case pl_ping P of
             Some e \<Rightarrow> (Some (PingFailed e), p2)
           | None \<Rightarrow> (case pl_cache P (pc_ConnString cfg) of
               Some e \<Rightarrow> (Some (CacheFailed e), p2)
             | None \<Rightarrow> (case pl_init P of Some e \<Rightarrow> (Some (CacheInitFailed e), p2) | None \<Rightarrow> (None, p2)))))))"

definition watch_tables :: "tables \<Rightarrow> PeerPG \<Rightarrow> PeerPG" where
  "watch_tables t p = p\<lparr>pg_tables := t\<rparr>"

definition Sub_pg :: "PeerPG \<Rightarrow> (pg_error + ReplConfig repl)" where
  "Sub_pg p = (case pg_conn p of None \<Rightarrow> Inl NotConnected | Some c \<Rightarrow> Inr (Stream (Some c) (Some (pc_Replication (pg_cfg p)))))"

text \<open>
  The values of the primary key columns in \<open>Before\<close>: the type assertion panics on a \<open>Before\<close> that is not a map,
  once there is a key column to look up.
\<close>

fun key_values :: "string list \<Rightarrow> any \<Rightarrow> gomap \<Rightarrow> (pg_error, gomap) result" where
  "key_values [] before acc = Inr acc"
| "key_values (k # ks) before acc = (case before of
       VMap m \<Rightarrow> key_values ks before (case map_of m k of Some v \<Rightarrow> map_put k v acc | None \<Rightarrow> acc)
     | _ \<Rightarrow> Inl PgPanic)"

definition lift_crud :: "crud_error option \<times> sent \<Rightarrow> pg_error option \<times> sent" where
  "lift_crud r = (map_option Crud (fst r), snd r)"

definition Pub_pg :: "golib \<Rightarrow> pg_exec \<Rightarrow> PeerPG \<Rightarrow> Event \<Rightarrow> pg_error option \<times> sent" where
  "Pub_pg L X p e =
     (let pa = ev_Payload e; tableName = so_Table (ev_source e); schemaName = so_Schema (ev_source e);
          fullTableName = schemaName @ ''.'' @ tableName
      in if \<not> pg_pool p \<or> pa_After pa = VNil then (Some NotConnected, [])
         else if tableName = [] then (Some NoTableName, [])
         else (case map_of (pg_tables p) fullTableName of
           None \<Rightarrow> (Some (TableNotFound fullTableName), [])
         | Some table \<Rightarrow>
             if pa_Op pa = Cdc.OpCreate then lift_crud (InsertRow L X tableName (pa_After pa) [schemaName])
             else if pa_Op pa = Cdc.OpUpdate then
               (if pa_Before pa = VNil then (Some BeforeMissing, [])
                else (case key_values (tbl_PrimaryKeys table) (pa_Before pa) [] of
                    Inl err \<Rightarrow> (Some err, [])
                  | Inr conds \<Rightarrow>
                      if conds = [] then (Some (NoKeyValues fullTableName), [])
                      else lift_crud (UpdateRow L X tableName (pa_After pa) conds [schemaName])))
             else if pa_Op pa \<in> {Cdc.OpDelete, Cdc.OpTruncate} then (None, [])
             else (Some UnknownOperation, [])))"

section \<open>What the peer sends\<close>

text \<open>The columns of a row, quoted, each with the placeholder of its position.\<close>

definition columns_from :: "golib \<Rightarrow> nat \<Rightarrow> gomap \<Rightarrow> (string \<times> string) list" where
  "columns_from L n m = map (\<lambda>(i, k, v). (lib_sanitize L [k], ''$'' @ itoa_nat i)) (List.enumerate n m)"

definition assignments :: "golib \<Rightarrow> nat \<Rightarrow> gomap \<Rightarrow> string list" where
  "assignments L n m = map (\<lambda>(c, ph). c @ '' = '' @ ph) (columns_from L n m)"

lemma bind_columns_eq:
  "bind_columns L m qb = (columns_from L (qb_nextIndex qb) m,
     qb\<lparr>qb_columns := qb_columns qb @ replicate (length m) [], qb_values := qb_values qb @ map snd m, qb_nextIndex := qb_nextIndex qb + length m\<rparr>)"
  by (induction L m qb rule: bind_columns.induct) (simp_all add: columns_from_def placeholder_def addValue_def)

lemma columns_from_Nil [simp]: "columns_from L n m = [] \<longleftrightarrow> m = []"
  by (cases m) (simp_all add: columns_from_def)

lemma newQueryBuilder_simps [simp]:
  "qb_table (newQueryBuilder t sch) = t" "qb_values (newQueryBuilder t sch) = []" "qb_nextIndex (newQueryBuilder t sch) = 1"
  "qb_schema (newQueryBuilder t [s]) = (if s = [] then ''public'' else s)"
  by (simp_all add: newQueryBuilder_def)

lemma InsertRow_sends:
  "snd (InsertRow L X t (VMap m) [s]) = [(''INSERT INTO '' @ lib_sanitize L [if s = [] then ''public'' else s, t] @ '' ('' @
     Join (map fst (columns_from L 1 m)) '', '' @ '') VALUES ('' @ Join (map snd (columns_from L 1 m)) '', '' @ '')'', map snd m)]"
  by (simp add: InsertRow_def bind_columns_eq tableIdentifier_def Let_def)

lemma UpdateRow_sends:
  "conds \<noteq> [] \<Longrightarrow> snd (UpdateRow L X t (VMap m) conds [s]) =
     [(''UPDATE '' @ lib_sanitize L [if s = [] then ''public'' else s, t] @ '' SET '' @ Join (assignments L 1 m) '', '' @ '' WHERE '' @
       Join (assignments L (1 + length m) conds) '' AND '', map snd m @ map snd conds)]"
  by (simp add: UpdateRow_def bind_columns_eq tableIdentifier_def assignments_def Let_def)

lemma key_values_ok:
  assumes "key_values ks before acc = Inr conds" and "distinct (map fst acc)"
  shows "distinct (map fst conds)" and "ks = [] \<or> (\<exists>m. before = VMap m)"
    and "\<And>m k v. before = VMap m \<Longrightarrow> map_of conds k = (if k \<in> set ks \<and> map_of m k \<noteq> None then map_of m k else map_of acc k)"
proof -
  have "distinct (map fst conds) \<and> (ks = [] \<or> (\<exists>m. before = VMap m))
    \<and> (\<forall>m k. before = VMap m \<longrightarrow> map_of conds k = (if k \<in> set ks \<and> map_of m k \<noteq> None then map_of m k else map_of acc k))"
    using assms
  proof (induction ks before acc rule: key_values.induct)
    case (2 k ks before acc)
    then obtain m where m: "before = VMap m" by (cases before) auto
    let ?acc = "case map_of m k of Some v \<Rightarrow> map_put k v acc | None \<Rightarrow> acc"
    have d: "distinct (map fst ?acc)" using 2(3) by (auto simp: distinct_map_put split: option.split)
    have r: "key_values ks before ?acc = Inr conds" using 2(2) by (simp add: m)
    from 2(1) [OF m r d] show ?case by (auto simp: m split: option.splits)
  qed simp
  then show "distinct (map fst conds)" "ks = [] \<or> (\<exists>m. before = VMap m)"
    "\<And>m k v. before = VMap m \<Longrightarrow> map_of conds k = (if k \<in> set ks \<and> map_of m k \<noteq> None then map_of m k else map_of acc k)"
    by blast+
qed

lemma key_values_map: "\<exists>conds. key_values ks (VMap m) acc = Inr conds"
  by (induction ks arbitrary: acc) auto

text \<open>
  C9. For an update event the PostgreSQL sink sends at most one statement, and one only when the table of the event is
  known. This UPDATE always has a WHERE clause that compares exactly the table's primary key columns found in
  \<open>Before\<close> with their old values; every column of \<open>After\<close> is set; names are quoted and all values are bound, the
  \<open>i\<close>-th at placeholder \<open>i\<close>.
\<close>

theorem pg_sink_update:
  assumes "Pub_pg L X p e = (r, stmts)" and "pa_Op (ev_Payload e) = Cdc.OpUpdate" and "stmts \<noteq> []"
  shows "\<exists>t after before conds. map_of (pg_tables p) (so_Schema (ev_source e) @ ''.'' @ so_Table (ev_source e)) = Some t
    \<and> pa_After (ev_Payload e) = VMap after \<and> pa_Before (ev_Payload e) = VMap before
    \<and> conds \<noteq> [] \<and> distinct (map fst conds)
    \<and> (\<forall>k. map_of conds k = (if k \<in> set (tbl_PrimaryKeys t) then map_of before k else None))
    \<and> stmts = [(''UPDATE '' @ lib_sanitize L [if so_Schema (ev_source e) = [] then ''public'' else so_Schema (ev_source e), so_Table (ev_source e)]
        @ '' SET '' @ Join (assignments L 1 after) '', '' @ '' WHERE '' @ Join (assignments L (1 + length after) conds) '' AND '',
        map snd after @ map snd conds)]"
proof -
  obtain t conds where t: "map_of (pg_tables p) (so_Schema (ev_source e) @ ''.'' @ so_Table (ev_source e)) = Some t"
      and c: "key_values (tbl_PrimaryKeys t) (pa_Before (ev_Payload e)) [] = Inr conds" "conds \<noteq> []"
      and s: "stmts = snd (UpdateRow L X (so_Table (ev_source e)) (pa_After (ev_Payload e)) conds [so_Schema (ev_source e)])"
    using assms by (auto simp: Pub_pg_def Let_def lift_crud_def Cdc.OpUpdate_def Cdc.OpCreate_def split: if_splits option.splits sum.splits)
  obtain after where a: "pa_After (ev_Payload e) = VMap after" using assms(3) s by (cases "pa_After (ev_Payload e)") (auto simp: UpdateRow_def)
  note kv = key_values_ok [OF c(1), simplified]
  obtain before where b: "pa_Before (ev_Payload e) = VMap before" using kv(2) c by (cases "tbl_PrimaryKeys t") auto
  show ?thesis
    using t a b c(2) kv(1) kv(3) [OF b] s UpdateRow_sends [OF c(2)]
    by (intro exI [of _ t] exI [of _ after] exI [of _ before] exI [of _ conds]) auto
qed

definition example_keyed :: Table where
  "example_keyed = \<lparr>tbl_Schema = ''public'', tbl_Name = ''seats'', tbl_Type = ''TABLE'', tbl_Columns = [], tbl_PrimaryKeys = [''row'', ''seat''],
     tbl_ForeignKeys = [], tbl_ViewQuery = []\<rparr>"

definition example_update :: "gomap \<Rightarrow> Event" where
  "example_update before = WithOperation Cdc.OpUpdate (WithBefore (VMap before) (WithAfter (VMap [(''guest'', VStr ''Ada'')])
     (WithSource (WithTable ''seats'' (WithSchema ''public'' zero_source)) zero_event)))"

definition example_peer :: PeerPG where
  "example_peer = \<lparr>pg_pool = True, pg_conn = None, pg_cfg = \<lparr>pc_ConnString = [], pc_Replication = DefaultConfig\<rparr>,
     pg_tables = [(''public.seats'', example_keyed)]\<rparr>"

lemma example_sends:
  "Pub_pg example_lib (\<lambda>_ _. Inr 1) example_peer (example_update [(''row'', VInt 3), (''seat'', VInt 7)]) = (r, stmts) \<Longrightarrow> stmts \<noteq> []"
  by (auto simp: Pub_pg_def example_peer_def example_update_def cdc_builders Let_def Cdc.OpUpdate_def Cdc.OpCreate_def example_keyed_def
      lift_crud_def UpdateRow_def bind_columns_eq map_put_def)

theorem pg_sink_update_witness:
  "\<exists>sql vs. snd (Pub_pg example_lib (\<lambda>_ _. Inr 1) example_peer (example_update [(''row'', VInt 3), (''seat'', VInt 7)])) = [(sql, vs)]
     \<and> hd vs = VStr ''Ada'' \<and> length vs > 1"
proof -
  obtain r stmts where p: "Pub_pg example_lib (\<lambda>_ _. Inr 1) example_peer (example_update [(''row'', VInt 3), (''seat'', VInt 7)]) = (r, stmts)" by force
  have op: "pa_Op (ev_Payload (example_update b)) = Cdc.OpUpdate" "pa_After (ev_Payload (example_update b)) = VMap [(''guest'', VStr ''Ada'')]" for b
    by (simp_all add: example_update_def cdc_builders)
  show ?thesis using pg_sink_update [OF p op(1) example_sends [OF p]] unfolding p op(2) by auto
qed

text \<open>
  With a key of several columns of which \<open>Before\<close> holds only one (after an \<open>extract\<close>, say), the UPDATE selects by that
  one alone and so may change other rows.
\<close>

lemma partial_key_selects_more:
  "snd (Pub_pg L X example_peer (example_update [(''row'', VInt 3)])) =
     [(''UPDATE '' @ lib_sanitize L [''public'', ''seats''] @ '' SET '' @ lib_sanitize L [''guest''] @ '' = $1 WHERE '' @ lib_sanitize L [''row''] @ '' = $2'',
       [VStr ''Ada'', VInt 3])]"
proof -
  have "itoa_nat (Suc 0) = ''1''" "itoa_nat (Suc (Suc 0)) = ''2''" by code_simp+
  then show ?thesis
    by (simp add: Pub_pg_def example_peer_def example_update_def cdc_builders Let_def Cdc.OpUpdate_def Cdc.OpCreate_def example_keyed_def
        lift_crud_def UpdateRow_sends map_put_def assignments_def columns_from_def)
qed

text \<open>A deletion is accepted and dropped; without an \<open>After\<close> it is even reported as a lost connection.\<close>

lemma deletions_are_dropped: "pa_Op (ev_Payload e) = Cdc.OpDelete \<Longrightarrow> snd (Pub_pg L X p e) = []"
  by (auto simp: Pub_pg_def Let_def Cdc.OpDelete_def Cdc.OpUpdate_def Cdc.OpCreate_def Cdc.OpTruncate_def split: option.split)

lemma delete_without_after_fails: "pa_After (ev_Payload e) = VNil \<Longrightarrow> Pub_pg L X p e = (Some NotConnected, [])"
  by (simp add: Pub_pg_def Let_def)

end
