(* ===== verification/Role.thy ===== *)
theory Role
  imports SchemaCache
begin

text \<open>
  Roles of PostgreSQL (\<open>pkg/pgx/role/role.go\<close>): reading them from the catalog, and the statements that create, alter
  and drop them. The connection is a parameter that answers each statement by an error or success; the statements
  sent are returned. A time is its text in RFC 3339.
\<close>

section \<open>Roles\<close>

datatype role_error = RoleNotFound | RoleFailed string string

record Role =
  ro_Name :: string
  ro_Superuser :: bool
  ro_Inherit :: bool
  ro_CreateRole :: bool
  ro_CreateDB :: bool
  ro_CanLogin :: bool
  ro_Replication :: bool
  ro_ConnLimit :: int
  ro_Password :: string
  ro_ValidUntil :: "string option"
  ro_BypassRLS :: bool
  ro_Config :: "string list"
  ro_OID :: nat

definition roleSelectQuery :: string where
  "roleSelectQuery = ''SELECT rolname, rolsuper, rolinherit, rolcreaterole, rolcreatedb, rolcanlogin,'' @ [CHR 0x0A] @
     ''rolreplication, rolconnlimit, rolvaliduntil, rolbypassrls, rolconfig, oid FROM pg_roles''"

definition masked :: string where
  "masked = ''********''"

text \<open>A row of the catalog scans into a role, whose password is masked.\<close>

definition scanRole :: "(string, Role) result \<Rightarrow> (string, Role) result" where
  "scanRole row = (case row of Inl e \<Rightarrow> Inl e | Inr role \<Rightarrow> Inr (role\<lparr>ro_Password := masked\<rparr>))"

definition ListRoles :: "(string \<Rightarrow> (string, Role Rowset) result) \<Rightarrow> (role_error, Role list) result" where
  "ListRoles Q = (case Q roleSelectQuery of
       Inl e \<Rightarrow> Inl (RoleFailed ''failed to query roles'' e)
     | Inr rs \<Rightarrow> (case map_res scanRole (rw_rows rs) of
         Inl e \<Rightarrow> Inl (RoleFailed ''failed to scan role'' e)
       | Inr roles \<Rightarrow> (case rw_err rs of Some e \<Rightarrow> Inl (RoleFailed ''error iterating over roles'' e) | None \<Rightarrow> Inr roles)))"

text \<open>One row: \<open>None\<close> when the query has no row.\<close>

definition GetRole :: "(string \<Rightarrow> string \<Rightarrow> (string, Role) result option) \<Rightarrow> string \<Rightarrow> (role_error, Role) result" where
  "GetRole Q roleName = (case Q (roleSelectQuery @ '' WHERE rolname = $1'') roleName of
       None \<Rightarrow> Inl RoleNotFound
     | Some row \<Rightarrow> (case scanRole row of Inl e \<Rightarrow> Inl (RoleFailed ''failed to get role'' e) | Inr role \<Rightarrow> Inr role))"

section \<open>Statements\<close>

definition role_attributes :: "Role \<Rightarrow> (bool \<times> string) list" where
  "role_attributes role = [(ro_Superuser role, ''SUPERUSER''), (ro_Replication role, ''REPLICATION''), (ro_Inherit role, ''INHERIT''),
     (ro_CreateRole role, ''CREATEROLE''), (ro_CreateDB role, ''CREATEDB''), (ro_CanLogin role, ''LOGIN'')]"

definition addRoleAttributes :: "string \<Rightarrow> Role \<Rightarrow> string" where
  "addRoleAttributes sql role =
     sql @ concat (map (\<lambda>(_, a). '' '' @ a) (filter fst (role_attributes role)))
     @ (if ro_ConnLimit role = -1 \<or> ro_ConnLimit role = 0 then '' CONNECTION LIMIT -1''
        else if ro_ConnLimit role > 0 then '' CONNECTION LIMIT '' @ Itoa (ro_ConnLimit role) else [])
     @ (case ro_ValidUntil role of None \<Rightarrow> [] | Some t \<Rightarrow> '' VALID UNTIL '' @ [CHR 0x27] @ t @ [CHR 0x27])"

type_synonym role_exec = "string list \<Rightarrow> string \<Rightarrow> string option"
type_synonym role_result = "role_error option \<times> string list"

text \<open>A statement is sent after those before it; an error ends the operation.\<close>

definition run_sql :: "role_exec \<Rightarrow> string \<Rightarrow> string \<Rightarrow> string list \<Rightarrow> (string list \<Rightarrow> role_result) \<Rightarrow> role_result" where
  "run_sql X what sql sent k = (case X sent sql of Some e \<Rightarrow> (Some (RoleFailed what e), sent @ [sql]) | None \<Rightarrow> k (sent @ [sql]))"

definition config_sql :: "golib \<Rightarrow> Role \<Rightarrow> string" where
  "config_sql L role = ''ALTER ROLE '' @ lib_sanitize L [ro_Name role] @ '' SET '' @ Join (ro_Config role) '', ''"

definition password_sql :: "golib \<Rightarrow> Role \<Rightarrow> string" where
  "password_sql L role = ''ALTER ROLE '' @ lib_sanitize L [ro_Name role] @ '' WITH PASSWORD '' @ [CHR 0x27] @ ro_Password role @ [CHR 0x27]"

definition set_password :: "golib \<Rightarrow> role_exec \<Rightarrow> Role \<Rightarrow> string list \<Rightarrow> role_result" where
  "set_password L X role sent = (if ro_Password role \<noteq> [] then run_sql X ''failed to update role password'' (password_sql L role) sent (\<lambda>s. (None, s))
     else (None, sent))"

definition alterRoleConfigAndPassword :: "golib \<Rightarrow> role_exec \<Rightarrow> Role \<Rightarrow> string list \<Rightarrow> role_result" where
  "alterRoleConfigAndPassword L X role sent =
     (if ro_Config role \<noteq> [] then run_sql X ''failed to set role config'' (config_sql L role) sent (set_password L X role)
      else set_password L X role sent)"

definition createOrAlterRole :: "golib \<Rightarrow> role_exec \<Rightarrow> Role \<Rightarrow> bool \<Rightarrow> role_result" where
  "createOrAlterRole L X role isCreate =
     run_sql X (''failed to '' @ (if isCreate then ''create'' else ''update'') @ '' role'')
       (addRoleAttributes ((if isCreate then ''CREATE ROLE '' else ''ALTER ROLE '') @ lib_sanitize L [ro_Name role]) role) []
       (alterRoleConfigAndPassword L X role)"

definition CreateRole :: "golib \<Rightarrow> role_exec \<Rightarrow> Role \<Rightarrow> role_result" where
  "CreateRole L X role = createOrAlterRole L X role True"

definition UpdateRole :: "golib \<Rightarrow> role_exec \<Rightarrow> Role \<Rightarrow> role_result" where
  "UpdateRole L X role = createOrAlterRole L X role False"

definition DeleteRole :: "golib \<Rightarrow> role_exec \<Rightarrow> string \<Rightarrow> role_result" where
  "DeleteRole L X roleName = run_sql X ''failed to delete role'' (''DROP ROLE IF EXISTS '' @ lib_sanitize L [roleName]) [] (\<lambda>s. (None, s))"

section \<open>What is sent\<close>

text \<open>The statements of an operation that nothing interrupts.\<close>

definition role_sql :: "golib \<Rightarrow> Role \<Rightarrow> bool \<Rightarrow> string list" where
  "role_sql L role isCreate =
     addRoleAttributes ((if isCreate then ''CREATE ROLE '' else ''ALTER ROLE '') @ lib_sanitize L [ro_Name role]) role
     # (if ro_Config role \<noteq> [] then [config_sql L role] else []) @ (if ro_Password role \<noteq> [] then [password_sql L role] else [])"

text \<open>An operation sends a prefix of them: all exactly when it succeeds, and up to the first failure otherwise.\<close>

lemma createOrAlterRole_sends:
  "createOrAlterRole L X role isCreate = (r, sent) \<Longrightarrow> prefix sent (role_sql L role isCreate) \<and> (r = None \<longrightarrow> sent = role_sql L role isCreate)"
  by (auto simp: createOrAlterRole_def run_sql_def alterRoleConfigAndPassword_def set_password_def role_sql_def split: option.splits if_splits)

lemma createOrAlterRole_fails:
  assumes "createOrAlterRole L X role isCreate = (Some err, sent)"
  shows "sent \<noteq> [] \<and> X (butlast sent) (List.last sent) \<noteq> None \<and> (\<forall>i < length sent - 1. X (take i sent) (sent ! i) = None)"
proof -
  let ?a = "addRoleAttributes ((if isCreate then ''CREATE ROLE '' else ''ALTER ROLE '') @ lib_sanitize L [ro_Name role]) role"
  have "sent = [?a] \<and> X [] ?a \<noteq> None
    \<or> (\<exists>b. sent = [?a, b] \<and> X [] ?a = None \<and> X [?a] b \<noteq> None)
    \<or> (\<exists>b c. sent = [?a, b, c] \<and> X [] ?a = None \<and> X [?a] b = None \<and> X [?a, b] c \<noteq> None)"
    using assms by (auto simp: createOrAlterRole_def run_sql_def alterRoleConfigAndPassword_def set_password_def split: option.splits if_splits)
  then show ?thesis by (auto simp: less_Suc_eq numeral_2_eq_2)
qed

text \<open>
  Creating or altering a role sends its statements in order (the attributes, then the settings, then the password)
  and stops at the first that fails: it succeeds exactly when all were accepted, and then all were sent; otherwise the
  last one sent failed and all before it were accepted.
\<close>

theorem role_statements:
  "case createOrAlterRole L X role isCreate of (r, sent) \<Rightarrow>
     prefix sent (role_sql L role isCreate) \<and> sent \<noteq> []
     \<and> (if r = None then sent = role_sql L role isCreate else X (butlast sent) (List.last sent) \<noteq> None)
     \<and> (\<forall>i. i + 1 < length sent \<longrightarrow> X (take i sent) (sent ! i) = None)"
proof -
  obtain r sent where rs: "createOrAlterRole L X role isCreate = (r, sent)" by force
  note all = createOrAlterRole_sends [OF rs]
  have ok: "X (take i sent) (sent ! i) = None" if "r = None" "i < length sent" for i
    using rs that by (auto simp: createOrAlterRole_def run_sql_def alterRoleConfigAndPassword_def set_password_def less_Suc_eq
        numeral_2_eq_2 split: option.splits if_splits)
  show ?thesis
  proof (cases r)
    case None
    then show ?thesis using rs all ok by (auto simp: role_sql_def)
  next
    case (Some err)
    then show ?thesis using rs all createOrAlterRole_fails [of L X role isCreate err sent] by auto
  qed
qed

text \<open>A role that was read carries the mask as its password, and updating it makes the mask the password.\<close>

lemma updating_a_read_role_sets_the_mask:
  assumes "GetRole Q n = Inr role" and "UpdateRole L X (role\<lparr>ro_CanLogin := b\<rparr>) = (None, sent)"
  shows "''ALTER ROLE '' @ lib_sanitize L [ro_Name role] @ '' WITH PASSWORD '' @ [CHR 0x27] @ masked @ [CHR 0x27] \<in> set sent"
proof -
  have "ro_Password role = masked" using assms(1) by (auto simp: GetRole_def scanRole_def split: option.splits sum.splits)
  then show ?thesis
    using assms(2) createOrAlterRole_sends [of L X "role\<lparr>ro_CanLogin := b\<rparr>" False None sent]
    by (auto simp: UpdateRole_def role_sql_def password_sql_def masked_def)
qed

text \<open>Clearing an attribute sends nothing that revokes it.\<close>

lemma cleared_attributes_are_not_revoked:
  "addRoleAttributes s (role\<lparr>ro_Superuser := False, ro_Replication := False, ro_Inherit := False, ro_CreateRole := False, ro_CreateDB := False,
     ro_CanLogin := False, ro_ConnLimit := 0, ro_ValidUntil := None\<rparr>) = s @ '' CONNECTION LIMIT -1''"
  by (simp add: addRoleAttributes_def role_attributes_def)

end
