(* ===== verification/Mqtt.thy ===== *)
theory Mqtt
  imports Cdc GoStrings
begin

text \<open>
  The MQTT peer (\<open>pkg/pipeline/peer/mqtt/peer.go\<close>, \<open>transform.go\<close>): topics and their patterns, rewriting topics,
  fields taken from a topic, and how a message becomes change events. The broker, JSON, regular expressions and
  the parsing of floats are parameters.
\<close>

record mqtt_lib =
  mq_json :: "string \<Rightarrow> any option"
  mq_marshal :: "Payload \<Rightarrow> string option"
  mq_ParseFloat :: "string \<Rightarrow> any option"
  mq_regexp :: "string \<Rightarrow> (string \<Rightarrow> string list option) option"

section \<open>Scalars and fields of a topic\<close>

definition parse_detect :: "mqtt_lib \<Rightarrow> string \<Rightarrow> any" where
  "parse_detect Q value = (case ParseBool value of Some b \<Rightarrow> VBool b
     | None \<Rightarrow> (case ParseInt value 64 of Some i \<Rightarrow> VInt i
       | None \<Rightarrow> (case mq_ParseFloat Q value of Some x \<Rightarrow> x | None \<Rightarrow> VStr value)))"

definition parse_typed :: "mqtt_lib \<Rightarrow> string \<Rightarrow> string \<Rightarrow> any" where
  "parse_typed Q value ty =
     (if ty = ''bool'' then (case ParseBool value of Some b \<Rightarrow> VBool b | None \<Rightarrow> VStr value)
      else if ty = ''int'' then (case Atoi value of Some i \<Rightarrow> VInt i | None \<Rightarrow> VStr value)
      else if ty = ''float'' then (case mq_ParseFloat Q value of Some x \<Rightarrow> x | None \<Rightarrow> VStr value)
      else VStr value)"

definition parseScalarValue :: "mqtt_lib \<Rightarrow> string \<Rightarrow> string list \<Rightarrow> any" where
  "parseScalarValue Q value fieldType = (case fieldType of ty # _ \<Rightarrow> parse_typed Q value ty | [] \<Rightarrow> parse_detect Q value)"

record TopicToField =
  tf_Field :: string
  tf_Index :: string
  tf_Pattern :: string
  tf_Static :: string
  tf_Type :: string

definition raw_value :: "mqtt_lib \<Rightarrow> string \<Rightarrow> string list \<Rightarrow> TopicToField \<Rightarrow> string" where
  "raw_value Q topic segments f =
     (if tf_Static f \<noteq> [] then tf_Static f
      else if tf_Index f \<noteq> [] then
        (case Atoi (tf_Index f) of None \<Rightarrow> []
         | Some idx \<Rightarrow> (let i = (if idx < 0 then int (length segments) + idx else idx) in
             if 0 \<le> i \<and> i < int (length segments) then segments ! nat i else []))
      else if tf_Pattern f \<noteq> [] then
        (case mq_regexp Q (tf_Pattern f) of None \<Rightarrow> []
         | Some re \<Rightarrow> (case re topic of Some (_ # m # _) \<Rightarrow> m | _ \<Rightarrow> []))
      else [])"

definition extractFieldsFromTopic :: "mqtt_lib \<Rightarrow> string \<Rightarrow> TopicToField list \<Rightarrow> gomap" where
  "extractFieldsFromTopic Q topic fs =
     (let segments = Split (Trim topic ''/'') (CHR ''/'') in
      fold (\<lambda>f result. let raw = raw_value Q topic segments f in
        if raw = [] then result else map_put (tf_Field f) (parseScalarValue Q raw [tf_Type f]) result) fs [])"

section \<open>Patterns and rewriting\<close>

text \<open>\<open>matchParts\<close> on the remaining parts of the pattern and of the topic.\<close>

fun matchParts :: "string list \<Rightarrow> string list \<Rightarrow> bool" where
  "matchParts [] ts = (ts = [])"
| "matchParts (p # ps) [] = (ps = [] \<and> p = ''#'')"
| "matchParts (p # ps) (t # ts) =
     (if p = ''#'' then True else if p = ''+'' then matchParts ps ts else p = t \<and> matchParts ps ts)"

definition topicMatch :: "string \<Rightarrow> string \<Rightarrow> bool" where
  "topicMatch pattern topic = matchParts (Split pattern (CHR ''/'')) (Split topic (CHR ''/''))"

text \<open>\<open>strings.ReplaceAll\<close> for a non-empty text to replace.\<close>

function ReplaceAll :: "string \<Rightarrow> string \<Rightarrow> string \<Rightarrow> string" where
  "ReplaceAll s old new = (case s of [] \<Rightarrow> []
     | c # cs \<Rightarrow> if old \<noteq> [] \<and> HasPrefix s old then new @ ReplaceAll (drop (length old) s) old new else c # ReplaceAll cs old new)"
  by pat_completeness auto
termination by (relation "measure (\<lambda>(s, _, _). length s)") auto

declare ReplaceAll.simps [simp del]

type_synonym RewriteAction = string

definition ActionPubSub :: RewriteAction where "ActionPubSub = ''pubsub''"
definition ActionPublish :: RewriteAction where "ActionPublish = ''pub''"
definition ActionSubscribe :: RewriteAction where "ActionSubscribe = ''sub''"

record TopicRewriteRule =
  tr_Action :: RewriteAction
  tr_From :: string
  tr_To :: string
  tr_Regex :: string

text \<open>A rule with its compiled expression.\<close>

type_synonym TopicRewriter = "(TopicRewriteRule \<times> (string \<Rightarrow> string list option)) list"

fun compile_rules :: "mqtt_lib \<Rightarrow> nat \<Rightarrow> TopicRewriteRule list \<Rightarrow> (nat, TopicRewriter) result" where
  "compile_rules Q i [] = Inr []"
| "compile_rules Q i (r # rs) = (case mq_regexp Q (tr_Regex r) of None \<Rightarrow> Inl i
     | Some re \<Rightarrow> (case compile_rules Q (Suc i) rs of Inl j \<Rightarrow> Inl j | Inr cs \<Rightarrow> Inr ((r, re) # cs)))"

definition NewTopicRewriter :: "mqtt_lib \<Rightarrow> TopicRewriteRule list \<Rightarrow> (nat, TopicRewriter) result" where
  "NewTopicRewriter Q rules = compile_rules Q 0 rules"

text \<open>The groups of a match replace \<open>$1\<close>, \<open>$2\<close> and so on, one after the other.\<close>

fun replace_groups :: "nat \<Rightarrow> string list \<Rightarrow> string \<Rightarrow> string" where
  "replace_groups i [] dest = dest"
| "replace_groups i (m # ms) dest = replace_groups (Suc i) ms (ReplaceAll dest (''$'' @ itoa_nat i) m)"

fun RewriteTopic :: "TopicRewriter \<Rightarrow> string \<Rightarrow> RewriteAction \<Rightarrow> string \<Rightarrow> string \<Rightarrow> string" where
  "RewriteTopic [] topic action clientID username = topic"
| "RewriteTopic ((r, re) # rules) topic action clientID username =
     (if tr_Action r \<noteq> ActionPubSub \<and> tr_Action r \<noteq> action then RewriteTopic rules topic action clientID username
      else if \<not> topicMatch (tr_From r) topic then RewriteTopic rules topic action clientID username
      else (case re topic of
          None \<Rightarrow> topic
        | Some matches \<Rightarrow>
            ReplaceAll (ReplaceAll (replace_groups 1 (tl matches) (tr_To r)) ''${clientid}'' clientID) ''${username}'' username))"

section \<open>Publishing\<close>

record MqttConfig =
  mc_TopicPrefix :: string
  mc_TopicToFields :: "TopicToField list"
  mc_TopicRewrites :: "TopicRewriteRule list"

definition event_topic :: "string \<Rightarrow> Event \<Rightarrow> string" where
  "event_topic topicPrefix e =
     topicPrefix @ ''/'' @ so_Schema (ev_source e) @ ''/'' @ so_Table (ev_source e) @ ''/'' @ pa_Op (ev_Payload e)"

text \<open>The message a publication hands to the client, or \<open>None\<close> when the payload cannot be encoded.\<close>

definition Pub_mqtt :: "mqtt_lib \<Rightarrow> MqttConfig \<Rightarrow> Event \<Rightarrow> (string \<times> string) option" where
  "Pub_mqtt Q c e = (case mq_marshal Q (ev_Payload e) of None \<Rightarrow> None | Some data \<Rightarrow> Some (event_topic (mc_TopicPrefix c) e, data))"

section \<open>Subscribing\<close>

text \<open>The topic after a possible rewrite, with the standard format: a prefix and at least three parts.\<close>

definition resolve_topic :: "string \<Rightarrow> TopicRewriter option \<Rightarrow> string \<Rightarrow> string option" where
  "resolve_topic topicPrefix rewriter topic =
     (let n = length (Split topicPrefix (CHR ''/'')) + 3; short = (\<lambda>t. length (Split t (CHR ''/'')) < n) in
      if \<not> short topic then Some topic
      else (case rewriter of None \<Rightarrow> None
        | Some rules \<Rightarrow> (let rewritten = RewriteTopic rules topic ActionSubscribe [] [] in
            if rewritten = topic \<or> short rewritten then None else Some rewritten)))"

definition op_code :: "string \<Rightarrow> Operation option" where
  "op_code operation =
     (if operation = ''c'' \<or> operation = ''create'' then Some OpCreate
      else if operation = ''u'' \<or> operation = ''update'' then Some OpUpdate
      else if operation = ''d'' \<or> operation = ''delete'' then Some OpDelete
      else if operation = ''r'' \<or> operation = ''read'' then Some OpRead
      else None)"

fun topic_pairs :: "mqtt_lib \<Rightarrow> string list \<Rightarrow> gomap \<Rightarrow> gomap" where
  "topic_pairs Q (k # v # kvs) m = topic_pairs Q kvs (map_put k (parseScalarValue Q v []) m)"
| "topic_pairs Q _ m = m"

text \<open>What the parts after the operation say: whether the message is a batch, the scalar field, if any, and the conditions.\<close>

definition topic_arguments :: "mqtt_lib \<Rightarrow> string list \<Rightarrow> bool \<times> string option \<times> gomap" where
  "topic_arguments Q parts =
     (let isBatch = (case parts of p # _ \<Rightarrow> p = ''batch'' | [] \<Rightarrow> False);
          remaining = (if isBatch then tl parts else parts)
      in if odd (length remaining) then (isBatch, Some (List.last remaining), topic_pairs Q (butlast remaining) [])
         else (isBatch, None, topic_pairs Q remaining []))"

definition add_missing :: "gomap \<Rightarrow> gomap \<Rightarrow> gomap" where
  "add_missing extra m = fold (\<lambda>(k, v) m. if map_of m k = None then map_put k v m else m) extra m"

definition merge_conditions :: "gomap \<Rightarrow> any \<Rightarrow> any" where
  "merge_conditions conditions payload = (case payload of VMap m \<Rightarrow> VMap (add_missing conditions m) | v \<Rightarrow> v)"

definition json_payloads :: "mqtt_lib \<Rightarrow> bool \<Rightarrow> string \<Rightarrow> any list option" where
  "json_payloads Q isBatch data = (case mq_json Q data of
       None \<Rightarrow> None
     | Some v \<Rightarrow> if isBatch then (case v of VSlice xs \<Rightarrow> Some xs | VNil \<Rightarrow> Some [] | _ \<Rightarrow> Some [v]) else Some [v])"

definition message_payloads :: "mqtt_lib \<Rightarrow> bool \<times> string option \<times> gomap \<Rightarrow> string \<Rightarrow> any list option" where
  "message_payloads Q args data = (case args of (isBatch, scalar, conditions) \<Rightarrow>
     if data \<noteq> [] then
       (case scalar of
          Some field \<Rightarrow> Some [VMap (map_put field (parseScalarValue Q data []) conditions)]
        | None \<Rightarrow> (case json_payloads Q isBatch data of None \<Rightarrow> None
            | Some ps \<Rightarrow> Some (if conditions \<noteq> [] then map (merge_conditions conditions) ps else ps)))
     else (case scalar of
          Some field \<Rightarrow> Some [VMap (map_put field VNil conditions)]
        | None \<Rightarrow> Some (if conditions \<noteq> [] then [VMap conditions] else [])))"

definition createEvent :: "string \<Rightarrow> string \<Rightarrow> Operation \<Rightarrow> any \<Rightarrow> int \<times> int \<Rightarrow> Event" where
  "createEvent schema table opCode payload now =
     (let source = source_WithTimestamp (fst now) (WithTable table (WithSchema schema (WithDatabase ''mqtt'' (NewSourceBuilder ''mqtt'' ''mqtt-source''))));
          b = WithTimestamp (snd now) (WithOperation opCode (WithSource source NewEventBuilder))
      in if opCode = OpDelete then WithBefore payload b else WithAfter payload b)"

definition createEventWithFieldsFromTopic :: "string \<Rightarrow> string \<Rightarrow> Operation \<Rightarrow> any \<Rightarrow> gomap \<Rightarrow> int \<times> int \<Rightarrow> Event" where
  "createEventWithFieldsFromTopic schema table opCode payload extracted now =
     (let payload1 = (if extracted \<noteq> [] \<and> payload \<noteq> VNil then merge_conditions extracted payload
        else if extracted \<noteq> [] then VMap extracted else payload)
      in createEvent schema table opCode payload1 now)"

text \<open>The events of a message; \<open>None\<close> when the handler warns and returns.\<close>

definition message_events :: "mqtt_lib \<Rightarrow> MqttConfig \<Rightarrow> TopicRewriter option \<Rightarrow> string \<Rightarrow> string \<Rightarrow> string \<Rightarrow> int \<times> int \<Rightarrow> Event list option" where
  "message_events Q c rewriter topicPrefix msgTopic data now = (case resolve_topic topicPrefix rewriter msgTopic of
       None \<Rightarrow> None
     | Some topic \<Rightarrow> (case drop (length (Split topicPrefix (CHR ''/''))) (Split topic (CHR ''/'')) of
         schema # table # operation # parts \<Rightarrow>
           (case op_code operation of None \<Rightarrow> None
            | Some opCode \<Rightarrow> (case message_payloads Q (topic_arguments Q parts) data of
                None \<Rightarrow> None
              | Some payloads \<Rightarrow>
                  (let extracted = (if mc_TopicToFields c \<noteq> [] then extractFieldsFromTopic Q topic (mc_TopicToFields c) else []) in
                   Some (map (\<lambda>p. createEventWithFieldsFromTopic schema table opCode p extracted now) payloads))))
       | _ \<Rightarrow> None))"

text \<open>Sending to the channel never waits: an event that finds it full is dropped.\<close>

definition try_send :: "nat \<Rightarrow> Event \<Rightarrow> Event list \<Rightarrow> Event list" where
  "try_send cap e events = (if length events < cap then events @ [e] else events)"

definition on_message :: "mqtt_lib \<Rightarrow> MqttConfig \<Rightarrow> TopicRewriter option \<Rightarrow> string \<Rightarrow> string \<times> string \<times> int \<times> int \<Rightarrow> Event list \<Rightarrow> Event list" where
  "on_message Q c rewriter topicPrefix msg events = (case msg of (topic, data, now) \<Rightarrow>
     (case message_events Q c rewriter topicPrefix topic data now of None \<Rightarrow> events
      | Some es \<Rightarrow> fold (try_send 100) es events))"

text \<open>The prefix of a subscription: the argument without slashes around it, or the configured one.\<close>

definition sub_prefix :: "MqttConfig \<Rightarrow> string option \<Rightarrow> string" where
  "sub_prefix c arg = (case arg of Some p \<Rightarrow> Trim p ''/'' | None \<Rightarrow> mc_TopicPrefix c)"

definition sub_filter :: "MqttConfig \<Rightarrow> string option \<Rightarrow> string" where
  "sub_filter c arg = sub_prefix c arg @ ''/#''"

end
