(* ===== verification/Peers.thy ===== *)
theory Peers
  imports Cdc GoStrings
begin

text \<open>
  The peers for NATS, Kafka, gRPC, ClickHouse and the debug peer (\<open>pkg/pipeline/peer\<close>): their configurations and
  defaults, the subjects and topics they publish to, and what they do with the messages they receive. The servers,
  JSON and the client libraries are parameters.
\<close>

section \<open>NATS\<close>

record NatsTLS =
  nt_Enabled :: bool
  nt_CertFile :: string
  nt_KeyFile :: string
  nt_CAFile :: string

record NatsConfig =
  nc_Servers :: "string list"
  nc_Stream :: string
  nc_SubjectPrefix :: string
  nc_Username :: string
  nc_Password :: string
  nc_TLS :: NatsTLS

text \<open>The defaults that \<open>Connect\<close> fills in; \<open>nats.DefaultURL\<close> is a parameter.\<close>

definition nats_defaults :: "string \<Rightarrow> NatsConfig \<Rightarrow> NatsConfig" where
  "nats_defaults url c =
     (let c1 = (if nc_Servers c = [] then c\<lparr>nc_Servers := [url]\<rparr> else c);
          c2 = c1\<lparr>nc_SubjectPrefix := (if nc_SubjectPrefix c1 \<noteq> [] then nc_SubjectPrefix c1 else ''pigo'')\<rparr>
      in c2\<lparr>nc_Stream := (if nc_Stream c2 \<noteq> [] then nc_Stream c2 else nc_SubjectPrefix c2 @ ''-stream'')\<rparr>)"

definition nats_filter :: "NatsConfig \<Rightarrow> string" where
  "nats_filter c = nc_SubjectPrefix c @ ''.>''"

text \<open>The first server that accepts, else the error of the last one; there is at least one server.\<close>

fun connect_first :: "(string \<Rightarrow> string option) \<Rightarrow> string list \<Rightarrow> string option \<Rightarrow> string option" where
  "connect_first X [] err = err"
| "connect_first X (s # ss) err = (case X s of None \<Rightarrow> None | Some e \<Rightarrow> connect_first X ss (Some e))"

datatype nats_option =
    Timeout int | PingInterval int | MaxPingsOutstanding int | RetryOnFailedConnect | MaxReconnects int
  | UserInfo string string | RootCAs string | ClientCert string string

definition defaultOptions :: "NatsConfig \<Rightarrow> nats_option list" where
  "defaultOptions c =
     [Timeout 5, PingInterval 10, MaxPingsOutstanding 3, RetryOnFailedConnect, MaxReconnects (-1)]
     @ (if nc_Username c \<noteq> [] \<and> nc_Password c \<noteq> [] then [UserInfo (nc_Username c) (nc_Password c)] else [])
     @ (let t = nc_TLS c in if \<not> nt_Enabled t then []
        else if nt_CAFile t \<noteq> [] then [RootCAs (nt_CAFile t)]
        else if nt_CertFile t \<noteq> [] \<and> nt_KeyFile t \<noteq> [] then [ClientCert (nt_CertFile t) (nt_KeyFile t)] else [])"

record StreamConfig =
  st_Name :: string
  st_Subjects :: "string list"
  st_Storage :: nat
  st_Replicas :: int

text \<open>The comparison of the subjects, index by index.\<close>

fun same_subjects :: "string list \<Rightarrow> string list \<Rightarrow> bool" where
  "same_subjects (a # as) (b # bs) = (if a \<noteq> b then False else same_subjects as bs)"
| "same_subjects _ _ = True"

definition streamConfigEqual :: "StreamConfig \<Rightarrow> StreamConfig \<Rightarrow> bool" where
  "streamConfigEqual a b =
     (if st_Name a \<noteq> st_Name b \<or> st_Storage a \<noteq> st_Storage b \<or> st_Replicas a \<noteq> st_Replicas b then False
      else if length (st_Subjects a) \<noteq> length (st_Subjects b) then False
      else same_subjects (st_Subjects a) (st_Subjects b))"

lemma streamConfigEqual_iff: "streamConfigEqual a b \<longleftrightarrow> st_Name a = st_Name b \<and> st_Storage a = st_Storage b \<and> st_Replicas a = st_Replicas b
    \<and> st_Subjects a = st_Subjects b"
proof -
  have "length as = length bs \<Longrightarrow> same_subjects as bs \<longleftrightarrow> as = bs" for as bs
    by (induction as bs rule: list_induct2) auto
  then show ?thesis by (auto simp: streamConfigEqual_def)
qed

datatype stream_info = StreamFound StreamConfig | StreamNotFound | StreamError string

datatype nats_action = UpdateStream StreamConfig | AddStream StreamConfig

text \<open>\<open>ensureStream\<close>, given what the server knows of the stream and how it answers a change; file storage is 0.\<close>

definition wanted_stream :: "NatsConfig \<Rightarrow> StreamConfig" where
  "wanted_stream c = \<lparr>st_Name = nc_Stream c, st_Subjects = [nats_filter c], st_Storage = 0, st_Replicas = 1\<rparr>"

definition ensureStream :: "NatsConfig \<Rightarrow> stream_info \<Rightarrow> (nats_action \<Rightarrow> string option) \<Rightarrow> string option \<times> nats_action list" where
  "ensureStream c info X = (let config = wanted_stream c in case info of
       StreamFound found \<Rightarrow>
         if \<not> streamConfigEqual found config then
           (case X (UpdateStream config) of Some e \<Rightarrow> (Some (''update stream: '' @ e), [UpdateStream config]) | None \<Rightarrow> (None, [UpdateStream config]))
         else (None, [])
     | StreamError e \<Rightarrow> (Some (''get stream info: '' @ e), [])
     | StreamNotFound \<Rightarrow>
         (case X (AddStream config) of Some e \<Rightarrow> (Some (''create stream: '' @ e), [AddStream config]) | None \<Rightarrow> (None, [AddStream config])))"

definition nats_subject :: "NatsConfig \<Rightarrow> Event \<Rightarrow> string" where
  "nats_subject c e = nc_SubjectPrefix c @ ''.'' @ so_Schema (ev_source e) @ ''.'' @ so_Table (ev_source e) @ ''.'' @ pa_Op (ev_Payload e)"

text \<open>The message a publication sends, or its error; \<open>js\<close> says whether the peer is connected.\<close>

definition Pub_nats :: "(Event \<Rightarrow> string option) \<Rightarrow> bool \<Rightarrow> NatsConfig \<Rightarrow> Event \<Rightarrow> (string, string \<times> string) result" where
  "Pub_nats marshal js c e =
     (if \<not> js then Inl ''NATS connection not initialized''
      else (case marshal e of None \<Rightarrow> Inl ''marshal CDC event'' | Some data \<Rightarrow> Inr (nats_subject c e, data)))"

text \<open>
  \<open>processMessages\<close>: each fetched message is decoded and offered to the channel without waiting; it is
  acknowledged if the channel took its event, and given back otherwise. The reader of the channel takes events at
  any time.
\<close>

datatype msg_answer = MsgAck nat | MsgNak nat

record NatsSub =
  ns_queue :: "Event list"
  ns_taken :: "Event list"
  ns_answers :: "msg_answer list"

definition nats_message :: "(string \<Rightarrow> Event option) \<Rightarrow> nat \<Rightarrow> nat \<Rightarrow> string \<Rightarrow> NatsSub \<Rightarrow> NatsSub" where
  "nats_message unmarshal cap seq data s = (case unmarshal data of
       None \<Rightarrow> s\<lparr>ns_answers := ns_answers s @ [MsgNak seq]\<rparr>
     | Some e \<Rightarrow>
         if length (ns_queue s) < cap then s\<lparr>ns_queue := ns_queue s @ [e], ns_answers := ns_answers s @ [MsgAck seq]\<rparr>
         else s\<lparr>ns_answers := ns_answers s @ [MsgNak seq]\<rparr>)"

definition nats_take :: "NatsSub \<Rightarrow> NatsSub" where
  "nats_take s = (case ns_queue s of [] \<Rightarrow> s | e # es \<Rightarrow> s\<lparr>ns_queue := es, ns_taken := ns_taken s @ [e]\<rparr>)"

datatype nats_step = Fetched nat string | Taken

definition nats_step :: "(string \<Rightarrow> Event option) \<Rightarrow> nats_step \<Rightarrow> NatsSub \<Rightarrow> NatsSub" where
  "nats_step unmarshal st s = (case st of Fetched seq data \<Rightarrow> nats_message unmarshal 100 seq data s | Taken \<Rightarrow> nats_take s)"

definition processMessages :: "(string \<Rightarrow> Event option) \<Rightarrow> nats_step list \<Rightarrow> NatsSub" where
  "processMessages unmarshal steps = fold (nats_step unmarshal) steps \<lparr>ns_queue = [], ns_taken = [], ns_answers = []\<rparr>"

text \<open>The messages fetched, and the events of those acknowledged.\<close>

definition fetched :: "nats_step list \<Rightarrow> (nat \<times> string) list" where
  "fetched steps = concat (map (\<lambda>st. case st of Fetched seq data \<Rightarrow> [(seq, data)] | Taken \<Rightarrow> []) steps)"

definition acked_events :: "(string \<Rightarrow> Event option) \<Rightarrow> (nat \<times> string) list \<Rightarrow> msg_answer list \<Rightarrow> Event list" where
  "acked_events unmarshal msgs answers =
     concat (map2 (\<lambda>(_, data) a. case a of MsgAck _ \<Rightarrow> (case unmarshal data of Some e \<Rightarrow> [e] | None \<Rightarrow> []) | MsgNak _ \<Rightarrow> []) msgs answers)"

definition answer_seq :: "msg_answer \<Rightarrow> nat" where
  "answer_seq a = (case a of MsgAck n \<Rightarrow> n | MsgNak n \<Rightarrow> n)"

lemma acked_events_snoc:
  "length msgs = length answers \<Longrightarrow> acked_events U (msgs @ [(n, d)]) (answers @ [a]) = acked_events U msgs answers
     @ (case a of MsgAck _ \<Rightarrow> (case U d of Some e \<Rightarrow> [e] | None \<Rightarrow> []) | MsgNak _ \<Rightarrow> [])"
  by (simp add: acked_events_def)

lemma processMessages_snoc: "processMessages U (steps @ [st]) = nats_step U st (processMessages U steps)"
  by (simp add: processMessages_def)

lemma fetched_snoc: "fetched (steps @ [st]) = fetched steps @ (case st of Fetched seq data \<Rightarrow> [(seq, data)] | Taken \<Rightarrow> [])"
  by (simp add: fetched_def)

text \<open>
  C10. Every message fetched from NATS is answered exactly once and in order, whatever the reader of the channel
  does; the events of the acknowledged ones are exactly those in the channel or already taken from it, in order, and
  the channel holds at most 100. No acknowledged message is lost, and none that was given back is delivered.
\<close>

theorem nats_acks_delivered:
  "let s = processMessages U steps; msgs = fetched steps in
     map answer_seq (ns_answers s) = map fst msgs \<and> ns_taken s @ ns_queue s = acked_events U msgs (ns_answers s)
     \<and> length (ns_queue s) \<le> 100"
proof (induction steps rule: rev_induct)
  case Nil
  show ?case by (simp add: processMessages_def fetched_def acked_events_def)
next
  case (snoc st steps)
  let ?s = "processMessages U steps"
  have len: "length (fetched steps) = length (ns_answers ?s)"
    using snoc.IH by (metis length_map)
  show ?case
  proof (cases st)
    case (Fetched n d)
    then show ?thesis
      using snoc.IH len unfolding processMessages_snoc fetched_snoc
      by (auto simp: Let_def nats_step_def nats_message_def acked_events_snoc answer_seq_def split: option.split)
  next
    case Taken
    then show ?thesis
      using snoc.IH unfolding processMessages_snoc fetched_snoc by (auto simp: Let_def nats_step_def nats_take_def split: list.split)
  qed
qed

section \<open>Kafka\<close>

record SASL =
  sa_Username :: string
  sa_Password :: string
  sa_Algorithm :: string
  sa_Enable :: bool

record KafkaTLS =
  kt_CertFile :: string
  kt_KeyFile :: string
  kt_CAFile :: string
  kt_Enable :: bool
  kt_SkipVerify :: bool

record KafkaConfig =
  kc_Brokers :: "string list"
  kc_TopicPrefix :: string
  kc_Version :: string
  kc_SASL :: "SASL option"
  kc_Partitions :: int
  kc_Replicas :: int
  kc_RetentionMS :: int
  kc_TLS :: KafkaTLS

definition kafka_defaults :: "KafkaConfig \<Rightarrow> KafkaConfig" where
  "kafka_defaults c =
     c\<lparr>kc_Brokers := (if kc_Brokers c = [] then [''localhost:9092''] else kc_Brokers c),
       kc_TopicPrefix := (if kc_TopicPrefix c = [] then ''pigo'' else kc_TopicPrefix c),
       kc_Version := (if kc_Version c = [] then ''2.1.1'' else kc_Version c),
       kc_Partitions := (if kc_Partitions c = 0 then 1 else kc_Partitions c),
       kc_Replicas := (if kc_Replicas c = 0 then 1 else kc_Replicas c),
       kc_RetentionMS := (if kc_RetentionMS c = 0 then 7 * 24 * 60 * 60 * 1000 else kc_RetentionMS c)\<rparr>"

datatype mechanism = SCRAM256 | SCRAM512 | Plaintext

text \<open>The SASL settings of the producer: user, password and mechanism, if enabled.\<close>

definition kafka_sasl :: "KafkaConfig \<Rightarrow> (string \<times> string \<times> mechanism) option" where
  "kafka_sasl c = (case kc_SASL c of
       None \<Rightarrow> None
     | Some s \<Rightarrow>
         if sa_Enable s then Some (sa_Username s, sa_Password s,
           if sa_Algorithm s = ''sha256'' then SCRAM256 else if sa_Algorithm s = ''sha512'' then SCRAM512 else Plaintext)
         else None)"

definition kafka_topic :: "string \<Rightarrow> Event \<Rightarrow> string" where
  "kafka_topic topicPrefix e = topicPrefix @ ''.'' @ so_Schema (ev_source e) @ ''.'' @ so_Table (ev_source e) @ ''.'' @ pa_Op (ev_Payload e)"

definition Pub_kafka :: "(Event \<Rightarrow> string option) \<Rightarrow> (string \<times> string \<Rightarrow> string option) \<Rightarrow> bool \<Rightarrow> string \<Rightarrow> Event \<Rightarrow> string option \<times> (string \<times> string) list" where
  "Pub_kafka marshal send producer topicPrefix e =
     (if \<not> producer then (Some ''Kafka producer not initialized'', [])
      else (case marshal e of
          None \<Rightarrow> (Some ''failed to marshal CDC event'', [])
        | Some data \<Rightarrow> (let msg = (kafka_topic topicPrefix e, data) in
            case send msg of Some err \<Rightarrow> (Some (''failed to publish message: '' @ err), [msg]) | None \<Rightarrow> (None, [msg]))))"

text \<open>The topic a peer makes sure of: its name, partitions, replicas and retention, when it is not in the list of topics.\<close>

definition ensureDefaultTopic ::
  "(string, string list) result \<Rightarrow> (string \<Rightarrow> string option) \<Rightarrow> KafkaConfig \<Rightarrow> string option \<times> (string \<times> int \<times> int \<times> string) list" where
  "ensureDefaultTopic topics create c = (let defaultTopic = kc_TopicPrefix c @ ''.pg'' in case topics of
       Inl e \<Rightarrow> (Some (''failed to list topics: '' @ e), [])
     | Inr ts \<Rightarrow>
         if defaultTopic \<in> set ts then (None, [])
         else (let request = (defaultTopic, kc_Partitions c, kc_Replicas c, Itoa (kc_RetentionMS c)) in
           case create defaultTopic of Some e \<Rightarrow> (Some (''failed to create default topic: '' @ e), [request]) | None \<Rightarrow> (None, [request])))"

text \<open>No event is published to the topic the peer creates.\<close>

lemma default_topic_is_never_used:
  assumes "CHR ''.'' \<notin> set (so_Schema (ev_source e))"
  shows "kafka_topic pre e \<noteq> pre @ ''.pg''"
proof
  assume "kafka_topic pre e = pre @ ''.pg''"
  then have "so_Schema (ev_source e) @ ''.'' @ so_Table (ev_source e) @ ''.'' @ pa_Op (ev_Payload e) = ''pg''" by (simp add: kafka_topic_def)
  then have "CHR ''.'' \<in> set ''pg''" by (metis in_set_conv_decomp append_Cons append_Nil)
  then show False by simp
qed

section \<open>gRPC\<close>

text \<open>The server side: an event without an \<open>After\<close>, or one that cannot be encoded, is skipped; a failed send ends the stream.\<close>

fun grpc_Stream :: "(any \<Rightarrow> string option) \<Rightarrow> (string \<times> string \<Rightarrow> string option) \<Rightarrow> Event list \<Rightarrow> string option \<times> (string \<times> string) list" where
  "grpc_Stream marshal send [] = (None, [])"
| "grpc_Stream marshal send (e # es) =
     (if pa_After (ev_Payload e) = VNil then grpc_Stream marshal send es
      else (case marshal (pa_After (ev_Payload e)) of
          None \<Rightarrow> grpc_Stream marshal send es
        | Some data \<Rightarrow> (let msg = (so_Schema (ev_source e) @ ''.'' @ so_Table (ev_source e), data) in
            case send msg of
              Some err \<Rightarrow> (Some err, [])
            | None \<Rightarrow> (case grpc_Stream marshal send es of (r, msgs) \<Rightarrow> (r, msg # msgs)))))"

text \<open>The client side: the event of a received message.\<close>

definition grpc_event :: "(string \<Rightarrow> any option) \<Rightarrow> int \<times> int \<Rightarrow> string \<times> string \<Rightarrow> Event option" where
  "grpc_event unmarshal now msg = (case unmarshal (snd msg) of
       None \<Rightarrow> None
     | Some data \<Rightarrow>
         (let parts = Split (fst msg) (CHR ''.'');
              (schema, table) = (case parts of [s, t] \<Rightarrow> (s, t) | _ \<Rightarrow> (''public'', hd parts));
              source = source_WithTimestamp (fst now) (WithTable table (WithSchema schema (WithDatabase ''grpc'' (NewSourceBuilder ''grpc'' ''grpc-source''))))
          in Some (WithTimestamp (snd now) (WithAfter data (WithOperation OpCreate (WithSource source NewEventBuilder))))))"

text \<open>The attempts of a client to connect, at most three, and the pauses after the failed ones in seconds.\<close>

fun grpc_connect :: "(nat \<Rightarrow> bool) \<Rightarrow> nat \<Rightarrow> nat \<Rightarrow> bool \<times> nat list" where
  "grpc_connect X retries 0 = (False, [])"
| "grpc_connect X retries (Suc n) =
     (if X retries then (True, []) else (case grpc_connect X (Suc retries) n of (ok, ps) \<Rightarrow> (ok, 2 ^ retries # ps)))"

definition connectClient :: "bool \<Rightarrow> (nat \<Rightarrow> bool) \<Rightarrow> string option \<times> nat list" where
  "connectClient tls X = (if tls then (Some ''TLS not yet implemented'', [])
     else (case grpc_connect X 0 3 of (True, ps) \<Rightarrow> (None, ps) | (False, ps) \<Rightarrow> (Some ''failed to connect after retries'', ps)))"

text \<open>
  A row sent over gRPC arrives as a row of the same table, when neither name contains a dot; whatever the operation
  was, it arrives as an insertion, and deletions do not arrive.
\<close>

lemma grpc_row_arrives:
  assumes "grpc_Stream marshal send [e] = (None, [msg])" and "\<And>v d. marshal v = Some d \<Longrightarrow> unmarshal d = Some v"
    and "CHR ''.'' \<notin> set (so_Schema (ev_source e))" "CHR ''.'' \<notin> set (so_Table (ev_source e))"
  shows "\<exists>r. grpc_event unmarshal now msg = Some r \<and> so_Schema (ev_source r) = so_Schema (ev_source e) \<and> so_Table (ev_source r) = so_Table (ev_source e)
    \<and> pa_After (ev_Payload r) = pa_After (ev_Payload e) \<and> pa_Op (ev_Payload r) = OpCreate"
proof -
  obtain d where d: "marshal (pa_After (ev_Payload e)) = Some d" "msg = (so_Schema (ev_source e) @ ''.'' @ so_Table (ev_source e), d)"
    using assms(1) by (auto simp: Let_def split: if_splits option.splits)
  have "Split (fst msg) (CHR ''.'') = [so_Schema (ev_source e), so_Table (ev_source e)]"
    using assms(3,4) by (simp add: d(2) Split_append_sep Split_single)
  then show ?thesis using assms(2) [OF d(1)] by (simp add: grpc_event_def d(2) cdc_builders)
qed

lemma grpc_drops_deletions: "pa_After (ev_Payload e) = VNil \<Longrightarrow> grpc_Stream marshal send (e # es) = grpc_Stream marshal send es"
  by simp

section \<open>Environment\<close>

definition GetEnvOrDefault :: "(string \<Rightarrow> string) \<Rightarrow> string \<Rightarrow> string \<Rightarrow> string" where
  "GetEnvOrDefault getenv env def = (if getenv env \<noteq> [] then getenv env else def)"

record ClickHouseOptions =
  ch_Addr :: "string list"
  ch_Database :: string
  ch_Username :: string
  ch_Password :: string

definition clickhouse_defaults :: "(string \<Rightarrow> string) \<Rightarrow> ClickHouseOptions \<Rightarrow> ClickHouseOptions" where
  "clickhouse_defaults getenv c =
     c\<lparr>ch_Addr := (if ch_Addr c = [] then [GetEnvOrDefault getenv ''PIGO_CLICKHOUSE_ADDR'' ''localhost:9000''] else ch_Addr c),
       ch_Database := (if ch_Database c = [] then GetEnvOrDefault getenv ''PIGO_CLICKHOUSE_AUTH_DATABASE'' ''default'' else ch_Database c),
       ch_Username := (if ch_Username c = [] then GetEnvOrDefault getenv ''PIGO_CLICKHOUSE_AUTH_USERNAME'' ''default'' else ch_Username c),
       ch_Password := (if ch_Password c = [] then GetEnvOrDefault getenv ''PIGO_CLICKHOUSE_AUTH_PASSWORD'' [] else ch_Password c)\<rparr>"

end
