(* ===== verification/HttpPeer.thy ===== *)
theory HttpPeer
  imports Cdc Url Base64
begin

text \<open>
  Outgoing requests (\<open>pkg/httputil/client.go\<close>) and the HTTP peer that posts change events to webhooks
  (\<open>pkg/pipeline/peer/http/peer.go\<close>). The transport, JSON, the parsing of durations and the canonical form of header
  names are parameters; durations are in nanoseconds.
\<close>

section \<open>Requests\<close>

record RequestConfig =
  rc_Headers :: Values
  rc_Method :: string
  rc_URL :: string
  rc_Timeout :: int
  rc_MaxRetries :: int
  rc_InitialBackoff :: int
  rc_MaxBackoff :: int
  rc_RetryEnabled :: bool

definition millisecond :: int where "millisecond = 1000000"

definition DefaultRequestConfig :: "string \<Rightarrow> string \<Rightarrow> RequestConfig" where
  "DefaultRequestConfig meth url = \<lparr>rc_Headers = [], rc_Method = meth, rc_URL = url, rc_Timeout = 5000 * millisecond, rc_MaxRetries = 3,
     rc_InitialBackoff = 100 * millisecond, rc_MaxBackoff = 10000 * millisecond, rc_RetryEnabled = True\<rparr>"

text \<open>The payload is nothing, bytes or text as they are, or a value that is encoded as JSON.\<close>

datatype payload = NoPayload | Bytes string | Text string | Value any

definition encoded_payload :: "(any \<Rightarrow> string option) \<Rightarrow> payload \<Rightarrow> string option option" where
  "encoded_payload marshal p = (case p of NoPayload \<Rightarrow> Some None | Bytes b \<Rightarrow> Some (Some b) | Text t \<Rightarrow> Some (Some t)
     | Value v \<Rightarrow> (case marshal v of None \<Rightarrow> None | Some b \<Rightarrow> Some (Some b)))"

definition request_headers :: "(string \<Rightarrow> string) \<Rightarrow> RequestConfig \<Rightarrow> bool \<Rightarrow> Values" where
  "request_headers canon c hasBody =
     (let h = fold (\<lambda>(k, vs) h. fold (\<lambda>v h. add_value (canon k, v) h) vs h) (rc_Headers c) [] in
      if hasBody \<and> rc_Method c \<in> {''POST'', ''PUT'', ''PATCH''} \<and> Get h ''Content-Type'' = [] then map_put ''Content-Type'' [''application/json''] h else h)"

text \<open>
  One attempt: what the transport answers to the bytes it is given, an error of reading the body of the response,
  and an error of the response handler. A request's body is a reader that the first attempt consumes.
\<close>

record attempt =
  at_do :: "string \<Rightarrow> (string, nat \<times> string) result"
  at_read :: "string option"
  at_handler :: "string option"

datatype client_error = MarshalFailed | BadRequest string | RequestFailed string | ReadFailed string | HandlerFailed string | BadStatus nat string

definition run_attempt :: "attempt \<Rightarrow> string \<Rightarrow> (nat \<times> string) option \<Rightarrow> client_error option \<times> (nat \<times> string) option" where
  "run_attempt a body resp = (case at_do a body of
       Inl e \<Rightarrow> (Some (RequestFailed e), resp)
     | Inr (status, rbody) \<Rightarrow> (case at_read a of
         Some e \<Rightarrow> (Some (ReadFailed e), resp)
       | None \<Rightarrow> (case at_handler a of
           Some e \<Rightarrow> (Some (HandlerFailed e), Some (status, rbody))
         | None \<Rightarrow> if status < 200 \<or> status \<ge> 300 then (Some (BadStatus status rbody), Some (status, rbody)) else (None, Some (status, rbody)))))"

text \<open>
  The attempts the backoff policy makes until one succeeds (its length is decided by elapsed time, not by a count),
  with the bytes each of them is given.
\<close>

fun run_attempts :: "attempt list \<Rightarrow> string \<Rightarrow> (nat \<times> string) option \<Rightarrow> client_error option \<Rightarrow> (client_error option \<times> (nat \<times> string) option) \<times> string list" where
  "run_attempts [] body resp err = ((err, resp), [])"
| "run_attempts (a # as) body resp err = (case run_attempt a body resp of
       (None, resp1) \<Rightarrow> ((None, resp1), [body])
     | (Some e, resp1) \<Rightarrow> (case run_attempts as [] resp1 (Some e) of (r, sent) \<Rightarrow> (r, body # sent)))"

text \<open>The longest time the retries may take, from which the policy decides.\<close>

definition max_elapsed :: "RequestConfig \<Rightarrow> int" where
  "max_elapsed c = rc_MaxRetries c * rc_MaxBackoff c"

definition HttpRequest ::
  "(any \<Rightarrow> string option) \<Rightarrow> (string \<Rightarrow> string \<Rightarrow> string option) \<Rightarrow> RequestConfig \<Rightarrow> attempt list \<Rightarrow> payload
     \<Rightarrow> (client_error option \<times> (nat \<times> string) option) \<times> string list" where
  "HttpRequest marshal check c attempts p = (case encoded_payload marshal p of
       None \<Rightarrow> ((Some MarshalFailed, None), [])
     | Some body \<Rightarrow> (case check (rc_Method c) (rc_URL c) of
         Some e \<Rightarrow> ((Some (BadRequest e), None), [])
       | None \<Rightarrow> (let b = (case body of None \<Rightarrow> [] | Some b \<Rightarrow> b) in
           run_attempts (if rc_RetryEnabled c then attempts else take 1 attempts) b None None)))"

text \<open>Every attempt after the first is given no body: a webhook that fails once is never sent its event again.\<close>

lemma run_attempts_bodies: "snd (run_attempts as body resp err) = [] \<or> (\<exists>n. snd (run_attempts as body resp err) = body # replicate n [])"
proof (induction as arbitrary: body resp err)
  case (Cons a as)
  obtain e resp1 where a: "run_attempt a body resp = (e, resp1)" by force
  show ?case
  proof (cases e)
    case None
    then show ?thesis by (simp add: a exI [of _ 0])
  next
    case (Some x)
    obtain n where "snd (run_attempts as [] resp1 (Some x)) = replicate n []"
      using Cons.IH [of "[]" resp1 "Some x"] by (metis replicate_0 replicate_Suc)
    then show ?thesis by (auto simp: a Some split: prod.split)
  qed
qed simp

lemma retries_have_no_body:
  "i > 0 \<Longrightarrow> i < length (snd (HttpRequest marshal check c attempts p)) \<Longrightarrow> snd (HttpRequest marshal check c attempts p) ! i = []"
proof -
  assume i: "i > 0" "i < length (snd (HttpRequest marshal check c attempts p))"
  have bodies: "sent = [] \<or> (\<exists>body n. sent = body # replicate n [])" if "sent = snd (HttpRequest marshal check c attempts p)" for sent
    using that run_attempts_bodies by (simp add: HttpRequest_def Let_def split: option.splits) metis+
  from bodies [OF refl] i show ?thesis by (auto simp: nth_Cons split: nat.split)
qed

section \<open>The HTTP peer\<close>

record AuthConfig =
  ac_Type :: string
  ac_APIKey :: string
  ac_APIKeyName :: string
  ac_Username :: string
  ac_Password :: string
  ac_Token :: string
  ac_TokenFile :: string
  ac_ClientID :: string
  ac_ClientSecret :: string
  ac_TokenURL :: string
  ac_Scopes :: string
  ac_ServiceAccountFile :: string
  ac_AWSRegion :: string
  ac_AWSAccessKeyID :: string
  ac_AWSSecretAccessKey :: string
  ac_CloudflareToken :: string
  ac_CloudflareKey :: string
  ac_CloudflareEmail :: string

record RetryConfig =
  ry_MaxRetries :: int
  ry_InitialWait :: int
  ry_MaxWait :: int

record EndpointConfig =
  ep_Headers :: "(string \<times> string) list"
  ep_URL :: string
  ep_Method :: string

record HttpConfig =
  hc_Auth :: AuthConfig
  hc_Timeout :: string
  hc_Endpoints :: "EndpointConfig list"
  hc_Retry :: RetryConfig

definition setDefaultConfig :: "HttpConfig \<Rightarrow> HttpConfig" where
  "setDefaultConfig c =
     c\<lparr>hc_Retry := \<lparr>ry_MaxRetries = (if ry_MaxRetries (hc_Retry c) = 0 then 3 else ry_MaxRetries (hc_Retry c)),
         ry_InitialWait = (if ry_InitialWait (hc_Retry c) = 0 then 1000 * millisecond else ry_InitialWait (hc_Retry c)),
         ry_MaxWait = (if ry_MaxWait (hc_Retry c) = 0 then 30000 * millisecond else ry_MaxWait (hc_Retry c))\<rparr>,
       hc_Endpoints := map (\<lambda>e. e\<lparr>ep_Method := (if ep_Method e = [] then ''POST'' else ep_Method e)\<rparr>) (hc_Endpoints c),
       hc_Auth := (hc_Auth c)\<lparr>ac_Type := (if ac_Type (hc_Auth c) = [] then ''none'' else ac_Type (hc_Auth c))\<rparr>\<rparr>"

text \<open>The checks of the authentication settings; an API key without a header name gets the default one.\<close>

definition validate_auth :: "AuthConfig \<Rightarrow> (string, AuthConfig) result" where
  "validate_auth a =
     (let ty = ac_Type a in
      if ty = ''apikey'' then
        (if ac_APIKey a = [] then Inl ''API key authentication requires an API key''
         else Inr (if ac_APIKeyName a = [] then a\<lparr>ac_APIKeyName := ''X-API-Key''\<rparr> else a))
      else if ty = ''basic'' then
        (if ac_Username a = [] \<or> ac_Password a = [] then Inl ''basic authentication requires both username and password'' else Inr a)
      else if ty = ''bearer'' then
        (if ac_Token a = [] \<and> ac_TokenFile a = [] then Inl ''bearer authentication requires either token or token file'' else Inr a)
      else if ty = ''oauth2'' then
        (if ac_ClientID a = [] \<or> ac_ClientSecret a = [] \<or> ac_TokenURL a = []
         then Inl ''OAuth2 authentication requires client ID, client secret, and token URL'' else Inr a)
      else if ty = ''gcp_service_account'' then
        (if ac_ServiceAccountFile a = [] then Inl ''GCP service account authentication requires service account file'' else Inr a)
      else if ty = ''aws_iam'' then
        (if (ac_AWSAccessKeyID a = [] \<or> ac_AWSSecretAccessKey a = []) \<and> ac_AWSRegion a = []
         then Inl ''AWS IAM authentication requires access key ID, secret access key, and region'' else Inr a)
      else if ty = ''cloudflare'' then
        (if ac_CloudflareToken a = [] \<and> (ac_CloudflareKey a = [] \<or> ac_CloudflareEmail a = [])
         then Inl ''Cloudflare authentication requires either API token or API key with email'' else Inr a)
      else Inr a)"

record PeerHTTP =
  ph_timeout :: int
  ph_auth :: AuthConfig
  ph_endpoints :: "EndpointConfig list"
  ph_retry :: RetryConfig

text \<open>\<open>Connect\<close> up to its last statement, which logs with a logger that nothing has set.\<close>

definition connect_http :: "(string \<Rightarrow> HttpConfig option) \<Rightarrow> (string \<Rightarrow> int option) \<Rightarrow> string \<Rightarrow> (string, PeerHTTP) result" where
  "connect_http unmarshal parseDuration config = (case unmarshal config of
       None \<Rightarrow> Inl ''failed to unmarshal HTTP config''
     | Some cfg \<Rightarrow>
         if hc_Endpoints cfg = [] then Inl ''no endpoints configured''
         else (case (if hc_Timeout cfg \<noteq> [] then parseDuration (hc_Timeout cfg) else Some (30000 * millisecond)) of
             None \<Rightarrow> Inl ''invalid timeout duration''
           | Some timeout \<Rightarrow> (let c = setDefaultConfig cfg in case validate_auth (hc_Auth c) of
               Inl e \<Rightarrow> Inl e
             | Inr auth \<Rightarrow> Inr \<lparr>ph_timeout = timeout, ph_auth = auth, ph_endpoints = hc_Endpoints c, ph_retry = hc_Retry c\<rparr>)))"

text \<open>
  The whole of \<open>Connect\<close>: the object that the package registers has no logger, and logging with a nil logger panics, which
  happens after everything else has succeeded.
\<close>

datatype http_connect = HttpRefused string | HttpPanic | HttpConnected PeerHTTP

definition Connect_http :: "bool \<Rightarrow> (string \<Rightarrow> HttpConfig option) \<Rightarrow> (string \<Rightarrow> int option) \<Rightarrow> string \<Rightarrow> http_connect" where
  "Connect_http has_logger unmarshal parseDuration config = (case connect_http unmarshal parseDuration config of
       Inl e \<Rightarrow> HttpRefused e | Inr p \<Rightarrow> if has_logger then HttpConnected p else HttpPanic)"

lemma registered_peer_never_connects: "Connect_http False unmarshal parseDuration config \<noteq> HttpConnected p"
  by (simp add: Connect_http_def split: sum.split)

definition basicAuth :: "string \<Rightarrow> string \<Rightarrow> string" where
  "basicAuth username password = b64_encode (username @ '':'' @ password)"

definition buildHeaders :: "AuthConfig \<Rightarrow> EndpointConfig \<Rightarrow> Values" where
  "buildHeaders a endpoint =
     (let h = fold (\<lambda>(k, v) h. map_put k [v] h) (ep_Headers endpoint) []; ty = ac_Type a in
      if ty = ''apikey'' then map_put (ac_APIKeyName a) [ac_APIKey a] h
      else if ty = ''basic'' then map_put ''Authorization'' [''Basic '' @ basicAuth (ac_Username a) (ac_Password a)] h
      else if ty = ''bearer'' then map_put ''Authorization'' [''Bearer '' @ ac_Token a] h
      else if ty = ''cloudflare'' then
        (if ac_CloudflareToken a \<noteq> [] then map_put ''Authorization'' [''Bearer '' @ ac_CloudflareToken a] h
         else map_put ''X-Auth-Email'' [ac_CloudflareEmail a] (map_put ''X-Auth-Key'' [ac_CloudflareKey a] h))
      else h)"

definition endpoint_request :: "PeerHTTP \<Rightarrow> EndpointConfig \<Rightarrow> RequestConfig" where
  "endpoint_request p e = (DefaultRequestConfig (ep_Method e) (ep_URL e))\<lparr>rc_Headers := buildHeaders (ph_auth p) e, rc_Timeout := ph_timeout p,
     rc_RetryEnabled := True, rc_MaxRetries := ry_MaxRetries (ph_retry p), rc_InitialBackoff := ry_InitialWait (ph_retry p),
     rc_MaxBackoff := ry_MaxWait (ph_retry p)\<rparr>"

text \<open>Publishing: the row is posted to every endpoint, and the last error is the result.\<close>

fun post_all ::
  "(string \<Rightarrow> string \<Rightarrow> string option) \<Rightarrow> (string \<Rightarrow> attempt list) \<Rightarrow> PeerHTTP \<Rightarrow> string \<Rightarrow> EndpointConfig list \<Rightarrow> client_error option
     \<Rightarrow> client_error option \<times> (string \<times> string list) list" where
  "post_all check X p body [] lastErr = (lastErr, [])"
| "post_all check X p body (e # es) lastErr =
     (case HttpRequest (\<lambda>_. None) check (endpoint_request p e) (X (ep_URL e)) (Bytes body) of ((err, _), sent) \<Rightarrow>
        (case post_all check X p body es (if err = None then lastErr else err) of (r, posts) \<Rightarrow> (r, (ep_URL e, sent) # posts)))"

definition Pub_http ::
  "(any \<Rightarrow> string option) \<Rightarrow> (string \<Rightarrow> string \<Rightarrow> string option) \<Rightarrow> (string \<Rightarrow> attempt list) \<Rightarrow> PeerHTTP \<Rightarrow> Event
     \<Rightarrow> client_error option \<times> (string \<times> string list) list" where
  "Pub_http marshal check X p e = (case marshal (pa_After (ev_Payload e)) of
       None \<Rightarrow> (Some MarshalFailed, [])
     | Some body \<Rightarrow> post_all check X p body (ph_endpoints p) None)"

section \<open>Authentication\<close>

text \<open>Settings that are accepted and then add nothing to the request.\<close>

lemma unsupported_auth_sends_nothing:
  "ac_Type a \<in> {''oauth2'', ''gcp_service_account'', ''aws_iam''} \<Longrightarrow> buildHeaders a e = buildHeaders (a\<lparr>ac_Type := ''none''\<rparr>) e"
  by (auto simp: buildHeaders_def Let_def)

lemma token_file_is_ignored:
  "validate_auth (a\<lparr>ac_Type := ''bearer'', ac_Token := [], ac_TokenFile := ''/run/token''\<rparr>) = Inr (a\<lparr>ac_Type := ''bearer'', ac_Token := [], ac_TokenFile := ''/run/token''\<rparr>)
     \<and> map_of (buildHeaders (a\<lparr>ac_Type := ''bearer'', ac_Token := [], ac_TokenFile := ''/run/token''\<rparr>) e) ''Authorization'' = Some [''Bearer '']"
  by (simp add: validate_auth_def buildHeaders_def Let_def)

text \<open>A failing endpoint does not keep the others from getting the event.\<close>

lemma post_all_urls: "map fst (snd (post_all check X p body es err)) = map ep_URL es"
  by (induction es arbitrary: err) (simp_all add: case_prod_unfold)

text \<open>A header that the peer sets is the one the server reads, unless an endpoint's own header has the same canonical name.\<close>

lemma request_header_get:
  assumes "distinct (map fst hs)" and "map_of hs k = Some [v]" and "\<And>k'. k' \<in> fst ` set hs \<Longrightarrow> canon k' = k \<longleftrightarrow> k' = k" and "k \<noteq> ''Content-Type''"
    and "rc_Headers c = hs"
  shows "Get (request_headers canon c b) k = v"
proof -
  have inner: "values_of (fold (\<lambda>v h. add_value (canon k', v) h) vs h) k = values_of h k @ (if canon k' = k then vs else [])" for k' vs h
    by (induction vs arbitrary: h) (auto simp: values_of_add)
  have outer: "values_of (fold (\<lambda>(k, vs) h. fold (\<lambda>v h. add_value (canon k, v) h) vs h) xs h) k = values_of h k @ concat (map snd (filter (\<lambda>(k', _). canon k' = k) xs))" for xs h
  proof (induction xs arbitrary: h)
    case (Cons x xs)
    obtain k' vs where x: "x = (k', vs)" by force
    show ?case unfolding x using Cons.IH [of "fold (\<lambda>v h. add_value (canon k', v) h) vs h"] inner [of k' vs h] by simp
  qed simp
  have one: "concat (map snd (filter (\<lambda>(k', _). canon k' = k) xs)) = (case map_of xs k of Some vs \<Rightarrow> vs | None \<Rightarrow> [])"
    if "distinct (map fst xs)" "\<And>k'. k' \<in> fst ` set xs \<Longrightarrow> canon k' = k \<longleftrightarrow> k' = k" for xs
    using that
  proof (induction xs)
    case (Cons x xs)
    have "k' \<in> fst ` set xs \<Longrightarrow> canon k' = k \<longleftrightarrow> k' = k" for k' using Cons.prems(2) by simp
    moreover have "map_of xs (fst x) = None" using Cons.prems(1) by (simp add: map_of_eq_None_iff)
    ultimately show ?case using Cons by (cases x) auto
  qed simp
  have "values_of (fold (\<lambda>(k, vs) h. fold (\<lambda>v h. add_value (canon k, v) h) vs h) hs []) k = [v]"
    using outer [of hs "[]"] one [OF assms(1,3)] assms(2) by (simp add: values_of_def)
  then show ?thesis
    using assms(4,5) unfolding request_headers_def Let_def by (auto simp: Get_def values_of_def split: option.splits)
qed

text \<open>The headers an endpoint is configured with.\<close>

lemma endpoint_headers:
  assumes "distinct (map fst (h :: Values))"
  shows "distinct (map fst (fold (\<lambda>(k, v) h. map_put k [v] h) xs h))
    \<and> fst ` set (fold (\<lambda>(k, v) h. map_put k [v] h) xs h) = fst ` set xs \<union> fst ` set h"
  using assms
proof (induction xs arbitrary: h)
  case (Cons x xs)
  obtain k v where x: "x = (k, v)" by force
  have "distinct (map fst (map_put k [v] h))" using Cons.prems by (simp add: distinct_map_put)
  from Cons.IH [OF this] show ?case by (simp add: x keys_map_put)
qed simp

end
