(* ===== verification/Path.thy ===== *)
theory Path
  imports GoStrings
begin

text \<open>
  What the program uses of Go's \<open>path/filepath\<close> on Unix: \<open>Clean\<close>, \<open>Join\<close>, \<open>Abs\<close>, \<open>Rel\<close> between absolute paths
  and \<open>Ext\<close>, over the elements of a path, the texts between its slashes.
\<close>

definition rooted :: "string \<Rightarrow> bool" where
  "rooted s = HasPrefix s ''/''"

definition path_elems :: "string \<Rightarrow> string list" where
  "path_elems s = filter (\<lambda>e. e \<noteq> []) (Split s (CHR ''/''))"

text \<open>
  One element of \<open>Clean\<close>, on the elements kept so far, last first: an empty element and \<open>.\<close> are dropped, \<open>..\<close> takes the
  last element away; at the start of a path it is kept, or dropped when the path is rooted.
\<close>

definition clean_elem :: "bool \<Rightarrow> string \<Rightarrow> string list \<Rightarrow> string list" where
  "clean_elem r e st =
     (if e = [] \<or> e = ''.'' then st
      else if e = ''..'' then (case st of [] \<Rightarrow> if r then [] else [e] | a # as \<Rightarrow> if a = ''..'' then e # st else as)
      else e # st)"

definition clean_elems :: "string \<Rightarrow> string list" where
  "clean_elems s = rev (fold (clean_elem (rooted s)) (Split s (CHR ''/'')) [])"

definition Clean :: "string \<Rightarrow> string" where
  "Clean s = (let t = Join (clean_elems s) ''/'' in if rooted s then CHR ''/'' # t else if t = [] then ''.'' else t)"

text \<open>\<open>filepath.Join\<close> of two paths.\<close>

definition Join2 :: "string \<Rightarrow> string \<Rightarrow> string" where
  "Join2 a b = (if a \<noteq> [] then Clean (a @ ''/'' @ b) else if b \<noteq> [] then Clean b else [])"

text \<open>\<open>filepath.Abs\<close>, given the working directory.\<close>

definition Abs :: "string \<Rightarrow> string \<Rightarrow> string" where
  "Abs cwd s = (if rooted s then Clean s else Join2 cwd s)"

fun strip_common :: "'a list \<Rightarrow> 'a list \<Rightarrow> 'a list \<times> 'a list" where
  "strip_common (x # xs) (y # ys) = (if x = y then strip_common xs ys else (x # xs, y # ys))"
| "strip_common xs ys = (xs, ys)"

text \<open>\<open>filepath.Rel\<close> for an absolute base: up from what the base has beyond the common elements, down to the target.\<close>

definition RelPath :: "string \<Rightarrow> string \<Rightarrow> string option" where
  "RelPath base targ =
     (if Clean targ = Clean base then Some ''.''
      else if rooted base \<noteq> rooted targ then None
      else (case strip_common (path_elems (Clean base)) (path_elems (Clean targ)) of
          (bs, ts) \<Rightarrow> Some (Join (replicate (length bs) ''..'' @ ts) ''/'')))"

text \<open>\<open>filepath.Ext\<close>: from the last dot of the last element.\<close>

definition Ext_of :: "string \<Rightarrow> string" where
  "Ext_of s = (let e = List.last (Split s (CHR ''/'')) in
     if CHR ''.'' \<in> set e then CHR ''.'' # rev (takeWhile (\<lambda>c. c \<noteq> CHR ''.'') (rev e)) else [])"

lemma Clean_examples:
  "Clean ''a//b/./c/..'' = ''a/b''" "Clean ''/../a'' = ''/a''" "Clean ''../../x/..'' = ''../..''" "Clean '''' = ''.''" "Clean ''/..'' = ''/''"
  "Join2 ''dist'' ''/../secret.txt'' = ''secret.txt''" "RelPath ''/a/b'' ''/a/c/d'' = Some ''../c/d''" "Ext_of ''/a.b/c'' = []" "Ext_of ''x.tar.gz'' = ''.gz''"
  by code_simp+

section \<open>Clean paths\<close>

text \<open>An element that \<open>Clean\<close> keeps wherever it stands.\<close>

definition plain :: "string \<Rightarrow> bool" where
  "plain e \<longleftrightarrow> e \<noteq> [] \<and> e \<noteq> ''.'' \<and> e \<noteq> ''..'' \<and> CHR ''/'' \<notin> set e"

lemma fold_clean_rooted:
  assumes "list_all plain st" and "\<forall>e \<in> set es. CHR ''/'' \<notin> set e"
  shows "list_all plain (fold (clean_elem True) es st)"
  using assms
proof (induction es arbitrary: st)
  case (Cons e es)
  have "list_all plain (clean_elem True e st)"
    using Cons.prems by (auto simp: clean_elem_def list_all_iff split: list.split) (auto simp: plain_def)
  then show ?case using Cons by simp
qed simp

lemma fold_clean_plain: "list_all plain es \<Longrightarrow> fold (clean_elem r) es st = rev es @ st"
  by (induction es arbitrary: st) (auto simp: clean_elem_def plain_def)

lemma clean_elems_rooted: "rooted s \<Longrightarrow> list_all plain (clean_elems s)"
  unfolding clean_elems_def by (simp add: fold_clean_rooted Split_no_sep list_all_rev)

lemma path_elems_join:
  assumes "list_all plain es"
  shows "path_elems (CHR ''/'' # Join es ''/'') = es" and "path_elems (Join es ''/'') = es"
proof -
  have "filter (\<lambda>e. e \<noteq> []) es = es" using assms by (auto simp: list_all_iff plain_def filter_id_conv)
  then show "path_elems (CHR ''/'' # Join es ''/'') = es" "path_elems (Join es ''/'') = es"
    using assms Split_Join [of es "CHR ''/''"] by (cases "es = []"; auto simp: path_elems_def list_all_iff plain_def)+
qed

lemma rooted_Cons [simp]: "rooted (c # s) = (c = CHR ''/'')" "\<not> rooted []"
  by (auto simp: rooted_def HasPrefix_def)

lemma rooted_append: "rooted s \<Longrightarrow> rooted (s @ t)"
  by (cases s) auto

lemma Clean_rooted: "rooted s \<Longrightarrow> Clean s = CHR ''/'' # Join (clean_elems s) ''/''"
  by (simp add: Clean_def Let_def)

lemma not_rooted_Join:
  assumes "\<forall>e \<in> set es. e \<noteq> [] \<and> CHR ''/'' \<notin> set e"
  shows "\<not> rooted (Join es ''/'')"
proof (cases es)
  case (Cons e fs)
  with assms obtain c cs where e: "e = c # cs" "c \<noteq> CHR ''/''" by (cases e) auto
  then show ?thesis by (cases fs) (simp_all add: Cons)
qed simp

lemma fold_clean_all:
  assumes "\<forall>e \<in> set es. e \<noteq> [] \<longrightarrow> P e" and "list_all P st"
  shows "list_all P (fold (clean_elem r) es st)"
  using assms
proof (induction es arbitrary: st)
  case (Cons e es)
  have "list_all P (clean_elem r e st)"
    using Cons.prems by (cases st) (auto simp: clean_elem_def)
  then show ?case using Cons by simp
qed simp

lemma rooted_Clean [simp]: "rooted (Clean s) = rooted s"
proof (cases "rooted s")
  case False
  have "list_all (\<lambda>e. e \<noteq> [] \<and> CHR ''/'' \<notin> set e) (clean_elems s)"
    by (simp add: clean_elems_def fold_clean_all Split_no_sep list_all_rev)
  then have "\<not> rooted (Join (clean_elems s) ''/'')" by (intro not_rooted_Join) (simp add: list_all_iff)
  then show ?thesis using False by (simp add: Clean_def Let_def)
qed (simp add: Clean_rooted)

lemma path_elems_Clean: "rooted s \<Longrightarrow> path_elems (Clean s) = clean_elems s"
  by (simp add: Clean_rooted path_elems_join clean_elems_rooted)

lemma Clean_join:
  assumes "list_all plain es"
  shows "clean_elems (CHR ''/'' # Join es ''/'') = es" and "Clean (CHR ''/'' # Join es ''/'') = CHR ''/'' # Join es ''/''"
proof -
  have "fold (clean_elem True) (Split (Join es ''/'') (CHR ''/'')) [] = rev es"
    using assms Split_Join [of es "CHR ''/''"] fold_clean_plain [of es True "[]"]
    by (cases "es = []") (auto simp: list_all_iff plain_def clean_elem_def)
  then show "clean_elems (CHR ''/'' # Join es ''/'') = es" by (simp add: clean_elems_def clean_elem_def)
  then show "Clean (CHR ''/'' # Join es ''/'') = CHR ''/'' # Join es ''/''" by (simp add: Clean_rooted)
qed

lemma Clean_idem: "rooted s \<Longrightarrow> Clean (Clean s) = Clean s"
  using Clean_join clean_elems_rooted by (simp add: Clean_rooted)

lemma Split_Join_plain:
  assumes "list_all plain es" and "es \<noteq> []"
  shows "Split (Join es ''/'') (CHR ''/'') = es"
proof (rule Split_Join [OF assms(2)])
  show "\<forall>x \<in> set es. CHR ''/'' \<notin> set x" using assms(1) by (simp add: list_all_iff plain_def)
qed

text \<open>A relative path of ordinary names is clean.\<close>

lemma Clean_relative:
  assumes "list_all plain es" and "es \<noteq> []"
  shows "Clean (Join es ''/'') = Join es ''/''"
proof -
  have "\<not> rooted (Join es ''/'')" using assms(1) by (intro not_rooted_Join) (simp add: list_all_iff plain_def)
  moreover have "clean_elems (Join es ''/'') = es"
    unfolding clean_elems_def Split_Join_plain [OF assms] by (simp add: fold_clean_plain assms(1))
  moreover have "Join es ''/'' \<noteq> []"
    using assms by (cases es rule: list.exhaust) (simp_all add: Join_Cons plain_def)
  ultimately show ?thesis by (simp add: Clean_def)
qed

lemma Split_append_slash: "Split (a @ CHR ''/'' # b) (CHR ''/'') = Split a (CHR ''/'') @ Split b (CHR ''/'')"
  by (induction a) (auto split: list.split)

lemma clean_elems_append:
  "rooted a \<Longrightarrow> clean_elems (a @ CHR ''/'' # b) = rev (fold (clean_elem True) (Split b (CHR ''/'')) (rev (clean_elems a)))"
  by (simp add: clean_elems_def rooted_append Split_append_slash)

lemma strip_common_eq:
  assumes "strip_common xs ys = (us, vs)"
  shows "\<exists>p. xs = p @ us \<and> ys = p @ vs"
  using assms by (induction xs ys rule: strip_common.induct) (auto split: if_splits intro: exI [of _ "_ # _"])

lemma strip_common_prefix: "strip_common xs (xs @ ys) = ([], ys)"
  by (induction xs) auto

end
