(* ===== verification/FileServer.thy ===== *)
theory FileServer
  imports Path MiddlewareProps
begin

text \<open>
  Static files (\<open>pkg/httputil/middleware/file_server.go\<close>): from a directory of the machine or from an embedded file
  system. The file system, the table of MIME types and the functions of the standard library that send a file are
  parameters; what is modelled is which file is sent, and when none is.
\<close>

text \<open>\<open>http.NotFound\<close>.\<close>

definition NotFound :: "World \<Rightarrow> World" where
  "NotFound w = http_Error ''404 page not found'' 404 w"

definition isValidFilePath :: "string \<Rightarrow> bool" where
  "isValidFilePath filePath \<longleftrightarrow> \<not> HasPrefix (Clean filePath) ''.''"

definition isSubPath :: "string \<Rightarrow> string \<Rightarrow> bool" where
  "isSubPath baseDir path = (case RelPath baseDir path of None \<Rightarrow> False | Some rel \<Rightarrow> \<not> HasPrefix rel ''..'')"

definition setContentType :: "(string \<Rightarrow> string) \<Rightarrow> string \<Rightarrow> World \<Rightarrow> World" where
  "setContentType mime filePath w =
     (let ext = Ext_of filePath in
      if ext \<noteq> [] \<and> mime ext \<noteq> [] then header_set ''Content-Type'' (mime ext) w else w)"

text \<open>\<open>stat\<close> tells whether a path exists and is a directory; \<open>serve\<close> is \<open>http.ServeFile\<close>.\<close>

definition serveLocal ::
  "(string \<Rightarrow> bool option) \<Rightarrow> (string \<Rightarrow> string) \<Rightarrow> (string \<Rightarrow> handler) \<Rightarrow> string \<Rightarrow> string \<Rightarrow> bool \<Rightarrow> handler" where
  "serveLocal stat mime serve cwd directory spaFallback r w =
     (let absDir = Abs cwd directory;
          requested = Join2 absDir (Clean (TrimPrefix (rq_Path r) ''/''));
          indexPath = Join2 absDir ''index.html'';
          requestedPath = (if stat requested = None \<and> spaFallback then indexPath else requested)
      in if \<not> isSubPath absDir requested then http_Error ''Forbidden'' 403 w
         else (case stat requestedPath of
             None \<Rightarrow> NotFound w
           | Some isDir \<Rightarrow>
               if isDir \<and> \<not> spaFallback then http_Error ''Directory listing not allowed'' 403 w
               else serve requestedPath r (setContentType mime requestedPath w)))"

text \<open>\<open>readFile\<close> is \<open>readFileFromFS\<close> on the embedded files, \<open>serveContent\<close> is \<open>http.ServeContent\<close>.\<close>

definition serveEmbedded ::
  "(string \<Rightarrow> string option) \<Rightarrow> (string \<Rightarrow> string) \<Rightarrow> (string \<Rightarrow> string \<Rightarrow> handler) \<Rightarrow> string \<Rightarrow> bool \<Rightarrow> handler" where
  "serveEmbedded readFile mime serveContent baseDir spaFallback r w =
     (let filePath = Join2 baseDir (rq_Path r);
          served = (if readFile filePath = None \<and> spaFallback then Join2 baseDir ''index.html'' else filePath)
      in if \<not> isValidFilePath filePath then http_Error ''Forbidden'' 403 w
         else (case readFile served of
             None \<Rightarrow> NotFound w
           | Some fileData \<Rightarrow> serveContent served fileData r (setContentType mime served w)))"

text \<open>\<open>Static\<close>: the embedded files when there are any, the directory otherwise.\<close>

definition Static ::
  "(string \<Rightarrow> bool option) \<Rightarrow> (string \<Rightarrow> string) \<Rightarrow> (string \<Rightarrow> handler) \<Rightarrow> (string \<Rightarrow> string \<Rightarrow> handler) \<Rightarrow> string \<Rightarrow> string \<Rightarrow> bool
    \<Rightarrow> (string \<Rightarrow> string option) option \<Rightarrow> handler" where
  "Static stat mime serve serveContent cwd directory spaFallback embeddedFS = (case embeddedFS of
       Some readFile \<Rightarrow> serveEmbedded readFile mime serveContent directory spaFallback
     | None \<Rightarrow> serveLocal stat mime serve cwd directory spaFallback)"

section \<open>What is served\<close>

definition inside :: "string \<Rightarrow> string \<Rightarrow> bool" where
  "inside d p \<longleftrightarrow> rooted p \<and> Clean p = p \<and> prefix (path_elems d) (path_elems p)"

lemma inside_plain: "inside d p \<Longrightarrow> list_all plain (path_elems p)"
  unfolding inside_def by (metis clean_elems_rooted path_elems_Clean)

lemma Abs_rooted:
  assumes "rooted cwd"
  shows "rooted (Abs cwd d)" and "Clean (Abs cwd d) = Abs cwd d"
  using assms by (auto simp: Abs_def Join2_def Clean_idem rooted_append)

lemma isSubPath_inside:
  assumes "rooted d" and "Clean d = d" and "rooted p" and "Clean p = p" and "isSubPath d p"
  shows "inside d p"
proof (cases "p = d")
  case False
  obtain bs ts where s: "strip_common (path_elems d) (path_elems p) = (bs, ts)" by force
  then obtain q where q: "path_elems d = q @ bs" "path_elems p = q @ ts" using strip_common_eq by blast
  have "\<not> HasPrefix (Join (replicate (length bs) ''..'' @ ts) ''/'') ''..''"
    using assms False s by (simp add: isSubPath_def RelPath_def)
  then have "bs = []" by (cases bs) (auto simp: Join_Cons HasPrefix_def split: if_splits)
  then show ?thesis using assms(3,4) q by (auto simp: inside_def)
qed (use assms in \<open>simp add: inside_def\<close>)

lemma inside_isSubPath:
  assumes "inside d p" and "rooted d" and "Clean d = d" and "path_elems p = path_elems d @ es" and "es \<noteq> [] \<Longrightarrow> \<not> HasPrefix (hd es) ''..''"
  shows "isSubPath d p"
proof (cases "p = d")
  case True
  then show ?thesis by (simp add: isSubPath_def RelPath_def HasPrefix_def)
next
  case False
  have p: "rooted p" "Clean p = p" using assms(1) by (simp_all add: inside_def)
  have "es \<noteq> []"
  proof
    assume "es = []"
    then have "clean_elems p = clean_elems d"
      using assms(2-4) p by (metis append_Nil2 path_elems_Clean)
    then show False using False assms(2,3) p by (metis Clean_rooted)
  qed
  have "list_all plain es" using inside_plain [OF assms(1)] assms(4) by simp
  with \<open>es \<noteq> []\<close> obtain e fs where e: "es = e # fs" "plain e" by (cases es) auto
  have "\<not> HasPrefix (Join es ''/'') ''..''"
    using assms(5) e by (cases e rule: list.exhaust; cases "tl e"; cases fs) (auto simp: HasPrefix_def plain_def)
  then show ?thesis
    using False assms(2-4) p by (simp add: isSubPath_def RelPath_def strip_common_prefix)
qed

lemma Join2_rooted:
  assumes "rooted d"
  shows "Join2 d x = Clean (d @ CHR ''/'' # x)" and "rooted (Join2 d x)" and "Clean (Join2 d x) = Join2 d x"
  using assms by (auto simp: Join2_def Clean_idem rooted_append)

lemma Join2_down:
  assumes "rooted d" and "Clean d = d" and "\<And>st. fold (clean_elem True) (Split x (CHR ''/'')) st = rev es @ st"
  shows "inside d (Join2 d x)" and "path_elems (Join2 d x) = path_elems d @ es"
proof -
  show "path_elems (Join2 d x) = path_elems d @ es"
    using assms path_elems_Clean [of d] path_elems_Clean [of "d @ CHR ''/'' # x"]
    by (simp add: Join2_rooted clean_elems_append rooted_append)
  then show "inside d (Join2 d x)" using Join2_rooted(2,3) [OF assms(1)] by (simp add: inside_def)
qed

lemma serveLocal_cases:
  assumes "rooted cwd" and "rs_Status (w_resp w) = None"
  obtains p where "inside (Abs cwd d) p" "stat p \<noteq> None"
      "\<And>serve. serveLocal stat mime serve cwd d spa r w = serve p r (setContentType mime p w)"
  | w' where "rs_Status (w_resp w') \<in> {Some 403, Some 404}" "\<And>serve. serveLocal stat mime serve cwd d spa r w = w'"
proof -
  let ?d = "Abs cwd d"
  let ?req = "Join2 ?d (Clean (TrimPrefix (rq_Path r) ''/''))" and ?index = "Join2 ?d ''index.html''"
  let ?p = "if stat ?req = None \<and> spa then ?index else ?req"
  note d = Abs_rooted [OF assms(1), of d]
  have index: "inside ?d ?index" by (rule Join2_down [OF d, where es = "[''index.html'']"]) (simp add: clean_elem_def)
  consider "\<not> isSubPath ?d ?req" | "isSubPath ?d ?req" "stat ?p = None" | "isSubPath ?d ?req" "stat ?p = Some True" "\<not> spa"
    | b where "isSubPath ?d ?req" "stat ?p = Some b" "\<not> (b \<and> \<not> spa)"
  proof (cases "stat ?p")
    case (Some b)
    then show ?thesis using that by (cases "isSubPath ?d ?req"; cases "b \<and> \<not> spa"; simp only:) blast+
  qed (use that in blast)
  then show ?thesis
  proof cases
    case 1
    then show ?thesis using assms(2) by (intro that(2) [of "http_Error ''Forbidden'' 403 w"]) (simp_all add: serveLocal_def Let_def)
  next
    case 2
    then show ?thesis using assms(2) by (intro that(2) [of "NotFound w"]) (simp_all add: serveLocal_def Let_def NotFound_def)
  next
    case 3
    then show ?thesis using assms(2)
      by (intro that(2) [of "http_Error ''Directory listing not allowed'' 403 w"]) (simp_all add: serveLocal_def Let_def)
  next
    case (4 b)
    have "inside ?d ?req" using isSubPath_inside [OF d] Join2_rooted(2,3) [OF d(1)] 4(1) by blast
    moreover have "serveLocal stat mime serve cwd d spa r w = serve ?p r (setContentType mime ?p w)" for serve
      unfolding serveLocal_def Let_def 4(2) by (simp only: 4(1) 4(3) not_True_eq_False if_False option.case)
    ultimately show ?thesis using index 4(2) by (intro that(1) [of ?p]) simp_all
  qed
qed

lemma serveLocal_plain:
  assumes "rooted cwd" and "rq_Path r = CHR ''/'' # Join es ''/''" and "es \<noteq> []" and "list_all plain es" and "\<not> HasPrefix (hd es) ''..''"
    and "p = CHR ''/'' # Join (path_elems (Abs cwd d) @ es) ''/''" and "stat p = Some False"
  shows "serveLocal stat mime serve cwd d spa r w = serve p r (setContentType mime p w)"
proof -
  let ?d = "Abs cwd d" and ?req = "Join2 (Abs cwd d) (Join es ''/'')"
  note d = Abs_rooted [OF assms(1), of d]
  have trim: "TrimPrefix (rq_Path r) ''/'' = Join es ''/''" using TrimPrefix_append [of "''/''" "Join es ''/''"] assms(2) by simp
  have "fold (clean_elem True) (Split (Join es ''/'') (CHR ''/'')) st = rev es @ st" for st
    unfolding Split_Join_plain [OF assms(4,3)] by (rule fold_clean_plain [OF assms(4)])
  note req = Join2_down [OF d this]
  have "?req = p" using req Join2_rooted(1,2) [OF d(1)] path_elems_Clean assms(6) by (metis Clean_rooted inside_def)
  then show ?thesis
    using inside_isSubPath [OF req(1) d req(2)] assms(5,7) by (simp add: serveLocal_def Let_def trim Clean_relative [OF assms(4,3)])
qed

text \<open>
  C19. The file server of a directory sends only files of that directory: whatever path is requested, the file that
  is sent is named by the elements of the directory followed by ordinary names, none of them \<open>..\<close>; every other request is
  answered with 403 or 404 without sending a file. A request for an existing file by its ordinary path is answered
  with that file.
\<close>

theorem static_stays_inside:
  assumes "rooted cwd" and "rs_Status (w_resp w) = None"
  shows "((\<exists>p. inside (Abs cwd d) p \<and> list_all plain (path_elems p) \<and> stat p \<noteq> None
           \<and> (\<forall>serve. serveLocal stat mime serve cwd d spa r w = serve p r (setContentType mime p w)))
       \<or> (\<exists>w'. rs_Status (w_resp w') \<in> {Some 403, Some 404} \<and> (\<forall>serve. serveLocal stat mime serve cwd d spa r w = w')))
    \<and> (\<forall>es p serve. rq_Path r = CHR ''/'' # Join es ''/'' \<and> es \<noteq> [] \<and> list_all plain es \<and> \<not> HasPrefix (hd es) ''..''
         \<and> p = CHR ''/'' # Join (path_elems (Abs cwd d) @ es) ''/'' \<and> stat p = Some False
       \<longrightarrow> serveLocal stat mime serve cwd d spa r w = serve p r (setContentType mime p w))"
proof (intro conjI allI impI)
  show "(\<exists>p. inside (Abs cwd d) p \<and> list_all plain (path_elems p) \<and> stat p \<noteq> None
           \<and> (\<forall>serve. serveLocal stat mime serve cwd d spa r w = serve p r (setContentType mime p w)))
       \<or> (\<exists>w'. rs_Status (w_resp w') \<in> {Some 403, Some 404} \<and> (\<forall>serve. serveLocal stat mime serve cwd d spa r w = w'))"
    by (rule serveLocal_cases [OF assms, of d stat mime spa r]) (use inside_plain in blast)+
qed (use serveLocal_plain [OF assms(1)] in blast)

definition file_request :: "string \<Rightarrow> Request" where
  "file_request p = (example_request ''GET'' [])\<lparr>rq_Path := p\<rparr>"

definition example_files :: "string \<Rightarrow> bool option" where
  "example_files p = (if p = ''/srv/www/a.txt'' then Some False else if p = ''/srv/www'' then Some True else None)"

theorem static_stays_inside_witness:
  "serveLocal example_files (\<lambda>_. []) (\<lambda>p r w. write_body p w) ''/srv'' ''www'' False (file_request ''/a.txt'') fresh_world
     = write_body ''/srv/www/a.txt'' fresh_world"
proof -
  have "rooted ''/srv''" "rs_Status (w_resp fresh_world) = None" by (simp_all add: fresh_world_def)
  moreover have "path_elems (Abs ''/srv'' ''www'') = [''srv'', ''www'']" by code_simp
  ultimately show ?thesis
    using static_stays_inside [of "''/srv''" fresh_world "''www''" example_files "\<lambda>_. []" False "file_request ''/a.txt''", THEN conjunct2,
        rule_format, of "[''a.txt'']" "''/srv/www/a.txt''" "\<lambda>p r w. write_body p w"]
    by (simp add: file_request_def example_files_def setContentType_def plain_def HasPrefix_def Let_def)
qed

text \<open>
  With the fallback for single-page applications a directory is handed to \<open>http.ServeFile\<close>, which lists it when it has no
  \<open>index.html\<close>. A file whose name starts with two dots is refused although it is inside. The embedded variant
  checks only that the joined path does not start with a dot, so \<open>/../\<close> leads out of its base directory.
\<close>

lemma spa_lists_directories:
  "serveLocal example_files mime serve ''/srv'' ''www'' True (file_request ''/'') w = serve ''/srv/www'' (file_request ''/'') w"
proof -
  have e: "Join2 (Abs ''/srv'' ''www'') (Clean (TrimPrefix ''/'' ''/'')) = ''/srv/www''" "isSubPath (Abs ''/srv'' ''www'') ''/srv/www''"
    "Ext_of ''/srv/www'' = []" by code_simp+
  show ?thesis by (simp add: serveLocal_def Let_def file_request_def e example_files_def setContentType_def)
qed

lemma dotted_names_are_refused:
  "serveLocal stat mime serve ''/srv'' ''www'' spa (file_request ''/..well'') w = http_Error ''Forbidden'' 403 w"
proof -
  have e: "\<not> isSubPath (Abs ''/srv'' ''www'') (Join2 (Abs ''/srv'' ''www'') (Clean (TrimPrefix ''/..well'' ''/'')))" by code_simp
  show ?thesis by (simp add: serveLocal_def Let_def file_request_def e)
qed

lemma embedded_escapes_its_directory:
  assumes "readFile ''secret.txt'' = Some b"
  shows "serveEmbedded readFile mime serveContent ''dist'' spa (file_request ''/../secret.txt'') w
    = serveContent ''secret.txt'' b (file_request ''/../secret.txt'') (setContentType mime ''secret.txt'' w)"
proof -
  have e: "Join2 ''dist'' ''/../secret.txt'' = ''secret.txt''" "isValidFilePath ''secret.txt''" by code_simp+
  show ?thesis using assms by (simp add: serveEmbedded_def Let_def file_request_def e)
qed

text \<open>What the check of the embedded variant does keep out is everything above the root of the embedded files.\<close>

lemma embedded_stays_below_the_root:
  assumes "\<not> HasPrefix (Clean (Join2 baseDir (rq_Path r))) ''.''" and "\<not> rooted (Join2 baseDir (rq_Path r))"
  shows "hd (clean_elems (Join2 baseDir (rq_Path r))) \<noteq> ''..''"
proof
  let ?p = "Join2 baseDir (rq_Path r)"
  assume h: "hd (clean_elems ?p) = ''..''"
  show False
  proof (cases "clean_elems ?p")
    case Nil
    then show False using assms by (simp add: Clean_def HasPrefix_def)
  next
    case (Cons e es)
    then show False using assms h by (simp add: Clean_def Let_def Join_Cons HasPrefix_def split: if_splits)
  qed
qed

end
