(* ===== verification/Logger.thy ===== *)
theory Logger
  imports Middleware
begin

text \<open>
  Logging: the request logger (\<open>pkg/httputil/middleware/logger.go\<close>) and the fan-out of records to several sinks
  (\<open>pkg/logger\<close>). Sinks are handlers of \<open>log/slog\<close>, which is a parameter; levels are its integers.
\<close>

section \<open>Levels\<close>

definition LevelDebug :: int where "LevelDebug = -4"
definition LevelInfo :: int where "LevelInfo = 0"
definition LevelWarn :: int where "LevelWarn = 4"
definition LevelError :: int where "LevelError = 8"

definition ParseLevel :: "string \<Rightarrow> int" where
  "ParseLevel s = (if s \<in> {''debug'', ''DEBUG''} then LevelDebug
     else if s \<in> {''warn'', ''WARN'', ''warning'', ''WARNING''} then LevelWarn
     else if s \<in> {''error'', ''ERROR''} then LevelError else LevelInfo)"

text \<open>The level of a request by its status.\<close>

definition logLevel :: "nat \<Rightarrow> int" where
  "logLevel status = (if status \<ge> 500 then LevelError else if status \<ge> 400 then LevelWarn else LevelInfo)"

section \<open>Fanning out\<close>

text \<open>
  A handler of \<open>slog\<close> over the state \<open>'s\<close> of all outputs: whether it takes records of a level, and what handling one
  does and answers. The errors of all handlers are joined.
\<close>

record ('r, 's) LogHandler =
  lh_Enabled :: "int \<Rightarrow> bool"
  lh_Handle :: "int \<Rightarrow> 'r \<Rightarrow> 's \<Rightarrow> string option \<times> 's"

definition fan_Enabled :: "('r, 's) LogHandler list \<Rightarrow> int \<Rightarrow> bool" where
  "fan_Enabled hs level = list_ex (\<lambda>h. lh_Enabled h level) hs"

fun fan_Handle :: "('r, 's) LogHandler list \<Rightarrow> int \<Rightarrow> 'r \<Rightarrow> 's \<Rightarrow> string list \<times> 's" where
  "fan_Handle [] level rec s = ([], s)"
| "fan_Handle (h # hs) level rec s =
     (if lh_Enabled h level then (case lh_Handle h level rec s of (e, s1) \<Rightarrow>
        (case fan_Handle hs level rec s1 of (es, s2) \<Rightarrow> ((case e of None \<Rightarrow> es | Some x \<Rightarrow> x # es), s2)))
      else fan_Handle hs level rec s)"

definition fan_With :: "(('r, 's) LogHandler \<Rightarrow> ('r, 's) LogHandler) \<Rightarrow> ('r, 's) LogHandler list \<Rightarrow> ('r, 's) LogHandler list" where
  "fan_With withAttrs hs = map withAttrs hs"

text \<open>
  A sink that only ever reports errors does not stop the others: what the outputs see is every enabled handler's
  handling in order, and the errors are those they report.
\<close>

lemma fan_Handle_all:
  "snd (fan_Handle hs level rec s) = fold (\<lambda>h s. snd (lh_Handle h level rec s)) (filter (\<lambda>h. lh_Enabled h level) hs) s"
proof (induction hs arbitrary: s)
  case (Cons h hs)
  obtain e s1 where h: "lh_Handle h level rec s = (e, s1)" by force
  show ?case using Cons.IH [of s1] Cons.IH [of s] by (simp add: h case_prod_beta)
qed simp

lemma fan_Enabled_iff: "fan_Enabled hs level \<longleftrightarrow> filter (\<lambda>h. lh_Enabled h level) hs \<noteq> []"
  by (auto simp: fan_Enabled_def list_ex_iff filter_empty_conv)

lemma fan_Handle_disabled: "\<not> fan_Enabled hs level \<Longrightarrow> fan_Handle hs level rec s = ([], s)"
  by (induction hs) (auto simp: fan_Enabled_def)

text \<open>The handlers of a logger by its options: standard error, telemetry, or nothing at all.\<close>

datatype sink = StderrJSON int bool | StderrText int bool | OTelSink string | DiscardSink

record LogOptions =
  lo_Level :: int
  lo_AddSource :: bool
  lo_JSON :: bool
  lo_Stderr :: bool
  lo_OTel :: bool
  lo_OTelScope :: string
  lo_LoggerProvider :: bool

definition logger_sinks :: "string \<Rightarrow> LogOptions \<Rightarrow> (string, sink list) result" where
  "logger_sinks hostname opts =
     (let stderr = (if lo_Stderr opts then [(if lo_JSON opts then StderrJSON else StderrText) (lo_Level opts) (lo_AddSource opts)] else []);
          scope = (if lo_OTelScope opts \<noteq> [] then lo_OTelScope opts else ''pigo-'' @ hostname);
          all = stderr @ (if lo_OTel opts then [OTelSink scope] else [])
      in if lo_OTel opts \<and> \<not> lo_LoggerProvider opts then Inl ''logger: OTel=true but LoggerProvider is nil''
         else Inr (if all = [] then [DiscardSink] else all))"

lemma logger_always_has_a_sink: "logger_sinks hostname opts = Inr ss \<Longrightarrow> ss \<noteq> []"
  by (auto simp: logger_sinks_def Let_def split: if_splits)

section \<open>The request logger\<close>

text \<open>
  What the default format reports that the model's requests do not have: the host, the remote address and the latency.
\<close>

record ClientInfo =
  ci_host :: string
  ci_remote :: string
  ci_latency :: string

definition nilUUID :: string where
  "nilUUID = ''00000000-0000-0000-0000-000000000000''"

definition default_format :: "ClientInfo \<Rightarrow> string \<Rightarrow> nat \<Rightarrow> Request \<Rightarrow> (string \<times> string) list" where
  "default_format ci reqID status r =
     [(''req_id'', reqID), (''status'', Itoa (int status)), (''method'', rq_Method r), (''host'', ci_host ci), (''path'', rq_Path r),
      (''remote_addr'', ci_remote ci), (''user_agent'', Get (rq_Header r) ''User-Agent''), (''latency'', ci_latency ci)]"

text \<open>The recorder's status: the last one passed to \<open>WriteHeader\<close> since it was made, and 200 when there was none.\<close>

definition recorded_status :: "World \<Rightarrow> World \<Rightarrow> nat" where
  "recorded_status before after =
     (let codes = drop (length (w_codes before)) (w_codes after) in if codes = [] then 200 else List.last codes)"

definition log_record :: "int \<Rightarrow> (string \<times> string) list \<Rightarrow> World \<Rightarrow> World" where
  "log_record level attrs w = w\<lparr>w_log := w_log w @ [(level, attrs)]\<rparr>"

definition LoggerWithOptions :: "(string \<Rightarrow> nat \<Rightarrow> Request \<Rightarrow> (string \<times> string) list) \<Rightarrow> Middleware" where
  "LoggerWithOptions format next r w =
     (if cx_LogEntry (rq_Ctx r) then next r w
      else (let reqID = (case cx_RequestID (rq_Ctx r) of None \<Rightarrow> nilUUID | Some i \<Rightarrow> i);
                w1 = next (r\<lparr>rq_Ctx := (rq_Ctx r)\<lparr>cx_LogEntry := True\<rparr>\<rparr>) w;
                status = recorded_status w w1;
                pgRole = (case cx_OIDCRole (rq_Ctx r) of None \<Rightarrow> ''unknown'' | Some role \<Rightarrow> role);
                w2 = (if cx_OIDCRole (rq_Ctx r) = None then log_record LevelDebug [] w1 else w1)
            in log_record (logLevel status) (format reqID status r @ [(''pg_role'', pgRole)]) w2))"

lemma log_record_frame [frame, simp]:
  "w_resp (log_record l a w) = w_resp w" "w_trace (log_record l a w) = w_trace w" "w_codes (log_record l a w) = w_codes w"
  by (simp_all add: log_record_def)

text \<open>The logger does not change what the handler answers and does; nested loggers log a request once.\<close>

lemma logged_already: "cx_LogEntry (rq_Ctx r) \<Longrightarrow> r\<lparr>rq_Ctx := (rq_Ctx r)\<lparr>cx_LogEntry := True\<rparr>\<rparr> = r"
  by (cases r; cases "rq_Ctx r") simp

lemma LoggerWithOptions_transparent:
  assumes "w1 = next (r\<lparr>rq_Ctx := (rq_Ctx r)\<lparr>cx_LogEntry := True\<rparr>\<rparr>) w"
  shows "w_resp (LoggerWithOptions format next r w) = w_resp w1" and "w_trace (LoggerWithOptions format next r w) = w_trace w1"
  unfolding assms by (cases "cx_LogEntry (rq_Ctx r)"; simp add: LoggerWithOptions_def Let_def logged_already)+

lemma LoggerWithOptions_twice:
  "LoggerWithOptions f (LoggerWithOptions g next) r w = LoggerWithOptions f next r w"
  by (simp add: LoggerWithOptions_def Let_def)

text \<open>
  The recorded status is the one of the response when the handler calls \<open>WriteHeader\<close> at most once; a later call is
  recorded although the response keeps the first.
\<close>

lemma recorded_status_once: "rs_Status (w_resp w) = None \<Longrightarrow> rs_Status (w_resp (write_header n w)) = Some (recorded_status w (write_header n w))"
  by (simp add: recorded_status_def write_header_def set_status_def)

lemma recorded_status_follows_later_calls:
  assumes "rs_Status (w_resp w) = None"
  shows "rs_Status (w_resp (write_header 500 (write_header 200 w))) = Some 200" and "recorded_status w (write_header 500 (write_header 200 w)) = 500"
  using assms by (simp_all add: recorded_status_def write_header_def set_status_def)

end
