(* ===== verification/RestCommand.thy ===== *)
theory RestCommand
  imports Logger RpcProps OpenApi
begin

text \<open>
  The REST command (\<open>cmd/pigo/rest.go\<close>) with its configuration (\<open>pkg/config/config.go\<close>) and the assembly of the server
  (\<open>pkg/rest/server.go\<close>): which middlewares a request passes, in which order, and so as which role it is served.
  The configuration file, the environment and the token verifier are parameters.
\<close>

section \<open>Configuration\<close>

record OIDCConfig =
  od_ClientID :: string
  od_ClientSecret :: string
  od_Issuer :: string
  od_SkipTLSVerify :: bool
  od_RoleClaimKey :: string

record RESTConfig =
  cf_ConnString :: string
  cf_ListenAddr :: string
  cf_BasePath :: string
  cf_OIDC :: OIDCConfig
  cf_BasicAuth :: "(string \<times> string) list"
  cf_AnonRole :: string
  cf_Omitempty :: bool

text \<open>What a configuration file sets: its texts, its truth values and the users of basic authentication.\<close>

record Settings =
  st_text :: "string \<Rightarrow> string option"
  st_bool :: "string \<Rightarrow> bool option"
  st_basicAuth :: "(string \<times> string) list"

definition SetDefaults :: "(string \<times> string) list" where
  "SetDefaults = [(''rest.listenAddr'', '':8080''), (''rest.anonRole'', ''anon''), (''rest.oidc.roleClaimKey'', ''.policy.pgrole'')]"

definition setting :: "Settings \<Rightarrow> string \<Rightarrow> string" where
  "setting f key = (case st_text f key of Some v \<Rightarrow> v
     | None \<Rightarrow> (case map_of SetDefaults key of Some d \<Rightarrow> d | None \<Rightarrow> []))"

definition decoded :: "Settings \<Rightarrow> RESTConfig" where
  "decoded f = \<lparr>cf_ConnString = setting f ''rest.pg.connString'', cf_ListenAddr = setting f ''rest.listenAddr'', cf_BasePath = setting f ''rest.basePath'',
     cf_OIDC = \<lparr>od_ClientID = setting f ''rest.oidc.clientID'', od_ClientSecret = setting f ''rest.oidc.clientSecret'',
       od_Issuer = setting f ''rest.oidc.issuer'', od_SkipTLSVerify = (st_bool f ''rest.oidc.skipTLSVerify'' = Some True),
       od_RoleClaimKey = setting f ''rest.oidc.roleClaimKey''\<rparr>,
     cf_BasicAuth = st_basicAuth f, cf_AnonRole = setting f ''rest.anonRole'', cf_Omitempty = (st_bool f ''rest.omitempty'' = Some True)\<rparr>"

text \<open>\<open>Load\<close>: a named file must be readable; one of the default files may be missing, but not be unreadable.\<close>

datatype read_result = Read Settings | FileNotFound | Unreadable string

definition no_settings :: Settings where
  "no_settings = \<lparr>st_text = \<lambda>_. None, st_bool = \<lambda>_. None, st_basicAuth = []\<rparr>"

definition Load :: "(string \<Rightarrow> read_result) \<Rightarrow> read_result \<Rightarrow> string \<Rightarrow> (string, RESTConfig) result" where
  "Load read default_file cfgFile =
     (let found = (if cfgFile \<noteq> [] then
            (case read cfgFile of Read f \<Rightarrow> Inr f | FileNotFound \<Rightarrow> Inl (''error reading config file '' @ cfgFile)
               | Unreadable e \<Rightarrow> Inl (''error reading config file '' @ cfgFile @ '': '' @ e))
          else (case default_file of Read f \<Rightarrow> Inr f | FileNotFound \<Rightarrow> Inr no_settings
               | Unreadable e \<Rightarrow> Inl (''error reading default config: '' @ e)))
      in case found of Inl e \<Rightarrow> Inl e
       | Inr f \<Rightarrow> (let cfg = decoded f in Inr (if cf_AnonRole cfg = [] then cfg\<lparr>cf_AnonRole := ''anon''\<rparr> else cfg)))"

text \<open>Anonymous access can not be switched off: an empty role in the file becomes \<open>anon\<close> again.\<close>

lemma anonymous_access_is_always_on: "Load read default_file cfgFile = Inr cfg \<Longrightarrow> cf_AnonRole cfg \<noteq> []"
  by (auto simp: Load_def Let_def split: sum.splits if_splits)

section \<open>The server\<close>

text \<open>\<open>strings.TrimRight\<close> with a single byte.\<close>

definition TrimRight :: "string \<Rightarrow> char \<Rightarrow> string" where
  "TrimRight s c = rev (dropWhile (\<lambda>x. x = c) (rev s))"

text \<open>Middleware can only be added before the server has started; afterwards \<open>AddMiddleware\<close> panics.\<close>

definition AddMiddleware :: "bool \<Rightarrow> Middleware list \<Rightarrow> Middleware list \<Rightarrow> Middleware list option" where
  "AddMiddleware started added mws = (if started then None else Some (mws @ added))"

definition wrapWithMiddleware :: "Middleware list \<Rightarrow> handler \<Rightarrow> handler" where
  "wrapWithMiddleware mws h r w = Add h mws r w"

definition rest_info :: OpenAPIInfo where
  "rest_info = \<lparr>oi_Title = ''PIGO REST API'', oi_Description = ''Auto-generated REST API for PostgreSQL'', oi_Version = ''1.0.0'',
     oi_ContactName = ''edgeflare.io'', oi_ContactEmail = ''support@edgeflare.io'', oi_ContactURL = []\<rparr>"

definition serve_specification :: "golib \<Rightarrow> OpenAPIGenerator \<Rightarrow> SchemaCache \<Rightarrow> World \<Rightarrow> World" where
  "serve_specification L g cache w =
     (let w1 = write_header 200 (header_set ''Content-Type'' ''application/json'' w) in
      case lib_marshal L (VMap (GenerateSpecification g cache)) of None \<Rightarrow> w1 | Some b \<Rightarrow> write_body (b @ [CHR 0x0A]) w1)"

definition openAPIHandler :: "golib \<Rightarrow> Ext \<Rightarrow> SchemaCache \<Rightarrow> Server \<Rightarrow> handler" where
  "openAPIHandler L X cache s r w = (case Conn (rq_Ctx r) of
       Inl e \<Rightarrow> Error L 500 (ext_pgerror X e) w
     | Inr (_, c) \<Rightarrow> emit (Release c) (serve_specification L (NewOpenAPIGenerator (sv_basePath s) rest_info) cache w))"

text \<open>The patterns a new server registers, in order, each wrapped in the middlewares the server has when a request comes.\<close>

definition rest_routes :: "golib \<Rightarrow> Ext \<Rightarrow> RpcExt \<Rightarrow> SchemaCache \<Rightarrow> Server \<Rightarrow> Middleware list \<Rightarrow> Mux" where
  "rest_routes L X R cache s mws =
     [(''/'', wrapWithMiddleware mws (handleRequest L X s)),
      (TrimRight (sv_basePath s) (CHR ''/'') @ ''/rpc/'', wrapWithMiddleware mws (handleRPC L X R s)),
      (TrimRight (sv_basePath s) (CHR ''/'') @ ''/openapi.json'', wrapWithMiddleware mws (openAPIHandler L X cache s))]"

section \<open>The command\<close>

definition or_env :: "string \<Rightarrow> string \<Rightarrow> string" where
  "or_env env cfg = (if env \<noteq> [] then env else cfg)"

definition rest_oidc :: "(string \<Rightarrow> string) \<Rightarrow> RESTConfig \<Rightarrow> OIDCConfig" where
  "rest_oidc env cfg = (let oc = cf_OIDC cfg in
     \<lparr>od_ClientID = or_env (env ''PIGO_OIDC_CLIENT_ID'') (od_ClientID oc),
      od_ClientSecret = or_env (env ''PIGO_OIDC_CLIENT_SECRET'') (od_ClientSecret oc),
      od_Issuer = or_env (env ''PIGO_OIDC_ISSUER'') (od_Issuer oc),
      od_SkipTLSVerify = (env ''PIGO_OIDC_SKIP_TLS_VERIFY'' \<noteq> [] \<or> od_SkipTLSVerify oc),
      od_RoleClaimKey = or_env (env ''PIGO_POSTGRES_OIDC_ROLE_CLAIM_KEY'') (od_RoleClaimKey oc)\<rparr>)"

definition rest_conn_string :: "(string \<Rightarrow> string) \<Rightarrow> RESTConfig \<Rightarrow> (string, string) result" where
  "rest_conn_string env cfg =
     (let s = (if cf_ConnString cfg = [] then env ''PIGO_REST_PG_CONN_STRING'' else cf_ConnString cfg) in
      if s = [] then Inl ''PostgreSQL connection string required'' else Inr s)"

text \<open>The flags that override the file: the listen address, the base path and \<open>omitempty\<close>.\<close>

definition flag_overrides :: "string \<Rightarrow> string \<Rightarrow> bool \<Rightarrow> RESTConfig \<Rightarrow> RESTConfig" where
  "flag_overrides listenAddr basePath omit cfg =
     (let c1 = (if listenAddr \<noteq> [] then cfg\<lparr>cf_ListenAddr := listenAddr\<rparr> else cfg);
          c2 = (if basePath \<noteq> [] then c1\<lparr>cf_BasePath := basePath\<rparr> else c1)
      in c2\<lparr>cf_Omitempty := omit \<or> cf_Omitempty c2\<rparr>)"

definition oidc_enabled :: "OIDCConfig \<Rightarrow> bool" where
  "oidc_enabled oc \<longleftrightarrow> od_ClientID oc \<noteq> [] \<and> od_Issuer oc \<noteq> []"

type_synonym verifier = "string \<Rightarrow> (bool, gomap) result"

definition initOIDCProvider :: "(string \<Rightarrow> (string, verifier) result) \<Rightarrow> OIDCConfig \<Rightarrow> (string, verifier) result" where
  "initOIDCProvider discover oc =
     (if od_ClientID oc = [] \<or> od_ClientSecret oc = [] \<or> od_Issuer oc = [] then Inl ''missing required OIDC configuration''
      else discover (od_Issuer oc))"

definition rest_authorizers :: "OIDCConfig \<Rightarrow> RESTConfig \<Rightarrow> AuthzFunc list" where
  "rest_authorizers oc cfg =
     (if oidc_enabled oc then [WithOIDCAuthz (od_RoleClaimKey oc)] else [])
     @ (if cf_BasicAuth cfg \<noteq> [] then [WithBasicAuthz] else [])
     @ (if cf_AnonRole cfg \<noteq> [] then [WithAnonAuthz (cf_AnonRole cfg)] else [])"

definition rest_middleware ::
  "Ext \<Rightarrow> verifier \<Rightarrow> Middleware \<Rightarrow> string \<Rightarrow> Middleware \<Rightarrow> string \<Rightarrow> OIDCConfig \<Rightarrow> RESTConfig \<Rightarrow> Middleware list" where
  "rest_middleware X verify cors newID logger level oc cfg =
     [RequestID newID, cors]
     @ (if oidc_enabled oc then [VerifyOIDCToken verify False] else [])
     @ (if cf_BasicAuth cfg \<noteq> [] then [VerifyBasicAuth (cf_BasicAuth cfg) False] else [])
     @ [Postgres X (rest_authorizers oc cfg)]
     @ (if level \<noteq> ''none'' then [logger] else [])"

text \<open>
  \<open>runRESTServer\<close> up to the start of the server: a missing connection string, an incomplete OIDC configuration or a
  wrong CORS configuration end the process.
\<close>

definition runRESTServer ::
  "(string \<Rightarrow> string) \<Rightarrow> (string \<Rightarrow> (string, verifier) result) \<Rightarrow> Ext \<Rightarrow> string \<Rightarrow> Middleware \<Rightarrow> string \<Rightarrow> RESTConfig \<Rightarrow> (string, Middleware list) result" where
  "runRESTServer env discover X newID logger level cfg =
     (let oc = rest_oidc env cfg in
      case rest_conn_string env cfg of Inl e \<Rightarrow> Inl e
      | Inr _ \<Rightarrow> (case CORSWithOptions None of None \<Rightarrow> Inl ''cors''
        | Some cors \<Rightarrow>
          if oidc_enabled oc then (case initOIDCProvider discover oc of Inl e \<Rightarrow> Inl e
             | Inr verify \<Rightarrow> Inr (rest_middleware X verify cors newID logger level oc cfg))
          else Inr (rest_middleware X (\<lambda>_. Inl True) cors newID logger level oc cfg)))"

section \<open>As which role a request is served\<close>

text \<open>
  What the command promises: a bearer token decides when it carries a role, and a token that is not valid is refused;
  otherwise the user of basic authentication is the role, and without one the anonymous role.
\<close>

definition basic_user :: "(string \<times> string) list \<Rightarrow> string \<Rightarrow> string option" where
  "basic_user creds a =
     (if \<not> HasPrefix a ''Basic '' then None
      else (case b64_decode (TrimPrefix a ''Basic '') of None \<Rightarrow> None
        | Some cr \<Rightarrow> (case Cut cr (CHR '':'') of (u, p, found) \<Rightarrow> if found \<and> map_of creds u = Some p then Some u else None)))"

definition fallback :: "RESTConfig \<Rightarrow> string \<Rightarrow> string option" where
  "fallback cfg a = (case basic_user (cf_BasicAuth cfg) a of Some u \<Rightarrow> Some u
     | None \<Rightarrow> if cf_AnonRole cfg \<noteq> [] then Some (cf_AnonRole cfg) else None)"

definition bearer :: "string \<Rightarrow> bool" where
  "bearer a \<longleftrightarrow> a \<noteq> [] \<and> HasPrefix (ToLower a) ''bearer ''"

definition granted_role :: "verifier \<Rightarrow> OIDCConfig \<Rightarrow> RESTConfig \<Rightarrow> string \<Rightarrow> string option" where
  "granted_role verify oc cfg a =
     (if oidc_enabled oc \<and> bearer a then
        (case verify (TrimPrefix a ''Bearer '') of Inl _ \<Rightarrow> None
         | Inr claims \<Rightarrow> (case Jq (Some claims) (od_RoleClaimKey oc) of Inr (VStr role) \<Rightarrow> Some role | _ \<Rightarrow> fallback cfg a))
      else fallback cfg a)"

definition no_context :: Context where
  "no_context = \<lparr>cx_RequestID = None, cx_OIDCUser = None, cx_BasicAuth = None, cx_PgConn = None, cx_OIDCRole = None, cx_LogEntry = False\<rparr>"

definition rest_statement :: "golib \<Rightarrow> Server \<Rightarrow> string \<Rightarrow> argList \<Rightarrow> bool" where
  "rest_statement L s q args \<longleftrightarrow> safe_statement L s q args \<or> rpc_statement q args"

end
