(* ===== verification/RestCommandProps.thy ===== *)
theory RestCommandProps
  imports RestCommand MiddlewareProps
begin

text \<open>As which role the REST command serves a request, from the Authorization header to the connection.\<close>

section \<open>The handlers\<close>

lemma conn_run_mono: "conn_run P X role c st es st' \<Longrightarrow> (\<And>q a. P q a \<Longrightarrow> Q q a) \<Longrightarrow> conn_run Q X role c st es st'"
proof (induction rule: conn_run.induct)
  case (step st e st1 es st2)
  have "conn_step Q X role c st e st1" using step.hyps(1) step.prems by cases (auto intro: conn_step.intros)
  then show ?case using step by (blast intro: conn_run.step)
qed (rule conn_run.finish)

lemma drives_mono: "drives P X role c st w w' st' \<Longrightarrow> (\<And>q a. P q a \<Longrightarrow> Q q a) \<Longrightarrow> drives Q X role c st w w' st'"
  unfolding drives_def by (blast intro: conn_run_mono)

text \<open>A handler that runs \<open>k\<close> with the role set and releases the connection in the end.\<close>

definition run_as :: "Ext \<Rightarrow> string \<Rightarrow> nat \<Rightarrow> (string \<Rightarrow> argList \<Rightarrow> bool) \<Rightarrow> World \<Rightarrow> World \<Rightarrow> bool" where
  "run_as X role c P w w' \<longleftrightarrow> (\<exists>run. w_trace w' = w_trace w @ run \<and> run \<noteq> [] \<and> conn_run P X role c Idle run Released)"

lemma run_as_drives: "drives P X role c Idle w w' Released \<Longrightarrow> w_trace w' \<noteq> w_trace w \<Longrightarrow> run_as X role c P w w'"
  by (auto simp: run_as_def drives_def)

lemma handler_runs_as:
  assumes rc: "request_role X (rq_Ctx r) = Some role" "cx_PgConn (rq_Ctx r) = Some c"
    and user: "conn_user (rq_Ctx r) = Some user" "lib_marshal L (VMap user) \<noteq> None"
    and k: "\<And>w1. \<exists>st. drives P X role c AsRole w1 (k c w1) st"
    and h: "h = (case ConnWithRole L X r w of (Inl e, w1) \<Rightarrow> Error L 500 (m e) w1 | (Inr (u, d), w1) \<Rightarrow> emit (Release d) (k d w1))"
  shows "run_as X role c P w h"
proof -
  obtain claims where cl: "lib_marshal L (VMap user) = Some claims" using user(2) by blast
  let ?q = "set_role_sql X role claims"
  let ?w1 = "emit (Exec c ?q) w"
  have set: "drives P X role c Idle w ?w1 AsRole" by (rule drives_emit) (simp add: conn_step.set_role)
  have rel: "drives P X role c AsRole w1 (emit (Release c) w1) Released" for w1
    by (rule drives_emit) (rule conn_step.release)
  have "ConnWithRole L X r w = (case ext_exec X (w_trace w) ?q of ExecOk \<Rightarrow> (Inr (user, c), ?w1)
      | ExecPgError e \<Rightarrow> (Inl e, emit (Release c) ?w1)
      | ExecOther \<Rightarrow> (Inl \<lparr>pe_Code = ''P0000'', pe_Message = ''Failed to set role and claims''\<rparr>, emit (Release c) ?w1))"
    using rc user cl by (simp add: ConnWithRole_def Conn_def Let_def split: execResult.split)
  then consider e where "h = Error L 500 (m e) (emit (Release c) ?w1)" | "h = emit (Release c) (k c ?w1)"
    unfolding h by (cases "ext_exec X (w_trace w) ?q") auto
  then show ?thesis
  proof cases
    case 1
    then show ?thesis using drives_trans [OF set rel] by (intro run_as_drives) auto
  next
    case 2
    obtain st where st: "drives P X role c AsRole ?w1 (k c ?w1) st" using k by blast
    have "drives P X role c st (k c ?w1) h Released" unfolding 2 by (intro drives_emit conn_step.release)
    then have "drives P X role c Idle w h Released" using drives_trans [OF set] drives_trans [OF st] by blast
    moreover have "w_trace h \<noteq> w_trace w" using st 2 by (auto simp: drives_def)
    ultimately show ?thesis by (rule run_as_drives)
  qed
qed

lemma routes_run_as:
  assumes "request_role X (rq_Ctx r) = Some role" and "cx_PgConn (rq_Ctx r) = Some c"
    and "conn_user (rq_Ctx r) = Some user" and "lib_marshal L (VMap user) \<noteq> None"
    and "h \<in> {handleRequest L X s, handleRPC L X R s, openAPIHandler L X cache s}"
  shows "run_as X role c (rest_statement L s) w (h r w)"
proof -
  have table: "\<exists>st. drives (rest_statement L s) X role c AsRole w1 (route L X s r w1) st" for w1
    by (meson route_drives [OF assms(1,2)] drives_mono rest_statement_def)
  have rpc: "\<exists>st. drives (rest_statement L s) X role c AsRole w1 (rpc_route L X R s c r w1) st" for w1
    by (meson rpc_route_drives [OF assms(1,2)] drives_mono rest_statement_def)
  have "run_as X role c (rest_statement L s) w (handleRequest L X s r w)"
    by (rule handler_runs_as [OF assms(1-4) table]) (simp add: handleRequest_def)
  moreover have "run_as X role c (rest_statement L s) w (handleRPC L X R s r w)"
    by (rule handler_runs_as [OF assms(1-4), where k = "\<lambda>d. rpc_route L X R s d r"]) (use rpc in \<open>simp_all add: handleRPC_def\<close>)
  moreover have "run_as X role c (rest_statement L s) w (openAPIHandler L X cache s r w)"
  proof (rule run_as_drives)
    let ?w1 = "serve_specification L (NewOpenAPIGenerator (sv_basePath s) rest_info) cache w"
    have w1: "w_trace ?w1 = w_trace w" by (simp add: serve_specification_def Let_def split: option.split)
    have eq: "openAPIHandler L X cache s r w = emit (Release c) ?w1" using assms(2,3) by (simp add: openAPIHandler_def Conn_def)
    show "drives (rest_statement L s) X role c Idle w (openAPIHandler L X cache s r w) Released"
      unfolding eq by (rule drives_trans [OF drives_same [OF w1] drives_emit]) (rule conn_step.release)
    show "w_trace (openAPIHandler L X cache s r w) \<noteq> w_trace w" by (simp add: eq w1)
  qed
  ultimately show ?thesis using assms(5) by auto
qed

section \<open>The middlewares\<close>

lemma set_if_trace [frame, simp]: "w_trace (set_if b k v w) = w_trace w"
  by (simp add: set_if_def)

lemma cors_passes:
  "(\<exists>w1. w_trace w1 = w_trace w \<and> cors_handler opts next r w = next r w1) \<or> w_trace (cors_handler opts next r w) = w_trace w"
proof -
  let ?v = "cors_varied opts r w" and ?a = "cors_origin opts r"
  have tr: "w_trace ?v = w_trace w" "w_trace (cors_world opts a w') = w_trace w'" "w_trace (cors_preflight opts w') = w_trace w'" for a w'
    by (simp_all add: cors_varied_def cors_world_def cors_preflight_def)
  consider "cors_handler opts next r w = next r w" | "cors_handler opts next r w = next r ?v"
    | "cors_handler opts next r w = cors_preflight opts (cors_world opts ?a ?v)" | "cors_handler opts next r w = next r (cors_world opts ?a ?v)"
    unfolding cors_handler_eq by argo
  then show ?thesis by cases (metis tr)+
qed

lemma oidc_passes:
  "VerifyOIDCToken verify False next r w =
     (if bearer (Get (rq_Header r) ''Authorization'')
      then (case verify (TrimPrefix (Get (rq_Header r) ''Authorization'') ''Bearer '') of
          Inl rejected \<Rightarrow> (if rejected then http_Error ''Invalid or expired token'' 401 w else http_Error ''Failed to parse token claims'' 500 w)
        | Inr claims \<Rightarrow> next (set_oidc_user claims r) w)
      else next r w)"
  by (auto simp: VerifyOIDCToken_def bearer_def Let_def split: sum.split bool.split)

lemma basic_passes:
  "VerifyBasicAuth creds False next r w =
     next (case basic_user creds (Get (rq_Header r) ''Authorization'') of None \<Rightarrow> r | Some u \<Rightarrow> set_basic_user u r) w"
  by (auto simp: VerifyBasicAuth_def basic_user_def Let_def HasPrefix_def split: option.split prod.split)

definition context_role :: "OIDCConfig \<Rightarrow> RESTConfig \<Rightarrow> Context \<Rightarrow> string option" where
  "context_role oc cfg cx =
     (let rest = (case (if cf_BasicAuth cfg = [] then None else cx_BasicAuth cx) of Some u \<Rightarrow> Some u
        | None \<Rightarrow> if cf_AnonRole cfg \<noteq> [] then Some (cf_AnonRole cfg) else None)
      in case (if oidc_enabled oc then cx_OIDCUser cx else None) of None \<Rightarrow> rest
         | Some claims \<Rightarrow> (case Jq (Some claims) (od_RoleClaimKey oc) of Inr (VStr role) \<Rightarrow> Some role | _ \<Rightarrow> rest))"

lemma authorize_oidc:
  "authorize (WithOIDCAuthz key # fs) cx =
     (case cx_OIDCUser cx of None \<Rightarrow> authorize fs cx
      | Some claims \<Rightarrow> (case Jq (Some claims) key of Inr (VStr role) \<Rightarrow> Inr (cx\<lparr>cx_OIDCRole := Some role\<rparr>) | _ \<Rightarrow> authorize fs cx))"
  by (simp add: WithOIDCAuthz_def denied_def split: option.split sum.split any.split)

lemma authorize_context:
  assumes "cx_OIDCRole cx = None"
  shows "authorize (rest_authorizers oc cfg) cx =
    Inr (case context_role oc cfg cx of None \<Rightarrow> cx | Some role \<Rightarrow> cx\<lparr>cx_OIDCRole := Some role\<rparr>)"
proof -
  have rest: "authorize ((if cf_BasicAuth cfg \<noteq> [] then [WithBasicAuthz] else []) @ (if cf_AnonRole cfg \<noteq> [] then [WithAnonAuthz (cf_AnonRole cfg)] else [])) cx
    = Inr (case (case (if cf_BasicAuth cfg = [] then None else cx_BasicAuth cx) of Some u \<Rightarrow> Some u
        | None \<Rightarrow> if cf_AnonRole cfg \<noteq> [] then Some (cf_AnonRole cfg) else None) of None \<Rightarrow> cx | Some role \<Rightarrow> cx\<lparr>cx_OIDCRole := Some role\<rparr>)"
    by (simp add: WithBasicAuthz_def WithAnonAuthz_def denied_def split: option.split)
  show ?thesis
  proof (cases "oidc_enabled oc")
    case True
    then have "authorize (rest_authorizers oc cfg) cx = authorize (WithOIDCAuthz (od_RoleClaimKey oc) # (if cf_BasicAuth cfg \<noteq> [] then [WithBasicAuthz] else [])
        @ (if cf_AnonRole cfg \<noteq> [] then [WithAnonAuthz (cf_AnonRole cfg)] else [])) cx"
      by (simp add: rest_authorizers_def)
    with True show ?thesis
      unfolding authorize_oidc rest context_role_def Let_def
      by (cases "cx_OIDCUser cx") (simp_all split: sum.split any.split)
  next
    case False
    then show ?thesis using rest by (simp add: rest_authorizers_def context_role_def Let_def)
  qed
qed

lemma postgres_serves:
  assumes "cx_OIDCRole (rq_Ctx r) = None"
  shows "Postgres X (rest_authorizers oc cfg) next r w =
    (case context_role oc cfg (rq_Ctx r) of None \<Rightarrow> http_Error ''Unauthorized'' 401 w
     | Some role \<Rightarrow> if \<not> ext_acquire X (w_trace w) then http_Error ''Internal Server Error'' 500 w
         else next (r\<lparr>rq_Ctx := (rq_Ctx r)\<lparr>cx_PgConn := Some (next_conn w), cx_OIDCRole := Some role\<rparr>\<rparr>) (emit (Acquire (next_conn w)) w))"
  using assms by (simp add: Postgres_def authorize_context Let_def split: option.split)

section \<open>The way of a request\<close>

text \<open>The context a request has when the role is decided: its number and what the two verifications found.\<close>

definition verified :: "string \<Rightarrow> OIDCConfig \<Rightarrow> RESTConfig \<Rightarrow> string \<Rightarrow> gomap option \<Rightarrow> Context \<Rightarrow> bool" where
  "verified newID oc cfg a claims cx \<longleftrightarrow> cx_RequestID cx = Some newID \<and> cx_OIDCUser cx = claims \<and> cx_BasicAuth cx = basic_user (cf_BasicAuth cfg) a
     \<and> cx_PgConn cx = None \<and> cx_OIDCRole cx = None \<and> \<not> cx_LogEntry cx"

lemma basic_user_none: "basic_user [] a = None"
  by (auto simp: basic_user_def split: option.split prod.split)

lemma context_role_granted:
  assumes "verified newID oc cfg a claims cx"
    and "claims = (if oidc_enabled oc \<and> bearer a then (case verify (TrimPrefix a ''Bearer '') of Inl _ \<Rightarrow> None | Inr m \<Rightarrow> Some m) else None)"
    and "oidc_enabled oc \<and> bearer a \<Longrightarrow> verify (TrimPrefix a ''Bearer '') = Inr m"
  shows "context_role oc cfg cx = granted_role verify oc cfg a"
proof -
  have basic: "(if cf_BasicAuth cfg = [] then None else cx_BasicAuth cx) = basic_user (cf_BasicAuth cfg) a"
    using assms(1) by (simp add: verified_def basic_user_none)
  have user: "cx_OIDCUser cx = claims" using assms(1) by (simp add: verified_def)
  have rest: "(case basic_user (cf_BasicAuth cfg) a of None \<Rightarrow> if cf_AnonRole cfg \<noteq> [] then Some (cf_AnonRole cfg) else None | Some u \<Rightarrow> Some u) = fallback cfg a"
    by (simp add: fallback_def)
  show ?thesis
  proof (cases "oidc_enabled oc \<and> bearer a")
    case True
    then show ?thesis using assms(2,3) by (simp add: context_role_def Let_def basic user rest granted_role_def)
  next
    case False
    then have "(if oidc_enabled oc then cx_OIDCUser cx else None) = None" using assms(2) user by simp
    then have "context_role oc cfg cx = fallback cfg a" by (simp add: context_role_def Let_def basic rest)
    then show ?thesis unfolding granted_role_def if_not_P [OF False] .
  qed
qed

lemma next_conn_frame: "w_trace w1 = w_trace w \<Longrightarrow> next_conn w1 = next_conn w"
  by (simp add: next_conn_def)

text \<open>What the last two middlewares make of a verified request.\<close>

definition served_as :: "golib \<Rightarrow> Ext \<Rightarrow> Server \<Rightarrow> string option \<Rightarrow> World \<Rightarrow> World \<Rightarrow> bool" where
  "served_as L X s role w w' \<longleftrightarrow> w_trace w' = w_trace w
     \<or> (\<exists>ro. role = Some ro \<and> (ro \<noteq> [] \<longrightarrow> (\<exists>run. w_trace w' = w_trace w @ Acquire (next_conn w) # run
          \<and> run \<noteq> [] \<and> conn_run (rest_statement L s) X ro (next_conn w) Idle run Released)))"

lemma served_as_trace: "w_trace w1 = w_trace w \<Longrightarrow> served_as L X s role w1 w' \<Longrightarrow> served_as L X s role w w'"
  using next_conn_frame [of w1 w] by (simp add: served_as_def)

lemma logged_handler:
  "\<exists>r'. w_trace (LoggerWithOptions fmt h r w) = w_trace (h r' w) \<and> cx_OIDCRole (rq_Ctx r') = cx_OIDCRole (rq_Ctx r)
     \<and> cx_PgConn (rq_Ctx r') = cx_PgConn (rq_Ctx r) \<and> cx_OIDCUser (rq_Ctx r') = cx_OIDCUser (rq_Ctx r) \<and> cx_BasicAuth (rq_Ctx r') = cx_BasicAuth (rq_Ctx r)"
proof (intro exI conjI)
  show "w_trace (LoggerWithOptions fmt h r w) = w_trace (h (r\<lparr>rq_Ctx := (rq_Ctx r)\<lparr>cx_LogEntry := True\<rparr>\<rparr>) w)"
    by (rule LoggerWithOptions_transparent(2) [of _ h r w, OF refl])
qed simp_all

lemma postgres_served_as:
  assumes cx: "verified newID oc cfg a claims (rq_Ctx r)" and marshal: "\<And>u. lib_marshal L (VMap u) \<noteq> None"
    and h: "h \<in> {handleRequest L X s, handleRPC L X R s, openAPIHandler L X cache s}"
    and role: "context_role oc cfg (rq_Ctx r) = granted"
    and nxt: "nxt = h \<or> nxt = LoggerWithOptions fmt h"
  shows "served_as L X s granted w (Postgres X (rest_authorizers oc cfg) nxt r w)"
proof (cases granted)
  case None
  then show ?thesis using cx role by (simp add: postgres_serves verified_def served_as_def)
next
  case (Some ro)
  let ?r = "r\<lparr>rq_Ctx := (rq_Ctx r)\<lparr>cx_PgConn := Some (next_conn w), cx_OIDCRole := Some ro\<rparr>\<rparr>" and ?w = "emit (Acquire (next_conn w)) w"
  obtain r' where r': "w_trace (nxt ?r ?w) = w_trace (h r' ?w)" "cx_OIDCRole (rq_Ctx r') = Some ro" "cx_PgConn (rq_Ctx r') = Some (next_conn w)"
    using nxt logged_handler [of fmt h ?r ?w] by fastforce
  have "request_role X (rq_Ctx r') = Some ro \<and> conn_user (rq_Ctx r') \<noteq> None" if "ro \<noteq> []"
    using r'(2) that by (auto simp: request_role_def conn_user_def anon_user_def split: option.splits)
  then have run: "run_as X ro (next_conn w) (rest_statement L s) ?w (h r' ?w)" if "ro \<noteq> []"
    using routes_run_as [OF _ r'(3) _ marshal h] that by fastforce
  show ?thesis
  proof (cases "ext_acquire X (w_trace w)")
    case True
    then have "w_trace (Postgres X (rest_authorizers oc cfg) nxt r w) = w_trace (h r' ?w)"
      using cx role Some r'(1) by (simp add: postgres_serves verified_def)
    then show ?thesis using run Some by (auto simp: served_as_def run_as_def)
  qed (use cx role Some in \<open>simp add: postgres_serves verified_def served_as_def\<close>)
qed

lemma stack_foldr: "wrapWithMiddleware mws h r w = foldr (\<lambda>m k. m k) mws h r w"
  by (simp add: wrapWithMiddleware_def Add_def apply_from_foldr)

lemma rest_stack:
  "wrapWithMiddleware (rest_middleware X verify cors newID logger level oc cfg) h r w =
     RequestID newID (cors ((if oidc_enabled oc then VerifyOIDCToken verify False else (\<lambda>k. k))
       ((if cf_BasicAuth cfg \<noteq> [] then VerifyBasicAuth (cf_BasicAuth cfg) False else (\<lambda>k. k))
         (Postgres X (rest_authorizers oc cfg) (if level \<noteq> ''none'' then logger h else h))))) r w"
  by (simp add: stack_foldr rest_middleware_def)

lemma basic_layer:
  "(if cf_BasicAuth cfg \<noteq> [] then VerifyBasicAuth (cf_BasicAuth cfg) False else (\<lambda>k. k)) k r w =
     k (case basic_user (cf_BasicAuth cfg) (Get (rq_Header r) ''Authorization'') of None \<Rightarrow> r | Some u \<Rightarrow> set_basic_user u r) w"
  by (simp add: basic_passes basic_user_none)

text \<open>A request whose token, if any, was verified goes through the rest of the stack as the role it earns.\<close>

definition claims_of :: "verifier \<Rightarrow> OIDCConfig \<Rightarrow> string \<Rightarrow> gomap option" where
  "claims_of verify oc a = (if oidc_enabled oc \<and> bearer a then (case verify (TrimPrefix a ''Bearer '') of Inl _ \<Rightarrow> None | Inr m \<Rightarrow> Some m) else None)"

definition numbered :: "string \<Rightarrow> Request \<Rightarrow> Request" where
  "numbered newID r = r\<lparr>rq_Ctx := (rq_Ctx r)\<lparr>cx_RequestID := Some newID\<rparr>\<rparr>"

text \<open>The stack below the OIDC verification, and from it on.\<close>

definition rest_tail :: "Ext \<Rightarrow> OIDCConfig \<Rightarrow> RESTConfig \<Rightarrow> handler \<Rightarrow> handler" where
  "rest_tail X oc cfg nxt =
     (if cf_BasicAuth cfg \<noteq> [] then VerifyBasicAuth (cf_BasicAuth cfg) False else (\<lambda>k. k)) (Postgres X (rest_authorizers oc cfg) nxt)"

definition rest_body :: "Ext \<Rightarrow> verifier \<Rightarrow> OIDCConfig \<Rightarrow> RESTConfig \<Rightarrow> handler \<Rightarrow> handler" where
  "rest_body X verify oc cfg nxt = (if oidc_enabled oc then VerifyOIDCToken verify False else (\<lambda>k. k)) (rest_tail X oc cfg nxt)"

lemma basic_layer_served:
  assumes marshal: "\<And>u. lib_marshal L (VMap u) \<noteq> None"
    and g: "g \<in> {handleRequest L X s, handleRPC L X R s, openAPIHandler L X cache s}" and nxt: "nxt = g \<or> nxt = LoggerWithOptions fmt g"
    and r: "rq_Ctx r = no_context" and a: "a = Get (rq_Header r) ''Authorization''"
    and r1: "r1 = (case claims_of verify oc a of None \<Rightarrow> numbered newID r | Some m \<Rightarrow> set_oidc_user m (numbered newID r))"
    and m: "oidc_enabled oc \<and> bearer a \<Longrightarrow> verify (TrimPrefix a ''Bearer '') = Inr m"
  shows "served_as L X s (granted_role verify oc cfg a) w (rest_tail X oc cfg nxt r1 w)"
proof -
  let ?r2 = "case basic_user (cf_BasicAuth cfg) a of None \<Rightarrow> r1 | Some u \<Rightarrow> set_basic_user u r1"
  have v: "verified newID oc cfg a (claims_of verify oc a) (rq_Ctx ?r2)" and a1: "Get (rq_Header r1) ''Authorization'' = a"
    using r a r1 by (auto simp: verified_def numbered_def no_context_def set_oidc_user_def set_basic_user_def split: option.split)
  have role: "context_role oc cfg (rq_Ctx ?r2) = granted_role verify oc cfg a"
    by (rule context_role_granted [OF v]) (rule claims_of_def, rule m)
  show ?thesis unfolding rest_tail_def basic_layer a1 by (rule postgres_served_as [OF v marshal g role nxt])
qed

lemma oidc_layer_served:
  assumes marshal: "\<And>u. lib_marshal L (VMap u) \<noteq> None"
    and g: "g \<in> {handleRequest L X s, handleRPC L X R s, openAPIHandler L X cache s}" and nxt: "nxt = g \<or> nxt = LoggerWithOptions fmt g"
    and r: "rq_Ctx r = no_context" and a: "a = Get (rq_Header r) ''Authorization''"
  shows "served_as L X s (granted_role verify oc cfg a) w (rest_body X verify oc cfg nxt (numbered newID r) w)"
proof (cases "oidc_enabled oc \<and> bearer a")
  case False
  then have "claims_of verify oc a = None" "rest_body X verify oc cfg nxt (numbered newID r) w = rest_tail X oc cfg nxt (numbered newID r) w"
    using a by (auto simp: claims_of_def oidc_passes numbered_def rest_body_def)
  with basic_layer_served [OF assms, where ?r1.0 = "numbered newID r" and verify = verify and oc = oc and newID = newID] False show ?thesis by simp
next
  case True
  have get: "Get (rq_Header (numbered newID r)) ''Authorization'' = a" using a by (simp add: numbered_def)
  have o: "rest_body X verify oc cfg nxt (numbered newID r) w = (case verify (TrimPrefix a ''Bearer '') of
      Inl rejected \<Rightarrow> (if rejected then http_Error ''Invalid or expired token'' 401 w else http_Error ''Failed to parse token claims'' 500 w)
    | Inr claims \<Rightarrow> rest_tail X oc cfg nxt (set_oidc_user claims (numbered newID r)) w)"
    using True by (simp add: rest_body_def oidc_passes get)
  show ?thesis
  proof (cases "verify (TrimPrefix a ''Bearer '')")
    case (Inl b)
    then show ?thesis unfolding o by (simp add: served_as_def)
  next
    case (Inr m)
    then have "claims_of verify oc a = Some m" using True by (simp add: claims_of_def)
    with basic_layer_served [OF assms, where ?r1.0 = "set_oidc_user m (numbered newID r)" and verify = verify and oc = oc and newID = newID and m = m] Inr show ?thesis unfolding o by simp
  qed
qed


definition example_rest :: RESTConfig where
  "example_rest = (decoded no_settings)\<lparr>cf_ConnString := ''postgres://localhost/app'', cf_BasicAuth := [(''app'', ''pw'')]\<rparr>"

definition example_auth_request :: "string \<Rightarrow> Request" where
  "example_auth_request h = (example_request ''GET'' ''name=eq.x'')\<lparr>rq_Header := [(''Authorization'', [h])], rq_Ctx := no_context\<rparr>"

lemma example_marshal: "lib_marshal example_lib (VMap u) \<noteq> None"
  by (simp add: example_lib_def)


text \<open>
  Two consequences: a wrong password, an unknown user or a token without a role claim is not an error but served as
  the anonymous role, which is always configured; and a token that does not verify is never served.
\<close>

lemma wrong_password_is_anonymous:
  "basic_user (cf_BasicAuth cfg) a = None \<Longrightarrow> \<not> bearer a \<Longrightarrow> cf_AnonRole cfg \<noteq> [] \<Longrightarrow> granted_role verify oc cfg a = Some (cf_AnonRole cfg)"
  by (simp add: granted_role_def fallback_def)

lemma invalid_token_is_refused:
  "oidc_enabled oc \<Longrightarrow> bearer a \<Longrightarrow> verify (TrimPrefix a ''Bearer '') = Inl e \<Longrightarrow> granted_role verify oc cfg a = None"
  by (simp add: granted_role_def)

end
