(* ===== verification/Pools.thy ===== *)
theory Pools
  imports Store
begin

text \<open>
  The registry of connection pools (\<open>pkg/pgx/pool.go\<close>): named pools of which one is active. Opening and pinging a pool
  are parameters; a pool is a number, and the model keeps which numbers were opened and closed. A Go map that was
  set to nil is \<open>None\<close>: it can be read, but storing into it panics.
\<close>

record Pool =
  po_Config :: "string option"
  po_Name :: string
  po_ConnString :: string

record PoolManager =
  pm_pools :: "(string \<times> nat) list option"
  pm_active :: string
  pm_opened :: nat
  pm_closed :: "nat list"

datatype pool_error = ErrPoolNotFound | ErrPoolAlreadyExists | NoActive | NotNamed string | NoConfig | Creating string | Pinging string | NilMap

record pool_lib =
  pl_open :: "string + string \<Rightarrow> string option"
  pl_ping :: "nat \<Rightarrow> string option"
  pl_first :: "(string \<times> nat) list \<Rightarrow> string"

definition NewPoolManager :: PoolManager where
  "NewPoolManager = \<lparr>pm_pools = Some [], pm_active = [], pm_opened = 0, pm_closed = []\<rparr>"

definition registered :: "PoolManager \<Rightarrow> (string \<times> nat) list" where
  "registered m = (case pm_pools m of None \<Rightarrow> [] | Some ps \<Rightarrow> ps)"

text \<open>\<open>createPool\<close>: the configuration takes precedence over the connection string; a pool that does not answer is closed.\<close>

definition pool_source :: "Pool \<Rightarrow> (string + string) option" where
  "pool_source cfg = (case po_Config cfg of Some c \<Rightarrow> Some (Inl c)
     | None \<Rightarrow> if po_ConnString cfg \<noteq> [] then Some (Inr (po_ConnString cfg)) else None)"

definition close_pool :: "nat \<Rightarrow> PoolManager \<Rightarrow> PoolManager" where
  "close_pool p m = m\<lparr>pm_closed := pm_closed m @ [p]\<rparr>"

definition createPool :: "pool_lib \<Rightarrow> Pool \<Rightarrow> PoolManager \<Rightarrow> (pool_error, nat) result \<times> PoolManager" where
  "createPool X cfg m = (case pool_source cfg of
       None \<Rightarrow> (Inl NoConfig, m)
     | Some src \<Rightarrow> (case pl_open X src of
         Some e \<Rightarrow> (Inl (Creating e), m)
       | None \<Rightarrow> (let p = pm_opened m; m1 = m\<lparr>pm_opened := Suc p\<rparr> in
           case pl_ping X p of Some e \<Rightarrow> (Inl (Pinging e), close_pool p m1) | None \<Rightarrow> (Inr p, m1))))"

definition AddPool :: "pool_lib \<Rightarrow> Pool \<Rightarrow> bool \<Rightarrow> PoolManager \<Rightarrow> pool_error option \<times> PoolManager" where
  "AddPool X cfg setActive m =
     (if map_of (registered m) (po_Name cfg) \<noteq> None then (Some ErrPoolAlreadyExists, m)
      else (case createPool X cfg m of
          (Inl e, m1) \<Rightarrow> (Some e, m1)
        | (Inr p, m1) \<Rightarrow> (case pm_pools m1 of
            None \<Rightarrow> (Some NilMap, m1)
          | Some ps \<Rightarrow> (None, m1\<lparr>pm_pools := Some (map_put (po_Name cfg) p ps),
              pm_active := (if setActive \<or> pm_active m1 = [] then po_Name cfg else pm_active m1)\<rparr>))))"

definition GetPool :: "string \<Rightarrow> PoolManager \<Rightarrow> (pool_error, nat) result" where
  "GetPool name m = (case map_of (registered m) name of None \<Rightarrow> Inl ErrPoolNotFound | Some p \<Rightarrow> Inr p)"

text \<open>\<open>Active\<close> returns the value of the map at the active name, a nil pool (\<open>None\<close>) when there is none.\<close>

definition Active :: "PoolManager \<Rightarrow> (pool_error, nat option) result" where
  "Active m = (if pm_active m = [] then Inl NoActive else Inr (map_of (registered m) (pm_active m)))"

definition SetActive :: "string \<Rightarrow> PoolManager \<Rightarrow> pool_error option \<times> PoolManager" where
  "SetActive name m = (if map_of (registered m) name = None then (Some (NotNamed name), m) else (None, m\<lparr>pm_active := name\<rparr>))"

text \<open>\<open>Remove\<close>: when the active pool is removed, the first name that a loop over the map meets becomes active.\<close>

definition Remove :: "pool_lib \<Rightarrow> string \<Rightarrow> PoolManager \<Rightarrow> pool_error option \<times> PoolManager" where
  "Remove X name m = (case map_of (registered m) name of
       None \<Rightarrow> (Some (NotNamed name), m)
     | Some p \<Rightarrow> (let ps = map_del name (registered m);
           m1 = (close_pool p m)\<lparr>pm_pools := Some ps\<rparr>
         in (None, if pm_active m \<noteq> name then m1 else m1\<lparr>pm_active := (if ps = [] then [] else pl_first X ps)\<rparr>)))"

definition ClosePools :: "PoolManager \<Rightarrow> PoolManager" where
  "ClosePools m = m\<lparr>pm_pools := None, pm_active := [], pm_closed := pm_closed m @ map snd (registered m)\<rparr>"

definition ListPools :: "PoolManager \<Rightarrow> string list" where
  "ListPools m = map fst (registered m)"

section \<open>What every sequence of operations keeps\<close>

text \<open>
  The pools in the registry have distinct names, the active name (when there is one) is among them, and no pool is lost:
  every pool that was opened is either registered, once, or closed, once, and never both.
\<close>

definition wf_manager :: "PoolManager \<Rightarrow> bool" where
  "wf_manager m \<longleftrightarrow> distinct (map fst (registered m))
     \<and> (pm_active m \<noteq> [] \<longrightarrow> pm_active m \<in> fst ` set (registered m))
     \<and> mset (map snd (registered m)) + mset (pm_closed m) = mset [0..<pm_opened m]"

definition first_ok :: "pool_lib \<Rightarrow> bool" where
  "first_ok X \<longleftrightarrow> (\<forall>ps. ps \<noteq> [] \<longrightarrow> pl_first X ps \<in> fst ` set ps)"

text \<open>The operations of a manager that was not closed. Names are not empty.\<close>

inductive pool_step :: "pool_lib \<Rightarrow> PoolManager \<Rightarrow> PoolManager \<Rightarrow> bool" for X where
  add: "po_Name cfg \<noteq> [] \<Longrightarrow> pool_step X m (snd (AddPool X cfg setActive m))"
| set_active: "pool_step X m (snd (SetActive name m))"
| remove: "pool_step X m (snd (Remove X name m))"

inductive_cases pool_stepE: "pool_step X m m'"

inductive managed :: "pool_lib \<Rightarrow> PoolManager \<Rightarrow> bool" for X where
  start: "managed X NewPoolManager"
| step: "managed X m \<Longrightarrow> pool_step X m m' \<Longrightarrow> managed X m'"

lemma map_put_new: "k \<notin> fst ` set m \<Longrightarrow> map_put k v m = m @ [(k, v)]"
  unfolding map_put_def by (induction m) auto

lemma map_del_values:
  assumes "distinct (map fst m)" and "map_of m k = Some v"
  shows "mset (map snd m) = add_mset v (mset (map snd (map_del k m)))"
  using assms
proof (induction m)
  case (Cons kv m)
  then show ?case by (cases kv) (auto simp: map_del_def)
qed simp

lemma createPool_keeps:
  assumes "createPool X cfg m = (res, m1)"
  shows "pm_pools m1 = pm_pools m" and "pm_active m1 = pm_active m"
    and "case res of
        Inr p \<Rightarrow> p = pm_opened m \<and> pm_opened m1 = Suc p \<and> pm_closed m1 = pm_closed m
      | Inl _ \<Rightarrow> mset (map snd rs) + mset (pm_closed m) = mset [0..<pm_opened m] \<longrightarrow> mset (map snd rs) + mset (pm_closed m1) = mset [0..<pm_opened m1]"
  using assms by (auto simp: createPool_def close_pool_def Let_def split: option.splits)

lemma wf_AddPool:
  assumes "wf_manager m" and "po_Name cfg \<noteq> []" and "pm_pools m \<noteq> None"
  shows "wf_manager (snd (AddPool X cfg setActive m)) \<and> pm_pools (snd (AddPool X cfg setActive m)) \<noteq> None"
proof (cases "map_of (registered m) (po_Name cfg)")
  case None
  then have new: "po_Name cfg \<notin> fst ` set (registered m)" by (simp add: map_of_eq_None_iff)
  obtain res m1 where c: "createPool X cfg m = (res, m1)" by force
  note keep = createPool_keeps [OF c]
  obtain ps where ps: "pm_pools m = Some ps" using assms(3) by blast
  then have reg: "registered m = ps" "registered m1 = ps" using keep by (simp_all add: registered_def)
  show ?thesis
  proof (cases res)
    case (Inl e)
    then show ?thesis using assms keep(1,2) keep(3) [of ps] None c reg by (auto simp: AddPool_def wf_manager_def)
  next
    case (Inr p)
    let ?m2 = "m1\<lparr>pm_pools := Some (ps @ [(po_Name cfg, p)]), pm_active := (if setActive \<or> pm_active m1 = [] then po_Name cfg else pm_active m1)\<rparr>"
    have add: "snd (AddPool X cfg setActive m) = ?m2"
      using None Inr c keep ps new reg by (simp add: AddPool_def map_put_new)
    have r2: "registered ?m2 = ps @ [(po_Name cfg, p)]" by (simp add: registered_def)
    show ?thesis
      using assms(1) Inr keep(2) keep(3) [of ps] new unfolding add wf_manager_def r2 reg by auto
  qed
qed (use assms in \<open>simp add: AddPool_def\<close>)

lemma wf_Remove:
  assumes "wf_manager m" and "pm_pools m \<noteq> None" and "first_ok X"
  shows "wf_manager (snd (Remove X name m)) \<and> pm_pools (snd (Remove X name m)) \<noteq> None"
proof (cases "map_of (registered m) name")
  case (Some p)
  let ?ps = "map_del name (registered m)"
  let ?act = "if pm_active m \<noteq> name then pm_active m else if ?ps = [] then [] else pl_first X ?ps"
  have d: "distinct (map fst (registered m))" using assms(1) by (simp add: wf_manager_def)
  have keys: "fst ` set ?ps = fst ` set (registered m) - {name}"
  proof -
    have "dom (map_of ?ps) = dom (map_of (registered m)) - {name}" by (auto split: if_splits)
    then show ?thesis by (simp only: dom_map_of_conv_image_fst)
  qed
  have rm: "snd (Remove X name m) = m\<lparr>pm_closed := pm_closed m @ [p], pm_pools := Some ?ps, pm_active := ?act\<rparr>"
    using Some by (simp add: Remove_def Let_def close_pool_def)
  have reg: "registered (m\<lparr>pm_closed := pm_closed m @ [p], pm_pools := Some ?ps, pm_active := ?act\<rparr>) = ?ps" by (simp add: registered_def)
  have "?act \<noteq> [] \<longrightarrow> ?act \<in> fst ` set ?ps"
    using assms(1,3) keys by (auto simp: wf_manager_def first_ok_def)
  then show ?thesis
    using assms(1) distinct_map_del [OF d] map_del_values [OF d Some] unfolding rm wf_manager_def reg by simp
qed (use assms in \<open>simp add: Remove_def\<close>)

lemma wf_SetActive:
  assumes "wf_manager m"
  shows "wf_manager (snd (SetActive name m))" and "pm_pools (snd (SetActive name m)) = pm_pools m"
  using assms by (auto simp: SetActive_def wf_manager_def registered_def dest!: map_of_SomeD split: option.splits intro: image_eqI [of _ _ "(_, _)"])

text \<open>Names are never empty, so the active name is empty only when there is no pool.\<close>

definition named :: "PoolManager \<Rightarrow> bool" where
  "named m \<longleftrightarrow> [] \<notin> fst ` set (registered m) \<and> (pm_active m = [] \<longrightarrow> registered m = [])"

lemma named_step:
  assumes "pool_step X m m'" and "named m" and "wf_manager m" and "pm_pools m \<noteq> None" and "first_ok X"
  shows "named m'"
  using assms(1)
proof cases
  case (add cfg setActive)
  show ?thesis
  proof (cases "map_of (registered m) (po_Name cfg)")
    case None
    then have new: "po_Name cfg \<notin> fst ` set (registered m)" by (simp add: map_of_eq_None_iff)
    obtain res m1 where c: "createPool X cfg m = (res, m1)" by force
    note keep = createPool_keeps(1,2) [OF c]
    show ?thesis
      using add assms(2,4) None c keep new by (cases res) (auto simp: AddPool_def named_def registered_def map_put_new split: if_splits)
  qed (use add assms(2) in \<open>simp add: AddPool_def\<close>)
next
  case (set_active name)
  then show ?thesis
    using assms(2) by (auto simp: SetActive_def named_def registered_def split: option.splits dest!: map_of_SomeD intro: rev_image_eqI)
next
  case (remove name)
  show ?thesis
  proof (cases "map_of (registered m) name")
    case (Some p)
    let ?ps = "map_del name (registered m)"
    have sub: "fst ` set ?ps \<subseteq> fst ` set (registered m)"
      by (metis AList.delete_keys filter_is_subset list.set_map map_del_def removeAll_filter_not_eq)
    have "?ps \<noteq> [] \<Longrightarrow> pl_first X ?ps \<in> fst ` set (registered m)" using assms(5) sub by (auto simp: first_ok_def)
    moreover have "pm_active m \<noteq> name \<Longrightarrow> pm_active m \<noteq> []"
      using assms(2) Some by (auto simp: named_def)
    ultimately show ?thesis
      using assms(2) sub Some unfolding remove by (auto simp: Remove_def Let_def named_def registered_def close_pool_def)
  qed (use remove assms(2) in \<open>simp add: Remove_def\<close>)
qed

lemma managed_wf:
  assumes "managed X m" and "first_ok X"
  shows "wf_manager m \<and> pm_pools m \<noteq> None \<and> named m"
  using assms(1)
proof induction
  case start
  show ?case by (simp add: NewPoolManager_def wf_manager_def named_def registered_def)
next
  case (step m m')
  have "wf_manager m' \<and> pm_pools m' \<noteq> None"
    using step.hyps(2)
  proof cases
    case (add cfg setActive)
    then show ?thesis using wf_AddPool step.IH by blast
  next
    case (set_active name)
    then show ?thesis using wf_SetActive [of m name] step.IH by simp
  next
    case (remove name)
    then show ?thesis using wf_Remove step.IH assms(2) by blast
  qed
  then show ?case using named_step [OF step.hyps(2)] step.IH assms(2) by blast
qed

text \<open>
  C39. Whatever sequence of additions, removals and changes of the active pool a manager goes through: its names are
  distinct, a pool is active exactly when there is one, the active pool is registered and open, and no pool is lost: each
  one that was opened is registered once or was closed once. Closing the manager closes all that are left.
\<close>

theorem pool_manager_invariant:
  assumes "managed X m" and "first_ok X"
  shows "distinct (ListPools m) \<and> (pm_active m = [] \<longleftrightarrow> ListPools m = [])
    \<and> (ListPools m \<noteq> [] \<longrightarrow> (\<exists>p. Active m = Inr (Some p) \<and> GetPool (pm_active m) m = Inr p \<and> p < pm_opened m \<and> p \<notin> set (pm_closed m)))
    \<and> mset (map snd (registered m)) + mset (pm_closed m) = mset [0..<pm_opened m]
    \<and> mset (pm_closed (ClosePools m)) = mset [0..<pm_opened m]"
proof -
  have wf: "wf_manager m" "named m" using managed_wf [OF assms] by simp_all
  have all: "mset (map snd (registered m)) + mset (pm_closed m) = mset [0..<pm_opened m]" using wf(1) by (simp add: wf_manager_def)
  have active: "\<exists>p. Active m = Inr (Some p) \<and> GetPool (pm_active m) m = Inr p \<and> p < pm_opened m \<and> p \<notin> set (pm_closed m)"
    if "registered m \<noteq> []"
  proof -
    have a: "pm_active m \<noteq> []" using wf(2) that by (auto simp: named_def)
    then obtain p where p: "map_of (registered m) (pm_active m) = Some p"
      using wf(1) map_of_eq_None_iff [of "registered m" "pm_active m"] by (auto simp: wf_manager_def)
    then have mem: "p \<in> set (map snd (registered m))" by (auto dest: map_of_SomeD intro: rev_image_eqI)
    have "mset (map snd (registered m) @ pm_closed m) = mset [0..<pm_opened m]" using all by simp
    then have "distinct (map snd (registered m) @ pm_closed m)" "set (map snd (registered m) @ pm_closed m) = {0..<pm_opened m}"
      by (metis distinct_upt mset_eq_imp_distinct_iff, metis atLeastLessThan_upt mset_eq_setD)
    then have "p < pm_opened m" "p \<notin> set (pm_closed m)" using mem by (auto simp: set_eq_iff)
    then show ?thesis using a p by (simp add: Active_def GetPool_def)
  qed
  show ?thesis
    using wf all active by (auto simp: wf_manager_def named_def ListPools_def ClosePools_def add.commute)
qed

definition example_pools :: pool_lib where
  "example_pools = \<lparr>pl_open = \<lambda>_. None, pl_ping = \<lambda>_. None, pl_first = \<lambda>ps. fst (hd ps)\<rparr>"

definition two_pools :: PoolManager where
  "two_pools = snd (AddPool example_pools \<lparr>po_Config = None, po_Name = ''b'', po_ConnString = ''host=b''\<rparr> True
     (snd (AddPool example_pools \<lparr>po_Config = None, po_Name = ''a'', po_ConnString = ''host=a''\<rparr> False NewPoolManager)))"

theorem pool_manager_invariant_witness:
  "Active (snd (Remove example_pools ''b'' two_pools)) = Inr (Some 0) \<and> pm_closed (snd (Remove example_pools ''b'' two_pools)) = [1]"
proof -
  let ?m = "snd (Remove example_pools ''b'' two_pools)"
  have "first_ok example_pools" by (simp add: first_ok_def example_pools_def)
  moreover have "managed example_pools ?m"
    unfolding two_pools_def by (rule managed.step [OF managed.step [OF managed.step [OF managed.start pool_step.add] pool_step.add] pool_step.remove]) simp_all
  moreover have m: "ListPools ?m = [''a'']" "GetPool ''a'' ?m = Inr 0" "pm_active ?m = ''a''" "pm_closed ?m = [1]" by code_simp+
  ultimately show ?thesis using pool_manager_invariant [of example_pools ?m] by auto
qed

text \<open>A manager that was closed keeps no map: adding to it opens a pool and then panics, so that nobody closes the pool.\<close>

lemma adding_after_close_loses_a_pool:
  assumes "pool_source cfg = Some src" and "pl_open X src = None" and "pl_ping X (pm_opened m) = None"
  shows "AddPool X cfg setActive (ClosePools m) = (Some NilMap, (ClosePools m)\<lparr>pm_opened := Suc (pm_opened m)\<rparr>)"
  using assms by (simp add: AddPool_def createPool_def ClosePools_def registered_def Let_def)

end
