(* ===== verification/Rag.thy ===== *)
theory Rag
  imports HttpPeer GoValue
begin

text \<open>
  Retrieval-augmented generation (\<open>pkg/x/rag\<close>): keeping embeddings of a table's rows in the table, retrieving the
  rows nearest to a text and building a prompt from them. The database, the HTTP transport and the decoding of the
  API's answers are parameters; the model keeps the statements sent with the values bound. A \<open>float32\<close> is its rational value.
\<close>

section \<open>The client\<close>

record RagConfig =
  rg_TableName :: string
  rg_TablePrimaryKeyCol :: string
  rg_ModelID :: string
  rg_APIURL :: string
  rg_APIKey :: string
  rg_EmbeddingsPath :: string
  rg_GeneratePath :: string
  rg_Dimensions :: int
  rg_BatchSize :: int

definition rag_DefaultConfig :: "(string \<Rightarrow> string) \<Rightarrow> RagConfig" where
  "rag_DefaultConfig env = \<lparr>rg_TableName = ''embeddings'', rg_TablePrimaryKeyCol = ''id'', rg_ModelID = ''llama3.2:3b'',
     rg_APIURL = (if env ''LLM_API_URL'' \<noteq> [] then env ''LLM_API_URL'' else ''http://127.0.0.1:11434''), rg_APIKey = env ''LLM_API_KEY'',
     rg_EmbeddingsPath = ''/v1/embeddings'', rg_GeneratePath = ''/api/generate'', rg_Dimensions = 3072, rg_BatchSize = 100\<rparr>"

type_synonym statements = "(string \<times> any list) list"

record rag_db =
  rd_exec :: "statements \<Rightarrow> string \<Rightarrow> any list \<Rightarrow> string option"
  rd_bool :: "statements \<Rightarrow> string \<Rightarrow> any list \<Rightarrow> (string, bool) result"
  rd_rows :: "statements \<Rightarrow> string \<Rightarrow> any list \<Rightarrow> (string, string list \<times> (string, any list) result list) result"
  rd_sprint :: "any \<Rightarrow> string"

text \<open>The HTTP side: JSON, the check of a URL, the attempts of the two calls, and the vectors in an answer.\<close>

record rag_api =
  ra_marshal :: "any \<Rightarrow> string option"
  ra_check :: "string \<Rightarrow> string \<Rightarrow> string option"
  ra_embed :: "attempt list"
  ra_generate :: "attempt list"
  ra_vectors :: "string \<Rightarrow> rat list list option"

datatype rag_error = Rag string | IndexOutOfRange

type_synonym 'a rag = "statements \<Rightarrow> (rag_error, 'a) result \<times> statements"

definition rag_exec :: "rag_db \<Rightarrow> string \<Rightarrow> string \<Rightarrow> any list \<Rightarrow> unit rag" where
  "rag_exec D msg sql args tr = (case rd_exec D tr sql args of
       Some e \<Rightarrow> (Inl (Rag (msg @ '': '' @ e)), tr @ [(sql, args)]) | None \<Rightarrow> (Inr (), tr @ [(sql, args)]))"

definition rag_bool :: "rag_db \<Rightarrow> string \<Rightarrow> string \<Rightarrow> any list \<Rightarrow> bool rag" where
  "rag_bool D msg sql args tr = (case rd_bool D tr sql args of
       Inl e \<Rightarrow> (Inl (Rag (msg @ '': '' @ e)), tr @ [(sql, args)]) | Inr b \<Rightarrow> (Inr b, tr @ [(sql, args)]))"

definition rag_then :: "'a rag \<Rightarrow> ('a \<Rightarrow> 'b rag) \<Rightarrow> 'b rag" where
  "rag_then m f tr = (case m tr of (Inl e, tr1) \<Rightarrow> (Inl e, tr1) | (Inr x, tr1) \<Rightarrow> f x tr1)"

definition rag_ok :: "'a \<Rightarrow> 'a rag" where
  "rag_ok x tr = (Inr x, tr)"

definition rag_fail :: "rag_error \<Rightarrow> 'a rag" where
  "rag_fail e tr = (Inl e, tr)"

text \<open>An error of the part \<open>m\<close>, wrapped with a message.\<close>

definition rag_wrap :: "string \<Rightarrow> 'a rag \<Rightarrow> 'a rag" where
  "rag_wrap msg m tr = (case m tr of (Inl (Rag e), tr1) \<Rightarrow> (Inl (Rag (msg @ '': '' @ e)), tr1) | r \<Rightarrow> r)"

definition initialize :: "rag_db \<Rightarrow> string option \<Rightarrow> unit rag" where
  "initialize D register =
     rag_then (rag_exec D ''failed to create vector extension'' ''CREATE EXTENSION IF NOT EXISTS vector'' [])
       (\<lambda>_. case register of Some e \<Rightarrow> rag_fail (Rag (''failed to register vector types: '' @ e)) | None \<Rightarrow> rag_ok ())"

definition NewRagClient :: "rag_db \<Rightarrow> string option \<Rightarrow> RagConfig \<Rightarrow> RagConfig rag" where
  "NewRagClient D register config = rag_then (rag_wrap ''failed to initialize client'' (initialize D register)) (\<lambda>_. rag_ok config)"

section \<open>Embeddings and generation (\<open>embedding.go\<close>, \<open>generate.go\<close>)\<close>

definition api_config :: "RagConfig \<Rightarrow> string \<Rightarrow> RequestConfig" where
  "api_config cfg path = (DefaultRequestConfig ''POST'' (rg_APIURL cfg @ path))\<lparr>rc_Headers := [(''Authorization'', [''Bearer '' @ rg_APIKey cfg])]\<rparr>"

definition api_body :: "rag_api \<Rightarrow> RequestConfig \<Rightarrow> attempt list \<Rightarrow> string \<Rightarrow> string option" where
  "api_body A c attempts data = (case fst (HttpRequest (ra_marshal A) (ra_check A) c attempts (Bytes data)) of
       (None, Some (status, body)) \<Rightarrow> Some body | _ \<Rightarrow> None)"

definition FetchEmbedding :: "rag_api \<Rightarrow> RagConfig \<Rightarrow> string list \<Rightarrow> (rag_error, rat list list) result" where
  "FetchEmbedding A cfg input =
     (if input = [] then Inl (Rag ''input is empty'')
      else (case ra_marshal A (VMap [(''model'', VStr (rg_ModelID cfg)), (''input'', VSlice (map VStr input))]) of
          None \<Rightarrow> Inl (Rag ''failed to marshal request data'')
        | Some data \<Rightarrow> (case api_body A (api_config cfg (rg_EmbeddingsPath cfg)) (ra_embed A) data of
            None \<Rightarrow> Inl (Rag ''failed to fetch embeddings'')
          | Some body \<Rightarrow> (case ra_vectors A body of None \<Rightarrow> Inl (Rag ''failed to unmarshal response'') | Some vs \<Rightarrow> Inr vs))))"

definition generate_request :: "RagConfig \<Rightarrow> string \<Rightarrow> any" where
  "generate_request cfg prompt = VMap [(''options'', VNil), (''model'', VStr (rg_ModelID cfg)), (''prompt'', VStr prompt), (''suffix'', VStr []),
     (''system'', VStr []), (''template'', VStr []), (''format'', VStr ''json''), (''stream'', VBool False)]"

definition Generate :: "rag_api \<Rightarrow> RagConfig \<Rightarrow> string \<Rightarrow> (rag_error, string) result" where
  "Generate A cfg prompt = (case ra_marshal A (generate_request cfg prompt) of
       None \<Rightarrow> Inl (Rag ''failed to marshal request data'')
     | Some data \<Rightarrow> (case api_body A ((api_config cfg (rg_GeneratePath cfg))\<lparr>rc_Timeout := 60000 * millisecond\<rparr>) (ra_generate A) data of
         None \<Rightarrow> Inl (Rag ''API request failed'')
       | Some body \<Rightarrow> Inr body))"

record Embedding =
  em_PK :: any
  em_Content :: string
  em_Embedding :: "rat list"

definition constructAugmentedPrompt :: "string \<Rightarrow> Embedding list \<Rightarrow> string" where
  "constructAugmentedPrompt prompt relevantInfo =
     ''Given the following context:'' @ [CHR 0x0A, CHR 0x0A]
     @ concat (map (\<lambda>info. ''- '' @ em_Content info @ [CHR 0x0A]) relevantInfo)
     @ [CHR 0x0A] @ ''Answer the following question: '' @ prompt"

section \<open>The table (\<open>pgvector.go\<close>)\<close>

definition splitSchemaTableName :: "string \<Rightarrow> string \<times> string" where
  "splitSchemaTableName tableName =
     (case Split tableName (CHR ''.'') of [s, t] \<Rightarrow> (s, t) | _ \<Rightarrow> (''public'', tableName))"

definition table_args :: "string \<Rightarrow> any list" where
  "table_args tableName = (case splitSchemaTableName tableName of (s, t) \<Rightarrow> [VStr s, VStr t])"

definition nl :: string where "nl = [CHR 0x0A]"
definition tabs :: "nat \<Rightarrow> string" where "tabs n = replicate n (CHR 0x09)"

definition tableExists :: "rag_db \<Rightarrow> string \<Rightarrow> bool rag" where
  "tableExists D tableName = rag_bool D ''failed to check if table exists''
     (nl @ tabs 2 @ ''SELECT EXISTS ('' @ nl @ tabs 3 @ ''SELECT 1'' @ nl @ tabs 3 @ ''FROM information_schema.tables'' @ nl
      @ tabs 3 @ ''WHERE table_schema = $1'' @ nl @ tabs 3 @ ''AND table_name = $2'' @ nl @ tabs 2 @ '')'') (table_args tableName)"

definition createTable :: "rag_db \<Rightarrow> RagConfig \<Rightarrow> string \<Rightarrow> unit rag" where
  "createTable D cfg tableName = rag_exec D ''failed to create table''
     (nl @ tabs 2 @ ''CREATE TABLE IF NOT EXISTS '' @ tableName @ '' ('' @ nl
      @ tabs 3 @ rg_TablePrimaryKeyCol cfg @ '' BIGINT PRIMARY KEY GENERATED BY DEFAULT AS IDENTITY,'' @ nl
      @ tabs 3 @ ''content TEXT,'' @ nl @ tabs 3 @ ''embedding vector('' @ Itoa (rg_Dimensions cfg) @ '')'' @ nl @ tabs 2 @ '')'') []"

definition column_sql :: "string \<Rightarrow> string" where
  "column_sql col = ''SELECT EXISTS (SELECT 1 FROM information_schema.columns WHERE table_schema=$1 AND table_name=$2 AND column_name=''
     @ [CHR 0x27] @ col @ [CHR 0x27] @ '')''"

definition columnExists :: "rag_db \<Rightarrow> string \<Rightarrow> string \<Rightarrow> string \<Rightarrow> bool rag" where
  "columnExists D msg tableName col = rag_bool D msg (column_sql col) (table_args tableName)"

definition addColumn :: "rag_db \<Rightarrow> string \<Rightarrow> bool \<Rightarrow> string \<Rightarrow> string \<Rightarrow> unit rag" where
  "addColumn D msg needed tableName column =
     (if needed then rag_exec D msg (''ALTER TABLE '' @ tableName @ '' ADD COLUMN '' @ column) [] else rag_ok ())"

definition ensureRequiredColumnsExist :: "rag_db \<Rightarrow> RagConfig \<Rightarrow> string \<Rightarrow> unit rag" where
  "ensureRequiredColumnsExist D cfg tableName =
     (let pk = rg_TablePrimaryKeyCol cfg; dim = Itoa (rg_Dimensions cfg) in
      rag_then (columnExists D ''failed to check for primary key column'' tableName pk) (\<lambda>pkExists.
      rag_then (columnExists D ''failed to check for content column'' tableName ''content'') (\<lambda>contentExists.
      rag_then (columnExists D ''failed to check for embedding column'' tableName ''embedding'') (\<lambda>embeddingExists.
      rag_then (addColumn D ''failed to add primary key column'' (\<not> pkExists \<and> pk \<noteq> []) tableName (pk @ '' BIGINT PRIMARY KEY GENERATED BY DEFAULT AS IDENTITY'')) (\<lambda>_.
      rag_then (addColumn D ''failed to add content column'' (\<not> contentExists) tableName ''content TEXT'') (\<lambda>_.
      rag_then (addColumn D ''failed to add embedding column'' (\<not> embeddingExists) tableName (''embedding VECTOR('' @ dim @ '')'')) (\<lambda>_.
      rag_then (columnExists D ''failed to verify embedding column'' tableName ''embedding'') (\<lambda>there.
      if there then rag_ok () else rag_fail (Rag ''embedding column still does not exist after attempting to add it'')))))))))"

definition ensureTableConfig :: "rag_db \<Rightarrow> RagConfig \<Rightarrow> unit rag" where
  "ensureTableConfig D cfg =
     rag_then (tableExists D (rg_TableName cfg)) (\<lambda>there.
     rag_then (if there then rag_ok () else rag_wrap ''failed to create table'' (createTable D cfg (rg_TableName cfg))) (\<lambda>_.
     rag_wrap ''failed to ensure required columns'' (ensureRequiredColumnsExist D cfg (rg_TableName cfg))))"

definition formatRowValues :: "rag_db \<Rightarrow> string list \<Rightarrow> any list \<Rightarrow> string" where
  "formatRowValues D names values = Join (map (\<lambda>i. names ! i @ '':'' @ rd_sprint D (values ! i)) [0..<length names]) '',''"

text \<open>The rows of a query with their content: \<open>values[0]\<close> is the primary key. A row without values panics.\<close>

fun embedding_rows :: "rag_db \<Rightarrow> string list \<Rightarrow> (string, any list) result list \<Rightarrow> (rag_error, (any \<times> string) list) result" where
  "embedding_rows D names [] = Inr []"
| "embedding_rows D names (r # rs) = (case r of
       Inl e \<Rightarrow> Inl (Rag (''failed to get row values: '' @ e))
     | Inr [] \<Rightarrow> Inl IndexOutOfRange
     | Inr (pk # vs) \<Rightarrow> (case embedding_rows D names rs of Inl e \<Rightarrow> Inl e
         | Inr xs \<Rightarrow> Inr ((pk, formatRowValues D names (pk # vs)) # xs)))"

definition queryAndProcessEmbeddingContents :: "rag_db \<Rightarrow> string \<Rightarrow> (any \<times> string) list rag" where
  "queryAndProcessEmbeddingContents D sql tr = (case rd_rows D tr sql [] of
       Inl e \<Rightarrow> (Inl (Rag (''failed to query database: '' @ e)), tr @ [(sql, [])])
     | Inr (names, rows) \<Rightarrow> (embedding_rows D names rows, tr @ [(sql, [])]))"

fun column_names :: "string list \<Rightarrow> (string, any list) result list \<Rightarrow> (rag_error, string list) result" where
  "column_names toRemove [] = Inr []"
| "column_names toRemove (r # rs) = (case r of
       Inr [VStr col] \<Rightarrow> (case column_names toRemove rs of Inl e \<Rightarrow> Inl e
         | Inr cols \<Rightarrow> Inr (if col \<in> set toRemove then cols else col # cols))
     | _ \<Rightarrow> Inl (Rag ''failed to scan column name''))"

definition queryAndFilterColumnNames :: "rag_db \<Rightarrow> string \<times> string \<Rightarrow> string list \<Rightarrow> string list rag" where
  "queryAndFilterColumnNames D st toRemove tr =
     (let sql = nl @ tabs 2 @ ''SELECT column_name '' @ nl @ tabs 2 @ ''FROM information_schema.columns'' @ nl
            @ tabs 2 @ ''WHERE table_schema = '' @ [CHR 0x27] @ fst st @ [CHR 0x27] @ nl
            @ tabs 2 @ ''AND table_name = '' @ [CHR 0x27] @ snd st @ [CHR 0x27] @ nl @ tabs 1
      in case rd_rows D tr sql [] of
           Inl e \<Rightarrow> (Inl (Rag (''failed to get column names: '' @ e)), tr @ [(sql, [])])
         | Inr (_, rows) \<Rightarrow> (column_names toRemove rows, tr @ [(sql, [])]))"

definition vector :: "rat list \<Rightarrow> any" where
  "vector v = VSlice (map VFloat v)"

definition update_sql :: "RagConfig \<Rightarrow> string" where
  "update_sql cfg = nl @ tabs 2 @ ''UPDATE '' @ rg_TableName cfg @ '' '' @ nl @ tabs 2 @ ''SET embedding = $1, content = $2 '' @ nl
     @ tabs 2 @ ''WHERE '' @ rg_TablePrimaryKeyCol cfg @ '' = $3'' @ nl @ tabs 1"

definition updateEmbedding :: "rag_db \<Rightarrow> RagConfig \<Rightarrow> rat list \<Rightarrow> string \<Rightarrow> any \<Rightarrow> unit rag" where
  "updateEmbedding D cfg embedding content pk = rag_exec D ''failed to update embedding'' (update_sql cfg) [vector embedding, VStr content, pk]"

text \<open>The loop over the rows: its log message reads \<open>embedding[0]\<close>, so an empty embedding panics.\<close>

fun update_rows :: "rag_db \<Rightarrow> RagConfig \<Rightarrow> ((any \<times> string) \<times> rat list) list \<Rightarrow> unit rag" where
  "update_rows D cfg [] = rag_ok ()"
| "update_rows D cfg (((pk, content), embedding) # rest) =
     (if embedding = [] then rag_fail IndexOutOfRange
      else rag_then (updateEmbedding D cfg embedding content pk) (\<lambda>_. update_rows D cfg rest))"

definition content_query :: "rag_db \<Rightarrow> RagConfig \<Rightarrow> string option \<Rightarrow> string rag" where
  "content_query D cfg contentSelectQuery = (case contentSelectQuery of
       None \<Rightarrow> rag_ok (''SELECT '' @ rg_TablePrimaryKeyCol cfg @ '', content FROM '' @ rg_TableName cfg)
     | Some [] \<Rightarrow> rag_then (queryAndFilterColumnNames D (splitSchemaTableName (rg_TableName cfg)) [''embedding'', ''content''])
         (\<lambda>cols. rag_ok (''SELECT '' @ Join cols '', '' @ '' FROM '' @ rg_TableName cfg))
     | Some q \<Rightarrow> rag_ok q)"

definition CreateEmbedding :: "rag_db \<Rightarrow> rag_api \<Rightarrow> RagConfig \<Rightarrow> string option \<Rightarrow> unit rag" where
  "CreateEmbedding D A cfg contentSelectQuery =
     rag_then (rag_wrap ''failed to ensure table configuration'' (ensureTableConfig D cfg)) (\<lambda>_.
     rag_then (content_query D cfg contentSelectQuery) (\<lambda>sql.
     rag_then (queryAndProcessEmbeddingContents D sql) (\<lambda>rows.
       case FetchEmbedding A cfg (map snd rows) of
         Inl (Rag e) \<Rightarrow> rag_fail (Rag (''failed to fetch embeddings: '' @ e))
       | Inl e \<Rightarrow> rag_fail e
       | Inr embeddings \<Rightarrow>
           if length rows \<noteq> length embeddings then rag_fail (Rag ''mismatch between contents and embeddings length'')
           else update_rows D cfg (zip rows embeddings))))"

definition retrieve_sql :: "RagConfig \<Rightarrow> string" where
  "retrieve_sql cfg = ''SELECT id, content, embedding FROM '' @ rg_TableName cfg @ '' ORDER BY embedding <=> $1 LIMIT $2''"

text \<open>Scanning a row into an \<open>Embedding\<close>.\<close>

definition vector_of :: "any \<Rightarrow> rat list option" where
  "vector_of v = (case v of VSlice xs \<Rightarrow> Some (concat (map (\<lambda>x. case x of VFloat q \<Rightarrow> [q] | _ \<Rightarrow> []) xs)) | _ \<Rightarrow> None)"

definition scan_embedding :: "(string, any list) result \<Rightarrow> (rag_error, Embedding) result" where
  "scan_embedding r = (case r of
       Inl e \<Rightarrow> Inl (Rag (''failed to scan row: '' @ e))
     | Inr [pk, VStr content, v] \<Rightarrow> (case vector_of v of None \<Rightarrow> Inl (Rag ''failed to scan row'')
         | Some x \<Rightarrow> Inr \<lparr>em_PK = pk, em_Content = content, em_Embedding = x\<rparr>)
     | Inr _ \<Rightarrow> Inl (Rag ''failed to scan row''))"

definition Retrieve :: "rag_db \<Rightarrow> rag_api \<Rightarrow> RagConfig \<Rightarrow> string \<Rightarrow> int \<Rightarrow> Embedding list rag" where
  "Retrieve D A cfg input limit tr = (case FetchEmbedding A cfg [input] of
       Inl (Rag e) \<Rightarrow> (Inl (Rag (''failed to fetch embedding for input: '' @ e)), tr)
     | Inl e \<Rightarrow> (Inl e, tr)
     | Inr [] \<Rightarrow> (Inl IndexOutOfRange, tr)
     | Inr (v # _) \<Rightarrow> (let tr1 = tr @ [(retrieve_sql cfg, [vector v, VInt limit])] in
         case rd_rows D tr (retrieve_sql cfg) [vector v, VInt limit] of
           Inl e \<Rightarrow> (Inl (Rag (''failed to execute query: '' @ e)), tr1)
         | Inr (_, rows) \<Rightarrow> (map_res scan_embedding rows, tr1)))"

definition GenerateWithRetrieval :: "rag_db \<Rightarrow> rag_api \<Rightarrow> RagConfig \<Rightarrow> string \<Rightarrow> int \<Rightarrow> string option \<Rightarrow> string rag" where
  "GenerateWithRetrieval D A cfg prompt retrievalLimit retrievalInput =
     (let query = (case retrievalInput of None \<Rightarrow> prompt | Some q \<Rightarrow> if q \<noteq> [] then q else prompt) in
      rag_then (rag_wrap ''failed to retrieve relevant information'' (Retrieve D A cfg query retrievalLimit)) (\<lambda>info.
        case Generate A cfg (constructAugmentedPrompt prompt info) of
          Inl (Rag e) \<Rightarrow> rag_fail (Rag (''failed to generate response: '' @ e))
        | Inl e \<Rightarrow> rag_fail e
        | Inr response \<Rightarrow> rag_ok response))"

section \<open>What is stored\<close>

lemma rag_then_ok: "rag_then m f tr = (Inr y, tr2) \<longleftrightarrow> (\<exists>x tr1. m tr = (Inr x, tr1) \<and> f x tr1 = (Inr y, tr2))"
  by (auto simp: rag_then_def split: prod.splits sum.splits)

lemma rag_wrap_ok [simp]: "rag_wrap msg m tr = (Inr y, tr1) \<longleftrightarrow> m tr = (Inr y, tr1)"
  by (auto simp: rag_wrap_def split: prod.splits sum.splits rag_error.splits)

lemma rag_ok_iff [simp]: "rag_ok x tr = (Inr y, tr1) \<longleftrightarrow> y = x \<and> tr1 = tr" "rag_fail e tr \<noteq> (Inr y, tr1)"
  by (auto simp: rag_ok_def rag_fail_def)

text \<open>Every part only adds statements.\<close>

definition only_appends :: "'a rag \<Rightarrow> bool" where
  "only_appends m \<longleftrightarrow> (\<forall>tr. prefix tr (snd (m tr)))"

lemma extends_basic [simp]:
  "only_appends (rag_ok x)" "only_appends (rag_fail e)" "only_appends (rag_exec D msg sql args)" "only_appends (rag_bool D msg sql args)"
  "only_appends (queryAndProcessEmbeddingContents D sql)" "only_appends (queryAndFilterColumnNames D st rem)"
  by (auto simp: only_appends_def rag_ok_def rag_fail_def rag_exec_def rag_bool_def queryAndProcessEmbeddingContents_def
      queryAndFilterColumnNames_def Let_def split: option.split sum.split prod.split)

lemma extends_then [intro]: "only_appends m \<Longrightarrow> (\<And>x. only_appends (f x)) \<Longrightarrow> only_appends (rag_then m f)"
  unfolding only_appends_def rag_then_def
  by (auto split: prod.split sum.split) (metis prefix_order.trans snd_conv)+

lemma extends_wrap [simp]: "only_appends (rag_wrap msg m) = only_appends m"
proof -
  have "snd (rag_wrap msg m tr) = snd (m tr)" for tr by (simp add: rag_wrap_def split: prod.split sum.split rag_error.split)
  then show ?thesis by (simp add: only_appends_def)
qed

lemma extends_ensure [simp]: "only_appends (ensureTableConfig D cfg)"
  unfolding ensureTableConfig_def ensureRequiredColumnsExist_def tableExists_def createTable_def columnExists_def addColumn_def Let_def
  by (auto intro!: extends_then)

lemma extends_content_query [simp]: "only_appends (content_query D cfg q)"
  unfolding content_query_def by (auto intro!: extends_then split: option.split list.split)

definition row_update :: "RagConfig \<Rightarrow> (any \<times> string) \<times> rat list \<Rightarrow> string \<times> any list" where
  "row_update cfg x = (case x of ((pk, content), v) \<Rightarrow> (update_sql cfg, [vector v, VStr content, pk]))"

lemma update_rows_ok:
  assumes "update_rows D cfg xs tr = (Inr (), tr1)"
  shows "tr1 = tr @ map (row_update cfg) xs" and "\<forall>x \<in> set xs. snd x \<noteq> []"
proof -
  have "tr1 = tr @ map (row_update cfg) xs \<and> (\<forall>x \<in> set xs. snd x \<noteq> [])"
    using assms
  proof (induction D cfg xs arbitrary: tr rule: update_rows.induct)
    case (2 D cfg pk content v rest)
    then have v: "v \<noteq> []" by (auto simp: rag_fail_def split: if_splits)
    obtain tr0 where u: "updateEmbedding D cfg v content pk tr = (Inr (), tr0)" "update_rows D cfg rest tr0 = (Inr (), tr1)"
      using "2.prems" v by (auto simp: rag_then_ok)
    have "tr0 = tr @ [row_update cfg ((pk, content), v)]"
      using u(1) by (auto simp: updateEmbedding_def rag_exec_def row_update_def split: option.splits)
    with "2.IH" [OF v u(2)] v show ?case by simp
  qed simp
  then show "tr1 = tr @ map (row_update cfg) xs" and "\<forall>x \<in> set xs. snd x \<noteq> []" by simp_all
qed

lemma embedding_rows_ok:
  "embedding_rows D names rs = Inr rows \<Longrightarrow> \<exists>vals. rs = map Inr vals \<and> rows = map (\<lambda>v. (hd v, formatRowValues D names v)) vals"
proof (induction D names rs arbitrary: rows rule: embedding_rows.induct)
  case (2 D names r rs)
  then obtain pk ws xs where r: "r = Inr (pk # ws)" "embedding_rows D names rs = Inr xs" "rows = (pk, formatRowValues D names (pk # ws)) # xs"
    by (auto split: sum.splits list.splits)
  then obtain vals where "rs = map Inr vals" "xs = map (\<lambda>v. (hd v, formatRowValues D names v)) vals" using "2.IH" by blast
  then show ?case using r by (intro exI [of _ "(pk # ws) # vals"]) simp
qed simp

text \<open>
  When \<open>CreateEmbedding\<close> succeeds, it has selected the rows with one query and sent one UPDATE for each of them, in
  their order and as its last statements, which stores the content and, not empty, the vector the API returned for this
  content at the row with its key; nothing is stored twice or for another row.
\<close>

theorem embeddings_are_stored:
  assumes "CreateEmbedding D A cfg q tr = (Inr (), tr')"
  shows "\<exists>before sql names vals rows vs. prefix tr before
    \<and> rd_rows D before sql [] = Inr (names, map Inr vals) \<and> rows = map (\<lambda>v. (hd v, formatRowValues D names v)) vals
    \<and> FetchEmbedding A cfg (map snd rows) = Inr vs \<and> length vs = length rows \<and> [] \<notin> set vs
    \<and> tr' = before @ (sql, []) # map (row_update cfg) (zip rows vs)"
proof -
  obtain before sql rows tr3 where b: "prefix tr before" "queryAndProcessEmbeddingContents D sql before = (Inr rows, tr3)"
      and rest: "(case FetchEmbedding A cfg (map snd rows) of
         Inl (Rag e) \<Rightarrow> rag_fail (Rag (''failed to fetch embeddings: '' @ e))
       | Inl e \<Rightarrow> rag_fail e
       | Inr embeddings \<Rightarrow>
           if length rows \<noteq> length embeddings then rag_fail (Rag ''mismatch between contents and embeddings length'')
           else update_rows D cfg (zip rows embeddings)) tr3 = (Inr (), tr')"
  proof -
    obtain tr1 sql tr2 rows tr3 where s: "ensureTableConfig D cfg tr = (Inr (), tr1)" "content_query D cfg q tr1 = (Inr sql, tr2)"
        "queryAndProcessEmbeddingContents D sql tr2 = (Inr rows, tr3)"
      and r: "(case FetchEmbedding A cfg (map snd rows) of
         Inl (Rag e) \<Rightarrow> rag_fail (Rag (''failed to fetch embeddings: '' @ e))
       | Inl e \<Rightarrow> rag_fail e
       | Inr embeddings \<Rightarrow>
           if length rows \<noteq> length embeddings then rag_fail (Rag ''mismatch between contents and embeddings length'')
           else update_rows D cfg (zip rows embeddings)) tr3 = (Inr (), tr')"
      using assms by (auto simp: CreateEmbedding_def rag_then_ok)
    have "prefix tr tr1" "prefix tr1 tr2"
      using s(1,2) extends_ensure [of D cfg] extends_content_query [of D cfg q] unfolding only_appends_def by (metis snd_conv)+
    then show thesis using that s(3) r by (meson prefix_order.trans)
  qed
  obtain vs where vs: "FetchEmbedding A cfg (map snd rows) = Inr vs" "length vs = length rows" "update_rows D cfg (zip rows vs) tr3 = (Inr (), tr')"
    using rest by (auto split: sum.splits rag_error.splits if_splits)
  obtain names rs where q: "rd_rows D before sql [] = Inr (names, rs)" "embedding_rows D names rs = Inr rows" "tr3 = before @ [(sql, [])]"
    using b(2) by (auto simp: queryAndProcessEmbeddingContents_def split: sum.splits prod.splits)
  have "\<exists>vals. rs = map Inr vals \<and> rows = map (\<lambda>v. (hd v, formatRowValues D names v)) vals" by (rule embedding_rows_ok [OF q(2)])
  then obtain vals where vals: "rs = map Inr vals" "rows = map (\<lambda>v. (hd v, formatRowValues D names v)) vals" by blast
  have "[] \<notin> set vs"
  proof
    assume "[] \<in> set vs"
    then obtain x where "(x, []) \<in> set (zip rows vs)" using in_set_impl_in_set_zip2 vs(2) by metis
    then show False using update_rows_ok(2) [OF vs(3)] by (metis snd_conv)
  qed
  moreover have "tr' = before @ (sql, []) # map (row_update cfg) (zip rows vs)" using update_rows_ok(1) [OF vs(3)] q(3) by simp
  moreover have "rd_rows D before sql [] = Inr (names, map Inr vals)" using q(1) vals(1) by simp
  ultimately show ?thesis using b(1) vs(1,2) vals(2)
    by (intro exI [of _ before] exI [of _ sql] exI [of _ names] exI [of _ vals] exI [of _ rows] exI [of _ vs] conjI)
qed

definition example_rag_db :: rag_db where
  "example_rag_db = \<lparr>rd_exec = \<lambda>_ _ _. None, rd_bool = \<lambda>_ _ _. Inr True,
     rd_rows = \<lambda>_ _ _. Inr ([''id'', ''content''], [Inr [VInt 1, VStr ''a'']]),
     rd_sprint = \<lambda>v. case v of VInt i \<Rightarrow> Itoa i | VStr s \<Rightarrow> s | _ \<Rightarrow> []\<rparr>"

definition example_rag_api :: rag_api where
  "example_rag_api = \<lparr>ra_marshal = \<lambda>_. Some ''{}'', ra_check = \<lambda>_ _. None,
     ra_embed = [\<lparr>at_do = \<lambda>_. Inr (200, ''v''), at_read = None, at_handler = None\<rparr>], ra_generate = [], ra_vectors = \<lambda>_. Some [[1]]\<rparr>"

text \<open>
  The content of a row is stored with the names of the selected columns in front. When the rows are selected by their
  key and content, as the client does by default, the stored content is the old content wrapped once more.
\<close>

lemma stored_content_is_wrapped:
  assumes "rd_sprint D (VStr c) = c"
  shows "formatRowValues D [pk, ''content''] [v, VStr c] = pk @ '':'' @ rd_sprint D v @ '',content:'' @ c"
    and "formatRowValues D [pk, ''content''] [v, VStr c] \<noteq> c"
proof -
  show eq: "formatRowValues D [pk, ''content''] [v, VStr c] = pk @ '':'' @ rd_sprint D v @ '',content:'' @ c"
    using assms by (simp add: formatRowValues_def)
  show "formatRowValues D [pk, ''content''] [v, VStr c] \<noteq> c"
  proof
    assume "formatRowValues D [pk, ''content''] [v, VStr c] = c"
    then have "length (formatRowValues D [pk, ''content''] [v, VStr c]) = length c" by simp
    then show False unfolding eq by simp
  qed
qed

text \<open>An answer without vectors makes \<open>Retrieve\<close> panic; it selects the column \<open>id\<close> whatever the key is called.\<close>

lemma retrieve_without_vectors: "FetchEmbedding A cfg [input] = Inr [] \<Longrightarrow> Retrieve D A cfg input n tr = (Inl IndexOutOfRange, tr)"
  by (simp add: Retrieve_def)

lemma retrieve_ignores_the_key: "retrieve_sql (cfg\<lparr>rg_TablePrimaryKeyCol := k\<rparr>) = retrieve_sql cfg"
  by (simp add: retrieve_sql_def)

end
