(* ===== verification/Age.thy ===== *)
theory Age
  imports Http
begin

text \<open>
  Cypher queries over HTTP (\<open>pkg/x/age/apache_age.go\<close>): the set-up of the handler, the transaction of a request and the
  conversion of graph entities to JSON. The AGE driver, the database and the JSON decoder are parameters.
\<close>

text \<open>What is done to the database.\<close>

datatype age_effect = Setup string | GetReady string | CloseDB | BeginTx | Cypher string string int | CommitTx | RollbackTx

record AGERequest =
  ag_Cypher :: string
  ag_ColumnCount :: int

text \<open>The entities of the driver: vertices, edges, paths of entities, scalars, and values of another kind by their text.\<close>

datatype entity =
    Vertex int string gomap
  | Edge int string int int gomap
  | Path "entity list"
  | SimpleNull
  | Simple any
  | Unknown string

record age_lib =
  al_setup :: "string \<Rightarrow> string option"
  al_ready :: "string \<Rightarrow> string option"
  al_decode :: "string \<Rightarrow> (string, AGERequest) result"
  al_begin :: "string option"
  al_exec :: "string \<Rightarrow> AGERequest \<Rightarrow> (string, (string, entity list) result list) result"
  al_commit :: "string option"

definition setupQueries :: "string list" where
  "setupQueries = [''CREATE EXTENSION IF NOT EXISTS age;'', ''LOAD '' @ [CHR 0x27] @ ''age'' @ [CHR 0x27] @ '';'',
     ''SET search_path = ag_catalog, '' @ [CHR 0x22] @ ''$user'' @ [CHR 0x22] @ '', public;'']"

fun run_setup :: "age_lib \<Rightarrow> string list \<Rightarrow> string option \<times> age_effect list" where
  "run_setup A [] = (None, [])"
| "run_setup A (q # qs) = (case al_setup A q of
       Some e \<Rightarrow> (Some (''Failed to execute AGE setup command '' @ q @ '': '' @ e), [Setup q])
     | None \<Rightarrow> (case run_setup A qs of (r, tr) \<Rightarrow> (r, Setup q # tr)))"

definition NewAGEHandler :: "age_lib \<Rightarrow> string \<Rightarrow> (string, string) result \<times> age_effect list" where
  "NewAGEHandler A graphName = (case run_setup A setupQueries of
       (Some e, tr) \<Rightarrow> (Inl e, tr @ [CloseDB])
     | (None, tr) \<Rightarrow> (case al_ready A graphName of
         Some e \<Rightarrow> (Inl (''Failed to initialize AGE with graph '' @ graphName @ '': '' @ e), tr @ [GetReady graphName, CloseDB])
       | None \<Rightarrow> (Inr graphName, tr @ [GetReady graphName])))"

fun convertEntityToMap :: "entity \<Rightarrow> any" where
  "convertEntityToMap (Vertex i label props) =
     VMap [(''type'', VStr ''vertex''), (''id'', VInt i), (''label'', VStr label), (''properties'', VMap props)]"
| "convertEntityToMap (Edge i label s t props) =
     VMap [(''type'', VStr ''edge''), (''id'', VInt i), (''label'', VStr label), (''startId'', VInt s), (''endId'', VInt t), (''properties'', VMap props)]"
| "convertEntityToMap (Path es) = VMap [(''type'', VStr ''path''), (''entities'', VSlice (map convertEntityToMap es))]"
| "convertEntityToMap SimpleNull = VNil"
| "convertEntityToMap (Simple v) = v"
| "convertEntityToMap (Unknown s) = VStr s"

definition row_object :: "entity list \<Rightarrow> any" where
  "row_object row = VMap (map (\<lambda>i. (''column'' @ itoa_nat i, convertEntityToMap (row ! i))) [0..<length row])"

text \<open>A write answers with a message; a read with its rows, and with null when there are none.\<close>

definition execCypher :: "age_lib \<Rightarrow> string \<Rightarrow> AGERequest \<Rightarrow> (string, any) result" where
  "execCypher A graph req = (case al_exec A graph req of Inl e \<Rightarrow> Inl e
     | Inr rows \<Rightarrow>
         if ag_ColumnCount req = 0 then Inr (VMap [(''message'', VStr ''Query executed successfully'')])
         else (case map_res (map_sum id row_object) rows of Inl e \<Rightarrow> Inl e
           | Inr objs \<Rightarrow> Inr (if objs = [] then VNil else VSlice objs)))"

definition AGEResponse :: "bool \<Rightarrow> any option \<Rightarrow> string \<Rightarrow> any" where
  "AGEResponse success data err = VMap ([(''success'', VBool success)]
     @ (case data of None \<Rightarrow> [] | Some d \<Rightarrow> [(''data'', d)]) @ (if err = [] then [] else [(''error'', VStr err)]))"

definition age_error :: "golib \<Rightarrow> nat \<Rightarrow> string \<Rightarrow> World \<Rightarrow> World" where
  "age_error L status msg w = JSON L status (AGEResponse False None msg) w"

text \<open>
  The handler. When the query fails the transaction is rolled back by the error branch and once more by the deferred
  function; when the commit fails the deferred function sees another \<open>err\<close> and does nothing.
\<close>

definition ServeAGE :: "golib \<Rightarrow> age_lib \<Rightarrow> string \<Rightarrow> Request \<Rightarrow> World \<Rightarrow> World \<times> age_effect list" where
  "ServeAGE L A graph r w =
     (if rq_Method r \<noteq> ''POST'' then (http_Error ''Method not allowed'' 405 w, [])
      else (case al_decode A (rq_Body r) of
          Inl e \<Rightarrow> (age_error L 400 (''Invalid request body: '' @ e) w, [])
        | Inr req \<Rightarrow>
            if ag_Cypher req = [] then (age_error L 400 ''Cypher query is required'' w, [])
            else (case al_begin A of
                Some e \<Rightarrow> (age_error L 500 (''Failed to begin transaction: '' @ e) w, [BeginTx])
              | None \<Rightarrow> (let tr = [BeginTx, Cypher graph (ag_Cypher req) (ag_ColumnCount req)] in
                  case execCypher A graph req of
                    Inl e \<Rightarrow> (age_error L 500 (''Query execution Failed: '' @ e) w, tr @ [RollbackTx, RollbackTx])
                  | Inr results \<Rightarrow> (case al_commit A of
                      Some e \<Rightarrow> (age_error L 500 (''Failed to commit transaction: '' @ e) w, tr @ [CommitTx])
                    | None \<Rightarrow> (JSON L 200 (AGEResponse True (Some results) []) w, tr @ [CommitTx]))))))"

section \<open>Transactions\<close>

text \<open>
  A request is answered with 200 exactly when its query ran and its transaction was committed; a query that fails is
  never committed, and every other request changes nothing.
\<close>

lemma age_transaction:
  assumes "\<And>v. lib_marshal L v \<noteq> None" and "rs_Status (w_resp w) = None" and "ServeAGE L A graph r w = (w', tr)"
  shows "rs_Status (w_resp w') = Some 200 \<longleftrightarrow> CommitTx \<in> set tr \<and> al_commit A = None"
    and "CommitTx \<in> set tr \<Longrightarrow> \<exists>req v. al_decode A (rq_Body r) = Inr req \<and> execCypher A graph req = Inr v \<and> RollbackTx \<notin> set tr"
    and "(\<exists>q n. Cypher graph q n \<in> set tr) \<Longrightarrow> CommitTx \<in> set tr \<or> RollbackTx \<in> set tr"
proof -
  have st: "rs_Status (w_resp (JSON L n v w)) = Some n" for n v
    using assms(1) [of v] assms(2) by (auto simp: JSON_def)
  then have er: "rs_Status (w_resp (age_error L n m w)) = Some n" for n m by (simp add: age_error_def)
  show "rs_Status (w_resp w') = Some 200 \<longleftrightarrow> CommitTx \<in> set tr \<and> al_commit A = None"
    using assms(2,3) by (auto simp: ServeAGE_def Let_def st er split: if_splits sum.splits option.splits)
  show "CommitTx \<in> set tr \<Longrightarrow> \<exists>req v. al_decode A (rq_Body r) = Inr req \<and> execCypher A graph req = Inr v \<and> RollbackTx \<notin> set tr"
    using assms(3) by (auto simp: ServeAGE_def Let_def split: if_splits sum.splits option.splits)
  show "(\<exists>q n. Cypher graph q n \<in> set tr) \<Longrightarrow> CommitTx \<in> set tr \<or> RollbackTx \<in> set tr"
    using assms(3) by (auto simp: ServeAGE_def Let_def split: if_splits sum.splits option.splits)
qed

text \<open>The conversion keeps well-formed values well-formed.\<close>

fun wf_entity :: "entity \<Rightarrow> bool" where
  "wf_entity (Vertex i label props) = wf_any (VMap props)"
| "wf_entity (Edge i label s t props) = wf_any (VMap props)"
| "wf_entity (Path es) = list_all wf_entity es"
| "wf_entity (Simple v) = wf_any v"
| "wf_entity _ = True"

lemma wf_convert: "wf_entity e \<Longrightarrow> wf_any (convertEntityToMap e)"
  by (induction e) (auto simp: list_all_iff)

lemma wf_row: "list_all wf_entity row \<Longrightarrow> wf_any (row_object row)"
  by (auto simp: row_object_def list_all_iff wf_convert distinct_map comp_def intro!: inj_onI dest: itoa_nat_inj)

end
