(* ===== verification/Migrate.thy ===== *)
theory Migrate
  imports GoValue "HOL-Library.Word"
begin

text \<open>
  The migrate command (\<open>cmd/pigo/migrate.go\<close>): where each setting comes from, the connection string, and the versions
  a destination stands for. The migration library (\<open>tern\<close>), the flag parser, the file and the environment are
  parameters; a version is a 32-bit integer.
\<close>

record MigrationConfig =
  mc_Host :: string
  mc_Port :: int
  mc_Database :: string
  mc_User :: string
  mc_Password :: string
  mc_SSLMode :: string
  mc_ConnString :: string
  mc_VersionTable :: string
  mc_Data :: "gomap option"

definition zero_migration :: MigrationConfig where
  "zero_migration = \<lparr>mc_Host = [], mc_Port = 0, mc_Database = [], mc_User = [], mc_Password = [], mc_SSLMode = [], mc_ConnString = [],
     mc_VersionTable = [], mc_Data = None\<rparr>"

record MigrateFlags =
  mf_Config :: MigrationConfig
  mf_migrations :: string
  mf_destination :: string

text \<open>\<open>cmp.Or\<close>: the first value that is not the zero value.\<close>

fun first_set :: "'a \<Rightarrow> 'a list \<Rightarrow> 'a" where
  "first_set zero [] = zero"
| "first_set zero (x # xs) = (if x \<noteq> zero then x else first_set zero xs)"

text \<open>
  Reading the configuration file: the file, the template engine and the YAML decoder are parameters. The decoder fills what it
  can before it fails, and the value is returned together with the error.
\<close>

datatype config_error = NotExist | ConfigError string

record config_files =
  cs_ReadFile :: "string \<Rightarrow> (config_error, string) result"
  cs_Parse :: "string \<Rightarrow> (string, string) result"
  cs_Execute :: "string \<Rightarrow> (string, string) result"
  cs_Unmarshal :: "string \<Rightarrow> string option \<times> MigrationConfig"

definition loadMigrationConfig :: "config_files \<Rightarrow> string \<Rightarrow> config_error option \<times> MigrationConfig" where
  "loadMigrationConfig F path = (case cs_ReadFile F path of
       Inl e \<Rightarrow> (Some e, zero_migration)
     | Inr raw \<Rightarrow> (case cs_Parse F raw of
         Inl e \<Rightarrow> (Some (ConfigError (''parse config template: '' @ e)), zero_migration)
       | Inr tmpl \<Rightarrow> (case cs_Execute F tmpl of
           Inl e \<Rightarrow> (Some (ConfigError (''execute config template: '' @ e)), zero_migration)
         | Inr text \<Rightarrow> (case cs_Unmarshal F text of (e, cfg) \<Rightarrow> (map_option ConfigError e, cfg)))))"

definition migration_settings :: "(string \<Rightarrow> string) \<Rightarrow> MigrationConfig \<Rightarrow> MigrationConfig \<Rightarrow> MigrationConfig" where
  "migration_settings env f c =
     c\<lparr>mc_ConnString := first_set [] [mc_ConnString f, mc_ConnString c, env ''PIGO_CONN_STRING''],
       mc_Host := first_set [] [mc_Host f, mc_Host c, env ''PGHOST'', ''localhost''],
       mc_Port := first_set 0 [mc_Port f, mc_Port c, (case Atoi (env ''PGPORT'') of None \<Rightarrow> 0 | Some v \<Rightarrow> v), 5432],
       mc_Database := first_set [] [mc_Database f, mc_Database c, env ''PGDATABASE''],
       mc_User := first_set [] [mc_User f, mc_User c, env ''PGUSER'', env ''USER''],
       mc_Password := first_set [] [mc_Password f, mc_Password c, env ''PGPASSWORD''],
       mc_SSLMode := first_set [] [mc_SSLMode f, mc_SSLMode c, env ''PGSSLMODE'', ''prefer''],
       mc_VersionTable := first_set [] [mc_VersionTable f, mc_VersionTable c, ''public.schema_version'']\<rparr>"

definition migration_uri :: "MigrationConfig \<Rightarrow> string" where
  "migration_uri c = first_set [] [mc_ConnString c,
     ''host='' @ mc_Host c @ '' port='' @ Itoa (mc_Port c) @ '' dbname='' @ mc_Database c @ '' user='' @ mc_User c
     @ '' password='' @ mc_Password c @ '' sslmode='' @ mc_SSLMode c]"

datatype migration_source = EmbeddedMigrations | DirectoryMigrations string

definition migrations_from :: "string \<Rightarrow> migration_source" where
  "migrations_from dir = (if dir = ''.'' then EmbeddedMigrations else DirectoryMigrations dir)"

section \<open>Destinations\<close>

text \<open>
  The migrator: the current version, and migrating to a version or to the last one after what was done before.
\<close>

datatype goal = Latest | Version "32 word"

record Migrator =
  tm_current :: "goal list \<Rightarrow> (string, 32 word) result"
  tm_migrate :: "goal list \<Rightarrow> goal \<Rightarrow> string option"

type_synonym migration = "string option \<times> goal list"

definition migrate_goal :: "Migrator \<Rightarrow> goal \<Rightarrow> goal list \<Rightarrow> migration" where
  "migrate_goal M g before = (tm_migrate M before g, before @ [g])"

definition from_current :: "Migrator \<Rightarrow> ('v \<Rightarrow> goal list \<Rightarrow> migration) \<Rightarrow> (32 word \<Rightarrow> 'v) \<Rightarrow> migration" where
  "from_current M f g = (case tm_current M [] of Inl e \<Rightarrow> (Some e, []) | Inr v \<Rightarrow> f (g v) [])"

definition migrateTo :: "Migrator \<Rightarrow> string \<Rightarrow> migration" where
  "migrateTo M dest =
     (if dest = [] then migrate_goal M Latest []
      else (case Atoi (dropWhile (\<lambda>c. c \<in> {CHR ''-'', CHR ''+''}) dest) of
          None \<Rightarrow> (Some (''invalid destination '' @ dest), [])
        | Some i \<Rightarrow> (let n = (word_of_int i :: 32 word); to = (\<lambda>v. migrate_goal M (Version v)) in
            if HasPrefix dest ''-+'' then
              (case tm_current M [] of Inl e \<Rightarrow> (Some e, [])
               | Inr v \<Rightarrow> (case to (v - n) [] of (Some e, tr) \<Rightarrow> (Some e, tr) | (None, tr) \<Rightarrow> to v tr))
            else if HasPrefix dest ''+'' then from_current M to (\<lambda>v. v + n)
            else if HasPrefix dest ''-'' then from_current M to (\<lambda>v. v - n)
            else to n [])))"

text \<open>\<open>migrate\<close>, up to the migrator: reading the settings, connecting and loading the migrations.\<close>

record migrate_env =
  me_env :: "string \<Rightarrow> string"
  me_files :: config_files
  me_connect :: "string \<Rightarrow> string option"
  me_migrator :: "string \<Rightarrow> (string, Migrator) result"
  me_load :: "migration_source \<Rightarrow> string option"

definition migrate :: "migrate_env \<Rightarrow> string \<Rightarrow> MigrateFlags \<Rightarrow> migration" where
  "migrate E configPath fl =
     (case loadMigrationConfig (me_files E) configPath of (Some (ConfigError e), _) \<Rightarrow> (Some (''load config: '' @ e), [])
      | (_, c0) \<Rightarrow> (let c = migration_settings (me_env E) (mf_Config fl) c0 in
          case me_connect E (migration_uri c) of Some e \<Rightarrow> (Some (''connect: '' @ e), [])
          | None \<Rightarrow> (case me_migrator E (mc_VersionTable c) of Inl e \<Rightarrow> (Some (''new migrator: '' @ e), [])
            | Inr M \<Rightarrow> (case me_load E (migrations_from (mf_migrations fl)) of Some e \<Rightarrow> (Some (''load migrations: '' @ e), [])
              | None \<Rightarrow> migrateTo M (mf_destination fl)))))"

text \<open>
  Without a configuration file the flags and the environment decide; a file that cannot be used stops the command before it
  connects.
\<close>

lemma missing_config_is_empty:
  assumes "cs_ReadFile F path = Inl NotExist"
  shows "loadMigrationConfig F path = (Some NotExist, zero_migration)"
  using assms by (simp add: loadMigrationConfig_def)

lemma broken_config_stops:
  assumes "fst (loadMigrationConfig (me_files E) configPath) = Some (ConfigError e)"
  shows "migrate E configPath fl = (Some (''load config: '' @ e), [])"
  using assms by (auto simp: migrate_def split: prod.split)

section \<open>What a destination means\<close>

lemma first_set_in: "first_set z xs \<noteq> z \<Longrightarrow> first_set z xs \<in> set xs"
  by (induction xs) auto

lemma first_set_default: "d \<noteq> z \<Longrightarrow> first_set z (xs @ [d]) \<noteq> z"
  by (induction xs) auto

text \<open>The host, the port and the TLS mode are never left open.\<close>

lemma settings_complete:
  "mc_Host (migration_settings env f c) \<noteq> []" "mc_Port (migration_settings env f c) \<noteq> 0" "mc_SSLMode (migration_settings env f c) \<noteq> []"
  "mc_VersionTable (migration_settings env f c) \<noteq> []"
  by (simp_all add: migration_settings_def)

text \<open>The text of a destination: an absolute version, forward, back, or back and forward again.\<close>

datatype destination = To nat | Forward nat | Back nat | Redo nat

fun dest_text :: "destination \<Rightarrow> string" where
  "dest_text (To n) = itoa_nat n"
| "dest_text (Forward n) = ''+'' @ itoa_nat n"
| "dest_text (Back n) = ''-'' @ itoa_nat n"
| "dest_text (Redo n) = ''-+'' @ itoa_nat n"

fun goals :: "32 word \<Rightarrow> destination \<Rightarrow> goal list" where
  "goals v (To n) = [Version (of_nat n)]"
| "goals v (Forward n) = [Version (v + of_nat n)]"
| "goals v (Back n) = [Version (v - of_nat n)]"
| "goals v (Redo n) = [Version (v - of_nat n), Version v]"

fun dest_number :: "destination \<Rightarrow> nat" where
  "dest_number (To n) = n" | "dest_number (Forward n) = n" | "dest_number (Back n) = n" | "dest_number (Redo n) = n"

lemma dropWhile_sign: "dropWhile (\<lambda>c. c \<in> {CHR ''-'', CHR ''+''}) (itoa_nat n) = itoa_nat n"
  using itoa_nat_not_sign [of n] itoa_nat_nonempty [of n] by (cases "itoa_nat n") auto

lemma HasPrefix_Cons: "HasPrefix (c # s) (d # p) \<longleftrightarrow> c = d \<and> HasPrefix s p" "HasPrefix s []"
  by (auto simp: HasPrefix_def)

lemma HasPrefix_itoa: "\<not> HasPrefix (itoa_nat n) (CHR ''-'' # p)" "\<not> HasPrefix (itoa_nat n) (CHR ''+'' # p)"
  using itoa_nat_not_sign [of n] itoa_nat_nonempty [of n] by (cases "itoa_nat n"; simp add: HasPrefix_Cons)+

text \<open>Running a list of goals until one fails.\<close>

fun run_goals :: "Migrator \<Rightarrow> goal list \<Rightarrow> goal list \<Rightarrow> migration" where
  "run_goals M [] tr = (None, tr)"
| "run_goals M (g # gs) tr = (case tm_migrate M tr g of Some e \<Rightarrow> (Some e, tr @ [g]) | None \<Rightarrow> run_goals M gs (tr @ [g]))"

lemma run_one: "migrate_goal M g tr = run_goals M [g] tr"
  by (simp add: migrate_goal_def split: option.split)

lemma migrateTo_goals:
  assumes "dest_number d < 2 ^ 63" and "tm_current M [] = Inr v"
  shows "migrateTo M (dest_text d) = run_goals M (goals v d) []"
proof -
  have n: "Atoi (dropWhile (\<lambda>c. c = CHR ''-'' \<or> c = CHR ''+'') (itoa_nat (dest_number d))) = Some (int (dest_number d))"
    using dropWhile_sign [of "dest_number d"] Atoi_itoa [OF assms(1)] by simp
  show ?thesis
    using n assms(2)
    by (cases d) (simp_all add: migrateTo_def from_current_def Let_def migrate_goal_def HasPrefix_Cons HasPrefix_itoa split: option.split)
qed


definition example_migrator :: Migrator where
  "example_migrator = \<lparr>tm_current = \<lambda>_. Inr 7, tm_migrate = \<lambda>tr g. if g = Version 5 then Some ''down failed'' else None\<rparr>"


text \<open>A destination past 32 bits is another version: 4294967296 is version 0, which undoes every migration.\<close>

lemma large_destination_undoes_everything:
  "tm_current M [] = Inr v \<Longrightarrow> migrateTo M ''4294967296'' = migrate_goal M (Version 0) []"
proof -
  assume v: "tm_current M [] = Inr v"
  have "itoa_nat 4294967296 = ''4294967296''" by (simp add: itoa_nat.simps digit_char_def) code_simp
  moreover have zero: "(4294967296 :: 32 word) = 0" by code_simp
  ultimately show ?thesis using migrateTo_goals [of "To 4294967296" M v] v zero by (simp add: run_one)
qed

end
