(* ===== verification/Tls.thy ===== *)
theory Tls
  imports Prelude
begin

text \<open>
  What the program uses of \<open>crypto/tls\<close>, \<open>crypto/x509\<close> and \<open>os.ReadFile\<close>: files, certificates in PEM and pairs of a certificate
  and its key, as parameters, and the fields of a TLS configuration that are set.
\<close>

record tls_lib =
  tl_ReadFile :: "string \<Rightarrow> (string, string) result"
  tl_PEM :: "string \<Rightarrow> bool"
  tl_LoadX509KeyPair :: "string \<Rightarrow> string \<Rightarrow> (string, string) result"
  tl_X509KeyPair :: "string \<Rightarrow> string \<Rightarrow> (string, string) result"

record TlsConfig =
  tc_InsecureSkipVerify :: bool
  tc_ServerName :: string
  tc_RootCAs :: "string option"
  tc_Certificates :: "string list"

end
