(* ===== verification/MqttClient.thy ===== *)
theory MqttClient
  imports Mqtt Tls
begin

text \<open>
  Connecting the MQTT peer (\<open>pkg/pipeline/peer/mqtt/client.go\<close>, \<open>options.go\<close>, \<open>Connect\<close> in \<open>peer.go\<close>): the TLS settings,
  the options handed to the client library, and the defaults from the environment. The library (with the options its
  constructor sets), the files and the certificates are parameters.
\<close>

section \<open>TLS\<close>

record TLSOptions =
  ts_InsecureSkipVerify :: bool
  ts_ServerName :: string
  ts_CAFile :: string
  ts_CertFile :: string
  ts_KeyFile :: string
  ts_CACert :: string
  ts_ClientCert :: string
  ts_ClientKey :: string

text \<open>The certificates of the authority, from a file or from the text, and the certificate of the client.\<close>

definition ca_certificates :: "tls_lib \<Rightarrow> TLSOptions \<Rightarrow> (string, string option) result" where
  "ca_certificates T opts =
     (if ts_CAFile opts = [] \<and> ts_CACert opts = [] then Inr None
      else (case (if ts_CAFile opts \<noteq> [] then tl_ReadFile T (ts_CAFile opts) else Inr (ts_CACert opts)) of
          Inl e \<Rightarrow> Inl (''failed to read CA file: '' @ e)
        | Inr pem \<Rightarrow> if tl_PEM T pem then Inr (Some pem) else Inl ''failed to parse CA certificate''))"

definition client_certificates :: "tls_lib \<Rightarrow> TLSOptions \<Rightarrow> (string, string list) result" where
  "client_certificates T opts =
     (let from_files = (ts_CertFile opts \<noteq> [] \<and> ts_KeyFile opts \<noteq> []) in
      if from_files \<or> (ts_ClientCert opts \<noteq> [] \<and> ts_ClientKey opts \<noteq> []) then
        (case (if from_files then tl_LoadX509KeyPair T (ts_CertFile opts) (ts_KeyFile opts)
               else tl_X509KeyPair T (ts_ClientCert opts) (ts_ClientKey opts)) of
           Inl e \<Rightarrow> Inl (''failed to load client certificate: '' @ e)
         | Inr cert \<Rightarrow> Inr [cert])
      else Inr [])"

definition createTLSConfig :: "tls_lib \<Rightarrow> TLSOptions option \<Rightarrow> (string, TlsConfig option) result" where
  "createTLSConfig T tlsOpts = (case tlsOpts of None \<Rightarrow> Inr None
     | Some opts \<Rightarrow> (case ca_certificates T opts of Inl e \<Rightarrow> Inl e
       | Inr roots \<Rightarrow> (case client_certificates T opts of Inl e \<Rightarrow> Inl e
         | Inr certs \<Rightarrow> Inr (Some \<lparr>tc_InsecureSkipVerify = ts_InsecureSkipVerify opts, tc_ServerName = ts_ServerName opts,
             tc_RootCAs = roots, tc_Certificates = certs\<rparr>))))"

section \<open>The options\<close>

text \<open>
  The fields that hold a function or a pointer are kept as references; \<open>None\<close> is nil. The \<open>CredentialsProvider\<close> and
  the \<open>ProtocolVersion\<close> are fields that nothing reads.
\<close>

datatype option_ref =
  Store | DefaultPublishHandler | OnConnect | OnConnectionLost | OnReconnecting | OnConnectAttempt
  | HTTPHeaders | WebsocketOptions | Dialer | CustomOpenConnectionFn

record MqttWill =
  wi_Topic :: string
  wi_Payload :: string
  wi_Qos :: int
  wi_Retained :: bool

record MqttFlags =
  fl_CleanSession :: bool
  fl_Order :: bool
  fl_AutoReconnect :: bool
  fl_ConnectRetry :: bool
  fl_ResumeSubs :: bool
  fl_AutoAckDisabled :: bool

record MqttTimes =
  mt_KeepAlive :: int
  mt_PingTimeout :: int
  mt_ConnectTimeout :: int
  mt_MaxReconnectInterval :: int
  mt_ConnectRetryInterval :: int
  mt_WriteTimeout :: int
  mt_MessageChannelDepth :: int
  mt_MaxResumePubInFlight :: int

record ClientOptions =
  co_Servers :: "string list"
  co_ClientID :: string
  co_Username :: string
  co_Password :: string
  co_TLS :: "TLSOptions option"
  co_TLSConfig :: "TlsConfig option"
  co_Times :: MqttTimes
  co_Flags :: MqttFlags
  co_Refs :: "option_ref \<Rightarrow> nat option"
  co_WillEnabled :: bool
  co_Will :: MqttWill
  co_CredentialsProvider :: "nat option"
  co_ProtocolVersion :: nat

text \<open>The options of the client library.\<close>

record PahoOptions =
  pa_Servers :: "string list"
  pa_ClientID :: string
  pa_Username :: string
  pa_Password :: string
  pa_TLSConfig :: "TlsConfig option"
  pa_Times :: MqttTimes
  pa_Flags :: MqttFlags
  pa_Refs :: "option_ref \<Rightarrow> nat option"
  pa_Will :: "MqttWill option"

text \<open>\<open>AddBroker\<close> parses the address and ignores one it cannot parse; \<open>SetKeepAlive\<close> keeps whole seconds.\<close>

definition AddBroker :: "(string \<Rightarrow> string option) \<Rightarrow> string \<Rightarrow> PahoOptions \<Rightarrow> PahoOptions" where
  "AddBroker parse server o' = (case parse server of None \<Rightarrow> o' | Some u \<Rightarrow> o'\<lparr>pa_Servers := pa_Servers o' @ [u]\<rparr>)"

definition set_pos :: "int \<Rightarrow> int \<Rightarrow> int" where
  "set_pos v old = (if v > 0 then v else old)"

definition set_text :: "string \<Rightarrow> string \<Rightarrow> string" where
  "set_text v old = (if v \<noteq> [] then v else old)"

definition keep_alive :: "int \<Rightarrow> int" where
  "keep_alive k = go_div (wrap64 (k * 1000000000)) 1000000000"

definition set_times :: "MqttTimes \<Rightarrow> MqttTimes \<Rightarrow> MqttTimes" where
  "set_times t d = \<lparr>mt_KeepAlive = (if mt_KeepAlive t > 0 then keep_alive (mt_KeepAlive t) else mt_KeepAlive d),
     mt_PingTimeout = set_pos (mt_PingTimeout t) (mt_PingTimeout d), mt_ConnectTimeout = set_pos (mt_ConnectTimeout t) (mt_ConnectTimeout d),
     mt_MaxReconnectInterval = set_pos (mt_MaxReconnectInterval t) (mt_MaxReconnectInterval d),
     mt_ConnectRetryInterval = set_pos (mt_ConnectRetryInterval t) (mt_ConnectRetryInterval d),
     mt_WriteTimeout = set_pos (mt_WriteTimeout t) (mt_WriteTimeout d),
     mt_MessageChannelDepth = set_pos (mt_MessageChannelDepth t) (mt_MessageChannelDepth d),
     mt_MaxResumePubInFlight = set_pos (mt_MaxResumePubInFlight t) (mt_MaxResumePubInFlight d)\<rparr>"

text \<open>Which TLS configuration is set: the one made of \<open>TLS\<close>, if there is any, or else the given one.\<close>

definition chosen_tls :: "tls_lib \<Rightarrow> ClientOptions \<Rightarrow> (string, TlsConfig option) result" where
  "chosen_tls T opts = (case co_TLS opts of
       Some t \<Rightarrow> (case createTLSConfig T (Some t) of Inl e \<Rightarrow> Inl (''failed to create TLS config: '' @ e) | Inr c \<Rightarrow> Inr c)
     | None \<Rightarrow> Inr (co_TLSConfig opts))"

definition convertToPahoOptions :: "tls_lib \<Rightarrow> (string \<Rightarrow> string option) \<Rightarrow> PahoOptions \<Rightarrow> ClientOptions \<Rightarrow> (string, PahoOptions) result" where
  "convertToPahoOptions T parse new opts =
     (let paho = fold (AddBroker parse) (co_Servers opts) new in
      case chosen_tls T opts of Inl e \<Rightarrow> Inl e
      | Inr tls \<Rightarrow> Inr (paho\<lparr>
          pa_ClientID := set_text (co_ClientID opts) (pa_ClientID paho),
          pa_Username := set_text (co_Username opts) (pa_Username paho),
          pa_Password := set_text (co_Password opts) (pa_Password paho),
          pa_TLSConfig := (if tls = None then pa_TLSConfig paho else tls),
          pa_Times := set_times (co_Times opts) (pa_Times paho),
          pa_Flags := co_Flags opts,
          pa_Refs := (\<lambda>r. case co_Refs opts r of None \<Rightarrow> pa_Refs paho r | v \<Rightarrow> v),
          pa_Will := (if co_WillEnabled opts then Some (co_Will opts) else pa_Will paho)\<rparr>))"

definition setDefaultOptions :: "(string \<Rightarrow> string option) \<Rightarrow> (string \<Rightarrow> string) \<Rightarrow> string \<Rightarrow> PahoOptions \<Rightarrow> PahoOptions" where
  "setDefaultOptions parse env name opts =
     (let o1 = (if pa_Servers opts = [] then AddBroker parse (set_text (env ''PIGO_MQTT_BROKER'') ''tcp://127.0.0.1:1883'') opts else opts)
      in o1\<lparr>pa_Username := set_text (pa_Username o1) (env ''PIGO_MQTT_USERNAME''),
           pa_Password := set_text (pa_Password o1) (env ''PIGO_MQTT_PASSWORD''),
           pa_ClientID := set_text (pa_ClientID o1) (''pigo-logrepl-'' @ name)\<rparr>)"

definition getBrokerStrings :: "PahoOptions \<Rightarrow> string list" where
  "getBrokerStrings opts = map (\<lambda>i. pa_Servers opts ! i) [0..<length (pa_Servers opts)]"

text \<open>The prefix in the arguments: the first argument when it is a text, starting with a slash.\<close>

definition parseArgs :: "any list \<Rightarrow> any list" where
  "parseArgs args =
     (let tp = (case args of VStr s # _ \<Rightarrow> s | _ \<Rightarrow> []);
          p = (if tp = [] then ''/pigo'' else tp)
      in [VStr (if HasPrefix p ''/'' then p else ''/'' @ p)])"

section \<open>Connecting\<close>

record MqttSettings =
  ms_Servers :: "string list"
  ms_Config :: MqttConfig
  ms_Options :: ClientOptions

record PeerMQTT =
  pq_Config :: MqttConfig
  pq_Rewriter :: "TopicRewriter option"
  pq_Client :: "PahoOptions option"

text \<open>The decoding of the configuration and of addresses, the client library, the environment and a generated name.\<close>

record mqtt_connect_lib =
  ml_decode :: "string \<Rightarrow> (string, MqttSettings) result"
  ml_url :: "string \<Rightarrow> (string, string) result"
  ml_tls :: tls_lib
  ml_broker :: "string \<Rightarrow> string option"
  ml_new :: PahoOptions
  ml_env :: "string \<Rightarrow> string"
  ml_name :: string
  ml_connect :: "PahoOptions \<Rightarrow> string option"

text \<open>The settings of the topics are stored in the peer before the connection is made, and stay there when it fails.\<close>

definition peer_settings :: "MqttConfig \<Rightarrow> MqttConfig" where
  "peer_settings cfg = cfg\<lparr>mc_TopicPrefix := set_text (mc_TopicPrefix cfg) ''pigo''\<rparr>"

definition new_rewriter :: "mqtt_lib \<Rightarrow> MqttConfig \<Rightarrow> TopicRewriter option \<Rightarrow> (nat, TopicRewriter option) result" where
  "new_rewriter Q cfg old =
     (if mc_TopicRewrites cfg = [] then Inr old
      else (case NewTopicRewriter Q (mc_TopicRewrites cfg) of Inl i \<Rightarrow> Inl i | Inr rw \<Rightarrow> Inr (Some rw)))"

definition connect_client :: "mqtt_connect_lib \<Rightarrow> ClientOptions \<Rightarrow> PeerMQTT \<Rightarrow> string option \<times> PeerMQTT" where
  "connect_client K opts p = (case convertToPahoOptions (ml_tls K) (ml_broker K) (ml_new K) opts of
       Inl e \<Rightarrow> (Some (''failed to convert MQTT options: '' @ e), p)
     | Inr paho \<Rightarrow> (let o' = setDefaultOptions (ml_broker K) (ml_env K) (ml_name K) paho; p1 = p\<lparr>pq_Client := Some o'\<rparr> in
         case ml_connect K o' of
           Some e \<Rightarrow> (Some (''failed to connect to MQTT broker: broker connection error: '' @ e), p1)
         | None \<Rightarrow> (None, p1)))"

definition Connect_mqtt :: "mqtt_lib \<Rightarrow> mqtt_connect_lib \<Rightarrow> string \<Rightarrow> PeerMQTT \<Rightarrow> string option \<times> PeerMQTT" where
  "Connect_mqtt Q K config p = (case ml_decode K config of
       Inl e \<Rightarrow> (Some (''failed to unmarshal MQTT config: '' @ e), p)
     | Inr cfg \<Rightarrow> (case map_res (ml_url K) (ms_Servers cfg) of
         Inl e \<Rightarrow> (Some (''failed to parse server URL: '' @ e), p)
       | Inr us \<Rightarrow> (let p1 = p\<lparr>pq_Config := peer_settings (ms_Config cfg)\<rparr>; opts = (ms_Options cfg)\<lparr>co_Servers := co_Servers (ms_Options cfg) @ us\<rparr> in
           case new_rewriter Q (ms_Config cfg) (pq_Rewriter p1) of
             Inl i \<Rightarrow> (Some ''failed to initialize topic rewriter'', p1\<lparr>pq_Rewriter := None\<rparr>)
           | Inr rw \<Rightarrow> connect_client K opts (p1\<lparr>pq_Rewriter := rw\<rparr>))))"

section \<open>What the options say\<close>

definition zero_times :: MqttTimes where
  "zero_times = \<lparr>mt_KeepAlive = 0, mt_PingTimeout = 0, mt_ConnectTimeout = 0, mt_MaxReconnectInterval = 0, mt_ConnectRetryInterval = 0,
     mt_WriteTimeout = 0, mt_MessageChannelDepth = 0, mt_MaxResumePubInFlight = 0\<rparr>"

definition zero_flags :: MqttFlags where
  "zero_flags = \<lparr>fl_CleanSession = False, fl_Order = False, fl_AutoReconnect = False, fl_ConnectRetry = False, fl_ResumeSubs = False, fl_AutoAckDisabled = False\<rparr>"

definition zero_options :: ClientOptions where
  "zero_options = \<lparr>co_Servers = [], co_ClientID = [], co_Username = [], co_Password = [], co_TLS = None, co_TLSConfig = None, co_Times = zero_times,
     co_Flags = zero_flags, co_Refs = \<lambda>_. None, co_WillEnabled = False, co_Will = \<lparr>wi_Topic = [], wi_Payload = [], wi_Qos = 0, wi_Retained = False\<rparr>,
     co_CredentialsProvider = None, co_ProtocolVersion = 0\<rparr>"

text \<open>
  An option that is not configured keeps the default of the client library, but for the six truth values, which are
  always overwritten: unless they are configured, the client does not reconnect and keeps the session of its id.
\<close>

lemma unset_options_lose_the_flags:
  "convertToPahoOptions T parse new zero_options = Inr (new\<lparr>pa_Flags := zero_flags\<rparr>)"
  by (simp add: Let_def convertToPahoOptions_def zero_options_def chosen_tls_def set_text_def set_times_def set_pos_def zero_times_def)

lemma options_nothing_reads:
  "convertToPahoOptions T parse new (opts\<lparr>co_CredentialsProvider := c, co_ProtocolVersion := v\<rparr>) = convertToPahoOptions T parse new opts"
  by (simp add: convertToPahoOptions_def chosen_tls_def Let_def cong: sum.case_cong option.case_cong)

text \<open>A certificate without its key is left out silently, and so is a key without its certificate.\<close>

lemma half_a_certificate_is_ignored:
  assumes "ts_KeyFile opts = []" and "ts_ClientKey opts = []"
  shows "client_certificates T opts = Inr []"
  using assms by (simp add: client_certificates_def Let_def)

text \<open>A configured keep-alive arrives as it is, as long as its nanoseconds fit 64 bits.\<close>

lemma keep_alive_fits: "0 < k \<Longrightarrow> k \<le> 9223372036 \<Longrightarrow> keep_alive k = k"
  by (simp add: keep_alive_def go_div_def wrap64_id)

lemma keep_alive_wraps: "keep_alive 9223372037 = - 9223372036"
  by (simp add: keep_alive_def go_div_def wrap64_def)

lemma AddBroker_frame [simp]:
  "pa_ClientID (AddBroker parse u x) = pa_ClientID x" "pa_Username (AddBroker parse u x) = pa_Username x"
  by (simp_all add: AddBroker_def split: option.split)

lemma set_text_nonempty: "d \<noteq> [] \<Longrightarrow> set_text v d \<noteq> []"
  by (simp add: set_text_def)

text \<open>The options a connection is made with name a client and, when the default address can be parsed, a broker.\<close>

lemma default_options_complete:
  assumes "parse (set_text (env ''PIGO_MQTT_BROKER'') ''tcp://127.0.0.1:1883'') \<noteq> None"
  shows "pa_Servers (setDefaultOptions parse env name x) \<noteq> []" and "pa_ClientID (setDefaultOptions parse env name x) \<noteq> []"
  using assms by (auto simp: setDefaultOptions_def Let_def AddBroker_def set_text_nonempty)

lemma Connect_mqtt_settings:
  assumes "Connect_mqtt Q K config p = (None, p')"
  shows "\<exists>cfg. ml_decode K config = Inr cfg \<and> pq_Config p' = peer_settings (ms_Config cfg)
    \<and> (\<exists>x. pq_Client p' = Some x \<and> ml_connect K x = None)"
  using assms by (auto simp: Connect_mqtt_def connect_client_def Let_def split: sum.splits option.splits)

text \<open>
  A source without a configured prefix publishes under \<open>pigo\<close> and subscribes to the configured, empty, prefix: the
  pipeline passes it to \<open>Sub\<close>, whose filter \<open>/#\<close> matches none of the topics the peer itself publishes to.
\<close>

lemma default_prefix_is_not_subscribed:
  assumes "Connect_mqtt Q K config p = (None, p')" and "ml_decode K config = Inr cfg" and "mc_TopicPrefix (ms_Config cfg) = []"
    and "Pub_mqtt Q (pq_Config p') e = Some (topic, data)"
  shows "\<not> topicMatch (sub_filter (pq_Config p') (Some (mc_TopicPrefix (ms_Config cfg)))) topic"
proof -
  have "pq_Config p' = peer_settings (ms_Config cfg)" using Connect_mqtt_settings [OF assms(1)] assms(2) by auto
  then have "mc_TopicPrefix (pq_Config p') = ''pigo''" using assms(3) by (simp add: peer_settings_def set_text_def)
  then have "topic = ''pigo/'' @ (so_Schema (ev_source e) @ ''/'' @ so_Table (ev_source e) @ ''/'' @ pa_Op (ev_Payload e))"
    using assms(4) by (auto simp: Pub_mqtt_def event_topic_def split: option.splits)
  moreover have "sub_filter (pq_Config p') (Some []) = ''/#''" by (simp add: sub_filter_def sub_prefix_def Trim_def)
  moreover have "Split (''pigo/'' @ rest) (CHR ''/'') = ''pigo'' # Split rest (CHR ''/'')" for rest
    using Split_append_sep [of "CHR ''/''" "''pigo''" rest] by simp
  ultimately show ?thesis using assms(3) by (simp add: topicMatch_def Split.simps)
qed

end
