(* ===== verification/KafkaClient.thy ===== *)
theory KafkaClient
  imports Peers Tls
begin

text \<open>
  Connecting to Kafka (\<open>Connect\<close> of \<open>pkg/pipeline/peer/kafka/peer.go\<close>, \<open>config.go\<close>) and the administration client
  (\<open>acl.go\<close>, \<open>kafka.go\<close>). The client library is a parameter; what is modelled is the configuration it is given, and which
  producers and administration clients are opened and closed.
\<close>

section \<open>Configurations of the library\<close>

text \<open>
  The fields the program sets. \<open>sc_SCRAMClient\<close> is the generator of SCRAM clients with its hash; \<open>sc_TLS\<close> is None when TLS
  is off, and \<open>Some None\<close> when it is on with a nil configuration.
\<close>

record SaramaConfig =
  sc_Version :: string
  sc_SASL :: "(string \<times> string \<times> mechanism) option"
  sc_SCRAMClient :: "mechanism option"
  sc_TLS :: "TlsConfig option option"
  sc_RetryMax :: int
  sc_Backoff :: int
  sc_WaitForAll :: bool
  sc_ReturnSuccesses :: bool
  sc_ReturnErrors :: bool
  sc_ClientID :: string
  sc_MetadataFull :: bool

datatype kafka_error = Kafka string | NilPointer

record kafka_lib =
  kl_new :: SaramaConfig
  kl_version :: "string \<Rightarrow> (string, string) result"
  kl_tls :: tls_lib
  kl_producer :: "string list \<Rightarrow> SaramaConfig \<Rightarrow> string option"
  kl_consumer :: "string list \<Rightarrow> SaramaConfig \<Rightarrow> string option"
  kl_admin :: "string list \<Rightarrow> SaramaConfig \<Rightarrow> string option"
  kl_topics :: "(string, string list) result"
  kl_create :: "string \<Rightarrow> string option"

text \<open>The configuration the peer connects with.\<close>

definition peer_sarama :: "kafka_lib \<Rightarrow> KafkaConfig \<Rightarrow> (string, SaramaConfig) result" where
  "peer_sarama K c = (case kl_version K (kc_Version c) of
       Inl e \<Rightarrow> Inl (''invalid Kafka version: '' @ e)
     | Inr v \<Rightarrow> (let conf = (kl_new K)\<lparr>sc_Version := v, sc_WaitForAll := True, sc_RetryMax := 5, sc_Backoff := 1000000000,
           sc_ReturnSuccesses := True, sc_ReturnErrors := True\<rparr>
         in Inr (case kafka_sasl c of None \<Rightarrow> conf | Some s \<Rightarrow> conf\<lparr>sc_SASL := Some s\<rparr>)))"

text \<open>The configuration of the administration client: it reads \<open>SASL\<close> through a pointer that may be nil.\<close>

definition createTLSConfiguration :: "tls_lib \<Rightarrow> KafkaTLS \<Rightarrow> TlsConfig option" where
  "createTLSConfiguration T t =
     (let conf = \<lparr>tc_InsecureSkipVerify = kt_SkipVerify t, tc_ServerName = [], tc_RootCAs = None, tc_Certificates = []\<rparr> in
      if kt_CertFile t \<noteq> [] \<and> kt_KeyFile t \<noteq> [] \<and> kt_CAFile t \<noteq> [] then
        (case tl_LoadX509KeyPair T (kt_CertFile t) (kt_KeyFile t) of Inl _ \<Rightarrow> None
         | Inr cert \<Rightarrow> (case tl_ReadFile T (kt_CAFile t) of Inl _ \<Rightarrow> None
           | Inr ca \<Rightarrow> Some (conf\<lparr>tc_Certificates := [cert], tc_RootCAs := Some ca\<rparr>)))
      else Some conf)"

definition scram :: "SASL \<Rightarrow> mechanism option" where
  "scram s = (if sa_Algorithm s = ''sha512'' then Some SCRAM512 else if sa_Algorithm s = ''sha256'' then Some SCRAM256 else None)"

definition ToSaramaConfig :: "kafka_lib \<Rightarrow> KafkaConfig \<Rightarrow> (kafka_error, SaramaConfig) result" where
  "ToSaramaConfig K c = (case kl_version K (kc_Version c) of
       Inl e \<Rightarrow> Inl (Kafka (''error parsing Kafka version: '' @ e))
     | Inr v \<Rightarrow> (let conf = (kl_new K)\<lparr>sc_Version := v\<rparr>;
           rest = (\<lambda>conf. (conf\<lparr>sc_TLS := (if kt_Enable (kc_TLS c) then Some (createTLSConfiguration (kl_tls K) (kc_TLS c)) else sc_TLS conf),
             sc_RetryMax := 1, sc_WaitForAll := True, sc_ReturnSuccesses := True, sc_ClientID := ''sasl_scram_client'', sc_MetadataFull := True\<rparr>))
         in case kc_SASL c of
              None \<Rightarrow> Inl NilPointer
            | Some s \<Rightarrow>
                if \<not> sa_Enable s then Inr (rest conf)
                else (case scram s of
                    None \<Rightarrow> Inl (Kafka (''invalid SASL algorithm: '' @ sa_Algorithm s))
                  | Some m \<Rightarrow> Inr (rest (conf\<lparr>sc_SASL := Some (sa_Username s, sa_Password s, m), sc_SCRAMClient := Some m\<rparr>)))))"

section \<open>Connecting the peer\<close>

datatype kafka_effect = OpenProducer | CloseProducer | OpenAdmin | CloseAdmin | CreateTopic "string \<times> int \<times> int \<times> string"

record PeerKafka =
  kp_producer :: bool
  kp_config :: "KafkaConfig option"
  kp_topicPrefix :: string

definition Connect_kafka :: "kafka_lib \<Rightarrow> (string, KafkaConfig) result \<Rightarrow> PeerKafka \<Rightarrow> string option \<times> PeerKafka \<times> kafka_effect list" where
  "Connect_kafka K decoded p = (case decoded of
       Inl e \<Rightarrow> (Some (''failed to unmarshal Kafka config: '' @ e), p, [])
     | Inr c0 \<Rightarrow> (let c = kafka_defaults c0 in case peer_sarama K c of
         Inl e \<Rightarrow> (Some e, p, [])
       | Inr conf \<Rightarrow> (case kl_producer K (kc_Brokers c) conf of
           Some e \<Rightarrow> (Some (''failed to create Kafka producer: '' @ e), p, [])
         | None \<Rightarrow> (let p1 = \<lparr>kp_producer = True, kp_config = Some c, kp_topicPrefix = kc_TopicPrefix c\<rparr> in
             case kl_admin K (kc_Brokers c) conf of
               Some e \<Rightarrow> (Some (''failed to create cluster admin: '' @ e), p1, [OpenProducer, CloseProducer])
             | None \<Rightarrow> (case ensureDefaultTopic (kl_topics K) (kl_create K) c of
                 (Some e, ts) \<Rightarrow> (Some (''failed to ensure default topic: '' @ e), p1, [OpenProducer, OpenAdmin] @ map CreateTopic ts @ [CloseProducer, CloseAdmin])
               | (None, ts) \<Rightarrow> (None, p1, [OpenProducer, OpenAdmin] @ map CreateTopic ts @ [CloseAdmin]))))))"

definition Disconnect_kafka :: "PeerKafka \<Rightarrow> kafka_effect list" where
  "Disconnect_kafka p = (if kp_producer p then [CloseProducer] else [])"

section \<open>The SCRAM client (\<open>scram.go\<close>)\<close>

text \<open>
  A conversation of the scram library over the state \<open>'c\<close>; a step or a question before \<open>Begin\<close> dereferences a nil pointer.
\<close>

record 'c scram_lib =
  sl_new :: "mechanism \<Rightarrow> string \<Rightarrow> string \<Rightarrow> string \<Rightarrow> (string, 'c) result"
  sl_step :: "'c \<Rightarrow> string \<Rightarrow> (string, string) result \<times> 'c"
  sl_done :: "'c \<Rightarrow> bool"

record 'c XDGSCRAMClient =
  xc_Hash :: mechanism
  xc_Conversation :: "'c option"

definition Begin :: "'c scram_lib \<Rightarrow> string \<Rightarrow> string \<Rightarrow> string \<Rightarrow> 'c XDGSCRAMClient \<Rightarrow> string option \<times> 'c XDGSCRAMClient" where
  "Begin L userName password authzID x = (case sl_new L (xc_Hash x) userName password authzID of
       Inl e \<Rightarrow> (Some e, x) | Inr c \<Rightarrow> (None, x\<lparr>xc_Conversation := Some c\<rparr>))"

definition Step :: "'c scram_lib \<Rightarrow> string \<Rightarrow> 'c XDGSCRAMClient \<Rightarrow> (kafka_error, string) result \<times> 'c XDGSCRAMClient" where
  "Step L challenge x = (case xc_Conversation x of
       None \<Rightarrow> (Inl NilPointer, x)
     | Some c \<Rightarrow> (case sl_step L c challenge of (r, c1) \<Rightarrow> (map_sum Kafka id r, x\<lparr>xc_Conversation := Some c1\<rparr>)))"

definition Done :: "'c scram_lib \<Rightarrow> 'c XDGSCRAMClient \<Rightarrow> (kafka_error, bool) result" where
  "Done L x = (case xc_Conversation x of None \<Rightarrow> Inl NilPointer | Some c \<Rightarrow> Inr (sl_done L c))"

lemma begun_does_not_panic:
  assumes "Begin L u p a x = (None, x1)" and "Step L challenge x1 = (r, x2)"
  shows "r \<noteq> Inl NilPointer" and "Done L x1 \<noteq> Inl NilPointer" and "Done L x2 \<noteq> Inl NilPointer"
proof -
  show "r \<noteq> Inl NilPointer"
  proof
    assume "r = Inl NilPointer"
    moreover obtain c where "xc_Conversation x1 = Some c" using assms(1) by (auto simp: Begin_def split: sum.splits)
    ultimately obtain r0 c1 where "sl_step L c challenge = (r0, c1)" "map_sum Kafka id r0 = Inl NilPointer"
      using assms(2) by (auto simp: Step_def split: prod.splits)
    then show False by (cases r0) auto
  qed
  show "Done L x1 \<noteq> Inl NilPointer" "Done L x2 \<noteq> Inl NilPointer"
    using assms by (auto simp: Begin_def Step_def Done_def split: sum.splits option.splits prod.splits)
qed

section \<open>Administration\<close>

definition newClusterAdmin :: "kafka_lib \<Rightarrow> KafkaConfig \<Rightarrow> kafka_error option" where
  "newClusterAdmin K c = (case ToSaramaConfig K c of
       Inl (Kafka e) \<Rightarrow> Some (Kafka (''failed to create sarama config: '' @ e))
     | Inl e \<Rightarrow> Some e
     | Inr conf \<Rightarrow> (case kl_admin K (kc_Brokers c) conf of None \<Rightarrow> None | Some e \<Rightarrow> Some (Kafka (''failed to create cluster admin: '' @ e))))"

text \<open>The shape of the five operations: an administration client is opened, asked, and closed.\<close>

definition with_admin :: "kafka_lib \<Rightarrow> KafkaConfig \<Rightarrow> string \<Rightarrow> string \<Rightarrow> (string, 'a) result \<Rightarrow> (kafka_error, 'a) result \<times> kafka_effect list" where
  "with_admin K c wrap msg answer = (case newClusterAdmin K c of
       Some (Kafka e) \<Rightarrow> (Inl (Kafka (wrap @ e)), [])
     | Some e \<Rightarrow> (Inl e, [])
     | None \<Rightarrow> (case answer of Inl e \<Rightarrow> Inl (Kafka (msg @ '': '' @ e)) | Inr a \<Rightarrow> Inr a, [OpenAdmin, CloseAdmin]))"

definition CreateACL :: "kafka_lib \<Rightarrow> KafkaConfig \<Rightarrow> (string, unit) result \<Rightarrow> (kafka_error, unit) result \<times> kafka_effect list" where
  "CreateACL K c answer = with_admin K c ''failed to create cluster admin: '' ''failed to create ACL'' answer"

definition ListAcls :: "kafka_lib \<Rightarrow> KafkaConfig \<Rightarrow> (string, 'r) result \<Rightarrow> (kafka_error, 'r) result \<times> kafka_effect list" where
  "ListAcls K c answer = with_admin K c ''failed to create cluster admin: '' ''failed to list ACLs'' answer"

definition DeleteACL :: "kafka_lib \<Rightarrow> KafkaConfig \<Rightarrow> (string, 'r) result \<Rightarrow> (kafka_error, 'r) result \<times> kafka_effect list" where
  "DeleteACL K c answer = with_admin K c ''failed to create cluster admin: '' ''failed to delete ACL'' answer"

definition ListTopics :: "kafka_lib \<Rightarrow> KafkaConfig \<Rightarrow> (kafka_error, string list) result \<times> kafka_effect list" where
  "ListTopics K c = with_admin K c [] ''failed to list topics'' (kl_topics K)"

definition CreateTopicNamed :: "kafka_lib \<Rightarrow> KafkaConfig \<Rightarrow> string \<Rightarrow> (kafka_error, unit) result \<times> kafka_effect list" where
  "CreateTopicNamed K c topicName = with_admin K c [] ''failed to create topic''
     (case kl_create K topicName of None \<Rightarrow> Inr () | Some e \<Rightarrow> Inl e)"

definition CreateProducer :: "kafka_lib \<Rightarrow> KafkaConfig \<Rightarrow> kafka_error option" where
  "CreateProducer K c = (case ToSaramaConfig K c of
       Inl (Kafka e) \<Rightarrow> Some (Kafka (''failed to create sarama config: '' @ e))
     | Inl e \<Rightarrow> Some e
     | Inr conf \<Rightarrow> (case kl_producer K (kc_Brokers c) conf of None \<Rightarrow> None | Some e \<Rightarrow> Some (Kafka (''failed to create sync producer: '' @ e))))"

definition CreateConsumer :: "kafka_lib \<Rightarrow> KafkaConfig \<Rightarrow> kafka_error option" where
  "CreateConsumer K c = (case ToSaramaConfig K c of
       Inl (Kafka e) \<Rightarrow> Some (Kafka (''failed to create sarama config: '' @ e))
     | Inl e \<Rightarrow> Some e
     | Inr conf \<Rightarrow> (case kl_consumer K (kc_Brokers c) conf of None \<Rightarrow> None | Some e \<Rightarrow> Some (Kafka (''failed to create consumer: '' @ e))))"

text \<open>
  The loop of \<open>ConsumeMessages\<close> over what its \<open>select\<close> receives: a message, an interrupt, or nil once the library has closed
  the channel, which the loop takes for a message and dereferences. The result is the number of messages consumed when it
  ends, and \<open>None\<close> while nothing ends it.
\<close>

datatype 'm consumer_input = Consumed 'm | Interrupt | ChannelClosed

fun ConsumeMessages :: "'m consumer_input list \<Rightarrow> nat \<Rightarrow> (kafka_error, nat) result option" where
  "ConsumeMessages [] consumed = None"
| "ConsumeMessages (Consumed m # xs) consumed = ConsumeMessages xs (Suc consumed)"
| "ConsumeMessages (Interrupt # xs) consumed = Some (Inr consumed)"
| "ConsumeMessages (ChannelClosed # xs) consumed = Some (Inl NilPointer)"

definition ProduceMessage :: "(string \<Rightarrow> string \<Rightarrow> (string, int \<times> int) result) \<Rightarrow> string \<Rightarrow> string \<Rightarrow> kafka_error option" where
  "ProduceMessage send topic message = (case send topic message of
       Inl e \<Rightarrow> Some (Kafka (''failed to send message: '' @ e))
     | Inr (_, _) \<Rightarrow> None)"

lemma ConsumeMessages_counts:
  "ConsumeMessages (map Consumed ms @ Interrupt # rest) n = Some (Inr (n + length ms))"
  "ConsumeMessages (map Consumed ms @ ChannelClosed # rest) n = Some (Inl NilPointer)"
  by (induction ms arbitrary: n) auto

section \<open>What is opened is closed\<close>

definition balance :: "kafka_effect \<Rightarrow> kafka_effect \<Rightarrow> kafka_effect list \<Rightarrow> int" where
  "balance up down es = int (count_list es up) - int (count_list es down)"

lemma balance_append [simp]: "balance a b (xs @ ys) = balance a b xs + balance a b ys"
  by (simp add: balance_def)

lemma balance_simps [simp]: "balance a b [] = 0"
  "balance a b (x # es) = (if x = a then 1 else 0) - (if x = b then 1 else 0) + balance a b es"
  by (simp_all add: balance_def)

lemma balance_topics [simp]: "balance OpenProducer CloseProducer (map CreateTopic ts) = 0" "balance OpenAdmin CloseAdmin (map CreateTopic ts) = 0"
  by (induction ts) simp_all

text \<open>
  After \<open>Connect\<close> a producer is open exactly when it succeeded, and no administration client is; the operations of the
  administration client leave nothing open, whatever the library answers.
\<close>

lemma kafka_connect_handles:
  assumes "Connect_kafka K decoded p = (r, p', es)"
  shows "balance OpenProducer CloseProducer es = (if r = None then 1 else 0)" and "balance OpenAdmin CloseAdmin es = 0"
  using assms by (auto simp: Connect_kafka_def Let_def split: sum.splits option.splits prod.splits)

lemma with_admin_handles: "with_admin K c wrap msg answer = (r, es) \<Longrightarrow> balance OpenAdmin CloseAdmin es = 0"
  by (auto simp: with_admin_def split: option.splits kafka_error.splits)

text \<open>A failed \<open>Connect\<close> after the producer was opened leaves the closed producer in the peer, so that events are sent to it.\<close>

lemma closed_producer_stays:
  assumes "peer_sarama K (kafka_defaults c) = Inr conf" and "kl_producer K (kc_Brokers (kafka_defaults c)) conf = None"
    and "kl_admin K (kc_Brokers (kafka_defaults c)) conf = Some e"
  shows "case Connect_kafka K (Inr c) p of (r, p', es) \<Rightarrow> r \<noteq> None \<and> kp_producer p' \<and> balance OpenProducer CloseProducer es = 0"
  using assms by (simp add: Connect_kafka_def Let_def)

text \<open>
  The TLS settings of the configuration are not used by the peer, and a SCRAM mechanism is set without the client that
  the library needs for it.
\<close>

lemma kafka_tls_is_ignored: "peer_sarama K (c\<lparr>kc_TLS := t\<rparr>) = peer_sarama K c"
proof -
  have "kafka_sasl (c\<lparr>kc_TLS := t\<rparr>) = kafka_sasl c" by (simp add: kafka_sasl_def)
  then show ?thesis by (simp add: peer_sarama_def Let_def cong: sum.case_cong)
qed

lemma scram_without_client:
  assumes "peer_sarama K c = Inr conf" and "sc_SCRAMClient (kl_new K) = None"
  shows "sc_SCRAMClient conf = None"
  using assms by (auto simp: peer_sarama_def Let_def split: sum.splits option.splits)

text \<open>The administration client panics without SASL settings, and a TLS configuration that cannot be read is nil, the library's default.\<close>

lemma admin_needs_sasl: "kl_version K (kc_Version c) = Inr v \<Longrightarrow> kc_SASL c = None \<Longrightarrow> newClusterAdmin K c = Some NilPointer"
  by (simp add: newClusterAdmin_def ToSaramaConfig_def Let_def)

lemma unreadable_ca_is_ignored:
  assumes "kt_CertFile t \<noteq> []" "kt_KeyFile t \<noteq> []" "kt_CAFile t \<noteq> []" and "tl_ReadFile T (kt_CAFile t) = Inl e"
  shows "createTLSConfiguration T t = None"
  using assms by (simp add: createTLSConfiguration_def Let_def split: sum.split)

end
