(* ===== verification/PeerConnect.thy ===== *)
theory PeerConnect
  imports Peers Invariants
begin

text \<open>
  Connecting, subscribing and disconnecting of the NATS, ClickHouse and gRPC peers (\<open>Connect\<close>, \<open>Sub\<close>, \<open>Disconnect\<close> in
  \<open>pkg/pipeline/peer/nats/peer.go\<close>, \<open>clickhouse/peer.go\<close>, \<open>grpc/peer.go\<close>), and the channel of a gRPC server between the
  pipeline that publishes and the streams of its clients. The client libraries are parameters.
\<close>

section \<open>NATS\<close>

datatype nats_effect = Dial string | StreamAction nats_action | AddConsumer "string \<times> string \<times> nat" | Subscribe "string \<times> string" | CloseConn

record PeerNATS =
  np_Config :: NatsConfig
  np_conn :: bool
  np_js :: bool
  np_stream :: string
  np_subject :: string

record nats_lib =
  nl_decode :: "NatsConfig \<Rightarrow> string \<Rightarrow> (string, NatsConfig) result"
  nl_url :: string
  nl_dial :: "string \<Rightarrow> string option"
  nl_jetstream :: "string option"
  nl_info :: stream_info
  nl_act :: "nats_action \<Rightarrow> string option"
  nl_consumer :: "string option"
  nl_subscribe :: "string option"

text \<open>The servers that are tried, and the error of the last one when none accepts.\<close>

fun dial :: "(string \<Rightarrow> string option) \<Rightarrow> string list \<Rightarrow> string option \<times> nats_effect list" where
  "dial X [] = (None, [])"
| "dial X (s # ss) = (case X s of None \<Rightarrow> (None, [Dial s])
     | Some e \<Rightarrow> if ss = [] then (Some e, [Dial s]) else (case dial X ss of (r, tried) \<Rightarrow> (r, Dial s # tried)))"

definition Connect_nats :: "nats_lib \<Rightarrow> string \<Rightarrow> PeerNATS \<Rightarrow> string option \<times> PeerNATS \<times> nats_effect list" where
  "Connect_nats N config p = (case nl_decode N (np_Config p) config of
       Inl e \<Rightarrow> (Some (''unmarshal NATS config: '' @ e), p, [])
     | Inr c0 \<Rightarrow> (let c = nats_defaults (nl_url N) c0; p1 = p\<lparr>np_Config := c, np_subject := nats_filter c\<rparr> in
         case dial (nl_dial N) (nc_Servers c) of
           (Some e, tried) \<Rightarrow> (Some (''connect to NATS server: '' @ e), p1\<lparr>np_conn := False\<rparr>, tried)
         | (None, tried) \<Rightarrow> (case nl_jetstream N of
             Some e \<Rightarrow> (Some (''create JetStream context: '' @ e), p1\<lparr>np_conn := True, np_js := False\<rparr>, tried @ [CloseConn])
           | None \<Rightarrow> (let p2 = p1\<lparr>np_conn := True, np_js := True\<rparr> in case ensureStream c (nl_info N) (nl_act N) of
               (Some e, acts) \<Rightarrow> (Some (''ensure stream: '' @ e), p2, tried @ map StreamAction acts @ [CloseConn])
             | (None, acts) \<Rightarrow> (None, p2\<lparr>np_stream := nc_Stream c\<rparr>, tried @ map StreamAction acts)))))"

text \<open>The subscription: a durable consumer that delivers a message at most three times, and a pull subscription.\<close>

definition Sub_nats :: "nats_lib \<Rightarrow> PeerNATS \<Rightarrow> string option \<times> nats_effect list" where
  "Sub_nats N p =
     (if \<not> np_js p then (Some ''NATS connection not initialized'', [])
      else (let consumer = nc_SubjectPrefix (np_Config p) @ ''-consumer''; add = AddConsumer (np_stream p, consumer, 3) in
        case nl_consumer N of Some e \<Rightarrow> (Some (''create consumer: '' @ e), [add])
        | None \<Rightarrow> (case nl_subscribe N of
            Some e \<Rightarrow> (Some (''create subscription: '' @ e), [add, Subscribe (np_subject p, consumer)])
          | None \<Rightarrow> (None, [add, Subscribe (np_subject p, consumer)]))))"

definition Disconnect_nats :: "PeerNATS \<Rightarrow> nats_effect list" where
  "Disconnect_nats p = (if np_conn p then [CloseConn] else [])"

lemma dial_ok: "dial X ss = (None, tried) \<Longrightarrow> ss \<noteq> [] \<Longrightarrow> \<exists>s \<in> set ss. X s = None \<and> Dial s \<in> set tried"
proof (induction ss arbitrary: tried)
  case (Cons s ss)
  show ?case
  proof (cases "X s")
    case None
    then show ?thesis using Cons.prems by auto
  next
    case (Some e)
    then obtain t where "dial X ss = (None, t)" "tried = Dial s # t" "ss \<noteq> []"
      using Cons.prems by (auto split: if_splits prod.splits)
    then show ?thesis using Cons.IH by auto
  qed
qed simp

lemma dial_keeps_open: "CloseConn \<notin> set (snd (dial X ss))"
  by (induction ss) (auto split: option.split prod.split)

text \<open>
  A connected peer dialled a server that accepted, and did not close the connection; it uses the stream of its
  configuration, whose subjects are those it publishes to.
\<close>

lemma Connect_nats_ok:
  assumes "Connect_nats N config p = (None, p', es)"
  shows "np_js p'" and "np_stream p' = nc_Stream (np_Config p')" and "np_subject p' = nats_filter (np_Config p')"
    and "\<exists>s \<in> set (nc_Servers (np_Config p')). nl_dial N s = None \<and> Dial s \<in> set es" and "CloseConn \<notin> set es"
proof -
  obtain c0 tried acts where c: "nl_decode N (np_Config p) config = Inr c0" "dial (nl_dial N) (nc_Servers (nats_defaults (nl_url N) c0)) = (None, tried)"
      "ensureStream (nats_defaults (nl_url N) c0) (nl_info N) (nl_act N) = (None, acts)" "es = tried @ map StreamAction acts"
      and p': "p' = p\<lparr>np_Config := nats_defaults (nl_url N) c0, np_subject := nats_filter (nats_defaults (nl_url N) c0), np_conn := True, np_js := True,
        np_stream := nc_Stream (nats_defaults (nl_url N) c0)\<rparr>"
    using assms by (auto simp: Connect_nats_def Let_def split: sum.splits prod.splits option.splits)
  have "nc_Servers (nats_defaults (nl_url N) c0) \<noteq> []" by (simp add: nats_defaults_def Let_def)
  from dial_ok [OF c(2) this] have "\<exists>s \<in> set (nc_Servers (nats_defaults (nl_url N) c0)). nl_dial N s = None \<and> Dial s \<in> set tried" .
  moreover have "CloseConn \<notin> set tried" using dial_keeps_open [of "nl_dial N"] c(2) by (metis snd_conv)
  ultimately show "np_js p'" "np_stream p' = nc_Stream (np_Config p')" "np_subject p' = nats_filter (np_Config p')"
    "\<exists>s \<in> set (nc_Servers (np_Config p')). nl_dial N s = None \<and> Dial s \<in> set es" "CloseConn \<notin> set es"
    using c(4) by (auto simp: p')
qed

section \<open>ClickHouse\<close>

definition Connect_clickhouse ::
  "(string \<Rightarrow> string) \<Rightarrow> (ClickHouseOptions \<Rightarrow> string option) \<Rightarrow> string option \<Rightarrow> (string, ClickHouseOptions) result \<Rightarrow> string option \<times> ClickHouseOptions option" where
  "Connect_clickhouse env open' ping decoded = (case decoded of
       Inl e \<Rightarrow> (Some (''failed to parse ClickHouse config: '' @ e), None)
     | Inr c0 \<Rightarrow> (let c = clickhouse_defaults env c0 in case open' c of
         Some e \<Rightarrow> (Some (''failed to connect to ClickHouse: '' @ e), None)
       | None \<Rightarrow> (case ping of Some e \<Rightarrow> (Some (''failed to ping ClickHouse: '' @ e), None) | None \<Rightarrow> (None, Some c))))"

section \<open>gRPC\<close>

record GrpcConfig =
  gc_Address :: string
  gc_IsServer :: bool
  gc_TLS :: bool

datatype grpc_effect = Listen string | Serve | Connected string | StopServer | CloseClient

record PeerGRPC =
  gp_server :: bool
  gp_client :: bool
  gp_events :: "Event list option"
  gp_closed :: bool

text \<open>A server listens before it looks at the TLS settings, and does not close the listener when it refuses them.\<close>

definition startServer :: "(string \<Rightarrow> string option) \<Rightarrow> GrpcConfig \<Rightarrow> PeerGRPC \<Rightarrow> string option \<times> PeerGRPC \<times> grpc_effect list" where
  "startServer listen c p = (case listen (gc_Address c) of
       Some e \<Rightarrow> (Some (''failed to listen: '' @ e), p, [])
     | None \<Rightarrow> if gc_TLS c then (Some ''TLS not yet implemented'', p, [Listen (gc_Address c)])
               else (None, p\<lparr>gp_server := True\<rparr>, [Listen (gc_Address c), Serve]))"

definition Connect_grpc ::
  "(string \<Rightarrow> string option) \<Rightarrow> (nat \<Rightarrow> bool) \<Rightarrow> (string, GrpcConfig) result \<Rightarrow> PeerGRPC \<Rightarrow> string option \<times> PeerGRPC \<times> grpc_effect list" where
  "Connect_grpc listen newClient decoded p = (case decoded of
       Inl e \<Rightarrow> (Some (''failed to parse gRPC config: '' @ e), p, [])
     | Inr c \<Rightarrow>
         if gc_Address c = [] then (Some ''gRPC address is required'', p, [])
         else (let p1 = p\<lparr>gp_events := Some [], gp_closed := False\<rparr> in
           if gc_IsServer c then startServer listen c p1
           else (case connectClient (gc_TLS c) newClient of
               (Some e, _) \<Rightarrow> (Some e, p1, [])
             | (None, _) \<Rightarrow> (None, p1\<lparr>gp_client := True\<rparr>, [Connected (gc_Address c)]))))"

text \<open>Closing the channel panics when there is none or it is closed already: \<open>None\<close>.\<close>

definition Disconnect_grpc :: "PeerGRPC \<Rightarrow> (PeerGRPC \<times> grpc_effect list) option" where
  "Disconnect_grpc p =
     (if gp_events p = None \<or> gp_closed p then None
      else Some (p\<lparr>gp_closed := True\<rparr>, (if gp_server p then [StopServer] else []) @ (if gp_client p then [CloseClient] else [])))"

lemma tls_leaks_the_listener:
  assumes "gc_Address c \<noteq> []" "gc_IsServer c" "gc_TLS c" and "listen (gc_Address c) = None"
  shows "\<exists>p'. Connect_grpc listen newClient (Inr c) p = (Some ''TLS not yet implemented'', p', [Listen (gc_Address c)])"
  using assms by (simp add: Connect_grpc_def startServer_def Let_def)

lemma disconnecting_twice_panics: "Disconnect_grpc p = Some (p', es) \<Longrightarrow> Disconnect_grpc p' = None"
  by (auto simp: Disconnect_grpc_def split: if_splits)

text \<open>
  The channel of a server. \<open>Pub\<close> waits while the channel has 100 events; a stream takes the next event, skips it when
  there is nothing to send, sends it, or ends when sending fails, and then the event is lost. \<open>gr_accepted\<close> and
  \<open>gr_taken\<close> are history: what \<open>Pub\<close> put into the channel, and what the streams did with what they took.
\<close>

datatype grpc_outcome = Skipped | Sent "string \<times> string" | Failed

record GrpcRun =
  gr_buf :: "Event list"
  gr_streams :: nat
  gr_accepted :: "Event list"
  gr_taken :: "(Event \<times> grpc_outcome) list"

definition wanted :: "(any \<Rightarrow> string option) \<Rightarrow> Event \<Rightarrow> (string \<times> string) option" where
  "wanted marshal e = (if pa_After (ev_Payload e) = VNil then None
     else (case marshal (pa_After (ev_Payload e)) of None \<Rightarrow> None
       | Some data \<Rightarrow> Some (so_Schema (ev_source e) @ ''.'' @ so_Table (ev_source e), data)))"

definition take_event :: "Event list \<Rightarrow> Event \<Rightarrow> grpc_outcome \<Rightarrow> GrpcRun \<Rightarrow> GrpcRun" where
  "take_event es e out s = s\<lparr>gr_buf := es, gr_taken := gr_taken s @ [(e, out)]\<rparr>"

text \<open>\<open>Pub\<close> of a connected peer; \<open>None\<close> while it waits.\<close>

definition Pub_grpc :: "Event \<Rightarrow> GrpcRun \<Rightarrow> GrpcRun option" where
  "Pub_grpc e s = (if length (gr_buf s) < 100 then Some (s\<lparr>gr_buf := gr_buf s @ [e], gr_accepted := gr_accepted s @ [e]\<rparr>) else None)"

inductive grpc_step :: "(any \<Rightarrow> string option) \<Rightarrow> GrpcRun \<Rightarrow> GrpcRun \<Rightarrow> bool" for marshal where
  pub: "Pub_grpc e s = Some s' \<Longrightarrow> grpc_step marshal s s'"
| subscribe: "grpc_step marshal s (s\<lparr>gr_streams := Suc (gr_streams s)\<rparr>)"
| skip: "gr_streams s > 0 \<Longrightarrow> gr_buf s = e # es \<Longrightarrow> wanted marshal e = None \<Longrightarrow> grpc_step marshal s (take_event es e Skipped s)"
| send: "gr_streams s > 0 \<Longrightarrow> gr_buf s = e # es \<Longrightarrow> wanted marshal e = Some m \<Longrightarrow> grpc_step marshal s (take_event es e (Sent m) s)"
| fail: "gr_streams s > 0 \<Longrightarrow> gr_buf s = e # es \<Longrightarrow> wanted marshal e = Some m \<Longrightarrow>
    grpc_step marshal s ((take_event es e Failed s)\<lparr>gr_streams := gr_streams s - 1\<rparr>)"

inductive_cases grpc_stepE: "grpc_step marshal s s'"

definition grpc_start :: GrpcRun where
  "grpc_start = \<lparr>gr_buf = [], gr_streams = 0, gr_accepted = [], gr_taken = []\<rparr>"

definition outcome_ok :: "(any \<Rightarrow> string option) \<Rightarrow> Event \<times> grpc_outcome \<Rightarrow> bool" where
  "outcome_ok marshal x = (case snd x of Skipped \<Rightarrow> wanted marshal (fst x) = None | Sent m \<Rightarrow> wanted marshal (fst x) = Some m
     | Failed \<Rightarrow> wanted marshal (fst x) \<noteq> None)"

definition sent_msgs :: "(Event \<times> grpc_outcome) list \<Rightarrow> (string \<times> string) list" where
  "sent_msgs xs = concat (map (\<lambda>x. case snd x of Sent m \<Rightarrow> [m] | _ \<Rightarrow> []) xs)"

definition channel_inv :: "(any \<Rightarrow> string option) \<Rightarrow> GrpcRun \<Rightarrow> bool" where
  "channel_inv marshal s \<longleftrightarrow> length (gr_buf s) \<le> 100 \<and> gr_accepted s = map fst (gr_taken s) @ gr_buf s \<and> list_all (outcome_ok marshal) (gr_taken s)"

lemma channel_inv_step: "grpc_step marshal s s' \<Longrightarrow> channel_inv marshal s \<Longrightarrow> channel_inv marshal s'"
  by (erule grpc_step.cases) (auto simp: channel_inv_def Pub_grpc_def take_event_def outcome_ok_def split: if_splits)

interpretation grpc_channel: machine "grpc_step marshal" "channel_inv marshal" grpc_start for marshal
  by (unfold_locales, erule (1) channel_inv_step) (simp add: channel_inv_def grpc_start_def)

text \<open>
  In every reachable state the channel holds at most 100 events, what was published is what was taken, in order,
  followed by what is in the channel, and every event with something to send was sent or lost with its stream.
\<close>

lemma grpc_delivers:
  assumes "(grpc_step marshal)\<^sup>*\<^sup>* grpc_start s"
  shows "length (gr_buf s) \<le> 100" and "gr_accepted s = map fst (gr_taken s) @ gr_buf s" and "list_all (outcome_ok marshal) (gr_taken s)"
  using grpc_channel.reachable [OF assms] by (simp_all add: channel_inv_def)

text \<open>What is sent, when no sending fails, is what the loop of \<open>Stream\<close> sends for the events taken.\<close>

lemma grpc_sends:
  assumes "list_all (outcome_ok marshal) xs" and "Failed \<notin> snd ` set xs"
  shows "grpc_Stream marshal (\<lambda>_. None) (map fst xs) = (None, sent_msgs xs)"
  using assms
proof (induction xs)
  case (Cons x xs)
  then show ?case
    by (cases x) (auto simp: outcome_ok_def wanted_def sent_msgs_def Let_def split: grpc_outcome.splits if_splits option.splits)
qed (simp add: sent_msgs_def)

text \<open>
  As long as no client streams, a server takes 100 events; then \<open>Pub\<close> waits, and with it the worker of the sink. A
  peer that is a client never reads its channel at all.
\<close>

lemma grpc_sink_blocks:
  assumes "grpc_step marshal s s'" and "gr_streams s = 0" and "length (gr_buf s) = 100"
  shows "gr_accepted s' = gr_accepted s \<and> gr_buf s' = gr_buf s"
  using assms by (auto simp: Pub_grpc_def elim: grpc_stepE)

end
