(* ===== verification/PgProxy.thy ===== *)
theory PgProxy
  imports Prelude
begin

text \<open>
  Two servers that speak to PostgreSQL clients: one that answers every query with the output of a command
  (\<open>pkg/x/pgproxy/server.go\<close>), and one that forwards what a client sends (\<open>pkg/x/pgcache/pgcache.go\<close>). The protocol package, the
  command and the connections are parameters: what is received, and whether a write succeeds.
\<close>

section \<open>Answering queries\<close>

datatype startup_msg = StartupMessage | SSLRequest | OtherStartup

datatype frontend_msg = Query string | Terminate | OtherMessage

datatype backend_msg = AuthenticationOk | ReadyForQuery | DenySSL | RowDescription string | DataRow string | CommandComplete string

text \<open>
  What the client does: the startup messages and the messages after them, until receiving fails; the output of the
  command for the \<open>n\<close>-th query, and whether the \<open>n\<close>-th write succeeds.
\<close>

record proxy_client =
  cl_startup :: "startup_msg list"
  cl_messages :: "frontend_msg list"

record proxy_env =
  px_responder :: "nat \<Rightarrow> (string, string) result"
  px_write :: "nat \<Rightarrow> string option"

type_synonym writes = "backend_msg list list"

definition write_conn :: "proxy_env \<Rightarrow> string \<Rightarrow> backend_msg list \<Rightarrow> writes \<Rightarrow> string option \<times> writes" where
  "write_conn E msg buf ws = (case px_write E (length ws) of
       Some e \<Rightarrow> (Some (msg @ '': '' @ e), ws) | None \<Rightarrow> (None, ws @ [buf]))"

fun handleStartup :: "proxy_env \<Rightarrow> startup_msg list \<Rightarrow> writes \<Rightarrow> string option \<times> writes" where
  "handleStartup E [] ws = (Some ''error receiving startup message'', ws)"
| "handleStartup E (m # ms) ws = (case m of
       StartupMessage \<Rightarrow> write_conn E ''error sending ready for query'' [AuthenticationOk, ReadyForQuery] ws
     | SSLRequest \<Rightarrow> (case write_conn E ''error sending deny SSL request'' [DenySSL] ws of
           (Some e, ws1) \<Rightarrow> (Some e, ws1) | (None, ws1) \<Rightarrow> handleStartup E ms ws1)
     | OtherStartup \<Rightarrow> (Some ''unknown startup message'', ws))"

definition query_answer :: "string \<Rightarrow> backend_msg list" where
  "query_answer response = [RowDescription ''fortune'', DataRow response, CommandComplete ''SELECT 1'', ReadyForQuery]"

text \<open>The loop of \<open>Run\<close>; \<open>n\<close> counts the queries.\<close>

fun run_loop :: "proxy_env \<Rightarrow> nat \<Rightarrow> frontend_msg list \<Rightarrow> writes \<Rightarrow> string option \<times> writes" where
  "run_loop E n [] ws = (Some ''error receiving message'', ws)"
| "run_loop E n (m # ms) ws = (case m of
       Query q \<Rightarrow> (case px_responder E n of
           Inl e \<Rightarrow> (Some (''error generating query response: '' @ e), ws)
         | Inr response \<Rightarrow> (case write_conn E ''error writing query response'' (query_answer response) ws of
             (Some e, ws1) \<Rightarrow> (Some e, ws1) | (None, ws1) \<Rightarrow> run_loop E (Suc n) ms ws1))
     | Terminate \<Rightarrow> (None, ws)
     | OtherMessage \<Rightarrow> (Some ''received message other than Query from client'', ws))"

text \<open>\<open>Run\<close>, with what it wrote; the connection is closed in the end on every path.\<close>

definition Run_proxy :: "proxy_env \<Rightarrow> proxy_client \<Rightarrow> string option \<times> writes" where
  "Run_proxy E c = (case handleStartup E (cl_startup c) [] of
       (Some e, ws) \<Rightarrow> (Some e, ws)
     | (None, ws) \<Rightarrow> run_loop E 0 (cl_messages c) ws)"

text \<open>
  A client that asks for TLS any number of times and then starts up, sends queries and terminates, gets for each request for TLS
  a refusal, and for each query exactly one complete answer, in order.
\<close>

lemma write_conn_ok: "\<forall>n. px_write E n = None \<Longrightarrow> write_conn E msg buf ws = (None, ws @ [buf])"
  by (simp add: write_conn_def)

lemma handleStartup_denies:
  assumes "\<forall>n. px_write E n = None"
  shows "handleStartup E (replicate k SSLRequest @ StartupMessage # ms) ws = (None, ws @ replicate k [DenySSL] @ [[AuthenticationOk, ReadyForQuery]])"
proof (induction k arbitrary: ws)
  case 0
  show ?case by (simp add: write_conn_ok [OF assms])
next
  case (Suc k)
  have "handleStartup E (replicate (Suc k) SSLRequest @ StartupMessage # ms) ws
      = handleStartup E (replicate k SSLRequest @ StartupMessage # ms) (ws @ [[DenySSL]])" by (simp add: write_conn_ok [OF assms])
  then show ?case by (simp add: Suc.IH)
qed

lemma run_loop_answers:
  assumes "\<forall>n. px_write E n = None" and "\<forall>n. px_responder E n = Inr (out n)"
  shows "run_loop E n (map Query qs @ Terminate # ms) ws = (None, ws @ map (\<lambda>i. query_answer (out (n + i))) [0..<length qs])"
proof (induction qs arbitrary: n ws)
  case (Cons q qs)
  have "[0..<length (q # qs)] = 0 # map Suc [0..<length qs]" by (simp add: upt_conv_Cons map_Suc_upt del: upt_Suc)
  then show ?case using Cons.IH [of "Suc n"] by (simp add: assms(2) write_conn_ok [OF assms(1)] comp_def del: upt_Suc)
qed simp

lemma Run_answers:
  assumes "\<forall>n. px_write E n = None" and "\<forall>n. px_responder E n = Inr (out n)"
    and "cl_startup c = replicate k SSLRequest @ [StartupMessage]" and "cl_messages c = map Query qs @ [Terminate]"
  shows "Run_proxy E c = (None, replicate k [DenySSL] @ [[AuthenticationOk, ReadyForQuery]] @ map (\<lambda>i. query_answer (out i)) [0..<length qs])"
  using handleStartup_denies [OF assms(1), of k "[]" "[]"] run_loop_answers [OF assms(1,2), of 0 qs "[]"] assms(3,4)
  by (simp add: Run_proxy_def)

text \<open>No query is answered before the client has started up, and a failed write ends the connection.\<close>

lemma nothing_before_startup: "StartupMessage \<notin> set (cl_startup c) \<Longrightarrow> fst (Run_proxy E c) \<noteq> None \<and> set (snd (Run_proxy E c)) \<subseteq> {[DenySSL]}"
proof -
  assume s: "StartupMessage \<notin> set (cl_startup c)"
  have "StartupMessage \<notin> set ms \<Longrightarrow> set ws \<subseteq> {[DenySSL]} \<Longrightarrow> fst (handleStartup E ms ws) \<noteq> None \<and> set (snd (handleStartup E ms ws)) \<subseteq> {[DenySSL]}" for ms ws
    by (induction ms arbitrary: ws) (auto simp: write_conn_def split: startup_msg.split option.split)
  from this [OF s, of "[]"] show ?thesis by (auto simp: Run_proxy_def split: prod.split option.split)
qed

section \<open>Forwarding\<close>

text \<open>
  The loop over what is read from the client: each chunk is parsed for the log, which changes nothing, and written to the
  server; the loop ends when reading or writing fails.
\<close>

fun handleClient :: "(string, string) result list \<Rightarrow> (nat \<Rightarrow> bool) \<Rightarrow> string list \<Rightarrow> string list" where
  "handleClient [] accepts sent = sent"
| "handleClient (Inl e # rs) accepts sent = sent"
| "handleClient (Inr chunk # rs) accepts sent =
     (if accepts (length sent) then handleClient rs accepts (sent @ [chunk]) else sent)"

text \<open>What the server gets is what the client sent, in order and without a gap, up to the first failure.\<close>

lemma handleClient_forwards:
  "\<exists>chunks rest. handleClient reads accepts sent = sent @ chunks \<and> reads = map Inr chunks @ rest
    \<and> (case rest of Inr _ # _ \<Rightarrow> \<not> accepts (length (sent @ chunks)) | _ \<Rightarrow> True)"
proof (induction reads accepts sent rule: handleClient.induct)
  case (3 chunk rs accepts sent)
  show ?case
  proof (cases "accepts (length sent)")
    case True
    then obtain chunks rest where "handleClient rs accepts (sent @ [chunk]) = (sent @ [chunk]) @ chunks" "rs = map Inr chunks @ rest"
        "case rest of Inr _ # _ \<Rightarrow> \<not> accepts (length ((sent @ [chunk]) @ chunks)) | _ \<Rightarrow> True" using 3 by blast
    then show ?thesis using True by (intro exI [of _ "chunk # chunks"] exI [of _ rest]) (simp split: list.splits sum.splits)
  next
    case False
    then show ?thesis by (intro exI [of _ "[]"] exI [of _ "Inr chunk # rs"]) simp
  qed
qed (auto intro!: exI [of _ "[]"])

end
