(* ===== verification/Proxy.thy ===== *)
theory Proxy
  imports MiddlewareProps Tls
begin

text \<open>
  The reverse proxy (\<open>pkg/httputil/middleware/proxy.go\<close>): how a request is rewritten for its target and with which TLS
  configuration it is sent. Parsing the target and forwarding a request are parameters.
\<close>

record ProxyOptions =
  px_TLSConfig :: "TlsConfig option"
  px_TrimPrefix :: string
  px_ForwardedHost :: string

record TargetURL =
  tu_Scheme :: string
  tu_Host :: string
  tu_Hostname :: string
  tu_Path :: string

text \<open>A request as it is sent: to a scheme and a host, with a \<open>Host\<close>.\<close>

record ProxyRequest =
  pr_Scheme :: string
  pr_URLHost :: string
  pr_Host :: string
  pr_Request :: Request

definition proxy_options :: "TargetURL \<Rightarrow> ProxyOptions \<Rightarrow> ProxyOptions" where
  "proxy_options target opts =
     opts\<lparr>px_ForwardedHost := (if px_ForwardedHost opts = [] then tu_Host target else px_ForwardedHost opts),
          px_TLSConfig := Some (case px_TLSConfig opts of Some t \<Rightarrow> t
            | None \<Rightarrow> \<lparr>tc_InsecureSkipVerify = True, tc_ServerName = tu_Hostname target, tc_RootCAs = None, tc_Certificates = []\<rparr>)\<rparr>"

definition Director :: "TargetURL \<Rightarrow> ProxyOptions \<Rightarrow> Request \<Rightarrow> ProxyRequest" where
  "Director target opts r =
     (let r1 = (if px_TrimPrefix opts \<noteq> [] then r\<lparr>rq_Path := TrimPrefix (rq_Path r) (px_TrimPrefix opts)\<rparr> else r) in
      if px_ForwardedHost opts \<noteq> [] then
        \<lparr>pr_Scheme = tu_Scheme target, pr_URLHost = tu_Host target, pr_Host = px_ForwardedHost opts,
         pr_Request = r1\<lparr>rq_Header := map_put ''X-Forwarded-Host'' [px_ForwardedHost opts] (rq_Header r1)\<rparr>\<rparr>
      else \<lparr>pr_Scheme = tu_Scheme target, pr_URLHost = tu_Host target, pr_Host = tu_Host target, pr_Request = r1\<rparr>)"

definition Proxy ::
  "(string \<Rightarrow> TargetURL option) \<Rightarrow> (TlsConfig option \<Rightarrow> ProxyRequest \<Rightarrow> World \<Rightarrow> World) \<Rightarrow> string \<Rightarrow> ProxyOptions \<Rightarrow> handler" where
  "Proxy parse forward target opts r w = (case parse target of
       None \<Rightarrow> http_Error ''invalid target URL'' 500 w
     | Some t \<Rightarrow> (let opts1 = proxy_options t opts in forward (px_TLSConfig opts1) (Director t opts1 r) w))"

text \<open>
  Every request goes to the scheme and host of the target, whatever the client asked for, and names the forwarded host
  both as its host and in the header, replacing what the client sent there; its method, query and body stay.
\<close>

lemma Director_target:
  assumes "px_ForwardedHost opts \<noteq> []"
  shows "pr_Scheme (Director t opts r) = tu_Scheme t" "pr_URLHost (Director t opts r) = tu_Host t"
    "pr_Host (Director t opts r) = px_ForwardedHost opts"
    "Get (rq_Header (pr_Request (Director t opts r))) ''X-Forwarded-Host'' = px_ForwardedHost opts"
    "rq_Method (pr_Request (Director t opts r)) = rq_Method r" "rq_Body (pr_Request (Director t opts r)) = rq_Body r"
    "rq_RawQuery (pr_Request (Director t opts r)) = rq_RawQuery r"
  using assms by (simp_all add: Director_def Let_def Get_map_put)

lemma proxy_options_host: "tu_Host t \<noteq> [] \<Longrightarrow> px_ForwardedHost (proxy_options t opts) \<noteq> []"
  by (simp add: proxy_options_def)

text \<open>
  The path of the target is ignored, so that a target with a path is not the place the requests go to; and without TLS
  settings the certificate of the target is not verified.
\<close>

lemma target_path_is_ignored: "Director (t\<lparr>tu_Path := p\<rparr>) opts r = Director t opts r"
  by (simp add: Director_def)

lemma proxy_does_not_verify_by_default:
  assumes "parse target = Some t" and "px_TLSConfig opts = None"
  shows "\<exists>tls. tc_InsecureSkipVerify tls \<and> Proxy parse forward target opts r w = forward (Some tls) (Director t (proxy_options t opts) r) w"
  using assms by (intro exI [of _ "\<lparr>tc_InsecureSkipVerify = True, tc_ServerName = tu_Hostname t, tc_RootCAs = None, tc_Certificates = []\<rparr>"])
    (simp add: Proxy_def proxy_options_def Let_def)

end
