(* ===== verification/Utilities.thy ===== *)
theory Utilities
  imports Prelude "HOL-Library.Char_ord"
begin

text \<open>
  Generated names and passwords (\<open>pkg/util/rand\<close>) and self-signed certificates (\<open>pkg/util/cert.go\<close>). The random
  numbers, the generation of keys and certificates and the file system are parameters.
\<close>

section \<open>Names\<close>

definition adjectives :: "string list" where
  "adjectives = [''agile'', ''brave'', ''calm'', ''daring'', ''eager'', ''fancy'', ''gentle'', ''happy'', ''intelligent'', ''jolly'',
     ''kind'', ''lively'', ''mighty'', ''noble'', ''optimistic'', ''playful'', ''quick'', ''radiant'', ''spirited'', ''trusty'',
     ''upbeat'', ''vibrant'', ''wise'', ''youthful'', ''zealous'', ''ambitious'', ''bright'', ''cheerful'', ''dynamic'', ''elegant'',
     ''fearless'', ''graceful'', ''hopeful'', ''inspired'', ''jovial'', ''keen'', ''loyal'', ''motivated'', ''nimble'', ''passionate'',
     ''resourceful'', ''sturdy'', ''tenacious'', ''uplifted'', ''vigorous'', ''warm'', ''xenial'', ''zesty'']"

definition birds :: "string list" where
  "birds = [''albatross'', ''bluebird'', ''canary'', ''dove'', ''eagle'', ''falcon'', ''goldfinch'', ''hawk'', ''ibis'', ''jay'',
     ''kingfisher'', ''lark'', ''magpie'', ''nightingale'', ''oriole'', ''parrot'', ''quail'', ''robin'', ''sparrow'', ''toucan'',
     ''umbrella bird'', ''vulture'', ''woodpecker'', ''yellowhammer'', ''zebra finch'', ''avocet'', ''bunting'', ''crane'', ''duck'',
     ''egret'', ''flamingo'', ''goose'', ''heron'', ''indigo bunting'', ''junco'', ''kestrel'', ''loon'', ''mockingbird'', ''nuthatch'',
     ''owl'', ''pelican'', ''raven'', ''starling'', ''tern'', ''vireo'', ''wren'', ''xantus'' @ [CHR 0x27] @ ''s hummingbird'', ''yellowthroat'']"

text \<open>\<open>Intn n\<close> of the library gives a number below \<open>n\<close>.\<close>

definition NewName :: "(nat \<Rightarrow> nat) \<times> (nat \<Rightarrow> nat) \<Rightarrow> string" where
  "NewName rnd = adjectives ! fst rnd (length adjectives) @ ''-'' @ birds ! snd rnd (length birds)"

text \<open>
  A name is used as the id of an MQTT client, which two clients of one broker must not share: there are only
  2304 names.
\<close>

lemma few_names:
  assumes "\<And>n. n > 0 \<Longrightarrow> fst rnd n < n \<and> snd rnd n < n"
  shows "NewName rnd \<in> {a @ ''-'' @ b | a b. a \<in> set adjectives \<and> b \<in> set birds}"
    and "card {a @ ''-'' @ b | a b. a \<in> set adjectives \<and> b \<in> set birds} \<le> 2304"
proof -
  have l: "length adjectives = 48" "length birds = 48" by (simp_all add: adjectives_def birds_def)
  show "NewName rnd \<in> {a @ ''-'' @ b | a b. a \<in> set adjectives \<and> b \<in> set birds}"
    using assms [of 48] unfolding NewName_def l by (fastforce simp: l)
  have "{a @ ''-'' @ b | a b. a \<in> set adjectives \<and> b \<in> set birds} = (\<lambda>(a, b). a @ ''-'' @ b) ` (set adjectives \<times> set birds)" by auto
  then have "card {a @ ''-'' @ b | a b. a \<in> set adjectives \<and> b \<in> set birds} \<le> card (set adjectives) * card (set birds)"
    using card_image_le [of "set adjectives \<times> set birds" "\<lambda>(a, b). a @ ''-'' @ b"] by (simp add: card_cartesian_product)
  also have "\<dots> \<le> 48 * 48" using card_length [of adjectives] card_length [of birds] unfolding l by (intro mult_mono) auto
  finally show "card {a @ ''-'' @ b | a b. a \<in> set adjectives \<and> b \<in> set birds} \<le> 2304" by simp
qed

section \<open>Passwords\<close>

definition charset :: string where
  "charset = ''abcdefghijklmnopqrstuvwxyzABCDEFGHIJKLMNOPQRSTUVWXYZ0123456789!@#$%^&*()-_=+[]{}|;:,.<>?''"

definition password_length :: "int option \<Rightarrow> nat" where
  "password_length arg = (case arg of None \<Rightarrow> 16 | Some n \<Rightarrow> if n \<le> 0 then 16 else nat n)"

text \<open>The \<open>i\<close>-th random number below a bound; \<open>None\<close> is a failure of the random source, on which the code panics.\<close>

definition NewPassword :: "(nat \<Rightarrow> nat \<Rightarrow> nat option) \<Rightarrow> int option \<Rightarrow> string option" where
  "NewPassword random arg =
     (case map_res (\<lambda>i. case random i (length charset) of None \<Rightarrow> Inl () | Some k \<Rightarrow> Inr (charset ! k)) [0..<password_length arg] of
        Inl _ \<Rightarrow> None | Inr b \<Rightarrow> Some b)"

text \<open>A password has the length asked for (16 for none or a bad one), and consists of characters of the set.\<close>

lemma NewPassword_shape:
  assumes "NewPassword random arg = Some p" and "\<And>i n k. random i n = Some k \<Longrightarrow> k < n"
  shows "length p = password_length arg" and "set p \<subseteq> set charset"
proof -
  have m: "list_all2 (\<lambda>i c. \<exists>k. random i (length charset) = Some k \<and> c = charset ! k) [0..<password_length arg] p"
    using assms(1) by (auto simp: NewPassword_def map_res_Inr_iff list_all2_conv_all_nth split: sum.splits option.splits)
  then show "length p = password_length arg" by (auto dest: list_all2_lengthD)
  show "set p \<subseteq> set charset"
    using m assms(2) by (auto simp: list_all2_conv_all_nth in_set_conv_nth) (metis nth_mem)
qed

end
