(* ===== verification/Certificates.thy ===== *)
theory Certificates
  imports Path Tls
begin

text \<open>
  The certificate of a router with TLS (\<open>pkg/util/cert.go\<close>, \<open>WithTLS\<close> in \<open>pkg/httputil/router.go\<close>). Keys, certificates and
  their encodings are parameters; the files are a map from paths to contents.
\<close>

type_synonym files = "string \<Rightarrow> string option"

record cert_lib =
  ce_generate :: "(string, string) result"
  ce_create :: "string \<Rightarrow> (string, string) result"
  ce_mkdir :: "string \<Rightarrow> string option"
  ce_open :: "string \<Rightarrow> string option"
  ce_encode_cert :: "string \<Rightarrow> (string, string) result"
  ce_marshal_key :: "string \<Rightarrow> (string, string) result"
  ce_encode_key :: "string \<Rightarrow> (string, string) result"

text \<open>\<open>filepath.Dir\<close>: everything before the last slash, cleaned.\<close>

definition Dir :: "string \<Rightarrow> string" where
  "Dir path = Clean (rev (dropWhile (\<lambda>c. c \<noteq> CHR ''/'') (rev path)))"

text \<open>Creating a file empties it, whatever happens afterwards.\<close>

definition writeCert :: "cert_lib \<Rightarrow> string \<Rightarrow> string \<Rightarrow> files \<Rightarrow> string option \<times> files" where
  "writeCert C certPath der fs = (case ce_open C certPath of
       Some e \<Rightarrow> (Some (''failed to create cert file: '' @ e), fs)
     | None \<Rightarrow> (case ce_encode_cert C der of
         Inl e \<Rightarrow> (Some (''failed to write certificate to file: '' @ e), fs(certPath \<mapsto> []))
       | Inr pem \<Rightarrow> (None, fs(certPath \<mapsto> pem))))"

definition writeKey :: "cert_lib \<Rightarrow> string \<Rightarrow> string \<Rightarrow> files \<Rightarrow> string option \<times> files" where
  "writeKey C keyPath priv fs = (case ce_open C keyPath of
       Some e \<Rightarrow> (Some (''failed to create key file: '' @ e), fs)
     | None \<Rightarrow> (case ce_marshal_key C priv of
         Inl e \<Rightarrow> (Some (''failed to marshal private key: '' @ e), fs(keyPath \<mapsto> []))
       | Inr b \<Rightarrow> (case ce_encode_key C b of
           Inl e \<Rightarrow> (Some (''failed to write private key to file: '' @ e), fs(keyPath \<mapsto> []))
         | Inr pem \<Rightarrow> (None, fs(keyPath \<mapsto> pem)))))"

text \<open>The result is the certificate with its key.\<close>

definition LoadOrGenerateCert :: "cert_lib \<Rightarrow> string \<Rightarrow> string \<Rightarrow> files \<Rightarrow> (string, string \<times> string) result \<times> files" where
  "LoadOrGenerateCert C certPath keyPath fs = (case ce_generate C of
       Inl e \<Rightarrow> (Inl (''failed to generate private key: '' @ e), fs)
     | Inr priv \<Rightarrow> (case ce_create C priv of
         Inl e \<Rightarrow> (Inl (''failed to create certificate: '' @ e), fs)
       | Inr der \<Rightarrow> (case ce_mkdir C (Dir certPath) of
           Some e \<Rightarrow> (Inl (''failed to create tls directory: '' @ e), fs)
         | None \<Rightarrow> (case writeCert C certPath der fs of
             (Some e, fs1) \<Rightarrow> (Inl e, fs1)
           | (None, fs1) \<Rightarrow> (case writeKey C keyPath priv fs1 of
               (Some e, fs2) \<Rightarrow> (Inl e, fs2) | (None, fs2) \<Rightarrow> (Inr (der, priv), fs2))))))"

definition loadCertFromFiles :: "tls_lib \<Rightarrow> string \<Rightarrow> string \<Rightarrow> (string, string) result" where
  "loadCertFromFiles T certPath keyPath = (case tl_LoadX509KeyPair T certPath keyPath of
       Inl e \<Rightarrow> Inl (''failed to load TLS certificate: '' @ e) | Inr c \<Rightarrow> Inr c)"

text \<open>\<open>WithTLS\<close>: the certificate of the router, from the given paths or the default ones; a failure ends the process.\<close>

definition WithTLS :: "cert_lib \<Rightarrow> string \<Rightarrow> string \<Rightarrow> files \<Rightarrow> (string, string \<times> string) result \<times> files" where
  "WithTLS C certFile keyFile fs =
     (if certFile = [] \<or> keyFile = [] then
        (case LoadOrGenerateCert C ''./tls/tls.crt'' ''./tls/tls.key'' fs of
           (Inl e, fs1) \<Rightarrow> (Inl (''failed to generate self-signed certificate: '' @ e), fs1) | r \<Rightarrow> r)
      else (case LoadOrGenerateCert C certFile keyFile fs of
           (Inl e, fs1) \<Rightarrow> (Inl (''error loading TLS certificates: '' @ e), fs1) | r \<Rightarrow> r))"

text \<open>
  The files hold what is served: after a success the certificate and the key that were generated. No other file changes,
  even when it fails.
\<close>

lemma LoadOrGenerateCert_writes:
  assumes "LoadOrGenerateCert C certPath keyPath fs = (Inr (der, priv), fs')" and "certPath \<noteq> keyPath"
  shows "\<exists>cpem kpem b. fs' = fs(certPath \<mapsto> cpem, keyPath \<mapsto> kpem) \<and> ce_encode_cert C der = Inr cpem \<and> ce_marshal_key C priv = Inr b
    \<and> ce_encode_key C b = Inr kpem \<and> ce_generate C = Inr priv \<and> ce_create C priv = Inr der"
  using assms by (auto simp: LoadOrGenerateCert_def writeCert_def writeKey_def split: sum.splits option.splits prod.splits)

lemma LoadOrGenerateCert_frame:
  assumes "LoadOrGenerateCert C certPath keyPath fs = (r, fs')" and "p \<noteq> certPath" and "p \<noteq> keyPath"
  shows "fs' p = fs p"
  using assms by (auto simp: LoadOrGenerateCert_def writeCert_def writeKey_def split: sum.splits option.splits prod.splits)

text \<open>
  Despite its name and its comment, the function never reads the files: whatever certificate and key they hold is
  overwritten with a new, self-signed one, and what is served does not depend on them. So a router that is given the
  paths of a real certificate destroys it.
\<close>

lemma existing_certificate_is_overwritten:
  assumes "WithTLS C certFile keyFile fs = (Inr c, fs')" and "certFile \<noteq> []" "keyFile \<noteq> []" "certFile \<noteq> keyFile"
  shows "\<exists>pem. ce_encode_cert C (fst c) = Inr pem \<and> fs' certFile = Some pem" and "fst (WithTLS C certFile keyFile other) = Inr c"
proof -
  have l: "LoadOrGenerateCert C certFile keyFile fs = (Inr c, fs')" using assms by (auto simp: WithTLS_def split: prod.splits sum.splits)
  then show "\<exists>pem. ce_encode_cert C (fst c) = Inr pem \<and> fs' certFile = Some pem"
    using LoadOrGenerateCert_writes [of C certFile keyFile fs "fst c" "snd c" fs'] assms(4) by fastforce
  have "fst (LoadOrGenerateCert C certFile keyFile other) = Inr c"
    using l by (auto simp: LoadOrGenerateCert_def writeCert_def writeKey_def split: sum.splits option.splits prod.splits)
  then show "fst (WithTLS C certFile keyFile other) = Inr c"
    using assms(2,3) by (auto simp: WithTLS_def split: prod.splits sum.splits)
qed

end
