(* ===== verification/Telemetry.thy ===== *)
theory Telemetry
  imports GoStrings
begin

text \<open>
  Telemetry: the provider of traces and metrics (\<open>pkg/otelx/provider.go\<close>), the query tracer (\<open>pkg/otelx/pgx.go\<close>) and the
  settings of the metrics server (\<open>pkg/metrics/prom.go\<close>). Exporters, resources and the clock are parameters.
\<close>

section \<open>The provider\<close>

datatype exporter_option = WithInsecure | WithEndpoint string

text \<open>A provider is the default of the library, one that was given, or one that was built for a resource.\<close>

datatype otel_provider = DefaultProvider | Given nat | TracerOf "exporter_option list" string | MeterOf "exporter_option list" string

record OtelOptions =
  oo_ServiceName :: string
  oo_ServiceVersion :: string
  oo_Traces :: bool
  oo_Metrics :: bool
  oo_Insecure :: bool
  oo_OTLPEndpoint :: string
  oo_TracerProvider :: "otel_provider option"
  oo_MeterProvider :: "otel_provider option"

record Provider =
  op_tracer :: otel_provider
  op_meter :: otel_provider
  op_sdkTP :: "otel_provider option"
  op_sdkMP :: "otel_provider option"
  op_resource :: "string option"

text \<open>The globals of the library, and the providers that were shut down.\<close>

record OtelGlobals =
  og_tracer :: otel_provider
  og_meter :: otel_provider
  og_propagator :: bool
  og_stopped :: "otel_provider list"

record otel_lib =
  ol_resource :: "string \<Rightarrow> string \<Rightarrow> string option"
  ol_default_resource :: string
  ol_trace_exporter :: "exporter_option list \<Rightarrow> string option"
  ol_metric_exporter :: "exporter_option list \<Rightarrow> string option"
  ol_shutdown :: "otel_provider \<Rightarrow> string option"
  ol_flush :: "otel_provider \<Rightarrow> string option"

definition exporter_options :: "OtelOptions \<Rightarrow> exporter_option list" where
  "exporter_options opts = (if oo_Insecure opts then [WithInsecure] else [])
     @ (if oo_OTLPEndpoint opts \<noteq> [] then [WithEndpoint (oo_OTLPEndpoint opts)] else [])"

definition newTracerProvider :: "otel_lib \<Rightarrow> OtelOptions \<Rightarrow> string \<Rightarrow> (string, otel_provider) result" where
  "newTracerProvider O' opts res = (case ol_trace_exporter O' (exporter_options opts) of
       Some e \<Rightarrow> Inl e | None \<Rightarrow> Inr (TracerOf (exporter_options opts) res))"

definition newMeterProvider :: "otel_lib \<Rightarrow> OtelOptions \<Rightarrow> string \<Rightarrow> (string, otel_provider) result" where
  "newMeterProvider O' opts res = (case ol_metric_exporter O' (exporter_options opts) of
       Some e \<Rightarrow> Inl e | None \<Rightarrow> Inr (MeterOf (exporter_options opts) res))"

text \<open>Shutting down: both providers are stopped, whether or not the first one fails.\<close>

definition stop_errors :: "(otel_provider \<Rightarrow> string option) \<Rightarrow> string \<Rightarrow> string \<Rightarrow> Provider \<Rightarrow> string list" where
  "stop_errors f trace_msg meter_msg p =
     (case op_sdkTP p of None \<Rightarrow> [] | Some t \<Rightarrow> (case f t of None \<Rightarrow> [] | Some e \<Rightarrow> [trace_msg @ e]))
     @ (case op_sdkMP p of None \<Rightarrow> [] | Some m \<Rightarrow> (case f m of None \<Rightarrow> [] | Some e \<Rightarrow> [meter_msg @ e]))"

text \<open>The verb \<open>%v\<close> on a list of errors.\<close>

definition error_list :: "string \<Rightarrow> string list \<Rightarrow> string option" where
  "error_list msg es = (if es = [] then None else Some (msg @ '': ['' @ Join es '' '' @ '']''))"

definition Shutdown :: "otel_lib \<Rightarrow> Provider \<Rightarrow> OtelGlobals \<Rightarrow> string option \<times> OtelGlobals" where
  "Shutdown O' p g =
     (error_list ''otel: shutdown'' (stop_errors (ol_shutdown O') ''trace provider shutdown: '' ''meter provider shutdown: '' p),
      g\<lparr>og_stopped := og_stopped g @ (case op_sdkTP p of None \<Rightarrow> [] | Some t \<Rightarrow> [t]) @ (case op_sdkMP p of None \<Rightarrow> [] | Some m \<Rightarrow> [m])\<rparr>)"

definition ForceFlush :: "otel_lib \<Rightarrow> Provider \<Rightarrow> string option" where
  "ForceFlush O' p = error_list ''otel: force flush'' (stop_errors (ol_flush O') [] [] p)"

definition service_name :: "OtelOptions \<Rightarrow> string" where
  "service_name opts = (if oo_ServiceName opts = [] then ''unknown_service'' else oo_ServiceName opts)"

definition Resource :: "otel_lib \<Rightarrow> Provider \<Rightarrow> string" where
  "Resource O' p = (case op_resource p of None \<Rightarrow> ol_default_resource O' | Some r \<Rightarrow> r)"

text \<open>The traces part of \<open>New\<close> and then its metrics part.\<close>

definition start_traces :: "otel_lib \<Rightarrow> OtelOptions \<Rightarrow> string \<Rightarrow> OtelGlobals \<Rightarrow> (string, Provider \<times> OtelGlobals) result" where
  "start_traces O' opts res g =
     (let p = \<lparr>op_tracer = og_tracer g, op_meter = og_meter g, op_sdkTP = None, op_sdkMP = None, op_resource = Some res\<rparr> in
      if oo_Traces opts then
        (case newTracerProvider O' opts res of Inl e \<Rightarrow> Inl (''otel: trace provider: '' @ e)
         | Inr tp \<Rightarrow> Inr (p\<lparr>op_tracer := tp, op_sdkTP := Some tp\<rparr>, g\<lparr>og_tracer := tp, og_propagator := True\<rparr>))
      else Inr (p, g))"

definition NewProvider :: "otel_lib \<Rightarrow> OtelOptions \<Rightarrow> OtelGlobals \<Rightarrow> (string, Provider) result \<times> OtelGlobals" where
  "NewProvider O' opts g =
     (if oo_TracerProvider opts \<noteq> None \<or> oo_MeterProvider opts \<noteq> None then
        (Inr \<lparr>op_tracer = (case oo_TracerProvider opts of None \<Rightarrow> og_tracer g | Some t \<Rightarrow> t),
              op_meter = (case oo_MeterProvider opts of None \<Rightarrow> og_meter g | Some m \<Rightarrow> m),
              op_sdkTP = None, op_sdkMP = None, op_resource = None\<rparr>, g)
      else (let res = (case ol_resource O' (service_name opts) (oo_ServiceVersion opts) of None \<Rightarrow> ol_default_resource O' | Some r \<Rightarrow> r) in
        case start_traces O' opts res g of
          Inl e \<Rightarrow> (Inl e, g)
        | Inr (p, g1) \<Rightarrow>
            if oo_Metrics opts then
              (case newMeterProvider O' opts res of
                 Inl e \<Rightarrow> (Inl (''otel: meter provider: '' @ e), snd (Shutdown O' p g1))
               | Inr mp \<Rightarrow> (Inr (p\<lparr>op_sdkMP := Some mp, op_meter := mp\<rparr>), g1\<lparr>og_meter := mp\<rparr>))
            else (Inr (p\<lparr>op_meter := og_meter g1\<rparr>), g1)))"

text \<open>
  When \<open>New\<close> succeeds nothing is stopped, the globals are the providers that were built, and \<open>Shutdown\<close> stops exactly
  those; when it fails everything that was built is stopped, but the stopped tracer stays the global one.
\<close>

lemma New_ok:
  assumes "NewProvider O' opts g = (Inr p, g')"
  shows "og_stopped g' = og_stopped g" and "op_sdkTP p \<noteq> None \<Longrightarrow> op_sdkTP p = Some (og_tracer g')"
    and "op_sdkMP p \<noteq> None \<Longrightarrow> op_sdkMP p = Some (og_meter g')"
  using assms by (auto simp: NewProvider_def start_traces_def newTracerProvider_def newMeterProvider_def Let_def split: if_splits sum.splits prod.splits option.splits)

lemma New_failed:
  assumes "NewProvider O' opts g = (Inl e, g')"
  shows "og_tracer g' = og_tracer g \<or> og_tracer g' \<in> set (og_stopped g')" and "og_meter g' = og_meter g"
  using assms by (auto simp: NewProvider_def start_traces_def newTracerProvider_def newMeterProvider_def Shutdown_def Let_def
      split: if_splits sum.splits prod.splits option.splits)

lemma stopped_tracer_stays_global:
  assumes "oo_TracerProvider opts = None" "oo_MeterProvider opts = None" "oo_Traces opts" "oo_Metrics opts"
    and "ol_trace_exporter O' (exporter_options opts) = None" and "ol_metric_exporter O' (exporter_options opts) = Some e"
  shows "case NewProvider O' opts g of (r, g') \<Rightarrow> r = Inl (''otel: meter provider: '' @ e) \<and> og_tracer g' \<in> set (og_stopped g')"
  using assms by (simp add: NewProvider_def start_traces_def newTracerProvider_def newMeterProvider_def Shutdown_def Let_def split: option.split)

text \<open>A provider that failed to stop does not keep the other one running, and its error is reported.\<close>

lemma Shutdown_stops_both:
  assumes "op_sdkTP p = Some t" "op_sdkMP p = Some m"
  shows "og_stopped (snd (Shutdown O' p g)) = og_stopped g @ [t, m]"
    and "fst (Shutdown O' p g) = None \<longleftrightarrow> ol_shutdown O' t = None \<and> ol_shutdown O' m = None"
  using assms by (auto simp: Shutdown_def stop_errors_def error_list_def split: option.splits)

section \<open>The query tracer\<close>

text \<open>\<open>upper\<close> is \<open>strings.ToUpper\<close>.\<close>

definition sqlOperation :: "(string \<Rightarrow> string) \<Rightarrow> string \<Rightarrow> string" where
  "sqlOperation upper sql =
     (let s = TrimSpace sql; verb = takeWhile (\<lambda>c. c \<noteq> CHR '' '') s in
      if verb \<noteq> [] \<and> length verb < length s then upper verb
      else if length s > 16 then upper (take 16 s) else upper s)"

datatype span_event =
  StartSpan string "(string \<times> string) list" | RecordDuration "(string \<times> string) list" | RecordError string | SetError string | SetRows int | EndSpan

definition TraceQueryStart :: "(string \<Rightarrow> string) \<Rightarrow> (string \<Rightarrow> string) \<Rightarrow> string \<Rightarrow> span_event" where
  "TraceQueryStart upper lower sql = (let op = sqlOperation upper sql in
     StartSpan (''pg.'' @ lower op) [(''db.system.name'', ''postgresql''), (''db.query.text'', sql), (''db.operation.name'', op)])"

text \<open>The end of a query: nothing without a start in the context; the tag of the command, its rows and its error.\<close>

definition TraceQueryEnd :: "bool \<Rightarrow> string \<Rightarrow> int \<Rightarrow> string option \<Rightarrow> span_event list" where
  "TraceQueryEnd started tag rows err =
     (if \<not> started then []
      else RecordDuration [(''db.system.name'', ''postgresql''), (''db.operation.name'', tag), (''error'', if err = None then ''false'' else ''true'')]
        # (case err of Some e \<Rightarrow> [RecordError e, SetError e] | None \<Rightarrow> [SetRows rows]) @ [EndSpan])"

text \<open>
  The tracer keeps the histogram it was created with; the gauges of a pool are registered once, and a later call returns no
  error whatever came of the first.
\<close>

record PgxTracer =
  pt_histogram :: nat
  pt_initOnce :: bool
  pt_gauge :: "nat option"

definition NewPgxTracer :: "(string, nat) result \<Rightarrow> (string, PgxTracer) result" where
  "NewPgxTracer histogram = (case histogram of Inl e \<Rightarrow> Inl e | Inr h \<Rightarrow> Inr \<lparr>pt_histogram = h, pt_initOnce = False, pt_gauge = None\<rparr>)"

definition RegisterPoolStats :: "(nat \<Rightarrow> string option) \<Rightarrow> nat \<Rightarrow> PgxTracer \<Rightarrow> string option \<times> PgxTracer" where
  "RegisterPoolStats gauge pool t =
     (if pt_initOnce t then (None, t)
      else (case gauge pool of
          Some e \<Rightarrow> (Some e, t\<lparr>pt_initOnce := True\<rparr>)
        | None \<Rightarrow> (None, t\<lparr>pt_initOnce := True, pt_gauge := Some pool\<rparr>)))"

lemma first_pool_is_observed:
  assumes "NewPgxTracer histogram = Inr t" and "RegisterPoolStats gauge pool t = (None, t1)"
  shows "pt_gauge t1 = Some pool" and "RegisterPoolStats gauge' other t1 = (None, t1)"
  using assms by (auto simp: NewPgxTracer_def RegisterPoolStats_def split: sum.splits option.splits)

lemma retry_hides_the_failure:
  assumes "NewPgxTracer histogram = Inr t" and "RegisterPoolStats gauge pool t = (Some e, t1)"
  shows "RegisterPoolStats gauge' pool t1 = (None, t1) \<and> pt_gauge t1 = None"
  using assms by (auto simp: NewPgxTracer_def RegisterPoolStats_def split: sum.splits option.splits)

text \<open>The exporter of the logs of the REST command (\<open>cmd/pigo/rest.go\<close>).\<close>

definition newOTelLoggerProvider :: "(exporter_option list \<Rightarrow> string option) \<Rightarrow> string \<Rightarrow> (string, exporter_option list) result" where
  "newOTelLoggerProvider export endpoint =
     (let opts = [WithInsecure] @ (if endpoint \<noteq> [] then [WithEndpoint endpoint] else []) in
      case export opts of Some e \<Rightarrow> Inl e | None \<Rightarrow> Inr opts)"

lemma logs_are_sent_in_the_clear: "newOTelLoggerProvider export endpoint = Inr opts \<Longrightarrow> WithInsecure \<in> set opts"
  by (auto simp: newOTelLoggerProvider_def Let_def split: option.splits)

lemma sqlOperation_short:
  assumes "\<And>s. length (upper s) = length s" and "length (sqlOperation upper sql) > 16"
  shows "\<exists>verb rest. TrimSpace sql = verb @ '' '' @ rest \<and> sqlOperation upper sql = upper verb"
proof -
  let ?s = "TrimSpace sql"
  have v: "takeWhile (\<lambda>c. c \<noteq> CHR '' '') ?s \<noteq> [] \<and> length (takeWhile (\<lambda>c. c \<noteq> CHR '' '') ?s) < length ?s"
    using assms by (auto simp: sqlOperation_def Let_def split: if_splits)
  then have "dropWhile (\<lambda>c. c \<noteq> CHR '' '') ?s \<noteq> []" by (metis append_Nil2 nat_less_le takeWhile_dropWhile_id)
  then obtain c rest where d: "dropWhile (\<lambda>c. c \<noteq> CHR '' '') ?s = c # rest" by (cases "dropWhile (\<lambda>c. c \<noteq> CHR '' '') ?s") auto
  then have "c = CHR '' ''" using hd_dropWhile [of "\<lambda>c. c \<noteq> CHR '' ''" ?s] by simp
  then have "?s = takeWhile (\<lambda>c. c \<noteq> CHR '' '') ?s @ '' '' @ rest" using d takeWhile_dropWhile_id [of "\<lambda>c. c \<noteq> CHR '' ''" ?s] by simp
  then show ?thesis using v by (intro exI) (auto simp: sqlOperation_def Let_def)
qed

text \<open>
  A started span ends exactly once. The operation of the duration is the tag of the command, which contains the number of
  rows, so that it is not the operation of the span.
\<close>

lemma span_ends_once: "count_list (TraceQueryEnd started tag rows err) EndSpan = (if started then 1 else 0)"
  by (simp add: TraceQueryEnd_def split: option.split)

section \<open>The metrics server\<close>

record PromServerOpts =
  po_Addr :: string
  po_Path :: string
  po_ShutdownTimeout :: int
  po_ReadHeaderTimeout :: int

definition defaultPrometheusServerOptions :: PromServerOpts where
  "defaultPrometheusServerOptions = \<lparr>po_Addr = '':9100'', po_Path = ''/metrics'', po_ShutdownTimeout = 5000000000, po_ReadHeaderTimeout = 3000000000\<rparr>"

definition prometheus_options :: "PromServerOpts option \<Rightarrow> PromServerOpts" where
  "prometheus_options opts = (let d = defaultPrometheusServerOptions in case opts of None \<Rightarrow> d
     | Some c \<Rightarrow> \<lparr>po_Addr = (if po_Addr c \<noteq> [] then po_Addr c else po_Addr d), po_Path = (if po_Path c \<noteq> [] then po_Path c else po_Path d),
         po_ShutdownTimeout = (if po_ShutdownTimeout c \<noteq> 0 then po_ShutdownTimeout c else po_ShutdownTimeout d),
         po_ReadHeaderTimeout = (if po_ReadHeaderTimeout c \<noteq> 0 then po_ReadHeaderTimeout c else po_ReadHeaderTimeout d)\<rparr>)"

lemma prometheus_options_complete:
  "po_Addr (prometheus_options opts) \<noteq> []" "po_Path (prometheus_options opts) \<noteq> []" "po_ShutdownTimeout (prometheus_options opts) \<noteq> 0"
  by (auto simp: prometheus_options_def defaultPrometheusServerOptions_def Let_def split: option.split)

end
