(* ===== verification/PipelineCommand.thy ===== *)
theory PipelineCommand
  imports PipelineQueue
begin

text \<open>
  The pipeline command as a whole (\<open>runPipeline\<close> in \<open>cmd/pigo/pipeline.go\<close>): initialising the peers, starting the
  pipelines, and shutting down. The metrics server and the time limit of the shutdown are not part of the model.
\<close>

datatype command_error = InitFailed pipeline_error | StartFailed pipeline_error

text \<open>The command up to the point where it waits for a signal; its context is cancelled when it returns with an error.\<close>

definition runPipeline :: "connect_lib \<Rightarrow> sub_lib \<Rightarrow> (string \<times> string) list \<Rightarrow> PipelineConfig \<Rightarrow> command_error option \<times> Run" where
  "runPipeline C X connectors cfg = (case Init C cfg (NewManager connectors) of
       (Some err, m, lg) \<Rightarrow> (Some (InitFailed err), (fresh_run m)\<lparr>rn_cancelled := True\<rparr>)
     | (None, m, lg) \<Rightarrow> (case startPipelineProcessing X cfg (pc_Pipelines cfg) (fresh_run m) of
         (Some err, R) \<Rightarrow> (Some (StartFailed err), R\<lparr>rn_cancelled := True\<rparr>)
       | (None, R) \<Rightarrow> (None, R)))"

text \<open>All goroutines that the command waits for have ended, and none ended with an event in its hand.\<close>

definition worker_done :: "Worker \<Rightarrow> bool" where
  "worker_done w \<longleftrightarrow> \<not> wk_running w \<and> wk_hand w = None"

definition finished :: "Run \<Rightarrow> bool" where
  "finished R \<longleftrightarrow> rn_readers R = [] \<and> list_all worker_done (rn_workers R)"

definition shutdown_label :: "label \<Rightarrow> bool" where
  "shutdown_label l \<longleftrightarrow> (case l of LHandle _ _ \<Rightarrow> True | LQuit _ \<Rightarrow> True | LStop _ \<Rightarrow> True | _ \<Rightarrow> False)"

lemma runs_trans: "runs E R' ls' R'' \<Longrightarrow> runs E R ls R' \<Longrightarrow> runs E R (ls @ ls') R''"
proof (induction rule: runs.induct)
  case (step R' ls1 R1 l R2)
  then have "runs E R ((ls @ ls1) @ [l]) R2" by (intro runs.step) auto
  then show ?case by simp
qed (simp add: runs.intros)

lemma runs_one: "run_step E R l R' \<Longrightarrow> runs E R [l] R'"
  using runs.step [OF runs.start, of E R l R'] by simp

text \<open>A worker handles what it has in its hand and stops; nothing else changes but what handling changes.\<close>

lemma handle_frame:
  assumes "i < length (rn_workers R)"
  shows "rn_workers (handle E i R) = (rn_workers R)[i := (rn_workers R ! i)\<lparr>wk_hand := None\<rparr>]"
    and "rn_readers (handle E i R) = rn_readers R" and "rn_cancelled (handle E i R) = rn_cancelled R"
  by (simp_all add: handle_def Let_def)

lemma worker_stops:
  assumes "rn_cancelled R" and "i < length (rn_workers R)"
  shows "\<exists>ls R' w. runs E R ls R' \<and> list_all shutdown_label ls \<and> length ls \<le> 2 \<and> rn_cancelled R' \<and> rn_readers R' = rn_readers R
    \<and> rn_workers R' = (rn_workers R)[i := w] \<and> worker_done w"
proof -
  have quit: "\<exists>R'. run_step E S (LQuit i) R' \<and> rn_cancelled R' \<and> rn_readers R' = rn_readers S
      \<and> rn_workers R' = (rn_workers S)[i := (rn_workers S ! i)\<lparr>wk_running := False\<rparr>]"
    if "rn_cancelled S" "i < length (rn_workers S)" "wk_hand (rn_workers S ! i) = None" for S
    using run_step.quit [OF that(2,3), of E] that(1)
    by (intro exI [of _ "S\<lparr>rn_workers := (rn_workers S)[i := (rn_workers S ! i)\<lparr>wk_running := False\<rparr>]\<rparr>"]) auto
  show ?thesis
  proof (cases "wk_hand (rn_workers R ! i)")
    case None
    then obtain R' where "run_step E R (LQuit i) R'" "rn_cancelled R'" "rn_readers R' = rn_readers R"
        "rn_workers R' = (rn_workers R)[i := (rn_workers R ! i)\<lparr>wk_running := False\<rparr>]" using quit assms by blast
    then show ?thesis using None by (intro exI [of _ "[LQuit i]"] exI [of _ R'] exI [of _ "(rn_workers R ! i)\<lparr>wk_running := False\<rparr>"])
        (simp add: runs_one shutdown_label_def worker_done_def)
  next
    case (Some e)
    let ?S = "handle E i R" and ?w = "(rn_workers R ! i)\<lparr>wk_hand := None\<rparr>"
    have s: "run_step E R (LHandle i e) ?S" using run_step.handle [OF assms(2)] Some by simp
    obtain R' where q: "run_step E ?S (LQuit i) R'" "rn_cancelled R'" "rn_readers R' = rn_readers ?S"
        "rn_workers R' = (rn_workers ?S)[i := (rn_workers ?S ! i)\<lparr>wk_running := False\<rparr>]"
      using quit [of ?S] assms by (auto simp: handle_frame)
    have "runs E R ([LHandle i e] @ [LQuit i]) R'" using runs_trans [OF runs_one [OF q(1)] runs_one [OF s]] .
    then show ?thesis using q(2-4) assms(2)
      by (intro exI [of _ "[LHandle i e] @ [LQuit i]"] exI [of _ R'] exI [of _ "?w\<lparr>wk_running := False\<rparr>"])
        (simp add: shutdown_label_def worker_done_def handle_frame)
  qed
qed

lemma workers_stop:
  assumes "rn_cancelled R" and "k \<le> length (rn_workers R)"
  shows "\<exists>ls R'. runs E R ls R' \<and> list_all shutdown_label ls \<and> length ls \<le> 2 * k \<and> rn_cancelled R' \<and> rn_readers R' = rn_readers R
    \<and> length (rn_workers R') = length (rn_workers R) \<and> (\<forall>i < k. worker_done (rn_workers R' ! i))"
  using assms(2)
proof (induction k)
  case 0
  show ?case using assms(1) by (intro exI [of _ "[]"] exI [of _ R]) (simp add: runs.start)
next
  case (Suc k)
  then obtain ls R1 where r: "runs E R ls R1" "list_all shutdown_label ls" "length ls \<le> 2 * k" "rn_cancelled R1" "rn_readers R1 = rn_readers R"
      "length (rn_workers R1) = length (rn_workers R)" "\<forall>i < k. worker_done (rn_workers R1 ! i)" by auto
  obtain ls' R2 w where s: "runs E R1 ls' R2" "list_all shutdown_label ls'" "length ls' \<le> 2" "rn_cancelled R2" "rn_readers R2 = rn_readers R1"
      "rn_workers R2 = (rn_workers R1)[k := w]" "worker_done w"
    using worker_stops [OF r(4), of k E] Suc.prems r(6) by auto
  have "runs E R (ls @ ls') R2" using runs_trans [OF s(1) r(1)] .
  then show ?case using r s Suc.prems by (intro exI [of _ "ls @ ls'"] exI [of _ R2]) (auto simp: nth_list_update less_Suc_eq)
qed

lemma readers_stop:
  "\<exists>ls R'. runs E R ls R' \<and> list_all shutdown_label ls \<and> length ls \<le> length (rn_readers R) \<and> rn_readers R' = [] \<and> rn_workers R' = rn_workers R"
proof (induction "length (rn_readers R)" arbitrary: R rule: less_induct)
  case less
  show ?case
  proof (cases "rn_readers R")
    case Nil
    then show ?thesis by (intro exI [of _ "[]"] exI [of _ R]) (simp add: runs.start)
  next
    case (Cons r rs)
    let ?S = "R\<lparr>rn_readers := removeAll r (rn_readers R)\<rparr>"
    have l: "length (rn_readers ?S) < length (rn_readers R)" by (simp add: Cons) (meson le_imp_less_Suc length_removeAll_less_eq)
    from less [OF l] obtain ls R' where i: "runs E ?S ls R'" "list_all shutdown_label ls" "length ls \<le> length (rn_readers ?S)" "rn_readers R' = []"
        "rn_workers R' = rn_workers ?S" by blast
    have "runs E R ([LStop r] @ ls) R'" using runs_trans [OF i(1) runs_one [OF run_step.stop]] .
    then show ?thesis using i l by (intro exI [of _ "[LStop r] @ ls"] exI [of _ R']) (simp add: shutdown_label_def)
  qed
qed



text \<open>
  A command that fails to start leaves a cancelled context behind, so that what it had started ends too.
\<close>

lemma failed_start_is_cancelled: "runPipeline C X connectors cfg = (Some err, R) \<Longrightarrow> rn_cancelled R"
  by (auto simp: runPipeline_def split: prod.splits option.splits)

text \<open>
  Peers of one kind share one connector: the object that was registered for the kind, whatever their names and their
  configurations. So the peer that connects last decides for all of them where events go.
\<close>

lemma peers_share_their_connector: "pe_ConnectorName p = pe_ConnectorName q \<Longrightarrow> Connector m p = Connector m q"
  by (simp add: Connector_def)

end
