(* ===== verification/ServerLife.thy ===== *)
theory ServerLife
  imports SchemaCache Http
begin

text \<open>
  The lifetime of a REST server and of its schema cache (\<open>NewServer\<close>, \<open>Start\<close>, \<open>Shutdown\<close> in \<open>pkg/rest/server.go\<close>;
  \<open>NewCache\<close>, \<open>Init\<close>, \<open>Close\<close>, \<open>handleUpdates\<close>, \<open>reconnect\<close> in \<open>pkg/pgx/schema/schema.go\<close>): which pools and connections
  are open, and how closing the cache interleaves with the goroutine that listens for changes. The driver and the HTTP
  server are parameters.
\<close>

section \<open>Creating, starting and shutting down\<close>

datatype life_effect = OpenCachePool | CloseCachePool | OpenListener | CloseListener | OpenServerPool | CloseServerPool | StopServing

text \<open>The listener's connection is taken out of the pool, so that closing the pool does not close it.\<close>

definition NewSchemaCache :: "string option \<Rightarrow> string option \<Rightarrow> (string, SchemaCache) result \<times> life_effect list" where
  "NewSchemaCache create acquire = (case create of
       Some e \<Rightarrow> (Inl (''create pool: '' @ e), [])
     | None \<Rightarrow> (case acquire of
         Some e \<Rightarrow> (Inl (''pool.Acquire: '' @ e), [OpenCachePool, CloseCachePool])
       | None \<Rightarrow> (Inr new_cache, [OpenCachePool, OpenListener])))"

text \<open>\<open>lf_watch_closed\<close> says that \<open>Close\<close> has closed the channel of snapshots; \<open>lf_http\<close> that \<open>Start\<close> has created the HTTP server.\<close>

record ServerLife =
  lf_cache :: SchemaCache
  lf_watch_closed :: bool
  lf_http :: bool

definition NewServer :: "string option \<Rightarrow> string option \<Rightarrow> string option \<Rightarrow> (string, ServerLife) result \<times> life_effect list" where
  "NewServer create acquire pool = (case NewSchemaCache create acquire of
       (Inl e, es) \<Rightarrow> (Inl (''failed to create schema cache: '' @ e), es)
     | (Inr c, es) \<Rightarrow> (case pool of
         Some e \<Rightarrow> (Inl (''failed to create connection pool: '' @ e), es)
       | None \<Rightarrow> (Inr \<lparr>lf_cache = c, lf_watch_closed = False, lf_http = False\<rparr>, es @ [OpenServerPool])))"

text \<open>
  \<open>Init\<close> loads the tables, sends the first snapshot and subscribes to the notifications; \<open>None\<close> when it waits
  forever because the channel of snapshots is full.
\<close>

definition Init_cache :: "Catalog \<Rightarrow> string option \<Rightarrow> SchemaCache \<Rightarrow> (string option \<times> SchemaCache) option" where
  "Init_cache C listen c = (case reload_tables C c of
       Inl e \<Rightarrow> Some (Some (''initial load: '' @ e), c)
     | Inr c1 \<Rightarrow> (case send_snapshot c1 of
         None \<Rightarrow> None
       | Some c2 \<Rightarrow> Some (case listen of None \<Rightarrow> None | Some e \<Rightarrow> Some (''listen: '' @ e), c2)))"

text \<open>\<open>Start\<close> returns what serving returns, or the error of \<open>Init\<close>.\<close>

definition Start :: "Catalog \<Rightarrow> string option \<Rightarrow> string option \<Rightarrow> ServerLife \<Rightarrow> (string option \<times> ServerLife) option" where
  "Start C listen serve s = (case Init_cache C listen (lf_cache s) of
       None \<Rightarrow> None
     | Some (Some e, c) \<Rightarrow> Some (Some (''failed to initialize schema cache: '' @ e), s\<lparr>lf_cache := c\<rparr>)
     | Some (None, c) \<Rightarrow> Some (serve, s\<lparr>lf_cache := c, lf_http := True\<rparr>))"

text \<open>
  \<open>Shutdown\<close> closes the cache, then stops the HTTP server, then closes the pool. It panics (\<open>None\<close>) when the channel of
  the cache is closed already, and when there is no HTTP server yet; what it has done until then stays done.
\<close>

definition Shutdown_server :: "string option \<Rightarrow> ServerLife \<Rightarrow> string option option \<times> ServerLife \<times> life_effect list" where
  "Shutdown_server stop s =
     (if lf_watch_closed s then (None, s, [CloseListener, CloseCachePool])
      else (let s1 = s\<lparr>lf_watch_closed := True\<rparr> in
        if \<not> lf_http s then (None, s1, [CloseListener, CloseCachePool])
        else (Some stop, s1, [CloseListener, CloseCachePool, StopServing, CloseServerPool])))"

text \<open>The cached schema as a document: where it is served, and the handler.\<close>

definition schema_endpoint :: "string list \<Rightarrow> string" where
  "schema_endpoint path = (case path of p # _ \<Rightarrow> if p \<noteq> [] then p else ''/api/schema'' | [] \<Rightarrow> ''/api/schema'')"

definition SchemaHandler :: "(tables \<Rightarrow> string option) \<Rightarrow> SchemaCache \<Rightarrow> handler" where
  "SchemaHandler encode c r w =
     (let w1 = header_set ''Content-Type'' ''application/json'' w in
      case encode (Snapshot c) of
        Some doc \<Rightarrow> write_body doc w1
      | None \<Rightarrow> http_Error ''{\"error\":\"Internal server error\"}'' 500 w1)"

text \<open>
  A server that was created and started can be shut down once, and then everything that was opened is closed, in the
  order in which nothing that is still used is closed before its user.
\<close>

lemma server_life_cycle:
  assumes "NewServer create acquire pool = (Inr s, es)" and "Start C listen serve s = Some (r, s1)" and "lf_http s1"
  shows "es = [OpenCachePool, OpenListener, OpenServerPool]"
    and "Shutdown_server stop s1 = (Some stop, s1\<lparr>lf_watch_closed := True\<rparr>, [CloseListener, CloseCachePool, StopServing, CloseServerPool])"
  using assms by (auto simp: NewServer_def NewSchemaCache_def Start_def Shutdown_server_def Let_def split: option.splits)

lemma started_knows_the_schema:
  assumes "Start C listen serve s = Some (r, s1)" and "lf_http s1" and "\<not> lf_http s"
  shows "loadAll C = Inr (sc_tables (lf_cache s1)) \<and> listen = None"
  using assms by (auto simp: Start_def Init_cache_def reload_tables_def send_snapshot_def split: option.splits sum.splits if_splits)

lemma failed_server_leaks_the_cache:
  "NewServer None None (Some e) = (Inl (''failed to create connection pool: '' @ e), [OpenCachePool, OpenListener])"
  by (simp add: NewServer_def NewSchemaCache_def)

lemma shutdown_before_start_panics: "\<not> lf_http s \<Longrightarrow> fst (Shutdown_server stop s) = None"
  by (simp add: Shutdown_server_def Let_def)

lemma shutdown_twice_panics: "Shutdown_server stop s = (r, s1, es) \<Longrightarrow> fst (Shutdown_server stop s1) = None"
  by (auto simp: Shutdown_server_def Let_def split: if_splits)

text \<open>
  A server whose subscription failed cannot be started again: the first snapshot is still in the channel that nobody
  reads, so that the second \<open>Init\<close> waits forever.
\<close>

lemma second_start_blocks:
  assumes "Start C (Some e) serve s = Some (r, s1)" and "reload_tables C (lf_cache s) = Inr c" and "reload_tables C' (lf_cache s1) = Inr c'"
  shows "Start C' listen serve' s1 = None"
  using assms by (auto simp: Start_def Init_cache_def reload_tables_def send_snapshot_def split: option.splits sum.splits if_splits)

section \<open>Closing while the listener runs\<close>

text \<open>
  The goroutine that listens, by where it is: waiting for a notification, loading after one, sending the snapshot,
  pausing before a reconnection, with a new connection in its hand, with the old one in its hand after the exchange, loading
  after a reconnection, or ended.
\<close>

datatype loop = LListen | LLoad | LSend | LBackoff | LAcquired nat | LSwapped nat | LReload | LDone

text \<open>How far \<open>Close\<close> has come: its four actions are not atomic.\<close>

datatype closing = Running | Cancelled | ConnClosed | PoolClosed | WatchClosed

primrec closing_rank :: "closing \<Rightarrow> nat" where
  "closing_rank Running = 0" | "closing_rank Cancelled = 1" | "closing_rank ConnClosed = 2" | "closing_rank PoolClosed = 3" | "closing_rank WatchClosed = 4"

text \<open>They happen in this order.\<close>

instantiation closing :: linorder
begin

definition less_eq_closing :: "closing \<Rightarrow> closing \<Rightarrow> bool" where
  "less_eq_closing a b \<longleftrightarrow> closing_rank a \<le> closing_rank b"

definition less_closing :: "closing \<Rightarrow> closing \<Rightarrow> bool" where
  "less_closing a b \<longleftrightarrow> closing_rank a < closing_rank b"

instance
proof
  fix a b :: closing
  show "a \<le> b \<Longrightarrow> b \<le> a \<Longrightarrow> a = b" by (cases a; cases b) (simp_all add: less_eq_closing_def)
qed (auto simp: less_eq_closing_def less_closing_def)

end

lemmas closing_order = less_eq_closing_def less_closing_def

record CacheLife =
  cl_conn :: nat
  cl_open :: "nat set"
  cl_next :: nat
  cl_watch :: nat
  cl_loop :: loop
  cl_closing :: closing
  cl_panicked :: bool

definition running_cache :: CacheLife where
  "running_cache = \<lparr>cl_conn = 0, cl_open = {0}, cl_next = 1, cl_watch = 1, cl_loop = LListen, cl_closing = Running, cl_panicked = False\<rparr>"

text \<open>
  The steps of the two goroutines and of the watcher. What is given the cancelled context fails: no connection is acquired
  and nothing is loaded after \<open>cancel\<close>; but sending a snapshot does not look at the context, and neither does
  the exchange of the connections.
\<close>

inductive life_step :: "CacheLife \<Rightarrow> CacheLife \<Rightarrow> bool" where
  notified: "cl_loop s = LListen \<Longrightarrow> cl_closing s = Running \<Longrightarrow> life_step s (s\<lparr>cl_loop := LLoad\<rparr>)"
| loaded: "cl_loop s \<in> {LLoad, LReload} \<Longrightarrow> cl_closing s = Running \<Longrightarrow> life_step s (s\<lparr>cl_loop := LSend\<rparr>)"
| load_failed: "cl_loop s = LLoad \<Longrightarrow> life_step s (s\<lparr>cl_loop := LListen\<rparr>)"
| sent: "cl_loop s = LSend \<Longrightarrow> cl_closing s \<noteq> WatchClosed \<Longrightarrow> cl_watch s = 0 \<Longrightarrow> life_step s (s\<lparr>cl_watch := 1, cl_loop := LListen\<rparr>)"
| send_panics: "cl_loop s = LSend \<Longrightarrow> cl_closing s = WatchClosed \<Longrightarrow> life_step s (s\<lparr>cl_panicked := True, cl_loop := LDone\<rparr>)"
| lost: "cl_loop s = LListen \<Longrightarrow> cl_closing s = Running \<Longrightarrow> life_step s (s\<lparr>cl_loop := LBackoff\<rparr>)"
| ended: "cl_loop s \<in> {LListen, LBackoff} \<Longrightarrow> cl_closing s \<noteq> Running \<Longrightarrow> life_step s (s\<lparr>cl_loop := LDone\<rparr>)"
| acquired: "cl_loop s = LBackoff \<Longrightarrow> cl_closing s = Running \<Longrightarrow>
    life_step s (s\<lparr>cl_loop := LAcquired (cl_next s), cl_open := insert (cl_next s) (cl_open s), cl_next := Suc (cl_next s)\<rparr>)"
| swapped: "cl_loop s = LAcquired n \<Longrightarrow> life_step s (s\<lparr>cl_loop := LSwapped (cl_conn s), cl_conn := n\<rparr>)"
| old_closed: "cl_loop s = LSwapped n \<Longrightarrow> life_step s (s\<lparr>cl_loop := LReload, cl_open := cl_open s - {n}\<rparr>)"
| reload_failed: "cl_loop s = LReload \<Longrightarrow> life_step s (s\<lparr>cl_loop := LBackoff\<rparr>)"
| watched: "cl_watch s = 1 \<Longrightarrow> life_step s (s\<lparr>cl_watch := 0\<rparr>)"
| cancel: "cl_closing s = Running \<Longrightarrow> life_step s (s\<lparr>cl_closing := Cancelled\<rparr>)"
| close_conn: "cl_closing s = Cancelled \<Longrightarrow> life_step s (s\<lparr>cl_closing := ConnClosed, cl_open := cl_open s - {cl_conn s}\<rparr>)"
| close_pool: "cl_closing s = ConnClosed \<Longrightarrow> life_step s (s\<lparr>cl_closing := PoolClosed\<rparr>)"
| close_watch: "cl_closing s = PoolClosed \<Longrightarrow> life_step s (s\<lparr>cl_closing := WatchClosed\<rparr>)"

inductive_cases life_stepE: "life_step s s'"

definition hand_of :: "loop \<Rightarrow> nat set" where
  "hand_of l = (case l of LAcquired n \<Rightarrow> {n} | LSwapped n \<Rightarrow> {n} | _ \<Rightarrow> {})"

lemma hand_of_simps [simp]:
  "hand_of LListen = {}" "hand_of LLoad = {}" "hand_of LSend = {}" "hand_of LBackoff = {}" "hand_of LReload = {}" "hand_of LDone = {}"
  "hand_of (LAcquired n) = {n}" "hand_of (LSwapped n) = {n}"
  by (simp_all add: hand_of_def)

text \<open>
  The open connections are the current one and the one in the goroutine's hand, while nothing is closed; afterwards they
  are among these.
\<close>

definition life_inv :: "CacheLife \<Rightarrow> bool" where
  "life_inv s \<longleftrightarrow> cl_open s \<subseteq> insert (cl_conn s) (hand_of (cl_loop s)) \<and> insert (cl_conn s) (hand_of (cl_loop s)) \<subseteq> {..< cl_next s}
     \<and> cl_conn s \<notin> hand_of (cl_loop s) \<and> (cl_closing s \<le> Cancelled \<longrightarrow> cl_open s = insert (cl_conn s) (hand_of (cl_loop s)))
     \<and> cl_watch s \<le> 1 \<and> (cl_panicked s \<longrightarrow> cl_closing s = WatchClosed)"

lemma life_inv_start: "life_inv running_cache"
  by (simp add: life_inv_def running_cache_def closing_order)

lemma life_inv_step: "life_step s s' \<Longrightarrow> life_inv s \<Longrightarrow> life_inv s'"
  by (erule life_step.cases) (auto simp: life_inv_def closing_order)

interpretation cache_life: machine life_step life_inv running_cache
  by unfold_locales (auto intro: life_inv_step life_inv_start)

text \<open>Closing is never taken back.\<close>

interpretation closing_life: advancing life_step cl_closing
  by unfold_locales (auto simp: closing_order elim: life_stepE)

text \<open>
  However the cache reconnects, it never has more than two connections for its listener, and exactly one, its own,
  whenever it is not in the middle of an exchange, until it is closed.
\<close>

lemma listener_connections:
  assumes "life_step\<^sup>*\<^sup>* running_cache s"
  shows "card (cl_open s) \<le> 2 \<and> (hand_of (cl_loop s) = {} \<longrightarrow> cl_open s \<subseteq> {cl_conn s})
    \<and> (hand_of (cl_loop s) = {} \<and> cl_closing s = Running \<longrightarrow> cl_open s = {cl_conn s})"
proof -
  let ?own = "insert (cl_conn s) (hand_of (cl_loop s))"
  have i: "life_inv s" using cache_life.reachable [OF assms] .
  have own: "card ?own \<le> 2" "finite ?own" by (cases "cl_loop s"; simp add: card_insert_if)+
  have "cl_open s \<subseteq> ?own" using i by (simp add: life_inv_def)
  from card_mono [OF own(2) this] own(1) have "card (cl_open s) \<le> 2" by simp
  then show ?thesis using i by (auto simp: life_inv_def closing_order)
qed

text \<open>A run: the connection is lost, a new one acquired, and the cache closed before the two are exchanged.\<close>

definition life_at :: "nat \<Rightarrow> nat set \<Rightarrow> nat \<Rightarrow> loop \<Rightarrow> closing \<Rightarrow> CacheLife" where
  "life_at conn open' n l c = \<lparr>cl_conn = conn, cl_open = open', cl_next = n, cl_watch = 1, cl_loop = l, cl_closing = c, cl_panicked = False\<rparr>"

lemma reconnecting: "life_step\<^sup>*\<^sup>* running_cache (life_at 0 {0, 1} 2 (LAcquired 1) Running)"
proof -
  have "life_step running_cache (life_at 0 {0} 1 LBackoff Running)"
    using life_step.lost [of running_cache] by (simp add: running_cache_def life_at_def)
  moreover have "life_step (life_at 0 {0} 1 LBackoff Running) (life_at 0 {0, 1} 2 (LAcquired 1) Running)"
    using life_step.acquired [of "life_at 0 {0} 1 LBackoff Running"] by (simp add: life_at_def insert_commute numeral_2_eq_2)
  ultimately show ?thesis by (meson converse_rtranclp_into_rtranclp r_into_rtranclp)
qed

section \<open>What closing releases\<close>

text \<open>
  A goroutine that is neither sending nor between acquiring a connection and putting it in its place can not get there any more
  once the context is cancelled.
\<close>

definition settled :: "CacheLife \<Rightarrow> bool" where
  "settled s \<longleftrightarrow> (case cl_loop s of LSend \<Rightarrow> False | LAcquired _ \<Rightarrow> False | _ \<Rightarrow> True)"

definition settled_inv :: "CacheLife \<Rightarrow> bool" where
  "settled_inv s \<longleftrightarrow> life_inv s \<and> settled s \<and> \<not> cl_panicked s \<and> cl_closing s > Running
     \<and> (cl_closing s > Cancelled \<longrightarrow> cl_open s \<subseteq> hand_of (cl_loop s))"

lemma settled_inv_step: "life_step s s' \<Longrightarrow> settled_inv s \<Longrightarrow> settled_inv s'"
  using life_inv_step [of s s'] by (erule_tac life_step.cases) (auto simp: settled_inv_def settled_def life_inv_def closing_order)

interpretation settled_life: preserving life_step settled_inv
  by unfold_locales (rule settled_inv_step)

text \<open>
  C36. Closing the cache, when it interrupts neither the sending of a snapshot nor a reconnection that has just acquired its
  connection, never panics, and when it and the goroutine have ended no connection is open.
\<close>

theorem close_releases:
  assumes "life_step\<^sup>*\<^sup>* running_cache s" and "cl_closing s = Running" and "settled s"
    and "life_step\<^sup>*\<^sup>* (s\<lparr>cl_closing := Cancelled\<rparr>) t"
  shows "\<not> cl_panicked t \<and> (cl_closing t = WatchClosed \<and> cl_loop t = LDone \<longrightarrow> cl_open t = {})"
proof -
  have "life_inv s" using cache_life.reachable [OF assms(1)] .
  then have "settled_inv (s\<lparr>cl_closing := Cancelled\<rparr>)" using assms(2,3) by (auto simp: settled_inv_def settled_def life_inv_def closing_order)
  from settled_life.preserved_runs [OF assms(4) this] show ?thesis by (auto simp: settled_inv_def closing_order)
qed

theorem close_releases_witness:
  "\<exists>t. life_step\<^sup>*\<^sup>* running_cache t \<and> cl_closing t = WatchClosed \<and> cl_loop t = LDone \<and> cl_open t = {} \<and> \<not> cl_panicked t"
proof -
  let ?s = "running_cache\<lparr>cl_closing := Cancelled\<rparr>"
  let ?t = "life_at 0 {} 1 LDone WatchClosed"
  have "life_step ?s (life_at 0 {} 1 LListen ConnClosed)" using life_step.close_conn [of ?s] by (simp add: running_cache_def life_at_def)
  moreover have "life_step (life_at 0 {} 1 LListen ConnClosed) (life_at 0 {} 1 LListen PoolClosed)"
    using life_step.close_pool [of "life_at 0 {} 1 LListen ConnClosed"] by (simp add: life_at_def)
  moreover have "life_step (life_at 0 {} 1 LListen PoolClosed) (life_at 0 {} 1 LListen WatchClosed)"
    using life_step.close_watch [of "life_at 0 {} 1 LListen PoolClosed"] by (simp add: life_at_def)
  moreover have "life_step (life_at 0 {} 1 LListen WatchClosed) ?t"
    using life_step.ended [of "life_at 0 {} 1 LListen WatchClosed"] by (simp add: life_at_def)
  ultimately have r: "life_step\<^sup>*\<^sup>* ?s ?t" by (meson converse_rtranclp_into_rtranclp r_into_rtranclp)
  have "life_step\<^sup>*\<^sup>* running_cache running_cache" "cl_closing running_cache = Running" "settled running_cache"
    by (simp_all add: running_cache_def settled_def)
  from close_releases [OF this r] have "\<not> cl_panicked ?t" "cl_open ?t = {}" by (simp_all add: life_at_def)
  moreover have "life_step running_cache ?s" by (rule life_step.cancel) (simp add: running_cache_def)
  ultimately show ?thesis using r by (intro exI [of _ ?t]) (auto simp: life_at_def intro: converse_rtranclp_into_rtranclp)
qed

text \<open>
  The two interruptions do harm. Closing while a snapshot is being sent can panic, and a connection acquired for a
  reconnection but not yet in its place is never closed.
\<close>

lemma closing_while_sending_panics: "\<exists>s. life_step\<^sup>*\<^sup>* running_cache s \<and> cl_panicked s"
proof -
  let ?l = "\<lambda>o' l c. life_at 0 o' 1 l c"
  have "life_step running_cache (?l {0} LLoad Running)" using life_step.notified [of running_cache] by (simp add: running_cache_def life_at_def)
  moreover have "life_step (?l {0} LLoad Running) (?l {0} LSend Running)" using life_step.loaded [of "?l {0} LLoad Running"] by (simp add: life_at_def)
  moreover have "life_step (?l {0} LSend Running) (?l {0} LSend Cancelled)" using life_step.cancel [of "?l {0} LSend Running"] by (simp add: life_at_def)
  moreover have "life_step (?l {0} LSend Cancelled) (?l {} LSend ConnClosed)" using life_step.close_conn [of "?l {0} LSend Cancelled"] by (simp add: life_at_def)
  moreover have "life_step (?l {} LSend ConnClosed) (?l {} LSend PoolClosed)" using life_step.close_pool [of "?l {} LSend ConnClosed"] by (simp add: life_at_def)
  moreover have "life_step (?l {} LSend PoolClosed) (?l {} LSend WatchClosed)" using life_step.close_watch [of "?l {} LSend PoolClosed"] by (simp add: life_at_def)
  moreover have "life_step (?l {} LSend WatchClosed) ((?l {} LSend WatchClosed)\<lparr>cl_panicked := True, cl_loop := LDone\<rparr>)"
    by (rule life_step.send_panics) (simp_all add: life_at_def)
  ultimately have "life_step\<^sup>*\<^sup>* running_cache ((?l {} LSend WatchClosed)\<lparr>cl_panicked := True, cl_loop := LDone\<rparr>)"
    by (meson converse_rtranclp_into_rtranclp rtranclp.rtrancl_refl)
  then show ?thesis by (intro exI) auto
qed

lemma closing_while_reconnecting_leaks:
  "\<exists>s. life_step\<^sup>*\<^sup>* running_cache s \<and> cl_closing s = WatchClosed \<and> cl_loop s = LDone \<and> cl_open s = {1}"
proof -
  let ?l = "\<lambda>conn o' l c. life_at conn o' 2 l c"
  have "life_step (?l 0 {0, 1} (LAcquired 1) Running) (?l 0 {0, 1} (LAcquired 1) Cancelled)"
    using life_step.cancel [of "?l 0 {0, 1} (LAcquired 1) Running"] by (simp add: life_at_def)
  moreover have "life_step (?l 0 {0, 1} (LAcquired 1) Cancelled) (?l 0 {1} (LAcquired 1) ConnClosed)"
    using life_step.close_conn [of "?l 0 {0, 1} (LAcquired 1) Cancelled"] by (simp add: life_at_def)
  moreover have "life_step (?l 0 {1} (LAcquired 1) ConnClosed) (?l 0 {1} (LAcquired 1) PoolClosed)"
    using life_step.close_pool [of "?l 0 {1} (LAcquired 1) ConnClosed"] by (simp add: life_at_def)
  moreover have "life_step (?l 0 {1} (LAcquired 1) PoolClosed) (?l 0 {1} (LAcquired 1) WatchClosed)"
    using life_step.close_watch [of "?l 0 {1} (LAcquired 1) PoolClosed"] by (simp add: life_at_def)
  moreover have "life_step (?l 0 {1} (LAcquired 1) WatchClosed) (?l 1 {1} (LSwapped 0) WatchClosed)"
    using life_step.swapped [of "?l 0 {1} (LAcquired 1) WatchClosed" 1] by (simp add: life_at_def)
  moreover have "life_step (?l 1 {1} (LSwapped 0) WatchClosed) (?l 1 {1} LReload WatchClosed)"
    using life_step.old_closed [of "?l 1 {1} (LSwapped 0) WatchClosed" 0] by (simp add: life_at_def)
  moreover have "life_step (?l 1 {1} LReload WatchClosed) (?l 1 {1} LBackoff WatchClosed)"
    using life_step.reload_failed [of "?l 1 {1} LReload WatchClosed"] by (simp add: life_at_def)
  moreover have "life_step (?l 1 {1} LBackoff WatchClosed) (?l 1 {1} LDone WatchClosed)"
    using life_step.ended [of "?l 1 {1} LBackoff WatchClosed"] by (simp add: life_at_def)
  ultimately have "life_step\<^sup>*\<^sup>* (?l 0 {0, 1} (LAcquired 1) Running) (?l 1 {1} LDone WatchClosed)"
    by (meson converse_rtranclp_into_rtranclp rtranclp.rtrancl_refl)
  then have "life_step\<^sup>*\<^sup>* running_cache (?l 1 {1} LDone WatchClosed)" using reconnecting by (rule rtranclp_trans [rotated])
  then show ?thesis by (intro exI [of _ "?l 1 {1} LDone WatchClosed"]) (simp add: life_at_def)
qed

end
