(* ===== verification/Connectors.thy ===== *)
theory Connectors
  imports PipelineCommand PipelineProps Crud MqttClient Peers
begin

text \<open>
  The connectors of the pipeline (\<open>pkg/pipeline/connector.go\<close>): their names and types, which of them the command registers
  (the imports of \<open>cmd/pigo/pipeline.go\<close>), plugins, and the operations of the peers that do little: publishing to the log,
  refusing to be a source, disconnecting.
\<close>

section \<open>Names and types\<close>

datatype ConnectorType = ConnectorTypeUnknown | ConnectorTypePub | ConnectorTypeSub | ConnectorTypePubSub

definition ConnectorClickHouse :: string where "ConnectorClickHouse = ''clickhouse''"
definition ConnectorDebug :: string where "ConnectorDebug = ''debug''"
definition ConnectorHTTP :: string where "ConnectorHTTP = ''http''"
definition ConnectorKafka :: string where "ConnectorKafka = ''kafka''"
definition ConnectorMQTT :: string where "ConnectorMQTT = ''mqtt''"
definition ConnectorNATS :: string where "ConnectorNATS = ''nats''"
definition ConnectorGRPC :: string where "ConnectorGRPC = ''grpc''"
definition ConnectorPostgres :: string where "ConnectorPostgres = ''postgres''"

definition Type_clickhouse :: ConnectorType where "Type_clickhouse = ConnectorTypePub"
definition Type_debug :: ConnectorType where "Type_debug = ConnectorTypePub"
definition Type_http :: ConnectorType where "Type_http = ConnectorTypePub"
definition Type_kafka :: ConnectorType where "Type_kafka = ConnectorTypePub"
definition Type_mqtt :: ConnectorType where "Type_mqtt = ConnectorTypePubSub"
definition Type_nats :: ConnectorType where "Type_nats = ConnectorTypePubSub"
definition Type_grpc :: ConnectorType where "Type_grpc = ConnectorTypePubSub"
definition Type_pg :: ConnectorType where "Type_pg = ConnectorTypePubSub"

definition builtin_types :: "(string \<times> ConnectorType) list" where
  "builtin_types = [(ConnectorClickHouse, Type_clickhouse), (ConnectorDebug, Type_debug), (ConnectorHTTP, Type_http), (ConnectorKafka, Type_kafka),
     (ConnectorMQTT, Type_mqtt), (ConnectorNATS, Type_nats), (ConnectorGRPC, Type_grpc), (ConnectorPostgres, Type_pg)]"

lemmas connector_names = ConnectorClickHouse_def ConnectorDebug_def ConnectorHTTP_def ConnectorKafka_def ConnectorMQTT_def ConnectorNATS_def
  ConnectorGRPC_def ConnectorPostgres_def

lemmas connector_types = Type_clickhouse_def Type_debug_def Type_http_def Type_kafka_def Type_mqtt_def Type_nats_def Type_grpc_def Type_pg_def

section \<open>Registration\<close>

text \<open>
  Each package of a peer registers its connector under its name when it is imported; an object is named like its connector.
  These are the packages the command imports.
\<close>

definition command_connectors :: "(string \<times> string) list" where
  "command_connectors = fold (\<lambda>n. RegisterConnector n n)
     [ConnectorClickHouse, ConnectorDebug, ConnectorGRPC, ConnectorKafka, ConnectorMQTT, ConnectorNATS, ConnectorPostgres] []"

text \<open>A plugin: opening the shared object, its symbol, and the connector behind it.\<close>

record 'p plugin_lib =
  pl_Open :: "string \<Rightarrow> (string, 'p) result"
  pl_Lookup :: "'p \<Rightarrow> string \<Rightarrow> (string, string option) result"

definition RegisterConnectorPlugin ::
  "'p plugin_lib \<Rightarrow> string \<Rightarrow> string \<Rightarrow> (string \<times> string) list \<Rightarrow> string option \<times> (string \<times> string) list" where
  "RegisterConnectorPlugin L path name connectors = (case pl_Open L path of
       Inl e \<Rightarrow> (Some e, connectors)
     | Inr plug \<Rightarrow> (case pl_Lookup L plug ''Connector'' of
         Inl e \<Rightarrow> (Some e, connectors)
       | Inr None \<Rightarrow> (Some ''invalid connector plugin'', connectors)
       | Inr (Some c) \<Rightarrow> (None, RegisterConnector name c connectors)))"

text \<open>A plugin that is registered is the connector of the peers that name it, and of no others.\<close>

lemma plugin_is_found:
  assumes "RegisterConnectorPlugin L path name cs = (None, cs')"
  shows "\<exists>c. map_of cs' = (map_of cs)(name \<mapsto> c) \<and> (\<exists>plug. pl_Open L path = Inr plug \<and> pl_Lookup L plug ''Connector'' = Inr (Some c))"
  using assms by (auto simp: RegisterConnectorPlugin_def RegisterConnector_def split: sum.splits option.splits)

lemma plugin_failure_changes_nothing: "RegisterConnectorPlugin L path name cs = (Some e, cs') \<Longrightarrow> cs' = cs"
  by (auto simp: RegisterConnectorPlugin_def split: sum.splits option.splits)

text \<open>
  The HTTP peer is not among the connectors of the command: a configuration with an HTTP peer does not start, whatever
  else it says.
\<close>

lemma http_is_not_registered:
  assumes "runPipeline C X command_connectors cfg = (None, R)" and "p \<in> set (pc_Peers cfg)"
  shows "pe_ConnectorName p \<noteq> ConnectorHTTP"
proof -
  obtain m lg where "Init C cfg (NewManager command_connectors) = (None, m, lg)"
    using assms(1) by (auto simp: runPipeline_def split: prod.splits option.splits)
  from Init_connects [OF this] assms(2) have "map_of command_connectors (pe_ConnectorName p) \<noteq> None" by blast
  then show ?thesis by (auto simp: command_connectors_def RegisterConnector_def connector_names)
qed

section \<open>Sources\<close>

definition ErrConnectorTypeMismatch :: string where
  "ErrConnectorTypeMismatch = ''connector type mismatch''"

definition Sub_clickhouse :: "(string, 'c) result" where "Sub_clickhouse = Inl ErrConnectorTypeMismatch"
definition Sub_debug :: "(string, 'c) result" where "Sub_debug = Inl ErrConnectorTypeMismatch"
definition Sub_http :: "(string, 'c) result" where "Sub_http = Inl ErrConnectorTypeMismatch"
definition Sub_kafka :: "(string, 'c) result" where "Sub_kafka = Inl ErrConnectorTypeMismatch"

text \<open>
  The command can use as a source exactly the built-in connectors whose type says that they publish and subscribe: the
  others are refused whatever their configuration.
\<close>

lemma sources_are_pubsub:
  assumes "map_of builtin_types name = Some t"
  shows "(\<exists>X m source peer. pe_ConnectorName source = name \<and> setupSourceConnection X m source peer = None) \<longleftrightarrow> t = ConnectorTypePubSub"
proof
  assume "\<exists>X m source peer. pe_ConnectorName source = name \<and> setupSourceConnection X m source peer = None"
  then have "name \<in> {''postgres'', ''mqtt'', ''grpc'', ''nats''}" by (auto simp: setupSourceConnection_def Let_def split: if_splits)
  then show "t = ConnectorTypePubSub" using assms by (auto simp: builtin_types_def connector_names connector_types)
next
  assume "t = ConnectorTypePubSub"
  then have n: "name \<in> {''postgres'', ''mqtt'', ''grpc'', ''nats''}"
    using assms by (auto simp: builtin_types_def connector_names connector_types split: if_splits)
  let ?X = "\<lparr>sl_postgres = (\<lambda>_. True), sl_mqtt_topic = (\<lambda>_. Some []), sl_grpc_server = (\<lambda>_. Some False), sl_nats = (\<lambda>_. True), sl_sub = (\<lambda>_ _. True)\<rparr>"
  let ?p = "\<lparr>pe_Name = name, pe_ConnectorName = name, pe_Config = None\<rparr>"
  have "setupSourceConnection ?X m ?p peer = None" for m peer
    using n by (auto simp: setupSourceConnection_def setupGRPCConnection_def sub_result_def Let_def)
  then show "\<exists>X m source peer. pe_ConnectorName source = name \<and> setupSourceConnection X m source peer = None"
    by (intro exI [of _ ?X] exI [of _ "NewManager []"] exI [of _ ?p]) simp
qed

section \<open>Disconnecting\<close>

datatype pg_closed = PgPoolClosed | PgConnClosed

definition Disconnect_pg :: "(ReplConn \<Rightarrow> string option) \<Rightarrow> PeerPG \<Rightarrow> string option \<times> pg_closed list" where
  "Disconnect_pg close p =
     (let pool = (if pg_pool p then [PgPoolClosed] else []) in
      case pg_conn p of None \<Rightarrow> (None, pool) | Some c \<Rightarrow> (close c, pool @ [PgConnClosed]))"

definition Disconnect_clickhouse :: "(ClickHouseOptions \<Rightarrow> string option) \<Rightarrow> ClickHouseOptions option \<Rightarrow> string option" where
  "Disconnect_clickhouse close conn = (case conn of None \<Rightarrow> None | Some c \<Rightarrow> close c)"

text \<open>An MQTT peer that has no client panics (\<open>None\<close>).\<close>

definition Disconnect_mqtt :: "PeerMQTT \<Rightarrow> unit option" where
  "Disconnect_mqtt p = (case pq_Client p of None \<Rightarrow> None | Some _ \<Rightarrow> Some ())"

lemma connected_peer_disconnects: "Connect_mqtt Q K config p = (None, p') \<Longrightarrow> Disconnect_mqtt p' = Some ()"
  by (auto simp: Connect_mqtt_def connect_client_def Disconnect_mqtt_def Let_def split: sum.splits option.splits)

lemma Disconnect_pg_closes:
  assumes "Connect_pg P config \<lparr>pg_pool = False, pg_conn = None, pg_cfg = c, pg_tables = ts\<rparr> = (None, p)"
  shows "\<exists>x. snd (Disconnect_pg close p) = [x]"
  using assms by (auto simp: Connect_pg_def Disconnect_pg_def Let_def split: sum.splits option.splits bool.splits)

end
