(* ===== verification/Spec2Isabelle.thy ===== *)
theory Spec2Isabelle
  imports MiddlewareProps Cache PipelineQueue RpcProps OpenApi LogReplProps Crud Role MqttProps Peers HttpPeer
    FileServer RestCommandProps Pools Rag Age Migrate
    MqttClient KafkaClient PeerConnect PgProxy Proxy Utilities Certificates Telemetry PipelineCommand
    ServerLife Connectors
begin

text \<open>
  A model of \<open>edgeflare/pigo\<close>: a PostgREST-like REST server for PostgreSQL, and a pipeline that replicates the changes
  of a database to other systems. All files are below \<open>src/\<close>.

  The parts and how they interact.

  \<^item> A request of the REST server passes the middlewares (request id, CORS, authentication, authorization and
    acquisition of a connection, log) and reaches one of three handlers: tables, functions, the OpenAPI document. The
    table handler parses the query string and the headers into filters, orderings and preferences, builds one
    statement with placeholders and runs it on the request's connection under the request's role. The tables it knows
    come from the schema cache, which reloads when the database notifies it.
  \<^item> The pipeline command connects the configured peers; the source streams the write-ahead log, decodes each change into
    an event, applies the transformations of source, pipeline and sink, and puts the event into the channel of each
    sink, whose worker publishes it to its peer (PostgreSQL, HTTP, MQTT, NATS, Kafka, gRPC).

  Which theory models which part.

  \<^item> \<open>Prelude\<close>, \<open>GoStrings\<close>, \<open>GoValue\<close>, \<open>Store\<close>, \<open>Path\<close>: what the program uses of Go: results, strings as bytes, numbers and
    their texts, dynamic values (\<open>any\<close>), maps as association lists, file paths. \<open>Store\<close> states the contract of a map as
    a locale, which the maps, the cache, the peers and the transformation registry interpret. \<open>Tls\<close> is what the program uses of TLS.
    \<open>Invariants\<close> states as locales what it takes for a property to hold in every reachable state.
  \<^item> \<open>FilterParser\<close> (the parser of \<open>pkg/rest/filter.go\<close>), \<open>FilterSql\<close> (its rendering as SQL, \<open>pkg/rest/util.go\<close>),
    \<open>FilterCorrect\<close> (the parsers only go forward and never run out of fuel; locales \<open>parser_fn\<close>, \<open>progressing_fn\<close>,
    \<open>total_fn\<close>), \<open>FilterSafe\<close>, \<open>FilterRoundtrip\<close> and \<open>FilterProps\<close> (safety of the text, round trips, termination).
  \<^item> \<open>Url\<close>, \<open>OrderBy\<close>, \<open>Query\<close>, \<open>QueryProps\<close>: \<open>pkg/rest/query.go\<close>, \<open>order_by.go\<close>, \<open>http_headers.go\<close>. \<open>RestServer\<close>,
    \<open>ServerProps\<close>: \<open>pkg/rest/server.go\<close>, with the protocol of a connection (\<open>conn_step\<close>) as the specification.
    \<open>Rpc\<close>, \<open>RpcProps\<close>: \<open>pkg/rest/rpc.go\<close>.
  \<^item> \<open>Http\<close> (\<open>pkg/httputil/context.go\<close>, \<open>postgres.go\<close>: request, response, trace of effects), \<open>Base64\<close>, \<open>Middleware\<close>,
    \<open>MiddlewareProps\<close>, \<open>Cache\<close>, \<open>FileServer\<close>, \<open>Proxy\<close>, \<open>Logger\<close> (\<open>pkg/httputil/router.go\<close>, \<open>middleware/\<close>, \<open>pkg/logger\<close>).
    \<open>RestCommand\<close>, \<open>RestCommandProps\<close>: \<open>cmd/pigo/rest.go\<close> and \<open>pkg/config/config.go\<close>, which put all of it together.
  \<^item> \<open>Schema\<close>, \<open>SchemaCache\<close>, \<open>OpenApi\<close>: \<open>pkg/pgx/schema\<close>. \<open>ServerLife\<close>: the lifetime of the server and its cache. \<open>Pools\<close>, \<open>Crud\<close>, \<open>Role\<close>: \<open>pkg/pgx/pool.go\<close>, \<open>crud.go\<close>,
    \<open>role/role.go\<close>. \<open>Migrate\<close>: \<open>cmd/pigo/migrate.go\<close>.
  \<^item> \<open>Jq\<close> (\<open>pkg/util/jq.go\<close>), \<open>Cdc\<close> (\<open>pkg/pipeline/cdc\<close>), \<open>Glob\<close>, \<open>Transform\<close>, \<open>TransformProps\<close> (\<open>pkg/pipeline/transform\<close>).
  \<^item> \<open>Pipeline\<close>, \<open>PipelineRun\<close> (\<open>pkg/pipeline/*.go\<close>, \<open>cmd/pigo/pipeline.go\<close>; interleavings are an inductive step relation),
    \<open>PipelineProps\<close>, \<open>PipelineFlow\<close>, \<open>PipelineQueue\<close>, \<open>PipelineCommand\<close>: initialisation, the chain of transformations, the
    channels as queues, the command and its shutdown. \<open>Connectors\<close>: which connectors there are.
  \<^item> \<open>LogRepl\<close>, \<open>LogReplProps\<close>: \<open>pkg/pglogrepl\<close>. \<open>Mqtt\<close>, \<open>MqttProps\<close>, \<open>MqttClient\<close>, \<open>Peers\<close>, \<open>PeerConnect\<close>,
    \<open>KafkaClient\<close>, \<open>HttpPeer\<close>: the peers of \<open>pkg/pipeline/peer\<close> and \<open>pkg/httputil/client.go\<close>; the PostgreSQL peer is in \<open>Crud\<close>.
  \<^item> \<open>Rag\<close>, \<open>Age\<close>, \<open>PgProxy\<close>: \<open>pkg/x/rag\<close>, \<open>pkg/x/age\<close>, \<open>pkg/x/pgproxy\<close> and \<open>pgcache\<close>. \<open>Telemetry\<close>: \<open>pkg/otelx\<close>,
    \<open>pkg/metrics\<close>. \<open>Certificates\<close>, \<open>Utilities\<close>: \<open>pkg/util/cert.go\<close>, \<open>pkg/util/rand\<close>.
  \<^item> This theory: what spans components, from a change in the log to a statement on another database, and from the
    client of one pigo to the authentication of another.

  How the code is modelled. A struct is a record, a function a function; a Go error is the left side of a sum, a panic a
  value of its own. What a handler does to the outside is a trace in its state (\<open>effect\<close>, \<open>sent\<close>, \<open>statements\<close>), so that
  the order of effects is part of every statement. A map is an association list with distinct keys where its iteration order
  can be seen, and the properties hold for every order. Integers are unbounded where the code only prints and compares
  them, and have 64 or 32 bits where they can wrap (offsets and limits, positions in the log, migration versions).

  Fuel. The filter grammar is mutually recursive over a position in the text, so that its parser takes fuel; \<open>fuel_for\<close>
  gives enough, and \<open>FilterProps.parseFilter_total\<close> shows that the result never is the one for exhausted fuel. All
  other functions terminate by structural recursion or a measure.

  Parameters, for code that is not under \<open>src/\<close>: \<open>golib\<close> (JSON, quoting of identifiers), \<open>Ext\<close> and \<open>RpcExt\<close> (the
  pool and the database), \<open>Catalog\<close> (the catalog queries), \<open>ReplConn\<close> and \<open>Env\<close> (the replication connection and the
  decoding of its messages), \<open>Regexp\<close>, \<open>decode_lib\<close>, \<open>mqtt_lib\<close>, \<open>connect_lib\<close>, \<open>sub_lib\<close>, \<open>run_env\<close>, \<open>pool_lib\<close>,
  \<open>rag_db\<close>, \<open>rag_api\<close>, \<open>age_lib\<close>, \<open>migrate_env\<close>, \<open>tls_lib\<close>, \<open>kafka_lib\<close>, \<open>nats_lib\<close>, \<open>mqtt_connect_lib\<close>, \<open>otel_lib\<close>,
  \<open>cert_lib\<close>, the token verifier and the file system. No property assumes more of
  them than it names.

  Not modelled: accepting connections, signals and flag registration (process glue and library calls); the encoding of
  documents; the HTTP server of the metrics; what the debug and example peers write to the log; generated code, examples
  and test helpers; and the files that are commented out (\<open>process_v1.go\<close>, \<open>listen.go\<close>, \<open>kafka/rest.go\<close>).
\<close>

section \<open>From the log to another database\<close>

text \<open>
  C7. An insertion replicated from one database to another: the event that the replication source emits for an
  insertion of the log, published by the PostgreSQL peer, sends one INSERT into the table of the same schema and name,
  which lists the columns of the relation that the tuple has and binds to each the decoded value of that column.
\<close>

theorem replicated_insert:
  assumes "describes E before (InsertMsg relid xid (Some cs)) e" and "last_relation before relid = Some rel"
    and "pg_pool p" and "rl_RelationName rel \<noteq> []" and "rl_Namespace rel \<noteq> []"
    and "map_of (pg_tables p) (rl_Namespace rel @ ''.'' @ rl_RelationName rel) = Some t"
  shows "\<exists>m. snd (Pub_pg L X p e) = [(''INSERT INTO '' @ lib_sanitize L [rl_Namespace rel, rl_RelationName rel] @ '' ('' @
        Join (map fst (columns_from L 1 m)) '', '' @ '') VALUES ('' @ Join (map snd (columns_from L 1 m)) '', '' @ '')'', map snd m)]
    \<and> distinct (map fst m) \<and> map_of m = map_of (rev (row_pairs (newTypeMap (en_types E)) (rl_Columns rel) cs))"
proof -
  have ch: "change_of rel (en_server E) xid ''c'' e" and row: "row_of (newTypeMap (en_types E)) rel cs (pa_After (ev_Payload e))"
    using assms(1,2) by (auto simp: describes_def Let_def)
  obtain m where m: "pa_After (ev_Payload e) = VMap m" "distinct (map fst m)"
      "map_of m = map_of (rev (row_pairs (newTypeMap (en_types E)) (rl_Columns rel) cs))"
    using row by (auto simp: row_of_def)
  have "snd (Pub_pg L X p e) = snd (InsertRow L X (rl_RelationName rel) (VMap m) [rl_Namespace rel])"
    using ch assms(3-6) m(1) by (simp add: Pub_pg_def Let_def change_of_def lift_crud_def Cdc.OpCreate_def)
  then show ?thesis using m(2,3) assms(5) by (auto simp: InsertRow_sends)
qed

theorem replicated_insert_witness:
  "\<exists>e. describes LogReplProps.example_env [RelationMsg example_relation] example_insert e \<and>
     (\<exists>sql vs. snd (Pub_pg example_lib (\<lambda>_ _. Inr 1) (example_peer\<lparr>pg_tables := [(''public.users'', example_keyed)]\<rparr>) e) = [(sql, vs)])"
proof -
  let ?tup = "[\<lparr>tc_DataType = CHR ''t'', tc_Data = ''1''\<rparr>, \<lparr>tc_DataType = CHR ''n'', tc_Data = []\<rparr>]"
  have rel: "last_relation [RelationMsg example_relation] 7 = Some example_relation"
    by (simp add: last_relation_def announced_def example_relation_def)
  have "known [(7, example_relation)] [RelationMsg example_relation]"
    by (auto simp: known_def last_relation_def announced_def example_relation_def fun_eq_iff)
  moreover obtain e where "handleInsertMessageV2 7 42 (Some ?tup) [(7, example_relation)] (newTypeMap (en_types LogReplProps.example_env)) (en_server LogReplProps.example_env) [] 0 (0, 0) = Inr e"
    by (simp add: handleInsertMessageV2_def example_relation_def tuple_values_put_all)
  ultimately have d: "describes LogReplProps.example_env [RelationMsg example_relation] (InsertMsg 7 42 (Some ?tup)) e" by (rule handlers_describe(1))
  have "\<exists>sql vs. snd (Pub_pg example_lib (\<lambda>_ _. Inr 1) (example_peer\<lparr>pg_tables := [(''public.users'', example_keyed)]\<rparr>) e) = [(sql, vs)]"
    using replicated_insert [OF d rel, of "example_peer\<lparr>pg_tables := [(''public.users'', example_keyed)]\<rparr>" example_keyed example_lib "\<lambda>_ _. Inr 1"]
    by (auto simp: example_relation_def example_peer_def)
  then show ?thesis using d by (auto simp: example_insert_def)
qed

text \<open>What the PostgreSQL peer sends for an update of which \<open>Before\<close> holds a column of the primary key.\<close>

lemma Pub_pg_update:
  assumes "pg_pool p" and "pa_Op (ev_Payload e) = ''u''" and "pa_After (ev_Payload e) = VMap after" and "pa_Before (ev_Payload e) = VMap before"
    and "so_Table (ev_source e) = t" "so_Schema (ev_source e) = s" and "t \<noteq> []" and "map_of (pg_tables p) (s @ ''.'' @ t) = Some tbl"
    and "k \<in> set (tbl_PrimaryKeys tbl)" and "map_of before k \<noteq> None"
  shows "\<exists>conds. snd (Pub_pg L X p e) = [(''UPDATE '' @ lib_sanitize L [if s = [] then ''public'' else s, t] @ '' SET '' @ Join (assignments L 1 after) '', ''
        @ '' WHERE '' @ Join (assignments L (1 + length after) conds) '' AND '', map snd after @ map snd conds)]
    \<and> distinct (map fst conds) \<and> (\<forall>k. map_of conds k = (if k \<in> set (tbl_PrimaryKeys tbl) then map_of before k else None))"
proof -
  obtain conds where c: "key_values (tbl_PrimaryKeys tbl) (VMap before) [] = Inr conds" using key_values_map by blast
  have kv: "distinct (map fst conds)" "\<And>k. map_of conds k = (if k \<in> set (tbl_PrimaryKeys tbl) \<and> map_of before k \<noteq> None then map_of before k else map_of [] k)"
    using key_values_ok(1) [OF c] key_values_ok(3) [OF c _ refl] by simp_all
  have "map_of conds k \<noteq> None" using kv(2) [of k] assms(9,10) by simp
  then have ne: "conds \<noteq> []" by auto
  have "snd (Pub_pg L X p e) = snd (UpdateRow L X t (VMap after) conds [s])"
    using assms c ne by (simp add: Pub_pg_def Let_def lift_crud_def Cdc.OpUpdate_def Cdc.OpCreate_def)
  then show ?thesis using UpdateRow_sends [OF ne] kv by (intro exI [of _ conds]) auto
qed

text \<open>
  C8. An update replicated from one database to another, when the log has the old values of a column of the primary key: the event
  that the replication source emits for it, published by the PostgreSQL peer, sends one UPDATE of the table of the same
  schema and name, which sets each column of the new row to its decoded value and is limited by the columns of the primary
  key to the old values that the log has.
\<close>

theorem replicated_update:
  assumes "describes E before (UpdateMsg relid xid (Some os) (Some cs)) e" and "last_relation before relid = Some rel"
    and "pg_pool p" and "rl_RelationName rel \<noteq> []" and "rl_Namespace rel \<noteq> []"
    and "map_of (pg_tables p) (rl_Namespace rel @ ''.'' @ rl_RelationName rel) = Some t"
    and "k \<in> set (tbl_PrimaryKeys t)" and "k \<in> rc_Name ` set (take (length os) (rl_Columns rel))"
  shows "\<exists>m conds. snd (Pub_pg L X p e) = [(''UPDATE '' @ lib_sanitize L [rl_Namespace rel, rl_RelationName rel] @ '' SET '' @
        Join (assignments L 1 m) '', '' @ '' WHERE '' @ Join (assignments L (1 + length m) conds) '' AND '', map snd m @ map snd conds)]
    \<and> distinct (map fst m) \<and> map_of m = map_of (rev (row_pairs (newTypeMap (en_types E)) (rl_Columns rel) cs))
    \<and> distinct (map fst conds) \<and> conds \<noteq> []
    \<and> (\<forall>k. map_of conds k = (if k \<in> set (tbl_PrimaryKeys t)
          then map_of (rev (row_pairs (newTypeMap (en_types E)) (rl_Columns rel) os)) k else None))"
proof -
  let ?tm = "newTypeMap (en_types E)"
  have ch: "change_of rel (en_server E) xid ''u'' e" and old: "row_of ?tm rel os (pa_Before (ev_Payload e))"
      and row: "row_of ?tm rel cs (pa_After (ev_Payload e))"
    using assms(1,2) by (auto simp: describes_def Let_def)
  obtain m where m: "pa_After (ev_Payload e) = VMap m" "distinct (map fst m)" "map_of m = map_of (rev (row_pairs ?tm (rl_Columns rel) cs))"
    using row by (auto simp: row_of_def)
  obtain b where b: "pa_Before (ev_Payload e) = VMap b" "map_of b = map_of (rev (row_pairs ?tm (rl_Columns rel) os))"
    using old by (auto simp: row_of_def)
  have "fst ` set (row_pairs ?tm (rl_Columns rel) os) = rc_Name ` set (take (length os) (rl_Columns rel))"
    by (simp add: row_pairs_names take_map flip: set_map)
  then have "k \<in> fst ` set (rev (row_pairs ?tm (rl_Columns rel) os))" using assms(8) by simp
  then have k: "map_of b k \<noteq> None" unfolding b(2) map_of_eq_None_iff by simp
  from Pub_pg_update [OF assms(3) _ m(1) b(1) _ _ assms(4) assms(6,7) k, of L X] ch assms(5)
  obtain conds where c: "snd (Pub_pg L X p e) = [(''UPDATE '' @ lib_sanitize L [rl_Namespace rel, rl_RelationName rel] @ '' SET '' @
        Join (assignments L 1 m) '', '' @ '' WHERE '' @ Join (assignments L (1 + length m) conds) '' AND '', map snd m @ map snd conds)]"
      "distinct (map fst conds)" "\<forall>k. map_of conds k = (if k \<in> set (tbl_PrimaryKeys t) then map_of b k else None)"
    by (auto simp: change_of_def)
  have "map_of conds k \<noteq> None" using c(3) assms(7) k by simp
  then have "conds \<noteq> []" by auto
  then show ?thesis using c m(2,3) b(2) by (intro exI [of _ m] exI [of _ conds]) auto
qed

definition example_seats :: Relation where
  "example_seats = \<lparr>rl_RelationID = 8, rl_Namespace = ''public'', rl_RelationName = ''seats'',
     rl_Columns = [\<lparr>rc_Name = ''seat'', rc_DataType = 25\<rparr>, \<lparr>rc_Name = ''guest'', rc_DataType = 25\<rparr>]\<rparr>"

definition text_column :: "string \<Rightarrow> TupleColumn" where
  "text_column d = \<lparr>tc_DataType = CHR ''t'', tc_Data = d\<rparr>"

theorem replicated_update_witness:
  "\<exists>e sql vs. describes LogReplProps.example_env [RelationMsg example_seats]
        (UpdateMsg 8 42 (Some [text_column ''7'']) (Some [text_column ''7'', text_column ''Ada''])) e
     \<and> snd (Pub_pg example_lib (\<lambda>_ _. Inr 1) example_peer e) = [(sql, vs)]"
proof -
  let ?old = "[text_column ''7'']" and ?new = "[text_column ''7'', text_column ''Ada'']"
  have rel: "last_relation [RelationMsg example_seats] 8 = Some example_seats"
    by (simp add: last_relation_def announced_def example_seats_def)
  have "known [(8, example_seats)] [RelationMsg example_seats]"
    by (auto simp: known_def last_relation_def announced_def example_seats_def fun_eq_iff)
  moreover obtain e where "handleUpdateMessageV2 8 42 (Some ?old) (Some ?new) [(8, example_seats)] (newTypeMap (en_types LogReplProps.example_env))
      (en_server LogReplProps.example_env) [] 0 (0, 0) = Inr e"
    by (simp add: handleUpdateMessageV2_def optional_tuple_def example_seats_def tuple_values_put_all)
  ultimately have d: "describes LogReplProps.example_env [RelationMsg example_seats] (UpdateMsg 8 42 (Some ?old) (Some ?new)) e"
    by (rule handlers_describe(2))
  have "pg_pool example_peer" "rl_RelationName example_seats \<noteq> []" "rl_Namespace example_seats \<noteq> []"
      "map_of (pg_tables example_peer) (rl_Namespace example_seats @ ''.'' @ rl_RelationName example_seats) = Some example_keyed"
      "''seat'' \<in> set (tbl_PrimaryKeys example_keyed)" "''seat'' \<in> rc_Name ` set (take (length ?old) (rl_Columns example_seats))"
    by (simp_all add: example_peer_def example_seats_def example_keyed_def)
  from replicated_update [OF d rel this, of example_lib "\<lambda>_ _. Inr 1"] d show ?thesis by blast
qed

text \<open>
  A value that an update does not change may be left out of the log when it is stored out of line: its column is marked
  as unchanged. It is decoded as nil, so that replicating the update sets the column to NULL in the other database.
\<close>

lemma unchanged_values_become_null:
  assumes "row_of tm rel cs (VMap m)" and "distinct (map rc_Name (rl_Columns rel))" and "i < length cs" and "tc_DataType (cs ! i) = CHR ''u''"
  shows "map_of m (rc_Name (rl_Columns rel ! i)) = Some VNil"
  using row_of_column [OF assms(1-3)] assms(4) by (simp add: decodeColumn_def)

section \<open>From one pigo to another over HTTP\<close>

text \<open>
  C32. A webhook of a pigo that is configured with basic authentication is accepted by the basic authentication of another
  pigo that knows the user with that password: whatever bytes the password holds, the next handler runs for that user.
\<close>

theorem http_peer_authenticates:
  assumes "ac_Type a = ''basic''" and "CHR '':'' \<notin> set (ac_Username a)" and "map_of creds (ac_Username a) = Some (ac_Password a)"
    and "\<And>k. k = ''Authorization'' \<or> k \<in> fst ` set (ep_Headers ep) \<Longrightarrow> canon k = ''Authorization'' \<longleftrightarrow> k = ''Authorization''"
    and "rc_Headers c = buildHeaders a ep" and "rq_Header r = request_headers canon c True"
  shows "VerifyBasicAuth creds send401 next r w = next (set_basic_user (ac_Username a) r) w"
proof -
  let ?own = "fold (\<lambda>(k, v) h. map_put k [v] h) (ep_Headers ep) []"
  have own: "distinct (map fst ?own) \<and> fst ` set ?own = fst ` set (ep_Headers ep)"
    using endpoint_headers [of "[]" "ep_Headers ep"] by simp
  have b: "buildHeaders a ep = map_put ''Authorization'' [''Basic '' @ b64_encode (ac_Username a @ '':'' @ ac_Password a)] ?own"
    using assms(1) by (simp add: buildHeaders_def basicAuth_def Let_def)
  have "Url.Get (rq_Header r) ''Authorization'' = ''Basic '' @ b64_encode (ac_Username a @ '':'' @ ac_Password a)"
    unfolding assms(6)
    by (rule request_header_get [OF _ _ _ _ refl])
      (use own assms(4) in \<open>auto simp: assms(5) b distinct_map_put keys_map_put\<close>)
  then show ?thesis by (rule basic_auth_accepts [OF _ assms(2,3)])
qed

definition example_auth :: AuthConfig where
  "example_auth = \<lparr>ac_Type = ''basic'', ac_APIKey = [], ac_APIKeyName = [], ac_Username = ''pigo'', ac_Password = ''p:w'', ac_Token = [],
    ac_TokenFile = [], ac_ClientID = [], ac_ClientSecret = [], ac_TokenURL = [], ac_Scopes = [], ac_ServiceAccountFile = [], ac_AWSRegion = [],
    ac_AWSAccessKeyID = [], ac_AWSSecretAccessKey = [], ac_CloudflareToken = [], ac_CloudflareKey = [], ac_CloudflareEmail = []\<rparr>"

definition example_webhook :: Request where
  "example_webhook = (auth_request [])\<lparr>rq_Header := request_headers (\<lambda>k. k)
     ((DefaultRequestConfig ''POST'' ''https://example.org'')\<lparr>rc_Headers := buildHeaders example_auth
       \<lparr>ep_Headers = [(''X-Source'', ''pigo'')], ep_URL = ''https://example.org'', ep_Method = ''POST''\<rparr>\<rparr>) True\<rparr>"

theorem http_peer_authenticates_witness:
  "VerifyBasicAuth [(''pigo'', ''p:w'')] True (\<lambda>r w. header_set ''user'' (fst (BasicAuthUser r)) w) example_webhook fresh_world
     = header_set ''user'' ''pigo'' fresh_world"
proof -
  let ?ep = "\<lparr>ep_Headers = [(''X-Source'', ''pigo'')], ep_URL = ''https://example.org'', ep_Method = ''POST''\<rparr>"
  have "VerifyBasicAuth [(''pigo'', ''p:w'')] True next example_webhook w = next (set_basic_user (ac_Username example_auth) example_webhook) w" for "next" w
    by (rule http_peer_authenticates [where ep = ?ep and canon = "\<lambda>k. k"])
      (auto simp: example_auth_def example_webhook_def)
  then show ?thesis by (simp add: BasicAuthUser_def set_basic_user_def example_auth_def)
qed

end
